(* ===== verification/Prelude.thy ===== *)
theory Prelude
  imports Main "HOL-Library.Word" "HOL-Library.Sublist" "HOL-Library.Code_Target_Nat"
begin

section \<open>Shared vocabulary of the stprov model\<close>

text \<open>
  What every component uses: Go's bytes and strings, error values, the part of the
  packages \<open>strings\<close>, \<open>strconv\<close>, \<open>fmt\<close> and \<open>encoding/hex\<close> that the source calls, and the
  generic lemmas about them. A Go string is a sequence of bytes and is modelled as a HOL
  \<open>string\<close> (a \<open>char\<close> is one byte). A \<open>[]byte\<close> is a list of \<open>8 word\<close>; where the code
  tells \<open>nil\<close> from an empty slice the component uses an option.
\<close>

named_theorems go_std \<open>executable equations of the modelled standard library\<close>
named_theorems net_simps \<open>address arithmetic and address text\<close>
named_theorems codec_simps \<open>lengths and round trips of byte encodings\<close>

subsection \<open>Bytes and strings\<close>

type_synonym byte = "8 word"
type_synonym bytes = "byte list"

definition byte_of_char :: "char \<Rightarrow> byte" where
  "byte_of_char c = of_nat (of_char c)"

definition char_of_byte :: "byte \<Rightarrow> char" where
  "char_of_byte b = char_of (unat b)"

abbreviation str_bytes :: "string \<Rightarrow> bytes" where
  "str_bytes s \<equiv> map byte_of_char s"

abbreviation bytes_str :: "bytes \<Rightarrow> string" where
  "bytes_str bs \<equiv> map char_of_byte bs"

lemma char_of_byte_of_char [simp]: "char_of_byte (byte_of_char c) = c"
proof -
  have "(of_char c :: nat) < 256" by simp
  then have "unat (of_nat (of_char c) :: byte) = of_char c"
    by (simp add: unat_of_nat)
  then show ?thesis by (simp add: char_of_byte_def byte_of_char_def)
qed

lemma byte_of_char_of_byte [simp]: "byte_of_char (char_of_byte b) = b"
proof -
  have "unat b < 256" using unsigned_less [of b, where ?'a = nat] by simp
  then have "(of_char (char_of (unat b) :: char) :: nat) = unat b"
    by simp
  then show ?thesis by (simp add: char_of_byte_def byte_of_char_def)
qed

lemma bytes_str_str_bytes [simp]: "bytes_str (str_bytes s) = s"
  by (induction s) auto

lemma str_bytes_bytes_str [simp]: "str_bytes (bytes_str bs) = bs"
  by (induction bs) auto

lemma byte_of_char_inject [simp]: "byte_of_char a = byte_of_char b \<longleftrightarrow> a = b"
  by (metis char_of_byte_of_char)

lemma str_bytes_inject [simp]: "str_bytes s = str_bytes t \<longleftrightarrow> s = t"
  by (metis bytes_str_str_bytes)

subsection \<open>Error values\<close>

text \<open>
  A Go \<open>error\<close>. \<open>Errorf m\<close> is made by \<open>fmt.Errorf\<close> without \<open>%w\<close>, \<open>Wrapf p e\<close> is
  \<open>fmt.Errorf("p: %w", e)\<close>, \<open>External m\<close> is an error value a library returned. Two kinds
  are told apart by the code: \<open>x509.UnknownAuthorityError\<close> (by \<open>errors.As\<close> in
  \<open>cmd/stprov/main.go\<close>) and the errors \<open>os.IsNotExist\<close> accepts (in
  \<open>subcmd/local/run/run.go\<close>).
\<close>

datatype goerror =
    Errorf string
  | Wrapf string goerror
  | External string
  | UnknownAuthority string
  | NotExist string

fun error_text :: "goerror \<Rightarrow> string" where
  "error_text (Errorf m) = m"
| "error_text (Wrapf p e) = p @ '': '' @ error_text e"
| "error_text (External m) = m"
| "error_text (UnknownAuthority m) = m"
| "error_text (NotExist m) = m"

text \<open>\<open>errors.As(err, &x509.UnknownAuthorityError{})\<close>: somewhere in the chain.\<close>

fun errors_As_UnknownAuthority :: "goerror \<Rightarrow> bool" where
  "errors_As_UnknownAuthority (UnknownAuthority m) = True"
| "errors_As_UnknownAuthority (Wrapf p e) = errors_As_UnknownAuthority e"
| "errors_As_UnknownAuthority _ = False"

text \<open>\<open>os.IsNotExist\<close> does not look through wrapped errors.\<close>

fun os_IsNotExist :: "goerror \<Rightarrow> bool" where
  "os_IsNotExist (NotExist m) = True"
| "os_IsNotExist _ = False"

text \<open>Wrap the error of a result and leave a value alone: the code's
  \<open>if err != nil { return fmt.Errorf("p: %w", err) }\<close>.\<close>

definition wrap_err :: "string \<Rightarrow> goerror + 'a \<Rightarrow> goerror + 'a" where
  "wrap_err p r = (case r of Inl e \<Rightarrow> Inl (Wrapf p e) | Inr x \<Rightarrow> Inr x)"

lemma wrap_err_simps [simp]:
  "wrap_err p (Inl e) = Inl (Wrapf p e)"
  "wrap_err p (Inr x) = Inr x"
  by (simp_all add: wrap_err_def)

lemma wrap_err_Inr_iff [simp]: "wrap_err p r = Inr x \<longleftrightarrow> r = Inr x"
  by (cases r) auto

subsection \<open>Numbers as text\<close>

definition digit_char :: "nat \<Rightarrow> char" where
  "digit_char d = (if d < 10 then char_of (48 + d) else char_of (87 + d))"

text \<open>\<open>%d\<close> of a natural number: most significant digit first, no leading zero.\<close>

fun show_nat :: "nat \<Rightarrow> string" where
  "show_nat n = (if n < 10 then [digit_char n] else show_nat (n div 10) @ [digit_char (n mod 10)])"

declare show_nat.simps [simp del]

definition show_int :: "int \<Rightarrow> string" where
  "show_int i = (if i < 0 then CHR ''-'' # show_nat (nat (- i)) else show_nat (nat i))"

definition is_digit :: "char \<Rightarrow> bool" where
  "is_digit c \<longleftrightarrow> 48 \<le> (of_char c :: nat) \<and> (of_char c :: nat) \<le> 57"

definition digit_val :: "char \<Rightarrow> nat" where
  "digit_val c = of_char c - 48"

text \<open>Reading decimal digits back (\<open>val = val*10 + d\<close> from the left).\<close>

definition dec_val :: "string \<Rightarrow> nat" where
  "dec_val s = foldl (\<lambda>v c. v * 10 + digit_val c) 0 s"

lemma digit_char_digit [simp]: "d < 10 \<Longrightarrow> is_digit (digit_char d)"
  by (simp add: digit_char_def is_digit_def)

lemma digit_val_digit_char [simp]: "d < 10 \<Longrightarrow> digit_val (digit_char d) = d"
  by (simp add: digit_char_def digit_val_def)

lemma dec_val_snoc: "dec_val (s @ [c]) = dec_val s * 10 + digit_val c"
  by (simp add: dec_val_def)

lemma dec_val_show_nat [simp]: "dec_val (show_nat n) = n"
proof (induction n rule: show_nat.induct)
  case (1 n)
  show ?case
  proof (cases "n < 10")
    case True
    then show ?thesis by (simp add: show_nat.simps [of n] dec_val_def)
  next
    case False
    with "1.IH" show ?thesis
      by (simp add: show_nat.simps [of n] dec_val_snoc)
  qed
qed

lemma show_nat_inject [simp]: "show_nat m = show_nat n \<longleftrightarrow> m = n"
  by (metis dec_val_show_nat)

lemma show_nat_digits: "c \<in> set (show_nat n) \<Longrightarrow> is_digit c"
proof (induction n rule: show_nat.induct)
  case (1 n)
  then show ?case
    by (cases "n < 10") (auto simp: show_nat.simps [of n])
qed

lemma show_nat_nonempty [simp]: "show_nat n \<noteq> []"
  by (subst show_nat.simps) simp

lemma show_nat_lt10 [simp]: "n < 10 \<Longrightarrow> show_nat n = [digit_char n]"
  by (subst show_nat.simps) simp

subsection \<open>encoding/hex\<close>

definition hex_byte :: "byte \<Rightarrow> string" where
  "hex_byte b = [digit_char (unat b div 16), digit_char (unat b mod 16)]"

definition hex_EncodeToString :: "bytes \<Rightarrow> string" where
  "hex_EncodeToString bs = concat (map hex_byte bs)"

definition hex_digit_val :: "char \<Rightarrow> nat" where
  "hex_digit_val c = (let n = of_char c in if n < 58 then n - 48 else if n < 71 then n - 55 else n - 87)"

fun hex_decode :: "string \<Rightarrow> bytes" where
  "hex_decode (a # b # s) = of_nat (hex_digit_val a * 16 + hex_digit_val b) # hex_decode s"
| "hex_decode _ = []"

lemma hex_digit_val_digit_char [simp]: "d < 16 \<Longrightarrow> hex_digit_val (digit_char d) = d"
  by (simp add: hex_digit_val_def digit_char_def Let_def)

lemma unat_byte_lt [simp]: "unat (b :: byte) < 256"
  using unsigned_less [of b, where ?'a = nat] by simp

lemma unat_byte_div16 [simp]: "unat (b :: byte) div 16 < 16"
  using unat_byte_lt [of b] by linarith

lemma hex_decode_encode [simp]: "hex_decode (hex_EncodeToString bs) = bs"
  by (induction bs) (simp_all add: hex_EncodeToString_def hex_byte_def)

lemma length_hex_EncodeToString [simp]: "length (hex_EncodeToString bs) = 2 * length bs"
  by (induction bs) (simp_all add: hex_EncodeToString_def hex_byte_def)

lemma hex_EncodeToString_inject [simp]: "hex_EncodeToString a = hex_EncodeToString b \<longleftrightarrow> a = b"
  by (metis hex_decode_encode)

end
