(* ===== verification/GoStrings.thy ===== *)
theory GoStrings
  imports Prelude
begin

section \<open>The string functions of the Go standard library that stprov calls\<close>

text \<open>
  \<open>strings.HasPrefix\<close>, \<open>HasSuffix\<close> and \<open>Contains\<close> are \<open>prefix\<close>, \<open>suffix\<close> and \<open>sublist\<close>
  of HOL-Library.Sublist. The others are defined here, on bytes, as the package does it.
  \<open>%q\<close> is modelled for the ASCII range (\<open>quote\<close>). The conversion of a string to runes and
  back, which \<open>options.DecodeSafeCIDR\<close> uses, is UTF-8 with Go's rule for malformed input:
  one byte is replaced by U+FFFD and decoding goes on behind it.
\<close>

definition strings_HasPrefix :: "string \<Rightarrow> string \<Rightarrow> bool" where
  "strings_HasPrefix s p = prefix p s"

definition strings_HasSuffix :: "string \<Rightarrow> string \<Rightarrow> bool" where
  "strings_HasSuffix s p = suffix p s"

definition strings_Contains :: "string \<Rightarrow> string \<Rightarrow> bool" where
  "strings_Contains s t = sublist t s"

lemma strings_Contains_char [simp]: "strings_Contains s [c] \<longleftrightarrow> c \<in> set s"
proof -
  have "sublist [c] s \<longleftrightarrow> (\<exists>ps ss. s = ps @ c # ss)" by (simp add: sublist_def)
  also have "\<dots> \<longleftrightarrow> c \<in> set s" by (metis in_set_conv_decomp)
  finally show ?thesis by (simp add: strings_Contains_def)
qed

text \<open>\<open>strings.Split(s, sep)\<close> for a one-byte separator: never the empty list.\<close>

fun strings_Split :: "string \<Rightarrow> char \<Rightarrow> string list" where
  "strings_Split [] sep = [[]]"
| "strings_Split (c # cs) sep =
     (if c = sep then [] # strings_Split cs sep
      else (case strings_Split cs sep of [] \<Rightarrow> [[c]] | w # ws \<Rightarrow> (c # w) # ws))"

lemma strings_Split_nonempty [simp]: "strings_Split s sep \<noteq> []"
  by (induction s) (auto split: list.splits)

text \<open>\<open>strings.SplitN(s, sep, 2)\<close>: at most two parts.\<close>

definition strings_SplitN2 :: "string \<Rightarrow> char \<Rightarrow> string list" where
  "strings_SplitN2 s sep =
     (if sep \<in> set s then [takeWhile (\<lambda>c. c \<noteq> sep) s, tl (dropWhile (\<lambda>c. c \<noteq> sep) s)] else [s])"

fun strings_Join :: "string list \<Rightarrow> string \<Rightarrow> string" where
  "strings_Join [] sep = []"
| "strings_Join [s] sep = s"
| "strings_Join (s # t # ss) sep = s @ sep @ strings_Join (t # ss) sep"

text \<open>\<open>strings.Replace(s, old, new, 1)\<close> for a non-empty \<open>old\<close>.\<close>

fun strings_Replace1 :: "string \<Rightarrow> string \<Rightarrow> string \<Rightarrow> string" where
  "strings_Replace1 [] old new = []"
| "strings_Replace1 (c # cs) old new =
     (if prefix old (c # cs) then new @ drop (length old) (c # cs)
      else c # strings_Replace1 cs old new)"

definition strings_TrimRight :: "string \<Rightarrow> char \<Rightarrow> string" where
  "strings_TrimRight s c = rev (dropWhile (\<lambda>x. x = c) (rev s))"

definition is_space :: "char \<Rightarrow> bool" where
  "is_space c \<longleftrightarrow> c = CHR 0x20 \<or> (9 \<le> (of_char c :: nat) \<and> (of_char c :: nat) \<le> 13)"

definition strings_TrimSpace :: "string \<Rightarrow> string" where
  "strings_TrimSpace s = rev (dropWhile is_space (rev (dropWhile is_space s)))"

text \<open>Splitting and joining with the same one-byte separator are inverse.\<close>

lemma Join_Split [simp]: "strings_Join (strings_Split s sep) [sep] = s"
proof (induction s)
  case Nil
  then show ?case by simp
next
  case (Cons c cs)
  obtain w ws where ws: "strings_Split cs sep = w # ws"
    by (cases "strings_Split cs sep") auto
  with Cons.IH show ?case by (cases ws) auto
qed

lemma Split_no_sep: "sep \<notin> set s \<Longrightarrow> strings_Split s sep = [s]"
  by (induction s) auto

lemma Split_parts_no_sep: "w \<in> set (strings_Split s sep) \<Longrightarrow> sep \<notin> set w"
  by (induction s arbitrary: w) (auto split: list.splits if_splits)

lemma Split_append_sep: "sep \<notin> set s \<Longrightarrow> strings_Split (s @ sep # t) sep = s # strings_Split t sep"
  by (induction s) auto

lemma Split_Join:
  assumes "ws \<noteq> []" and "\<forall>w \<in> set ws. sep \<notin> set w"
  shows "strings_Split (strings_Join ws [sep]) sep = ws"
  using assms
proof (induction ws "[sep]" rule: strings_Join.induct)
  case (3 s t ss)
  then show ?case by (simp add: Split_append_sep)
qed (auto simp: Split_no_sep)

text \<open>Replacing: nothing happens without an occurrence; the first occurrence is the one.\<close>

lemma Replace1_absent: "\<not> sublist old s \<Longrightarrow> strings_Replace1 s old new = s"
  by (induction s) (auto simp: sublist_Cons_right)

lemma Replace1_first:
  assumes "old \<noteq> []"
    and "\<And>k. k < length p \<Longrightarrow> \<not> prefix old (drop k (p @ old @ q))"
  shows "strings_Replace1 (p @ old @ q) old new = p @ new @ q"
  using assms
proof (induction p)
  case Nil
  then obtain c cs where oc: "old @ q = c # cs" by (cases "old @ q") auto
  then have "prefix old (c # cs)" and "drop (length old) (c # cs) = q"
    by (metis prefixI, metis append_eq_conv_conj)
  with oc show ?case by simp
next
  case (Cons c p)
  have "\<not> prefix old ((c # p) @ old @ q)" using Cons.prems(2) [of 0] by simp
  moreover have "\<And>k. k < length p \<Longrightarrow> \<not> prefix old (drop k (p @ old @ q))"
    using Cons.prems(2) [of "Suc _"] by simp
  ultimately show ?case using Cons.IH Cons.prems(1) by simp
qed

subsection \<open>Quoting\<close>

definition quote_char :: "char \<Rightarrow> string" where
  "quote_char c =
     (let n = (of_char c :: nat) in
      if c = CHR 0x22 then [CHR 0x5C, CHR 0x22]
      else if c = CHR 0x5C then [CHR 0x5C, CHR 0x5C]
      else if n = 7 then [CHR 0x5C, CHR ''a'']
      else if n = 8 then [CHR 0x5C, CHR ''b'']
      else if n = 12 then [CHR 0x5C, CHR ''f'']
      else if n = 10 then [CHR 0x5C, CHR ''n'']
      else if n = 13 then [CHR 0x5C, CHR ''r'']
      else if n = 9 then [CHR 0x5C, CHR ''t'']
      else if n = 11 then [CHR 0x5C, CHR ''v'']
      else if n < 32 \<or> n = 127 then [CHR 0x5C, CHR ''x''] @ hex_byte (byte_of_char c)
      else [c])"

definition quote :: "string \<Rightarrow> string" where
  "quote s = CHR 0x22 # concat (map quote_char s) @ [CHR 0x22]"

subsection \<open>Runes\<close>

definition is_cont :: "byte \<Rightarrow> bool" where
  "is_cont b \<longleftrightarrow> 128 \<le> b \<and> b < 192"

definition rune_error :: nat where
  "rune_error = 65533"

text \<open>
  \<open>unicode/utf8.DecodeRune\<close>: the rune at the front and how many bytes it took. The bounds
  of the second byte reject overlong forms, surrogates and values above U+10FFFF.
\<close>

fun decode_rune :: "bytes \<Rightarrow> nat \<times> nat" where
  "decode_rune [] = (rune_error, 0)"
| "decode_rune (b0 # bs) =
     (let x = unat b0; c1 = (\<lambda>k. unat (bs ! k) - 128) in
      if x < 128 then (x, 1)
      else if 194 \<le> x \<and> x < 224 \<and> 1 \<le> length bs \<and> is_cont (bs ! 0)
      then ((x - 192) * 64 + c1 0, 2)
      else if 224 \<le> x \<and> x < 240 \<and> 2 \<le> length bs \<and> is_cont (bs ! 0) \<and> is_cont (bs ! 1)
         \<and> (x = 224 \<longrightarrow> 160 \<le> bs ! 0) \<and> (x = 237 \<longrightarrow> bs ! 0 < 160)
      then ((x - 224) * 4096 + c1 0 * 64 + c1 1, 3)
      else if 240 \<le> x \<and> x < 245 \<and> 3 \<le> length bs \<and> is_cont (bs ! 0) \<and> is_cont (bs ! 1)
         \<and> is_cont (bs ! 2) \<and> (x = 240 \<longrightarrow> 144 \<le> bs ! 0) \<and> (x = 244 \<longrightarrow> bs ! 0 < 144)
      then ((x - 240) * 262144 + c1 0 * 4096 + c1 1 * 64 + c1 2, 4)
      else (rune_error, 1))"

function to_runes :: "bytes \<Rightarrow> nat list" where
  "to_runes bs = (if bs = [] then [] else (let (r, n) = decode_rune bs in r # to_runes (drop (max 1 n) bs)))"
  by pat_completeness auto
termination
  by (relation "measure length") auto

declare to_runes.simps [simp del]

definition encode_rune :: "nat \<Rightarrow> bytes" where
  "encode_rune r0 =
     (let r = (if 1114111 < r0 \<or> (55296 \<le> r0 \<and> r0 \<le> 57343) then rune_error else r0) in
      if r < 128 then [of_nat r]
      else if r < 2048 then [of_nat (192 + r div 64), of_nat (128 + r mod 64)]
      else if r < 65536
      then [of_nat (224 + r div 4096), of_nat (128 + r div 64 mod 64), of_nat (128 + r mod 64)]
      else [of_nat (240 + r div 262144), of_nat (128 + r div 4096 mod 64),
            of_nat (128 + r div 64 mod 64), of_nat (128 + r mod 64)])"

definition from_runes :: "nat list \<Rightarrow> bytes" where
  "from_runes rs = concat (map encode_rune rs)"

definition valid_rune :: "nat \<Rightarrow> bool" where
  "valid_rune r \<longleftrightarrow> r \<le> 1114111 \<and> \<not> (55296 \<le> r \<and> r \<le> 57343)"

lemma unat_of_nat_byte: "n < 256 \<Longrightarrow> unat (of_nat n :: byte) = n"
  by (simp add: unat_of_nat)

lemma is_cont_unat: "is_cont b \<longleftrightarrow> 128 \<le> unat b \<and> unat b < 192"
  by (simp add: is_cont_def word_le_nat_alt word_less_nat_alt)

lemmas byte_order = word_le_nat_alt word_less_nat_alt is_cont_unat

text \<open>Decoding an encoded rune gives it back, whatever follows: the UTF-8 round trip.
  First on bytes whose values are known, one lemma per length of the encoding.\<close>

lemma decode_rune_2:
  assumes "unat b0 = 192 + a" "2 \<le> a" "a < 32" "unat b1 = 128 + b" "b < 64"
  shows "decode_rune (b0 # b1 # rest) = (a * 64 + b, 2)"
  using assms by (simp add: byte_order)

lemma decode_rune_3:
  assumes "unat b0 = 224 + a" "a < 16" "unat b1 = 128 + b" "b < 64" "unat b2 = 128 + c" "c < 64"
    and "a = 0 \<Longrightarrow> 32 \<le> b" and "a = 13 \<Longrightarrow> b < 32"
  shows "decode_rune (b0 # b1 # b2 # rest) = (a * 4096 + b * 64 + c, 3)"
  using assms by (auto simp add: byte_order Let_def)

lemma decode_rune_4:
  assumes "unat b0 = 240 + a" "a < 5" "unat b1 = 128 + b" "b < 64" "unat b2 = 128 + c" "c < 64"
    and "unat b3 = 128 + d" "d < 64"
    and "a = 0 \<Longrightarrow> 16 \<le> b" and "a = 4 \<Longrightarrow> b < 16"
  shows "decode_rune (b0 # b1 # b2 # b3 # rest) = (a * 262144 + b * 4096 + c * 64 + d, 4)"
  using assms by (auto simp add: byte_order Let_def)

lemma encode_rune_valid:
  "valid_rune r \<Longrightarrow> encode_rune r =
     (if r < 128 then [of_nat r]
      else if r < 2048 then [of_nat (192 + r div 64), of_nat (128 + r mod 64)]
      else if r < 65536
      then [of_nat (224 + r div 4096), of_nat (128 + r div 64 mod 64), of_nat (128 + r mod 64)]
      else [of_nat (240 + r div 262144), of_nat (128 + r div 4096 mod 64),
            of_nat (128 + r div 64 mod 64), of_nat (128 + r mod 64)])"
proof -
  assume "valid_rune r"
  then have "(if 1114111 < r \<or> (55296 \<le> r \<and> r \<le> 57343) then rune_error else r) = r"
    by (auto simp: valid_rune_def)
  then show ?thesis unfolding encode_rune_def Let_def by (simp only:)
qed

lemma unat_lead: "a < 64 \<Longrightarrow> k \<le> 192 \<Longrightarrow> unat (of_nat (k + a) :: byte) = k + a"
  by (rule unat_of_nat_byte) simp

lemma unat_lead4: "a < 16 \<Longrightarrow> k \<le> 240 \<Longrightarrow> unat (of_nat (k + a) :: byte) = k + a"
  by (rule unat_of_nat_byte) simp

lemma decode_encode_2:
  assumes "128 \<le> r" "r < 2048"
  shows "decode_rune (of_nat (192 + r div 64) # of_nat (128 + r mod 64) # rest) = (r, 2)"
proof -
  have d: "2 \<le> r div 64" "r div 64 < 32" "r mod 64 < 64" using assms by auto
  have "decode_rune (of_nat (192 + r div 64) # of_nat (128 + r mod 64) # rest)
      = (r div 64 * 64 + r mod 64, 2)"
    by (rule decode_rune_2 [OF unat_lead d(1,2) unat_lead d(3)]) (use d in simp_all)
  then show ?thesis by simp
qed

text \<open>The base-64 digits of a rune, as linear equations.\<close>

lemma rune_digits:
  fixes r :: nat
  shows "r = r div 64 * 64 + r mod 64"
    and "r div 64 = r div 4096 * 64 + r div 64 mod 64"
    and "r div 4096 = r div 262144 * 64 + r div 4096 mod 64"
proof -
  have "r div 4096 = r div 64 div 64" "r div 262144 = r div 4096 div 64"
    by (simp_all add: div_mult2_eq [symmetric])
  then show "r = r div 64 * 64 + r mod 64"
    and "r div 64 = r div 4096 * 64 + r div 64 mod 64"
    and "r div 4096 = r div 262144 * 64 + r div 4096 mod 64"
    by (simp_all only: div_mult_mod_eq)
qed

lemma decode_encode_3:
  assumes "2048 \<le> r" "r < 65536" "valid_rune r"
  shows "decode_rune (of_nat (224 + r div 4096) # of_nat (128 + r div 64 mod 64)
    # of_nat (128 + r mod 64) # rest) = (r, 3)" (is "decode_rune ?bs = _")
proof -
  note e = rune_digits [of r]
  have m: "r div 64 mod 64 < 64" "r mod 64 < 64" by simp_all
  have d: "r div 4096 < 16" using assms e m by linarith
  have f: "r div 4096 = 0 \<Longrightarrow> 32 \<le> r div 64 mod 64" using assms(1) e m by linarith
  have g: "r div 4096 = 13 \<Longrightarrow> r div 64 mod 64 < 32"
    using assms(3) e m unfolding valid_rune_def by linarith
  have "decode_rune ?bs = (r div 4096 * 4096 + r div 64 mod 64 * 64 + r mod 64, 3)"
    by (rule decode_rune_3 [OF unat_lead4 d unat_lead m(1) unat_lead m(2)]) (use d f g in simp_all)
  moreover have "r div 4096 * 4096 + r div 64 mod 64 * 64 + r mod 64 = r" using e by linarith
  ultimately show ?thesis by simp
qed

lemma decode_encode_4:
  assumes "65536 \<le> r" "valid_rune r"
  shows "decode_rune (of_nat (240 + r div 262144) # of_nat (128 + r div 4096 mod 64)
    # of_nat (128 + r div 64 mod 64) # of_nat (128 + r mod 64) # rest) = (r, 4)"
    (is "decode_rune ?bs = _")
proof -
  note e = rune_digits [of r]
  have r: "r \<le> 1114111" using assms by (simp add: valid_rune_def)
  have m: "r div 4096 mod 64 < 64" "r div 64 mod 64 < 64" "r mod 64 < 64" by simp_all
  have d: "r div 262144 < 5" using r e m by linarith
  have f: "r div 262144 = 0 \<Longrightarrow> 16 \<le> r div 4096 mod 64" using assms(1) e m by linarith
  have g: "r div 262144 = 4 \<Longrightarrow> r div 4096 mod 64 < 16" using r e m by linarith
  have "decode_rune ?bs
      = (r div 262144 * 262144 + r div 4096 mod 64 * 4096 + r div 64 mod 64 * 64 + r mod 64, 4)"
    by (rule decode_rune_4 [OF unat_lead4 d unat_lead m(1) unat_lead m(2) unat_lead m(3)])
      (use d f g in simp_all)
  moreover have "r div 262144 * 262144 + r div 4096 mod 64 * 4096 + r div 64 mod 64 * 64 + r mod 64 = r"
    using e by linarith
  ultimately show ?thesis by simp
qed

lemma decode_encode_rune:
  assumes "valid_rune r"
  shows "decode_rune (encode_rune r @ rest) = (r, length (encode_rune r))"
proof -
  consider "r < 128" | "128 \<le> r" "r < 2048" | "2048 \<le> r" "r < 65536" | "65536 \<le> r" by linarith
  then show ?thesis
  proof cases
    case 1
    with assms show ?thesis by (simp add: encode_rune_valid unat_of_nat_byte)
  qed (use assms in \<open>simp_all add: encode_rune_valid decode_encode_2 decode_encode_3 decode_encode_4
        del: decode_rune.simps of_nat_add\<close>)
qed

lemma encode_rune_nonempty: "encode_rune r \<noteq> []"
  by (simp add: encode_rune_def Let_def)

lemma to_runes_from_runes:
  "\<forall>r \<in> set rs. valid_rune r \<Longrightarrow> to_runes (from_runes rs) = rs"
proof (induction rs)
  case Nil
  then show ?case by (simp add: from_runes_def to_runes.simps)
next
  case (Cons r rs)
  have "from_runes (r # rs) = encode_rune r @ from_runes rs"
    by (simp add: from_runes_def)
  moreover have "1 \<le> length (encode_rune r)"
    using encode_rune_nonempty [of r] by (cases "encode_rune r") auto
  ultimately show ?case using Cons
    by (subst to_runes.simps) (simp add: decode_encode_rune encode_rune_nonempty max_def del: decode_rune.simps)
qed

end
