(* ===== verification/GoNet.thy ===== *)
theory GoNet
  imports GoStrings
begin

unbundle bit_operations_syntax

section \<open>Addresses: the parts of net, net/netip and math/big that stprov calls\<close>

text \<open>
  \<open>net.IP\<close> and \<open>net.IPMask\<close> are byte slices, \<open>net.IPNet\<close> a pair of them, as in Go. An
  address has 4 or 16 bytes; \<open>To4\<close> recognises the IPv4-mapped form \<open>::ffff:a.b.c.d\<close>.
  \<open>netip.Addr\<close> keeps the two families apart and has a zone. The parsers follow the
  package's loops, including what they refuse (leading zeros, more than four hex digits,
  a second \<open>::\<close>). A parse error is a value; its text is kept only as far as the callers of
  this program print it.
\<close>

type_synonym ip = bytes

record ipnet =
  IP :: ip
  Mask :: bytes

datatype netip_addr = Addr4 ip | Addr6 ip string

definition v4InV6Prefix :: bytes where
  "v4InV6Prefix = replicate 10 0 @ [255, 255]"

definition To4 :: "ip \<Rightarrow> ip option" where
  "To4 ip = (if length ip = 4 then Some ip
             else if length ip = 16 \<and> take 12 ip = v4InV6Prefix then Some (drop 12 ip)
             else None)"

definition To16 :: "ip \<Rightarrow> ip option" where
  "To16 ip = (if length ip = 4 then Some (v4InV6Prefix @ ip)
              else if length ip = 16 then Some ip else None)"

definition IP_Equal :: "ip \<Rightarrow> ip \<Rightarrow> bool" where
  "IP_Equal a b =
     (if length a = length b then a = b
      else if length a = 4 \<and> length b = 16 then take 12 b = v4InV6Prefix \<and> a = drop 12 b
      else if length a = 16 \<and> length b = 4 then take 12 a = v4InV6Prefix \<and> drop 12 a = b
      else False)"

subsection \<open>Parsing addresses\<close>

definition is_hexdigit :: "char \<Rightarrow> bool" where
  "is_hexdigit c \<longleftrightarrow> is_digit c \<or> (97 \<le> (of_char c :: nat) \<and> (of_char c :: nat) \<le> 102)
     \<or> (65 \<le> (of_char c :: nat) \<and> (of_char c :: nat) \<le> 70)"

definition hex_val :: "string \<Rightarrow> nat" where
  "hex_val s = foldl (\<lambda>v c. v * 16 + hex_digit_val c) 0 s"

text \<open>\<open>netip.parseIPv4Fields\<close>: \<open>dl\<close> digits with value \<open>v\<close> of the current octet, \<open>fs\<close> the
  octets before it.\<close>

fun v4_fields :: "string \<Rightarrow> nat \<Rightarrow> nat \<Rightarrow> nat list \<Rightarrow> nat list option" where
  "v4_fields [] dl v fs = (if length fs < 3 then None else Some (fs @ [v]))"
| "v4_fields (c # cs) dl v fs =
     (if is_digit c then
        (if dl = 1 \<and> v = 0 then None
         else if v * 10 + digit_val c > 255 then None
         else v4_fields cs (dl + 1) (v * 10 + digit_val c) fs)
      else if c = CHR ''.'' then
        (if dl = 0 \<or> cs = [] then None
         else if length fs = 3 then None
         else v4_fields cs 0 0 (fs @ [v]))
      else None)"

definition parse_v4 :: "string \<Rightarrow> netip_addr option" where
  "parse_v4 s = map_option (\<lambda>fs. Addr4 (map of_nat fs)) (v4_fields s 0 0 [])"

text \<open>
  The loop of \<open>netip.parseIPv6\<close>; the number is how many of the eight groups are still
  free, \<open>ip\<close> the bytes so far and \<open>ell\<close> the place of the \<open>::\<close>. The result is the unread
  rest of the text with \<open>ip\<close> and \<open>ell\<close>.
\<close>

fun v6_loop :: "nat \<Rightarrow> string \<Rightarrow> bytes \<Rightarrow> nat option \<Rightarrow> (string \<times> bytes \<times> nat option) option" where
  "v6_loop 0 s ip ell = Some (s, ip, ell)"
| "v6_loop (Suc k) s ip ell =
     (let ds = takeWhile is_hexdigit s; rest = dropWhile is_hexdigit s in
      if ds = [] \<or> length ds > 4 then None
      else if rest \<noteq> [] \<and> hd rest = CHR ''.'' then
        (if ell = None \<and> length ip \<noteq> 12 then None
         else if length ip + 4 > 16 then None
         else map_option (\<lambda>fs. ([], ip @ map of_nat fs, ell)) (v4_fields s 0 0 []))
      else
        (let ip' = ip @ [of_nat (hex_val ds div 256), of_nat (hex_val ds)] in
         case rest of
           [] \<Rightarrow> Some ([], ip', ell)
         | c # s1 \<Rightarrow>
             (if c \<noteq> CHR '':'' \<or> s1 = [] then None
              else if hd s1 = CHR '':'' then
                (if ell \<noteq> None then None
                 else if tl s1 = [] then Some ([], ip', Some (length ip'))
                 else v6_loop k (tl s1) ip' (Some (length ip')))
              else v6_loop k s1 ip' ell)))"

definition v6_finish :: "(string \<times> bytes \<times> nat option) \<Rightarrow> bytes option" where
  "v6_finish r = (case r of (s, ip, ell) \<Rightarrow>
     if s \<noteq> [] then None
     else if length ip < 16 then
       (case ell of None \<Rightarrow> None
        | Some e \<Rightarrow> Some (take e ip @ replicate (16 - length ip) 0 @ drop e ip))
     else if ell \<noteq> None then None
     else Some ip)"

definition parse_v6 :: "string \<Rightarrow> netip_addr option" where
  "parse_v6 s0 =
     (let s = takeWhile (\<lambda>c. c \<noteq> CHR ''%'') s0;
          z = dropWhile (\<lambda>c. c \<noteq> CHR ''%'') s0;
          zone = tl z in
      if z \<noteq> [] \<and> zone = [] then None
      else if s = ''::'' then Some (Addr6 (replicate 16 0) zone)
      else
        map_option (\<lambda>ip. Addr6 ip zone)
          (Option.bind (if take 2 s = ''::'' then v6_loop 8 (drop 2 s) [] (Some 0) else v6_loop 8 s [] None)
            v6_finish))"

text \<open>\<open>netip.ParseAddr\<close>: the first of the characters \<open>.\<close>, \<open>:\<close> and \<open>%\<close> decides the family.\<close>

definition netip_ParseAddr :: "string \<Rightarrow> netip_addr option" where
  "netip_ParseAddr s =
     (case dropWhile (\<lambda>c. c \<noteq> CHR ''.'' \<and> c \<noteq> CHR '':'' \<and> c \<noteq> CHR ''%'') s of
        [] \<Rightarrow> None
      | c # _ \<Rightarrow> (if c = CHR ''.'' then parse_v4 s else if c = CHR '':'' then parse_v6 s else None))"

fun addr_zone :: "netip_addr \<Rightarrow> string" where
  "addr_zone (Addr4 ip) = []"
| "addr_zone (Addr6 ip z) = z"

fun addr_BitLen :: "netip_addr \<Rightarrow> nat" where
  "addr_BitLen (Addr4 ip) = 32"
| "addr_BitLen (Addr6 ip z) = 128"

fun addr_As16 :: "netip_addr \<Rightarrow> ip" where
  "addr_As16 (Addr4 ip) = v4InV6Prefix @ ip"
| "addr_As16 (Addr6 ip z) = ip"

text \<open>\<open>net.ParseIP\<close>: 16 bytes, or \<open>nil\<close>; no zone.\<close>

definition ParseIP :: "string \<Rightarrow> ip option" where
  "ParseIP s = (case netip_ParseAddr s of None \<Rightarrow> None
     | Some a \<Rightarrow> if addr_zone a \<noteq> [] then None else Some (addr_As16 a))"

subsection \<open>Masks and networks\<close>

text \<open>\<open>net.CIDRMask(n, bits)\<close>, a byte at a time.\<close>

definition mask_byte :: "nat \<Rightarrow> byte" where
  "mask_byte n = (if 8 \<le> n then 255 else NOT (drop_bit n 255))"

fun CIDRMask :: "nat \<Rightarrow> nat \<Rightarrow> bytes" where
  "CIDRMask n 0 = []"
| "CIDRMask n (Suc l) = mask_byte n # CIDRMask (n - 8) l"

text \<open>\<open>net.IP.Mask\<close>; the second argument has 4 or 16 bytes.\<close>

definition allFF :: "bytes \<Rightarrow> bool" where
  "allFF bs \<longleftrightarrow> (\<forall>b \<in> set bs. b = 255)"

definition IP_Mask :: "ip \<Rightarrow> bytes \<Rightarrow> ip option" where
  "IP_Mask ip msk =
     (let m2 = (if length msk = 16 \<and> length ip = 4 \<and> allFF (take 12 msk) then drop 12 msk else msk);
          ip' = (if length m2 = 4 \<and> length ip = 16 \<and> take 12 ip = v4InV6Prefix then drop 12 ip else ip) in
      if length ip' \<noteq> length m2 then None else Some (map2 (AND) ip' m2))"

text \<open>The number parser \<open>net.dtoi\<close> on a text that must be all digits: at most eight
  hexadecimal digits' worth, \<open>0xFFFFFF\<close> being too big.\<close>

definition dtoi_all :: "string \<Rightarrow> nat option" where
  "dtoi_all s = (if s \<noteq> [] \<and> list_all is_digit s \<and> dec_val s < 16777215 then Some (dec_val s) else None)"

definition ParseCIDR :: "string \<Rightarrow> goerror + (ip \<times> ipnet)" where
  "ParseCIDR s =
     (let err = Inl (External (''invalid CIDR address: '' @ s)) in
      case strings_SplitN2 s CHR ''/'' of
        [addr, txt] \<Rightarrow>
          (case netip_ParseAddr addr of
             None \<Rightarrow> err
           | Some a \<Rightarrow>
               if addr_zone a \<noteq> [] then err
               else (case dtoi_all txt of
                   None \<Rightarrow> err
                 | Some n \<Rightarrow>
                     if n > addr_BitLen a then err
                     else (let m = CIDRMask n (addr_BitLen a div 8) in
                       Inr (addr_As16 a,
                            \<lparr>IP = the (IP_Mask (addr_As16 a) m), Mask = m\<rparr>))))
      | _ \<Rightarrow> err)"

text \<open>\<open>IPNet.Contains\<close> with \<open>networkNumberAndMask\<close>.\<close>

definition networkNumberAndMask :: "ipnet \<Rightarrow> (ip \<times> bytes) option" where
  "networkNumberAndMask n =
     (let (ip, ok) = (case To4 (IP n) of Some ip4 \<Rightarrow> (ip4, True) | None \<Rightarrow> (IP n, length (IP n) = 16)) in
      if \<not> ok then None
      else if length (Mask n) = 4 then (if length ip = 4 then Some (ip, Mask n) else None)
      else if length (Mask n) = 16 then Some (ip, if length ip = 4 then drop 12 (Mask n) else Mask n)
      else None)"

definition IPNet_Contains :: "ipnet \<Rightarrow> ip \<Rightarrow> bool" where
  "IPNet_Contains n ip0 =
     (let ip = (case To4 ip0 of Some x \<Rightarrow> x | None \<Rightarrow> ip0) in
      case networkNumberAndMask n of
        None \<Rightarrow> ip = []
      | Some (nn, m) \<Rightarrow> length ip = length nn \<and> map2 (AND) nn m = map2 (AND) ip m)"

text \<open>\<open>IPMask.Size\<close>: prefix length and bits, \<open>(0, 0)\<close> for a mask that is not ones then zeros.\<close>

definition byte_bits :: "byte \<Rightarrow> bool list" where
  "byte_bits b = map (bit b) [7, 6, 5, 4, 3, 2, 1, 0]"

definition bits_of :: "bytes \<Rightarrow> bool list" where
  "bits_of bs = concat (map byte_bits bs)"

definition Mask_Size :: "bytes \<Rightarrow> nat \<times> nat" where
  "Mask_Size m =
     (let bs = bits_of m; n = length (takeWhile id bs) in
      if list_all Not (drop n bs) then (n, 8 * length m) else (0, 0))"

subsection \<open>Text of addresses\<close>

definition string4 :: "ip \<Rightarrow> string" where
  "string4 ip = strings_Join (map (\<lambda>b. show_nat (unat b)) ip) ''.''"

text \<open>Hexadecimal without leading zeros.\<close>

fun show_hex :: "nat \<Rightarrow> string" where
  "show_hex n = (if n < 16 then [digit_char n] else show_hex (n div 16) @ [digit_char (n mod 16)])"

declare show_hex.simps [simp del]

fun groups16 :: "bytes \<Rightarrow> nat list" where
  "groups16 (a # b # bs) = (unat a * 256 + unat b) # groups16 bs"
| "groups16 _ = []"

text \<open>The longest run of at least two zero groups, the first one among equals.\<close>

definition zero_run :: "nat list \<Rightarrow> nat \<Rightarrow> nat" where
  "zero_run gs i = length (takeWhile (\<lambda>g. g = 0) (drop i gs))"

definition best_run :: "nat list \<Rightarrow> (nat \<times> nat) option" where
  "best_run gs =
     fold (\<lambda>i best. let l = zero_run gs i in
             if 2 \<le> l \<and> l > (case best of None \<Rightarrow> 0 | Some (_, n) \<Rightarrow> n) then Some (i, l) else best)
       [0..<length gs] None"

definition colon_hex :: "nat list \<Rightarrow> string" where
  "colon_hex gs = strings_Join (map show_hex gs) '':''"

definition string6 :: "ip \<Rightarrow> string" where
  "string6 ip =
     (let gs = groups16 ip in
      case best_run gs of
        None \<Rightarrow> colon_hex gs
      | Some (i, n) \<Rightarrow> colon_hex (take i gs) @ ''::'' @ colon_hex (drop (i + n) gs))"

definition IP_String :: "ip \<Rightarrow> string" where
  "IP_String ip =
     (if ip = [] then ''<nil>''
      else if length ip \<noteq> 4 \<and> length ip \<noteq> 16 then CHR ''?'' # hex_EncodeToString ip
      else (case To4 ip of Some p4 \<Rightarrow> string4 p4 | None \<Rightarrow> string6 ip))"

fun addr_String :: "netip_addr \<Rightarrow> string" where
  "addr_String (Addr4 ip) = string4 ip"
| "addr_String (Addr6 ip z) =
     (case To4 ip of Some p4 \<Rightarrow> ''::ffff:'' @ string4 p4 | None \<Rightarrow> string6 ip)
       @ (if z = [] then [] else CHR ''%'' # z)"

text \<open>\<open>IPNet.String\<close> for the networks \<open>ParseCIDR\<close> returns.\<close>

definition IPNet_String :: "ipnet \<Rightarrow> string" where
  "IPNet_String n =
     (case networkNumberAndMask n of
        None \<Rightarrow> ''<nil>''
      | Some (nn, m) \<Rightarrow>
          if snd (Mask_Size m) = 0 then IP_String nn @ ''/'' @ hex_EncodeToString m
          else IP_String nn @ ''/'' @ show_nat (fst (Mask_Size m)))"

subsection \<open>Big-endian integers\<close>

definition be_nat :: "bytes \<Rightarrow> nat" where
  "be_nat bs = foldl (\<lambda>v b. v * 256 + unat b) 0 bs"

text \<open>\<open>big.Int.Bytes\<close>: big-endian without leading zero bytes.\<close>

fun nat_be :: "nat \<Rightarrow> bytes" where
  "nat_be n = (if n = 0 then [] else nat_be (n div 256) @ [of_nat (n mod 256)])"

declare nat_be.simps [simp del]

text \<open>Big-endian in exactly \<open>l\<close> bytes.\<close>

fun nat_be_fixed :: "nat \<Rightarrow> nat \<Rightarrow> bytes" where
  "nat_be_fixed 0 n = []"
| "nat_be_fixed (Suc l) n = nat_be_fixed l (n div 256) @ [of_nat (n mod 256)]"

text \<open>\<open>netip.Addr.Next\<close>: the zero \<open>Addr\<close> (here \<open>None\<close>) after the last address.\<close>

definition ip_next :: "ip \<Rightarrow> ip option" where
  "ip_next ip = (if be_nat ip + 1 < 256 ^ length ip then Some (nat_be_fixed (length ip) (be_nat ip + 1)) else None)"

fun addr_Next :: "netip_addr \<Rightarrow> netip_addr option" where
  "addr_Next (Addr4 ip) = map_option Addr4 (ip_next ip)"
| "addr_Next (Addr6 ip z) = map_option (\<lambda>ip'. Addr6 ip' z) (ip_next ip)"

definition addr_option_String :: "netip_addr option \<Rightarrow> string" where
  "addr_option_String a = (case a of None \<Rightarrow> ''invalid IP'' | Some x \<Rightarrow> addr_String x)"

end
