(* ===== verification/NetBits.thy ===== *)
theory NetBits
  imports GoNet
begin

section \<open>Networks as bit prefixes\<close>

text \<open>
  The mask arithmetic of \<open>GoNet\<close> says what it should: a CIDR mask of length \<open>n\<close> keeps the
  first \<open>n\<close> bits, and \<open>IPNet.Contains\<close> compares the first \<open>n\<close> bits. The successor of a
  masked address (\<open>netip.Addr.Next\<close>) changes only the last bit.
\<close>

lemma length_byte_bits [simp]: "length (byte_bits b) = 8"
  by (simp add: byte_bits_def)

lemma length_bits_of [simp]: "length (bits_of bs) = 8 * length bs"
  by (induction bs) (simp_all add: bits_of_def)

lemma bits_of_Nil [simp]: "bits_of [] = []"
  and bits_of_Cons [simp]: "bits_of (b # bs) = byte_bits b @ bits_of bs"
  and bits_of_append [simp]: "bits_of (bs @ cs) = bits_of bs @ bits_of cs"
  by (simp_all add: bits_of_def)

lemma byte_bits_inject [simp]: "byte_bits a = byte_bits b \<longleftrightarrow> a = b"
proof
  assume "byte_bits a = byte_bits b"
  then have "bit a n = bit b n" if "n < 8" for n
    using that by (auto simp: byte_bits_def numeral_eq_Suc less_Suc_eq)
  then show "a = b" by (intro bit_word_eqI) simp
qed simp

lemma bits_of_inject: "length a = length b \<Longrightarrow> bits_of a = bits_of b \<longleftrightarrow> a = b"
  by (induction a b rule: list_induct2) auto

lemma byte_bits_and: "byte_bits (a AND b) = map2 (\<and>) (byte_bits a) (byte_bits b)"
  by (simp add: byte_bits_def bit_and_iff)

lemma bits_of_and: "length a = length b \<Longrightarrow>
    bits_of (map2 (AND) a b) = map2 (\<and>) (bits_of a) (bits_of b)"
  by (induction a b rule: list_induct2) (simp_all add: byte_bits_and)

lemma byte_bits_mask_byte: "byte_bits (mask_byte n) = replicate (min n 8) True @ replicate (8 - n) False"
proof -
  consider "8 \<le> n" | "n = 0" | "n = 1" | "n = 2" | "n = 3" | "n = 4" | "n = 5" | "n = 6" | "n = 7"
    by linarith
  then show ?thesis
    by cases (simp_all add: mask_byte_def byte_bits_def bit_simps numeral_eq_Suc)
qed

lemma length_CIDRMask [simp]: "length (CIDRMask n l) = l"
  by (induction n l rule: CIDRMask.induct) simp_all

lemma bits_of_CIDRMask:
  "bits_of (CIDRMask n l) = replicate (min n (8 * l)) True @ replicate (8 * l - n) False"
proof (induction n l rule: CIDRMask.induct)
  case (1 n)
  then show ?case by simp
next
  case (2 n l)
  show ?case
  proof (cases "8 \<le> n")
    case True
    then have "min n (8 * Suc l) = 8 + min (n - 8) (8 * l)" "8 * l - (n - 8) = 8 * Suc l - n"
      by auto
    with True 2 show ?thesis
      by (simp add: byte_bits_mask_byte replicate_add)
  next
    case False
    then have "replicate (8 * Suc l - n) False = replicate (8 - n) False @ replicate (8 * l) False"
      by (simp add: replicate_add [symmetric])
    moreover have "min n (8 * Suc l) = n" using False by simp
    ultimately show ?thesis using False 2
      by (simp add: byte_bits_mask_byte del: mult_Suc_right)
  qed
qed

lemma map2_and_ones: "length xs = n \<Longrightarrow> map2 (\<and>) xs (replicate n True) = xs"
  by (induction xs arbitrary: n) (auto simp: Suc_length_conv)

lemma map2_and_zeros: "length xs = n \<Longrightarrow> map2 (\<and>) xs (replicate n False) = replicate n False"
  by (induction xs arbitrary: n) (auto simp: Suc_length_conv)

text \<open>Masking keeps the first \<open>n\<close> bits and clears the others.\<close>

lemma bits_of_masked:
  assumes "length ip = l" and "n \<le> 8 * l"
  shows "bits_of (map2 (AND) ip (CIDRMask n l)) = take n (bits_of ip) @ replicate (8 * l - n) False"
proof -
  have "map2 (\<and>) (bits_of ip) (replicate n True @ replicate (8 * l - n) False)
      = map2 (\<and>) (take n (bits_of ip)) (replicate n True)
        @ map2 (\<and>) (drop n (bits_of ip)) (replicate (8 * l - n) False)"
    using assms by (subst (1) append_take_drop_id [of n "bits_of ip", symmetric])
      (simp add: zip_append del: append_take_drop_id)
  then show ?thesis using assms
    by (simp add: bits_of_and bits_of_CIDRMask map2_and_ones map2_and_zeros min_def)
qed

lemma masked_eq_iff:
  assumes "length a = l" "length b = l" "n \<le> 8 * l"
  shows "map2 (AND) a (CIDRMask n l) = map2 (AND) b (CIDRMask n l)
    \<longleftrightarrow> take n (bits_of a) = take n (bits_of b)"
proof -
  have "map2 (AND) a (CIDRMask n l) = map2 (AND) b (CIDRMask n l) \<longleftrightarrow>
      bits_of (map2 (AND) a (CIDRMask n l)) = bits_of (map2 (AND) b (CIDRMask n l))"
    using assms by (simp add: bits_of_inject)
  then show ?thesis using assms by (simp add: bits_of_masked)
qed

lemma takeWhile_replicate_append: "takeWhile id (replicate n True @ replicate m False) = replicate n True"
  by (induction n) (auto simp: takeWhile_eq_Nil_iff)

lemma Mask_Size_CIDRMask [net_simps]: "n \<le> 8 * l \<Longrightarrow> Mask_Size (CIDRMask n l) = (n, 8 * l)"
  by (simp add: Mask_Size_def bits_of_CIDRMask takeWhile_replicate_append min_def list_all_iff)

subsection \<open>The successor of a masked address\<close>

lemma be_nat_snoc: "be_nat (bs @ [b]) = be_nat bs * 256 + unat b"
  by (simp add: be_nat_def)

lemma be_nat_lt: "be_nat bs < 256 ^ length bs"
proof (induction bs rule: rev_induct)
  case Nil
  then show ?case by (simp add: be_nat_def)
next
  case (snoc b bs)
  then have "be_nat bs * 256 + 256 \<le> 256 ^ length bs * 256"
    by (metis Suc_leI add.commute mult.commute mult_Suc_right mult_le_mono2)
  moreover have "be_nat bs * 256 + unat b < be_nat bs * 256 + 256" by simp
  ultimately have "be_nat bs * 256 + unat b < 256 ^ length bs * 256" by linarith
  then show ?case by (simp add: be_nat_snoc)
qed

lemma length_nat_be_fixed [simp]: "length (nat_be_fixed l n) = l"
  by (induction l n rule: nat_be_fixed.induct) simp_all

lemma nat_be_fixed_be_nat [simp]: "nat_be_fixed (length bs) (be_nat bs) = bs"
proof (induction bs rule: rev_induct)
  case Nil
  then show ?case by simp
next
  case (snoc b bs)
  have "(be_nat bs * 256 + unat b) div 256 = be_nat bs" and "(be_nat bs * 256 + unat b) mod 256 = unat b"
    using unat_byte_lt [of b] by (simp_all add: mod_less)
  with snoc show ?case by (simp add: be_nat_snoc del: of_nat_add of_nat_mult)
qed

lemma be_nat_nat_be_fixed: "n < 256 ^ l \<Longrightarrow> be_nat (nat_be_fixed l n) = n"
proof (induction l n rule: nat_be_fixed.induct)
  case (2 l n)
  then have "n div 256 < 256 ^ l" by (simp add: less_mult_imp_div_less mult.commute)
  with 2 show ?case by (simp add: be_nat_snoc unat_of_nat_byte)
qed (simp add: be_nat_def)

lemma ip_next_snoc:
  assumes "unat b < 255"
  shows "ip_next (bs @ [b]) = Some (bs @ [b + 1])"
proof -
  have u: "unat (b + 1) = unat b + 1" using assms by (simp add: unat_word_ariths)
  then have s: "be_nat (bs @ [b]) + 1 = be_nat (bs @ [b + 1])" by (simp add: be_nat_snoc)
  have "be_nat (bs @ [b + 1]) < 256 ^ length (bs @ [b])" using be_nat_lt [of "bs @ [b + 1]"] by simp
  moreover have "nat_be_fixed (length (bs @ [b])) (be_nat (bs @ [b + 1])) = bs @ [b + 1]"
    using nat_be_fixed_be_nat [of "bs @ [b + 1]"] by simp
  ultimately show ?thesis unfolding ip_next_def s by simp
qed

lemma even_byte_next:
  assumes "\<not> bit (b :: byte) 0"
  shows "unat b < 255" and "byte_bits (b + 1) = take 7 (byte_bits b) @ [True]"
proof -
  have "unat b \<noteq> 255"
  proof
    assume "unat b = 255"
    then have "b = of_nat 255" by (metis of_nat_unat ucast_id)
    with assms show False by simp
  qed
  with unat_byte_lt [of b] show "unat b < 255" by linarith
  have "b AND 1 = 0" using assms by (intro bit_word_eqI) (auto simp: bit_simps intro!: gr0I)
  then have "b + 1 = b OR 1" by (rule disjunctive_add_eq_or)
  then show "byte_bits (b + 1) = take 7 (byte_bits b) @ [True]"
    by (simp add: byte_bits_def bit_simps)
qed

end
