(* ===== verification/NetText6.thy ===== *)
theory NetText6
  imports NetText
begin

section \<open>The compressed hexadecimal form is read back\<close>

subsection \<open>One group\<close>

lemma is_hexdigit_digit_char [simp]: "d < 16 \<Longrightarrow> is_hexdigit (digit_char d)"
  by (simp add: is_hexdigit_def is_digit_def digit_char_def)

lemma not_hexdigit [simp]: "\<not> is_hexdigit CHR '':''" "\<not> is_hexdigit CHR ''.''" "\<not> is_hexdigit CHR ''%''"
    "\<not> is_hexdigit CHR ''/''"
  by (simp_all add: is_hexdigit_def is_digit_def)

lemma show_hex_digits: "c \<in> set (show_hex n) \<Longrightarrow> is_hexdigit c"
proof (induction n rule: show_hex.induct)
  case (1 n)
  then show ?case by (cases "n < 16") (auto simp: show_hex.simps [of n])
qed

lemma show_hex_nonempty [simp]: "show_hex n \<noteq> []"
  by (subst show_hex.simps) simp

lemma hex_val_show_hex [simp]: "hex_val (show_hex n) = n"
proof (induction n rule: show_hex.induct)
  case (1 n)
  show ?case
  proof (cases "n < 16")
    case True
    then show ?thesis by (simp add: show_hex.simps [of n] hex_val_def)
  next
    case False
    with 1 show ?thesis by (simp add: show_hex.simps [of n] hex_val_def)
  qed
qed

lemma length_show_hex: "n < 16 ^ Suc k \<Longrightarrow> length (show_hex n) \<le> Suc k"
proof (induction k arbitrary: n)
  case 0
  then show ?case by (simp add: show_hex.simps [of n])
next
  case (Suc k)
  show ?case
  proof (cases "n < 16")
    case True
    then show ?thesis by (simp add: show_hex.simps [of n])
  next
    case False
    have "n div 16 < 16 ^ Suc k" using Suc.prems by (simp add: less_mult_imp_div_less mult.commute)
    with Suc.IH False show ?thesis by (simp add: show_hex.simps [of n])
  qed
qed

lemma length_show_hex4: "g < 65536 \<Longrightarrow> length (show_hex g) \<le> 4"
  using length_show_hex [of g 3] by simp

lemma takeWhile_show_hex: "takeWhile is_hexdigit (show_hex g @ CHR '':'' # s) = show_hex g"
  and dropWhile_show_hex: "dropWhile is_hexdigit (show_hex g @ CHR '':'' # s) = CHR '':'' # s"
  and takeWhile_show_hex_end: "takeWhile is_hexdigit (show_hex g) = show_hex g"
  and dropWhile_show_hex_end: "dropWhile is_hexdigit (show_hex g) = []"
  using show_hex_digits [of _ g] by (auto simp: takeWhile_append2 dropWhile_append2 takeWhile_eq_all_conv dropWhile_eq_Nil_conv)

definition group_bytes :: "nat \<Rightarrow> bytes" where
  "group_bytes g = [of_nat (g div 256), of_nat g]"

definition ungroup :: "nat list \<Rightarrow> bytes" where
  "ungroup gs = concat (map group_bytes gs)"

lemma ungroup_simps [simp]:
  "ungroup [] = []" "ungroup (g # gs) = group_bytes g @ ungroup gs"
  "ungroup (gs @ hs) = ungroup gs @ ungroup hs"
  by (simp_all add: ungroup_def)

lemma length_group_bytes [simp]: "length (group_bytes g) = 2"
  by (simp add: group_bytes_def)

lemma length_ungroup [simp]: "length (ungroup gs) = 2 * length gs"
  by (induction gs) auto

lemma group_bytes_word: "group_bytes (unat a * 256 + unat b) = [a, b]"
proof -
  have "(unat a * 256 + unat b) div 256 = unat a"
    using unat_byte_lt [of b] by simp
  moreover have "(of_nat (unat a * 256 + unat b) :: byte) = b"
    by (simp add: word_unat_eq_iff unat_of_nat del: of_nat_add of_nat_mult)
  ultimately show ?thesis by (simp add: group_bytes_def del: of_nat_add of_nat_mult)
qed

lemma ungroup_groups16: "even (length bs) \<Longrightarrow> ungroup (groups16 bs) = bs"
  by (induction bs rule: groups16.induct) (auto simp: group_bytes_word simp del: of_nat_add of_nat_mult)

lemma length_groups16: "length (groups16 bs) = length bs div 2"
  by (induction bs rule: groups16.induct) auto

lemma groups16_lt: "g \<in> set (groups16 bs) \<Longrightarrow> g < 65536"
proof (induction bs rule: groups16.induct)
  case (1 a b bs)
  moreover have "unat a * 256 + unat b < 65536" using unat_byte_lt [of a] unat_byte_lt [of b] by linarith
  ultimately show ?case by auto
qed auto

subsection \<open>The parser's loop on printed groups\<close>

lemma v6_step_colon:
  assumes "g < 65536" "s \<noteq> []" "hd s \<noteq> CHR '':''"
  shows "v6_loop (Suc k) (show_hex g @ CHR '':'' # s) ip ell = v6_loop k s (ip @ group_bytes g) ell"
  using assms length_show_hex4 [OF assms(1)]
  by (simp add: takeWhile_show_hex dropWhile_show_hex group_bytes_def Let_def)

lemma v6_step_end:
  assumes "g < 65536"
  shows "v6_loop (Suc k) (show_hex g) ip ell = Some ([], ip @ group_bytes g, ell)"
  using length_show_hex4 [OF assms]
  by (simp add: takeWhile_show_hex_end dropWhile_show_hex_end group_bytes_def Let_def)

lemma v6_step_dcolon:
  assumes "g < 65536"
  shows "v6_loop (Suc k) (show_hex g @ CHR '':'' # CHR '':'' # s) ip None =
    (if s = [] then Some ([], ip @ group_bytes g, Some (length ip + 2))
     else v6_loop k s (ip @ group_bytes g) (Some (length ip + 2)))"
  using length_show_hex4 [OF assms] takeWhile_show_hex [of g "CHR '':'' # s"] dropWhile_show_hex [of g "CHR '':'' # s"]
  by (simp add: group_bytes_def Let_def)

lemma colon_hex_Cons: "gs \<noteq> [] \<Longrightarrow> colon_hex (g # gs) = show_hex g @ CHR '':'' # colon_hex gs"
  by (cases gs) (simp_all add: colon_hex_def)

lemma colon_hex_single [simp]: "colon_hex [g] = show_hex g" "colon_hex [] = []"
  by (simp_all add: colon_hex_def)

lemma hd_show_hex: "hd (show_hex g) \<noteq> CHR '':''" "hd (show_hex g @ s) \<noteq> CHR '':''"
  using show_hex_digits [of "hd (show_hex g)" g] by (auto simp: hd_append)

lemma no_leading_dcolon: "hd s \<noteq> CHR '':'' \<Longrightarrow> take 2 s \<noteq> ''::'' \<and> s \<noteq> ''::''"
  by (cases s) auto

lemma colon_hex_hd: "gs \<noteq> [] \<Longrightarrow> colon_hex gs @ s \<noteq> [] \<and> hd (colon_hex gs @ s) \<noteq> CHR '':''"
  by (cases gs; cases "tl gs") (simp_all add: colon_hex_Cons hd_show_hex)

lemma colon_hex_hd': "gs \<noteq> [] \<Longrightarrow> colon_hex gs \<noteq> [] \<and> hd (colon_hex gs) \<noteq> CHR '':''"
  using colon_hex_hd [of gs "[]"] by simp

lemma v6_loop_groups:
  assumes "gs \<noteq> []" "\<forall>g \<in> set gs. g < 65536" "length gs \<le> k"
  shows "v6_loop k (colon_hex gs) ip ell = Some ([], ip @ ungroup gs, ell)"
  using assms
proof (induction gs arbitrary: k ip)
  case (Cons g gs)
  then obtain k' where k: "k = Suc k'" by (cases k) auto
  show ?case
  proof (cases "gs = []")
    case True
    with Cons k show ?thesis by (simp add: v6_step_end del: v6_loop.simps)
  next
    case False
    with Cons.prems Cons.IH [of k' "ip @ group_bytes g"] k colon_hex_hd' [OF False] show ?thesis
      by (simp add: colon_hex_Cons v6_step_colon del: v6_loop.simps)
  qed
qed simp

lemma v6_loop_groups_dcolon:
  assumes "gs \<noteq> []" "\<forall>g \<in> set gs. g < 65536" "length gs \<le> k"
  shows "v6_loop k (colon_hex gs @ ''::'' @ s) ip None =
    (if s = [] then Some ([], ip @ ungroup gs, Some (length ip + 2 * length gs))
     else v6_loop (k - length gs) s (ip @ ungroup gs) (Some (length ip + 2 * length gs)))"
  using assms
proof (induction gs arbitrary: k ip)
  case (Cons g gs)
  then obtain k' where k: "k = Suc k'" by (cases k) auto
  show ?case
  proof (cases "gs = []")
    case True
    with Cons k show ?thesis by (simp add: v6_step_dcolon del: v6_loop.simps)
  next
    case False
    with Cons.prems Cons.IH [of k' "ip @ group_bytes g"] k colon_hex_hd [OF False, of "''::'' @ s"]
    show ?thesis by (simp add: colon_hex_Cons v6_step_colon del: v6_loop.simps)
  qed
qed simp

subsection \<open>The longest run of zero groups\<close>

lemma zero_run_zeros: "take (zero_run gs i) (drop i gs) = replicate (zero_run gs i) 0"
proof -
  have "takeWhile (\<lambda>g. g = (0::nat)) xs = replicate (length (takeWhile (\<lambda>g. g = 0) xs)) 0" for xs
    by (rule replicate_eqI) (auto dest: set_takeWhileD)
  then show ?thesis unfolding zero_run_def takeWhile_eq_take [symmetric] .
qed

lemma zero_run_bound: "i \<le> length gs \<Longrightarrow> i + zero_run gs i \<le> length gs"
  unfolding zero_run_def using length_takeWhile_le [of "\<lambda>g. g = 0" "drop i gs"] by simp

lemma best_run_Some:
  assumes "best_run gs = Some (i, n)"
  shows "2 \<le> n \<and> i + n \<le> length gs \<and> gs = take i gs @ replicate n 0 @ drop (i + n) gs"
proof -
  let ?f = "\<lambda>i best. let l = zero_run gs i in
             if 2 \<le> l \<and> l > (case best of None \<Rightarrow> 0 | Some (_, n) \<Rightarrow> n) then Some (i, l) else best"
  let ?inv = "\<lambda>b. case b of None \<Rightarrow> True | Some (j, m) \<Rightarrow> 2 \<le> m \<and> zero_run gs j = m \<and> j < length gs"
  have step: "?inv (?f j b)" if "?inv b" "j < length gs" for j b
    using that by (simp add: Let_def)
  have "?inv (fold ?f js b)" if "?inv b" "\<forall>j \<in> set js. j < length gs" for js b
    using that
  proof (induction js arbitrary: b)
    case (Cons j js)
    have "?inv (?f j b)" using Cons.prems by (intro step) auto
    with Cons.IH [of "?f j b"] Cons.prems(2) show ?case by simp
  qed simp
  from this [of None "[0..<length gs]"] have "?inv (best_run gs)" by (simp add: best_run_def)
  then have n: "2 \<le> n" "n = zero_run gs i" "i < length gs" using assms by auto
  have "take i gs @ replicate n 0 @ drop (i + n) gs = take i gs @ take n (drop i gs) @ drop n (drop i gs)"
    using n(2) zero_run_zeros [of gs i] by (simp only: drop_drop add.commute)
  also have "\<dots> = gs" by (simp only: append_take_drop_id)
  finally have "gs = take i gs @ replicate n 0 @ drop (i + n) gs" by (rule sym)
  moreover have "i + n \<le> length gs" using n zero_run_bound [of i gs] by simp
  ultimately show ?thesis using n(1) by blast
qed

subsection \<open>The round trip\<close>

lemma colon_hex_chars: "c \<in> set (colon_hex gs) \<Longrightarrow> is_hexdigit c \<or> c = CHR '':''"
proof (induction gs)
  case (Cons g gs)
  then show ?case by (cases gs) (auto simp: colon_hex_Cons dest: show_hex_digits)
qed simp

lemma string6_chars: "c \<in> set (string6 ip) \<Longrightarrow> is_hexdigit c \<or> c = CHR '':''"
  by (auto simp: string6_def Let_def dest: colon_hex_chars split: option.splits)

lemma ungroup_zeros: "ungroup (replicate n 0) = replicate (2 * n) 0"
  by (induction n) (auto simp: group_bytes_def)

lemma parse_v6_nozone:
  assumes "CHR ''%'' \<notin> set s"
  shows "parse_v6 s = (if s = ''::'' then Some (Addr6 (replicate 16 0) [])
    else map_option (\<lambda>ip. Addr6 ip [])
      (Option.bind (if take 2 s = ''::'' then v6_loop 8 (drop 2 s) [] (Some 0) else v6_loop 8 s [] None)
        v6_finish))"
proof -
  have "takeWhile (\<lambda>c. c \<noteq> CHR ''%'') s = s" "dropWhile (\<lambda>c. c \<noteq> CHR ''%'') s = []"
    using assms by (auto simp: takeWhile_eq_all_conv dropWhile_eq_Nil_conv)
  then show ?thesis unfolding parse_v6_def by (simp only: Let_def list.sel simp_thms if_False)
qed

text \<open>
  What the parser makes of printed groups: eight of them, or fewer with a gap, which is at the
  start or behind the first groups.
\<close>

lemma parse_v6_groups:
  assumes "length gs = 8" "\<forall>g \<in> set gs. g < 65536" "length (ungroup gs) = 16"
  shows "parse_v6 (colon_hex gs) = Some (Addr6 (ungroup gs) [])"
proof -
  have ne: "gs \<noteq> []" using assms(1) by auto
  have "CHR ''%'' \<notin> set (colon_hex gs)" using colon_hex_chars [of "CHR ''%''" gs] by auto
  note z = parse_v6_nozone [OF this]
  have "v6_loop 8 (colon_hex gs) [] None = Some ([], ungroup gs, None)"
    using v6_loop_groups [OF ne assms(2), of 8 "[]" None] assms(1) by (simp del: v6_loop.simps)
  moreover have "take 2 (colon_hex gs) \<noteq> ''::'' \<and> colon_hex gs \<noteq> ''::''"
    using colon_hex_hd' [OF ne] by (intro no_leading_dcolon) simp
  ultimately show ?thesis using z assms(3) by (simp add: v6_finish_def del: v6_loop.simps)
qed

lemma parse_v6_leading_gap:
  assumes "\<forall>g \<in> set ts. g < 65536" "length ts \<le> 8"
    and "v6_finish ([], ungroup ts, Some 0) = Some ip" "ts = [] \<Longrightarrow> ip = replicate 16 0"
  shows "parse_v6 (''::'' @ colon_hex ts) = Some (Addr6 ip [])"
proof (cases "ts = []")
  case True
  with assms(4) show ?thesis by (simp add: parse_v6_nozone)
next
  case False
  have "CHR ''%'' \<notin> set (''::'' @ colon_hex ts)" using colon_hex_chars [of "CHR ''%''" ts] by auto
  note z = parse_v6_nozone [OF this]
  have "v6_loop 8 (colon_hex ts) [] (Some 0) = Some ([], ungroup ts, Some 0)"
    using v6_loop_groups [OF False assms(1), of 8 "[]" "Some 0"] assms(2) by (simp del: v6_loop.simps)
  then show ?thesis using z assms(3) colon_hex_hd' [OF False] by (simp del: v6_loop.simps)
qed

lemma parse_v6_inner_gap:
  assumes "hs \<noteq> []" "\<forall>g \<in> set hs. g < 65536" "\<forall>g \<in> set ts. g < 65536" "length hs + length ts \<le> 8"
    and "v6_finish ([], ungroup hs @ ungroup ts, Some (2 * length hs)) = Some ip"
  shows "parse_v6 (colon_hex hs @ ''::'' @ colon_hex ts) = Some (Addr6 ip [])"
proof -
  let ?s = "colon_hex hs @ ''::'' @ colon_hex ts"
  have "CHR ''%'' \<notin> set ?s" using colon_hex_chars [of "CHR ''%''" hs] colon_hex_chars [of "CHR ''%''" ts] by auto
  note z = parse_v6_nozone [OF this]
  have "v6_loop 8 ?s [] None = Some ([], ungroup hs @ ungroup ts, Some (2 * length hs))"
  proof (cases "ts = []")
    case True
    then show ?thesis using v6_loop_groups_dcolon [OF assms(1,2), of 8 "[]" "[]"] assms(4) by (simp del: v6_loop.simps)
  next
    case False
    then show ?thesis
      using v6_loop_groups_dcolon [OF assms(1,2), of 8 "colon_hex ts" "[]"] colon_hex_hd' [OF False] assms(4)
        v6_loop_groups [OF False assms(3), of "8 - length hs" "ungroup hs" "Some (2 * length hs)"]
      by (simp del: v6_loop.simps)
  qed
  moreover have "take 2 ?s \<noteq> ''::'' \<and> ?s \<noteq> ''::''"
    using colon_hex_hd [OF assms(1), of "''::'' @ colon_hex ts"] by (intro no_leading_dcolon) simp
  ultimately show ?thesis using z assms(5) by (simp del: v6_loop.simps)
qed

lemma parse_v6_string6:
  assumes ip: "length ip = 16"
  shows "parse_v6 (string6 ip) = Some (Addr6 ip [])"
proof -
  define gs where "gs = groups16 ip"
  have gs: "length gs = 8" "\<forall>g \<in> set gs. g < 65536" "ungroup gs = ip"
    using ip by (auto simp: gs_def length_groups16 ungroup_groups16 groups16_lt)
  show ?thesis
  proof (cases "best_run gs")
    case None
    then have "string6 ip = colon_hex gs" by (simp add: string6_def gs_def)
    with parse_v6_groups [OF gs(1,2)] gs(3) ip show ?thesis by simp
  next
    case (Some r)
    then obtain i n where r: "best_run gs = Some (i, n)" by (cases r) auto
    note run = best_run_Some [OF r]
    let ?hd = "take i gs" and ?tl = "drop (i + n) gs"
    have s: "string6 ip = colon_hex ?hd @ ''::'' @ colon_hex ?tl" using r by (simp add: string6_def gs_def Let_def)
    have lt: "\<forall>g \<in> set ?hd. g < 65536" "\<forall>g \<in> set ?tl. g < 65536"
      using gs(2) by (auto dest: in_set_takeD in_set_dropD)
    have len: "length ?hd = i" "length ?tl = 8 - (i + n)" using run gs(1) by auto
    have "ungroup gs = ungroup (?hd @ replicate n 0 @ ?tl)" using run by simp
    then have ip: "ip = ungroup ?hd @ replicate (2 * n) 0 @ ungroup ?tl"
      using gs(3) by (simp only: ungroup_simps ungroup_zeros)
    have "16 - (2 * i + 2 * (8 - (i + n))) = 2 * n" "2 * i + 2 * (8 - (i + n)) < 16" using run gs(1) by auto
    then have fin: "v6_finish ([], ungroup ?hd @ ungroup ?tl, Some (2 * i)) = Some ip"
      using ip len by (simp add: v6_finish_def)
    show ?thesis
    proof (cases "i = 0")
      case True
      have "?tl = [] \<Longrightarrow> ip = replicate 16 0" using ip True run gs(1) by simp
      with parse_v6_leading_gap [OF lt(2)] len fin s True show ?thesis by simp
    next
      case False
      then have "?hd \<noteq> []" using len by auto
      moreover have "length ?hd + length ?tl \<le> 8" "v6_finish ([], ungroup ?hd @ ungroup ?tl, Some (2 * length ?hd)) = Some ip"
        using len run gs(1) fin by simp_all
      ultimately show ?thesis unfolding s using lt by (intro parse_v6_inner_gap)
    qed
  qed
qed

lemma string6_has_colon:
  assumes "length ip = 16"
  shows "CHR '':'' \<in> set (string6 ip)"
proof (cases "best_run (groups16 ip)")
  case None
  obtain g gs where g: "groups16 ip = g # gs" "gs \<noteq> []"
    using assms length_groups16 [of ip] by (cases "groups16 ip"; cases "tl (groups16 ip)") auto
  with None show ?thesis by (simp add: string6_def colon_hex_Cons)
qed (auto simp: string6_def Let_def)

lemma ParseAddr_string6 [net_simps]:
  assumes "length ip = 16"
  shows "netip_ParseAddr (string6 ip) = Some (Addr6 ip [])"
proof -
  let ?P = "\<lambda>c. c \<noteq> CHR ''.'' \<and> c \<noteq> CHR '':'' \<and> c \<noteq> CHR ''%''"
  have "dropWhile ?P (string6 ip) \<noteq> []"
    using string6_has_colon [OF assms] by (auto simp: dropWhile_eq_Nil_conv)
  then obtain c cs where c: "dropWhile ?P (string6 ip) = c # cs" by (cases "dropWhile ?P (string6 ip)") auto
  then have "\<not> ?P c" "c \<in> set (string6 ip)"
    by (auto simp: dropWhile_eq_Cons_conv dest: arg_cong [where f = set])
  then have "c = CHR '':''" using string6_chars [of c ip] by auto
  with c have "netip_ParseAddr (string6 ip) = parse_v6 (string6 ip)"
    by (simp add: netip_ParseAddr_def)
  with parse_v6_string6 [OF assms] show ?thesis by simp
qed

end
