(* ===== verification/NetDev.thy ===== *)
theory NetDev
  imports NetText6
begin

section \<open>Network interfaces: internal/network\<close>

text \<open>
  The state is the world \<open>'w\<close> that the kernel keeps (interfaces, addresses, routes); it is
  reached through \<open>net.Interfaces\<close>, the netlink package, the ping package and files under
  \<open>/sys/class/net\<close>. Those are parameters, the fields of the record \<open>netlink\<close>: each takes the
  world and gives the new one, with the error Go would return. The type \<open>'a\<close> is
  \<open>netlink.Addr\<close>, which the program only hands on. Logging is left out.

  A callback of \<open>ForEachInterface\<close> may assign variables of the function around it; its state
  is therefore the world together with those variables, \<open>'w \<times> 'l\<close>.
\<close>

subsection \<open>Interfaces\<close>

type_synonym flags = "64 word"

definition FlagUp :: flags where "FlagUp = 1"
definition FlagLoopback :: flags where "FlagLoopback = 4"

datatype operstate = OperUnknown | OperNotPresent | OperDown | OperLowerLayerDown | OperTesting | OperDormant | OperUp

record link =
  Name :: string
  HardwareAddr :: bytes
  Index :: int
  Flags :: flags
  RawFlags :: "32 word"

record route =
  LinkIndex :: int
  Gw :: "ip option"
  Priority :: int

record ('w, 'a) netlink =
  net_Interfaces :: "'w \<Rightarrow> goerror + (string \<times> flags) list"
  LinkByName :: "'w \<Rightarrow> string \<Rightarrow> goerror + link"
  LinkSetUp :: "link \<Rightarrow> 'w \<Rightarrow> 'w \<times> goerror option"
  LinkSetDown :: "link \<Rightarrow> 'w \<Rightarrow> 'w \<times> goerror option"
  AddrList :: "'w \<Rightarrow> link \<Rightarrow> goerror + 'a list"
  AddrAdd :: "link \<Rightarrow> 'a \<Rightarrow> 'w \<Rightarrow> 'w \<times> goerror option"
  AddrDel :: "link \<Rightarrow> 'a \<Rightarrow> 'w \<Rightarrow> 'w \<times> goerror option"
  RouteAdd :: "route \<Rightarrow> 'w \<Rightarrow> 'w \<times> goerror option"
  netlink_ParseAddr :: "string \<Rightarrow> goerror + 'a"
  LinkSubscribe :: "'w \<Rightarrow> goerror option"
  next_event :: "int \<Rightarrow> 'w \<Rightarrow> 'w \<times> (string \<times> operstate) option"
  ping_New :: "string \<Rightarrow> 'w \<Rightarrow> goerror option"
  ping_Run :: "string \<Rightarrow> nat \<Rightarrow> 'w \<Rightarrow> 'w \<times> (goerror + nat)"
  read_file :: "'w \<Rightarrow> string \<Rightarrow> goerror + bytes"

text \<open>\<open>net.HardwareAddr.String\<close>: hexadecimal bytes separated by colons.\<close>

definition hwaddr_String :: "bytes \<Rightarrow> string" where
  "hwaddr_String a = strings_Join (map hex_byte a) '':''"

lemma Join_eq_Nil_iff: "strings_Join ws sep = [] \<longleftrightarrow> ws = [] \<or> ws = [[]] \<or> (\<forall>w \<in> set ws. w = []) \<and> sep = []"
  by (induction ws sep rule: strings_Join.induct) auto

lemma hwaddr_String_empty [simp]: "hwaddr_String a = [] \<longleftrightarrow> a = []"
  by (auto simp: hwaddr_String_def Join_eq_Nil_iff hex_byte_def)

text \<open>The loop of \<open>ForEachInterface\<close>; loopback interfaces are skipped.\<close>

type_synonym ('w, 'l) callback = "link \<Rightarrow> 'w \<times> 'l \<Rightarrow> ('w \<times> 'l) \<times> goerror option"

fun each_interface :: "('w, 'a) netlink \<Rightarrow> ('w, 'l) callback \<Rightarrow> (string \<times> flags) list
    \<Rightarrow> 'w \<times> 'l \<Rightarrow> ('w \<times> 'l) \<times> goerror option" where
  "each_interface N f [] s = (s, None)"
| "each_interface N f ((name, fl) # is) s =
     (if fl AND FlagLoopback \<noteq> 0 then each_interface N f is s
      else (case LinkByName N (fst s) name of
          Inl e \<Rightarrow> (s, Some e)
        | Inr link \<Rightarrow> (case f link s of
              (s', Some e) \<Rightarrow> (s', Some e)
            | (s', None) \<Rightarrow> each_interface N f is s')))"

definition ForEachInterface :: "('w, 'a) netlink \<Rightarrow> ('w, 'l) callback
    \<Rightarrow> 'w \<times> 'l \<Rightarrow> ('w \<times> 'l) \<times> goerror option" where
  "ForEachInterface N f s =
     (case net_Interfaces N (fst s) of
        Inl e \<Rightarrow> (s, Some (Wrapf ''failed accessing interfaces'' e))
      | Inr is \<Rightarrow> each_interface N f is s)"

subsection \<open>What a callback must keep\<close>

text \<open>
  The interface between \<open>ForEachInterface\<close> and its callbacks: an invariant of the callback's
  state that the visit of a link the kernel returned keeps is kept by the whole loop,
  whatever else the kernel answers.
\<close>

locale visitor =
  fixes N :: "('w, 'a) netlink"
    and visit :: "('w, 'l) callback"
    and inv :: "'w \<times> 'l \<Rightarrow> bool"
  assumes visit_inv: "LinkByName N (fst s) name = Inr link \<Longrightarrow> inv s \<Longrightarrow> inv (fst (visit link s))"
begin

lemma each_interface_inv: "inv s \<Longrightarrow> inv (fst (each_interface N visit is s))"
proof (induction "is" arbitrary: s)
  case Nil
  then show ?case by simp
next
  case (Cons i "is")
  obtain name fl where i: "i = (name, fl)" by (cases i)
  show ?case
  proof (cases "LinkByName N (fst s) name")
    case (Inl e)
    with Cons i show ?thesis by simp
  next
    case (Inr link)
    then have "inv (fst (visit link s))" using Cons.prems by (rule visit_inv)
    with Cons i Inr show ?thesis by (auto split: prod.split option.split)
  qed
qed

lemma ForEachInterface_inv: "inv s \<Longrightarrow> inv (fst (ForEachInterface N visit s))"
  by (auto simp: ForEachInterface_def each_interface_inv split: sum.split)

end

text \<open>
  A callback that only looks: it never fails and leaves the world alone. On a kernel that
  answers, the loop is then a fold over the links of the interfaces that are not loopback.
\<close>

definition looked_up :: "('w, 'a) netlink \<Rightarrow> 'w \<Rightarrow> (string \<times> flags) list \<Rightarrow> (goerror + link) list" where
  "looked_up N w is = map (\<lambda>i. LinkByName N w (fst i)) (filter (\<lambda>i. snd i AND FlagLoopback = 0) is)"

locale observer = visitor N visit inv
  for N :: "('w, 'a) netlink" and visit :: "('w, 'l) callback" and inv :: "'w \<times> 'l \<Rightarrow> bool" +
  fixes note_link :: "link \<Rightarrow> 'l \<Rightarrow> 'l"
  assumes visit_eq: "visit link s = ((fst s, note_link link (snd s)), None)"
begin

lemma each_interface_fold:
  "looked_up N w is = map Inr links \<Longrightarrow> each_interface N visit is (w, l) = ((w, fold note_link links l), None)"
proof (induction "is" arbitrary: l links)
  case (Cons i "is")
  obtain name fl where i: "i = (name, fl)" by (cases i)
  show ?case
  proof (cases "fl AND FlagLoopback = 0")
    case True
    with Cons.prems i obtain link ls where
      "links = link # ls" "LinkByName N w name = Inr link" "looked_up N w is = map Inr ls"
      by (cases links) (auto simp: looked_up_def)
    with Cons.IH i True show ?thesis by (simp add: visit_eq)
  next
    case False
    with Cons.prems i have "looked_up N w is = map Inr links" by (simp add: looked_up_def)
    with Cons.IH i False show ?thesis by simp
  qed
qed (simp add: looked_up_def)

lemma ForEachInterface_fold:
  assumes "net_Interfaces N w = Inr is" "looked_up N w is = map Inr links"
  shows "ForEachInterface N visit (w, l) = ((w, fold note_link links l), None)"
  using assms by (simp add: ForEachInterface_def each_interface_fold)

lemma each_interface_world: "fst (fst (each_interface N visit is s)) = fst s"
  by (induction "is" arbitrary: s) (auto simp: visit_eq split: sum.split)

lemma ForEachInterface_world: "fst (fst (ForEachInterface N visit s)) = fst s"
  by (auto simp: ForEachInterface_def each_interface_world split: sum.split)

end

subsection \<open>Names and hardware addresses\<close>

definition name_visit :: "bytes \<Rightarrow> ('w, string) callback" where
  "name_visit mac link s =
     ((fst s, if hwaddr_String (HardwareAddr link) = hwaddr_String mac then Name link else snd s), None)"

definition GetInterfaceName :: "('w, 'a) netlink \<Rightarrow> bytes \<Rightarrow> 'w \<Rightarrow> string" where
  "GetInterfaceName N mac w = snd (fst (ForEachInterface N (name_visit mac) (w, [])))"

definition hwaddr_visit :: "string \<Rightarrow> ('w, bytes option) callback" where
  "hwaddr_visit name link s =
     ((fst s, if Name link = name then Some (HardwareAddr link) else snd s), None)"

definition GetHardwareAddr :: "('w, 'a) netlink \<Rightarrow> string \<Rightarrow> 'w \<Rightarrow> bytes option" where
  "GetHardwareAddr N name w = snd (fst (ForEachInterface N (hwaddr_visit name) (w, None)))"

subsection \<open>Resetting\<close>

fun delete_addrs :: "('w, 'a) netlink \<Rightarrow> link \<Rightarrow> 'a list \<Rightarrow> 'w \<Rightarrow> 'w \<times> goerror option" where
  "delete_addrs N link [] w = (w, None)"
| "delete_addrs N link (a # as) w =
     (case AddrDel N link a w of
        (w', Some e) \<Rightarrow> (w', Some (Wrapf (Name link @ '': failed resetting address'') e))
      | (w', None) \<Rightarrow> delete_addrs N link as w')"

definition reset_visit :: "('w, 'a) netlink \<Rightarrow> ('w, unit) callback" where
  "reset_visit N link s =
     (case AddrList N (fst s) link of
        Inl e \<Rightarrow> (s, Some (Wrapf (Name link @ '': failed accessing address'') e))
      | Inr addrs \<Rightarrow>
          (case delete_addrs N link addrs (fst s) of
             (w', Some e) \<Rightarrow> ((w', ()), Some e)
           | (w', None) \<Rightarrow>
               (case LinkSetDown N link w' of
                  (w'', Some e) \<Rightarrow> ((w'', ()), Some (Wrapf (Name link @ '': set link down'') e))
                | (w'', None) \<Rightarrow> ((w'', ()), None))))"

definition ResetInterfaces :: "('w, 'a) netlink \<Rightarrow> 'w \<Rightarrow> 'w \<times> goerror option" where
  "ResetInterfaces N w = (case ForEachInterface N (reset_visit N) (w, ()) of (s, e) \<Rightarrow> (fst s, e))"

subsection \<open>Speeds\<close>

type_synonym int64 = "64 word"

record linkSpeed =
  str :: string
  bitsPerSecond :: int64

definition speedToStr :: "int \<Rightarrow> string" where
  "speedToStr speed =
     (if speed = 10 then ''10Mbps''
      else if speed = 100 then ''100Mbps''
      else if speed = 1000 then ''1Gbps''
      else if speed = 2500 then ''2.5Gbps''
      else if speed = 5000 then ''5Gbps''
      else if speed = 10000 then ''10Gbps''
      else if speed = 14000 then ''14Gbps''
      else if speed = 20000 then ''20Gbps''
      else if speed = 25000 then ''25Gbps''
      else if speed = 40000 then ''40Gbps''
      else if speed = 50000 then ''50Gbps''
      else if speed = 56000 then ''56Gbps''
      else if speed = 100000 then ''100Gbps''
      else if speed = -1 then ''Unknown''
      else ''Unknown '' @ show_int speed @ '' Mbps (update stprov)'')"

text \<open>\<open>strconv.ParseInt(s, 10, 64)\<close>: an optional sign, then digits, in the range of \<open>int64\<close>.\<close>

definition ParseInt10 :: "string \<Rightarrow> int option" where
  "ParseInt10 s =
     (let (neg, ds) = (case s of [] \<Rightarrow> (False, s)
          | c # cs \<Rightarrow> if c = CHR ''-'' then (True, cs) else if c = CHR ''+'' then (False, cs) else (False, s));
          v = (if neg then - int (dec_val ds) else int (dec_val ds)) in
      if ds = [] \<or> \<not> list_all is_digit ds then None
      else if v < - 9223372036854775808 \<or> 9223372036854775807 < v then None
      else Some v)"

definition GetDeviceSpeed :: "('w, 'a) netlink \<Rightarrow> string \<Rightarrow> 'w \<Rightarrow> linkSpeed" where
  "GetDeviceSpeed N device w =
     (case read_file N w (''/sys/class/net/'' @ device @ ''/speed'') of
        Inl e \<Rightarrow> \<lparr>str = ''Unknown'', bitsPerSecond = -1\<rparr>
      | Inr b \<Rightarrow>
          (let s = strings_TrimSpace (bytes_str b) in
           case ParseInt10 s of
             None \<Rightarrow> \<lparr>str = ''Unknown ('' @ quote s @ '')'', bitsPerSecond = -1\<rparr>
           | Some i \<Rightarrow> \<lparr>str = speedToStr i, bitsPerSecond = 1000000 * of_int i\<rparr>))"

definition GetDeviceDuplex :: "('w, 'a) netlink \<Rightarrow> string \<Rightarrow> 'w \<Rightarrow> string" where
  "GetDeviceDuplex N device w =
     (case read_file N w (''/sys/class/net/'' @ device @ ''/duplex'') of
        Inl e \<Rightarrow> ''unknown''
      | Inr b \<Rightarrow> strings_TrimSpace (bytes_str b))"

text \<open>\<open>slices.SortStableFunc\<close>: a stable insertion sort; any stable sort gives the same list.\<close>

fun insert_stable :: "('b \<Rightarrow> 'b \<Rightarrow> int) \<Rightarrow> 'b \<Rightarrow> 'b list \<Rightarrow> 'b list" where
  "insert_stable cmp x [] = [x]"
| "insert_stable cmp x (y # ys) = (if cmp x y \<le> 0 then x # y # ys else y # insert_stable cmp x ys)"

fun SortStableFunc :: "('b \<Rightarrow> 'b \<Rightarrow> int) \<Rightarrow> 'b list \<Rightarrow> 'b list" where
  "SortStableFunc cmp [] = []"
| "SortStableFunc cmp (x # xs) = insert_stable cmp x (SortStableFunc cmp xs)"

type_synonym linkWithSpeed = "link \<times> int64"

definition speed_cmp :: "linkWithSpeed \<Rightarrow> linkWithSpeed \<Rightarrow> int" where
  "speed_cmp a b =
     (if sint (snd a) > sint (snd b) then -1 else if sint (snd a) < sint (snd b) then 1 else 0)"

definition linksByDescendingSpeed :: "linkWithSpeed list \<Rightarrow> link list" where
  "linksByDescendingSpeed devices = map fst (SortStableFunc speed_cmp devices)"

subsection \<open>Waiting, pinging and testing\<close>

text \<open>
  A context is modelled by the time it has left, in nanoseconds; \<open>ctx.Err()\<close> is not \<open>nil\<close> when
  none is left. \<open>WaitForDeviceEvent\<close> returns on the first event or when the context ends;
  \<open>next_event\<close> gives the event, or \<open>None\<close> when the time is over before one comes.
\<close>

definition ctx_Err :: "int \<Rightarrow> goerror option" where
  "ctx_Err left = (if left \<le> 0 then Some (External ''context deadline exceeded'') else None)"

definition WaitForDeviceEvent :: "('w, 'a) netlink \<Rightarrow> int \<Rightarrow> string \<Rightarrow> operstate
    \<Rightarrow> 'w \<Rightarrow> 'w \<times> goerror option" where
  "WaitForDeviceEvent N left iface state w =
     (case ctx_Err left of Some e \<Rightarrow> (w, Some e)
      | None \<Rightarrow>
        (case LinkSubscribe N w of
           Some e \<Rightarrow> (w, Some (Wrapf ''linksubscribe failed'' e))
         | None \<Rightarrow>
             (case next_event N left w of
                (w', None) \<Rightarrow> (w', Some (Errorf ''context cancelled''))
              | (w', Some (name, st)) \<Rightarrow>
                  if name = iface \<and> st = state then (w', None) else (w', None))))"

definition testGateway :: "('w, 'a) netlink \<Rightarrow> ip option \<Rightarrow> 'w \<Rightarrow> 'w \<times> goerror option" where
  "testGateway N gw w =
     (let s = (case gw of None \<Rightarrow> ''<nil>'' | Some ip \<Rightarrow> IP_String ip) in
      case ping_New N s w of
        Some e \<Rightarrow> (w, Some e)
      | None \<Rightarrow>
          (case ping_Run N s 3 w of
             (w', Inl e) \<Rightarrow> (w', Some e)
           | (w', Inr received) \<Rightarrow>
               (if received = 0 then (w', Some (Errorf (''couldn't ping gateway address '' @ s)))
                else (w', None))))"

definition confLink :: "('w, 'a) netlink \<Rightarrow> link \<Rightarrow> ip option \<Rightarrow> 'a \<Rightarrow> 'w \<Rightarrow> 'w \<times> goerror option" where
  "confLink N link gw addr w =
     (case AddrAdd N link addr w of
        (w1, Some e) \<Rightarrow> (w1, Some (Wrapf ''failed addradd'' e))
      | (w1, None) \<Rightarrow>
          (case LinkSetUp N link w1 of
             (w2, Some e) \<Rightarrow> (w2, Some (Wrapf ''failed linksetup'' e))
           | (w2, None) \<Rightarrow>
               (case RouteAdd N \<lparr>LinkIndex = Index link, Gw = gw, Priority = 100\<rparr> w2 of
                  (w3, Some e) \<Rightarrow> (w3, Some (Wrapf ''failed routeadd'' e))
                | (w3, None) \<Rightarrow> (w3, None))))"

definition hasAddrs :: "('w, 'a) netlink \<Rightarrow> link \<Rightarrow> 'w \<Rightarrow> bool" where
  "hasAddrs N link w = (case AddrList N w link of Inl e \<Rightarrow> False | Inr addrs \<Rightarrow> addrs \<noteq> [])"

definition test_visit :: "('w, 'a) netlink \<Rightarrow> ip option \<Rightarrow> 'a \<Rightarrow> int \<Rightarrow> ('w, linkWithSpeed list) callback" where
  "test_visit N gw addr wait link s =
     (if strings_HasPrefix (Name link) ''bond'' then (s, None)
      else if hasAddrs N link (fst s) then (s, None)
      else (case confLink N link gw addr (fst s) of
          (w1, Some e) \<Rightarrow> ((w1, snd s), Some (Wrapf (''failed to configure link '' @ Name link) e))
        | (w1, None) \<Rightarrow>
            (let w2 = fst (WaitForDeviceEvent N wait (Name link) OperUp w1) in
             case testGateway N gw w2 of
               (w3, Some e) \<Rightarrow> ((fst (ResetInterfaces N w3), snd s), None)
             | (w3, None) \<Rightarrow>
                 ((fst (ResetInterfaces N w3),
                   snd s @ [(link, bitsPerSecond (GetDeviceSpeed N (Name link) w3))]), None))))"

definition TestInterfaces :: "('w, 'a) netlink \<Rightarrow> string \<Rightarrow> string \<Rightarrow> int \<Rightarrow> 'w \<Rightarrow> 'w \<times> (goerror + link list)" where
  "TestInterfaces N gw addr interfaceWait w =
     (case netlink_ParseAddr N addr of
        Inl e \<Rightarrow> (w, Inl e)
      | Inr addrIP \<Rightarrow>
          (case ForEachInterface N (test_visit N (ParseIP gw) addrIP interfaceWait) (w, []) of
             ((w', tested), err) \<Rightarrow> (w', Inr (linksByDescendingSpeed tested))))"

subsection \<open>The two look-ups are observers\<close>

text \<open>The name found belongs to a link with the address, the address to a link with the name.\<close>

definition name_inv :: "('w, 'a) netlink \<Rightarrow> bytes \<Rightarrow> 'w \<Rightarrow> 'w \<times> string \<Rightarrow> bool" where
  "name_inv N mac w s \<longleftrightarrow> fst s = w \<and> (snd s = [] \<or>
     (\<exists>name link. LinkByName N w name = Inr link \<and> Name link = snd s
        \<and> hwaddr_String (HardwareAddr link) = hwaddr_String mac))"

interpretation names: observer N "name_visit mac" "name_inv N mac w"
    "\<lambda>link r. if hwaddr_String (HardwareAddr link) = hwaddr_String mac then Name link else r"
  for N :: "('w, 'a) netlink" and mac w
  by unfold_locales (auto simp: name_visit_def name_inv_def)

definition hwaddr_inv :: "('w, 'a) netlink \<Rightarrow> string \<Rightarrow> 'w \<Rightarrow> 'w \<times> bytes option \<Rightarrow> bool" where
  "hwaddr_inv N dev w s \<longleftrightarrow> fst s = w \<and> (\<forall>mac. snd s = Some mac \<longrightarrow>
     (\<exists>name link. LinkByName N w name = Inr link \<and> Name link = dev \<and> HardwareAddr link = mac))"

interpretation addresses: observer N "hwaddr_visit dev" "hwaddr_inv N dev w"
    "\<lambda>link r. if Name link = dev then Some (HardwareAddr link) else r"
  for N :: "('w, 'a) netlink" and dev w
  by unfold_locales (auto simp: hwaddr_visit_def hwaddr_inv_def)

lemma GetInterfaceName_sound:
  "GetInterfaceName N mac w = name \<Longrightarrow> name \<noteq> [] \<Longrightarrow>
     \<exists>n link. LinkByName N w n = Inr link \<and> Name link = name \<and> hwaddr_String (HardwareAddr link) = hwaddr_String mac"
  using names.ForEachInterface_inv [of N mac w "(w, [])"]
  by (auto simp: GetInterfaceName_def name_inv_def)

lemma GetHardwareAddr_sound:
  "GetHardwareAddr N dev w = Some mac \<Longrightarrow>
     \<exists>n link. LinkByName N w n = Inr link \<and> Name link = dev \<and> HardwareAddr link = mac"
  using addresses.ForEachInterface_inv [of N dev w "(w, None)"]
  by (auto simp: GetHardwareAddr_def hwaddr_inv_def)

text \<open>On a kernel that answers, the last matching link wins.\<close>

lemma fold_last_match:
  "fold (\<lambda>x r. if P x then f x else r) xs r = (case filter P (rev xs) of [] \<Rightarrow> r | x # _ \<Rightarrow> f x)"
  by (induction xs arbitrary: r rule: rev_induct) auto

lemma GetInterfaceName_last:
  assumes "net_Interfaces N w = Inr is" "looked_up N w is = map Inr links"
  shows "GetInterfaceName N mac w =
    (case filter (\<lambda>l. hwaddr_String (HardwareAddr l) = hwaddr_String mac) (rev links) of
       [] \<Rightarrow> [] | l # _ \<Rightarrow> Name l)"
  using names.ForEachInterface_fold [OF assms, of mac "[]"]
  by (simp add: GetInterfaceName_def fold_last_match)

lemma GetHardwareAddr_last:
  assumes "net_Interfaces N w = Inr is" "looked_up N w is = map Inr links"
  shows "GetHardwareAddr N dev w =
    (case filter (\<lambda>l. Name l = dev) (rev links) of [] \<Rightarrow> None | l # _ \<Rightarrow> Some (HardwareAddr l))"
  using addresses.ForEachInterface_fold [OF assms, of dev None]
  by (simp add: GetHardwareAddr_def fold_last_match)

subsection \<open>The sort by speed\<close>

lemma insert_stable_speed: "insert_stable speed_cmp x xs = insort_key (\<lambda>d. - sint (snd d)) x xs"
  by (induction xs) (auto simp: speed_cmp_def)

lemma SortStableFunc_speed: "SortStableFunc speed_cmp xs = sort_key (\<lambda>d. - sint (snd d)) xs"
  by (induction xs) (auto simp: insert_stable_speed sort_key_def)

lemma links_sorted: "sorted_wrt (\<lambda>a b. sint (snd a) \<ge> sint (snd b)) (SortStableFunc speed_cmp devices)"
  using sorted_sort_key [of "\<lambda>d. - sint (snd d)" devices]
  by (simp add: SortStableFunc_speed sorted_map)

lemma links_stable: "filter (\<lambda>d. snd d = v) (SortStableFunc speed_cmp devices) = filter (\<lambda>d. snd d = v) devices"
proof -
  have eq: "(\<lambda>d :: linkWithSpeed. snd d = v) = (\<lambda>d. - sint (snd d) = - sint v)"
    by (auto simp: fun_eq_iff signed_word_eqI)
  show ?thesis unfolding eq SortStableFunc_speed by (rule sort_key_stable)
qed

lemma set_linksByDescendingSpeed [simp]: "set (linksByDescendingSpeed devices) = fst ` set devices"
  by (simp add: linksByDescendingSpeed_def SortStableFunc_speed)

subsection \<open>Resetting and testing\<close>

text \<open>
  A reset that succeeds has asked the kernel, for every interface it walked and in this
  order, to delete each address it listed and then to set the link down.
\<close>

lemma delete_addrs_ok:
  "delete_addrs N link as w = (w', None) \<Longrightarrow> w' = fold (\<lambda>a w. fst (AddrDel N link a w)) as w"
  by (induction as arbitrary: w) (auto split: prod.splits option.splits)

text \<open>
  The states of a run of \<open>TestInterfaces\<close>: each step visits a link that the kernel returned
  in the state of the step.
\<close>

definition visit_step :: "('w, 'a) netlink \<Rightarrow> ip option \<Rightarrow> 'a \<Rightarrow> int
    \<Rightarrow> 'w \<times> linkWithSpeed list \<Rightarrow> 'w \<times> linkWithSpeed list \<Rightarrow> bool" where
  "visit_step N gw addr wait s s' \<longleftrightarrow>
     (\<exists>name link. LinkByName N (fst s) name = Inr link \<and> s' = fst (test_visit N gw addr wait link s))"

text \<open>
  What is known of a link that a run from \<open>s0\<close> to \<open>s\<close> keeps, with its speed. When it was
  visited, in a state \<open>s1\<close> of the run, it was no bond and had no address; then the address,
  the link and the route to the gateway were set one after the other, the event of the link
  was awaited, the gateway answered one ping of three at least, the speed was read, the
  interfaces were reset, and the run went on to \<open>s\<close>.
\<close>

definition tested_ok :: "('w, 'a) netlink \<Rightarrow> ip option \<Rightarrow> 'a \<Rightarrow> int \<Rightarrow> 'w \<times> linkWithSpeed list
    \<Rightarrow> 'w \<times> linkWithSpeed list \<Rightarrow> linkWithSpeed \<Rightarrow> bool" where
  "tested_ok N gw addr wait s0 s d \<longleftrightarrow> \<not> strings_HasPrefix (Name (fst d)) ''bond''
     \<and> (\<exists>s1 name wa wb w1 w2 w3 gws n. (visit_step N gw addr wait)\<^sup>*\<^sup>* s0 s1
          \<and> LinkByName N (fst s1) name = Inr (fst d) \<and> \<not> hasAddrs N (fst d) (fst s1)
          \<and> AddrAdd N (fst d) addr (fst s1) = (wa, None) \<and> LinkSetUp N (fst d) wa = (wb, None)
          \<and> RouteAdd N \<lparr>LinkIndex = Index (fst d), Gw = gw, Priority = 100\<rparr> wb = (w1, None)
          \<and> w2 = fst (WaitForDeviceEvent N wait (Name (fst d)) OperUp w1)
          \<and> gws = (case gw of None \<Rightarrow> ''<nil>'' | Some ip \<Rightarrow> IP_String ip)
          \<and> ping_New N gws w2 = None \<and> ping_Run N gws 3 w2 = (w3, Inr n) \<and> 0 < n
          \<and> snd d = bitsPerSecond (GetDeviceSpeed N (Name (fst d)) w3)
          \<and> (visit_step N gw addr wait)\<^sup>*\<^sup>* (fst (ResetInterfaces N w3), snd s1 @ [d]) s)"

lemma confLink_ok:
  "confLink N link gw addr w = (w', None) \<Longrightarrow> \<exists>wa wb. AddrAdd N link addr w = (wa, None) \<and> LinkSetUp N link wa = (wb, None)
     \<and> RouteAdd N \<lparr>LinkIndex = Index link, Gw = gw, Priority = 100\<rparr> wb = (w', None)"
  by (auto simp: confLink_def split: prod.splits option.splits)

lemma testGateway_ok:
  "testGateway N gw w = (w', None) \<Longrightarrow> \<exists>n. ping_New N (case gw of None \<Rightarrow> ''<nil>'' | Some ip \<Rightarrow> IP_String ip) w = None
     \<and> ping_Run N (case gw of None \<Rightarrow> ''<nil>'' | Some ip \<Rightarrow> IP_String ip) 3 w = (w', Inr n) \<and> 0 < n"
  by (auto simp: testGateway_def Let_def split: prod.splits option.splits sum.splits if_splits)

lemma tested_ok_step:
  "tested_ok N gw addr wait s0 s d \<Longrightarrow> visit_step N gw addr wait s s' \<Longrightarrow> tested_ok N gw addr wait s0 s' d"
  unfolding tested_ok_def by (blast intro: rtranclp.rtrancl_into_rtrancl)

lemma tested_okI:
  assumes "\<not> strings_HasPrefix (Name link) ''bond''" "(visit_step N gw addr wait)\<^sup>*\<^sup>* s0 s" "LinkByName N (fst s) name = Inr link"
    "\<not> hasAddrs N link (fst s)" "confLink N link gw addr (fst s) = (w1, None)"
    "testGateway N gw (fst (WaitForDeviceEvent N wait (Name link) OperUp w1)) = (w3, None)"
  defines "d \<equiv> (link, bitsPerSecond (GetDeviceSpeed N (Name link) w3))"
  shows "tested_ok N gw addr wait s0 (fst (ResetInterfaces N w3), snd s @ [d]) d"
proof -
  have d: "fst d = link" "snd d = bitsPerSecond (GetDeviceSpeed N (Name link) w3)" by (simp_all add: d_def)
  obtain wa wb where k: "AddrAdd N link addr (fst s) = (wa, None)" "LinkSetUp N link wa = (wb, None)"
    "RouteAdd N \<lparr>LinkIndex = Index link, Gw = gw, Priority = 100\<rparr> wb = (w1, None)"
    using confLink_ok [OF assms(5)] by (elim exE conjE)
  obtain n where p: "ping_New N (case gw of None \<Rightarrow> ''<nil>'' | Some ip \<Rightarrow> IP_String ip)
      (fst (WaitForDeviceEvent N wait (Name link) OperUp w1)) = None"
    "ping_Run N (case gw of None \<Rightarrow> ''<nil>'' | Some ip \<Rightarrow> IP_String ip) 3
      (fst (WaitForDeviceEvent N wait (Name link) OperUp w1)) = (w3, Inr n)" "0 < n"
    using testGateway_ok [OF assms(6)] by (elim exE conjE)
  show ?thesis unfolding tested_ok_def d
    by (intro conjI exI) (rule assms(1-4) k p refl rtranclp.rtrancl_refl)+
qed

text \<open>A visit adds nothing to the list, or the link with what is known of it.\<close>

lemma test_visit_result:
  assumes "test_visit N gw addr wait link s = (s', e)"
  obtains "snd s' = snd s"
  | w1 w3 where "\<not> strings_HasPrefix (Name link) ''bond''" "\<not> hasAddrs N link (fst s)" "confLink N link gw addr (fst s) = (w1, None)"
      "testGateway N gw (fst (WaitForDeviceEvent N wait (Name link) OperUp w1)) = (w3, None)"
      "s' = (fst (ResetInterfaces N w3), snd s @ [(link, bitsPerSecond (GetDeviceSpeed N (Name link) w3))])"
  using assms by (auto simp: test_visit_def Let_def split: if_splits prod.splits option.splits)

lemma visit_adds:
  assumes "LinkByName N (fst s) name = Inr link" "(visit_step N gw addr wait)\<^sup>*\<^sup>* s0 s"
    "test_visit N gw addr wait link s = (s', e)"
  shows "snd s' = snd s \<or> (\<exists>d. snd s' = snd s @ [d] \<and> tested_ok N gw addr wait s0 s' d)"
  using assms(3)
proof (cases rule: test_visit_result)
  case (2 w1 w3)
  from tested_okI [OF 2(1) assms(2,1) 2(2-4)] 2(5) show ?thesis by simp
qed simp

definition tested_inv :: "('w, 'a) netlink \<Rightarrow> ip option \<Rightarrow> 'a \<Rightarrow> int \<Rightarrow> 'w \<times> linkWithSpeed list
    \<Rightarrow> 'w \<times> linkWithSpeed list \<Rightarrow> bool" where
  "tested_inv N gw addr wait s0 s \<longleftrightarrow> (visit_step N gw addr wait)\<^sup>*\<^sup>* s0 s
     \<and> (\<forall>d \<in> set (snd s). tested_ok N gw addr wait s0 s d)"

interpretation tests: visitor N "test_visit N gw addr wait" "tested_inv N gw addr wait s0"
  for N :: "('w, 'a) netlink" and gw addr wait s0
proof
  fix s :: "'w \<times> linkWithSpeed list" and name link
  assume l: "LinkByName N (fst s) name = Inr link" and i: "tested_inv N gw addr wait s0 s"
  let ?s' = "fst (test_visit N gw addr wait link s)"
  obtain e where e: "test_visit N gw addr wait link s = (?s', e)" by (metis prod.collapse)
  have st: "visit_step N gw addr wait s ?s'" unfolding visit_step_def using l by blast
  with i have "(visit_step N gw addr wait)\<^sup>*\<^sup>* s0 ?s'" "\<forall>d \<in> set (snd s). tested_ok N gw addr wait s0 ?s' d"
    by (auto simp: tested_inv_def intro: tested_ok_step rtranclp.rtrancl_into_rtrancl)
  with visit_adds [OF l _ e, of s0] i show "tested_inv N gw addr wait s0 ?s'"
    by (auto simp: tested_inv_def)
qed

text \<open>
  C34. \<open>TestInterfaces\<close> returns links in the order of descending speed (as signed 64-bit
  numbers, so that an unknown speed comes last). Each of them was visited in a state of this
  run in which it had no address, was configured there with the address and the gateway, and
  in the state after that and after waiting for the link the gateway answered a ping; the
  interfaces were reset before the run went on to the next link.
\<close>

theorem TestInterfaces_reach_gateway:
  assumes "TestInterfaces N gw addr wait w = (w', Inr links)"
  shows "\<exists>devices tested addrIP. links = map fst devices \<and> netlink_ParseAddr N addr = Inr addrIP
    \<and> sorted_wrt (\<lambda>a b. sint (snd a) \<ge> sint (snd b)) devices
    \<and> devices = SortStableFunc speed_cmp tested \<and> (visit_step N (ParseIP gw) addrIP wait)\<^sup>*\<^sup>* (w, []) (w', tested)
    \<and> (\<forall>d \<in> set devices. tested_ok N (ParseIP gw) addrIP wait (w, []) (w', tested) d)"
proof -
  from assms obtain addrIP tested e where a: "netlink_ParseAddr N addr = Inr addrIP"
    "ForEachInterface N (test_visit N (ParseIP gw) addrIP wait) (w, []) = ((w', tested), e)"
    "links = linksByDescendingSpeed tested"
    by (auto simp: TestInterfaces_def split: sum.splits prod.splits)
  have "tested_inv N (ParseIP gw) addrIP wait (w, []) (w', tested)"
    using tests.ForEachInterface_inv [of N "ParseIP gw" addrIP wait "(w, [])" "(w, [])"] a(2) by (simp add: tested_inv_def)
  with a links_sorted [of tested] show ?thesis
    by (intro exI [of _ "SortStableFunc speed_cmp tested"] exI [of _ tested] exI [of _ addrIP])
      (simp add: tested_inv_def linksByDescendingSpeed_def, simp add: SortStableFunc_speed)
qed

lemma TestInterfaces_error:
  "snd (TestInterfaces N gw addr wait w) = Inl e \<longleftrightarrow> netlink_ParseAddr N addr = Inl e"
  by (auto simp: TestInterfaces_def split: sum.splits prod.splits)

end
