(* ===== verification/Gateway.thy ===== *)
theory Gateway
  imports Options
begin

section \<open>What the gateway checks guarantee\<close>

text \<open>
  A network as \<open>ParseCIDR\<close> returns it is well formed (\<open>wf_net\<close>): mask and address have the
  same length, the mask is a CIDR mask and the address is masked. Left out are the
  IPv4-mapped networks \<open>::ffff:a.b.c.d/n\<close> with \<open>n \<ge> 96\<close>, whose two halves have different
  lengths in \<open>IPNet.Contains\<close>. On well-formed networks \<open>IPNet.Contains\<close> compares bit prefixes,
  the gateway that is assumed without \<open>-x\<close> is the successor of the network address, and the
  one assumed with \<open>-x\<close> has all host bits but the last set.
\<close>

definition prefix_length :: "ipnet \<Rightarrow> nat" where
  "prefix_length net = fst (Mask_Size (Mask net))"

definition wf_net :: "ipnet \<Rightarrow> bool" where
  "wf_net net \<longleftrightarrow> (\<exists>l n. (l = 4 \<or> l = 16 \<and> To4 (IP net) = None) \<and> n \<le> 8 * l \<and> length (IP net) = l
     \<and> Mask net = CIDRMask n l \<and> map2 (AND) (IP net) (CIDRMask n l) = IP net)"

definition canon :: "ip \<Rightarrow> ip" where
  "canon x = (case To4 x of Some y \<Rightarrow> y | None \<Rightarrow> x)"

lemma wf_netE:
  assumes "wf_net net"
  obtains l where "l = 4 \<or> l = 16 \<and> To4 (IP net) = None" "prefix_length net \<le> 8 * l"
    "length (IP net) = l" "Mask net = CIDRMask (prefix_length net) l"
    "bits_of (IP net) = take (prefix_length net) (bits_of (IP net)) @ replicate (8 * l - prefix_length net) False"
    "Mask_Size (Mask net) = (prefix_length net, 8 * l)"
proof -
  from assms obtain l n where n: "l = 4 \<or> l = 16 \<and> To4 (IP net) = None" "n \<le> 8 * l" "length (IP net) = l"
    "Mask net = CIDRMask n l" "map2 (AND) (IP net) (CIDRMask n l) = IP net" by (auto simp: wf_net_def)
  moreover have "Mask_Size (Mask net) = (n, 8 * l)" using n by (simp add: Mask_Size_CIDRMask)
  moreover have "bits_of (IP net) = take n (bits_of (IP net)) @ replicate (8 * l - n) False"
    using bits_of_masked [OF n(3,2)] n(5) by simp
  ultimately show thesis using that [of l] by (simp add: prefix_length_def)
qed

lemma length16_To4: "length x = 16 \<Longrightarrow> To4 x = Some y \<Longrightarrow> length y = 4"
  by (auto simp: To4_def split: if_splits)

lemma To4_v4: "length x = 4 \<Longrightarrow> To4 x = Some x"
  by (simp add: To4_def)

lemma To4_mapped [simp]: "length x = 4 \<Longrightarrow> To4 (v4InV6Prefix @ x) = Some x"
  by (simp add: To4_def v4InV6Prefix_def)

theorem Contains_prefix:
  assumes "wf_net net"
  shows "IPNet_Contains net x \<longleftrightarrow> length (canon x) = length (IP net)
    \<and> take (prefix_length net) (bits_of (canon x)) = take (prefix_length net) (bits_of (IP net))"
proof -
  from assms obtain l where l: "l = 4 \<or> l = 16 \<and> To4 (IP net) = None" "prefix_length net \<le> 8 * l"
    "length (IP net) = l" "Mask net = CIDRMask (prefix_length net) l" by (rule wf_netE)
  then have "networkNumberAndMask net = Some (IP net, Mask net)"
    by (auto simp: networkNumberAndMask_def To4_v4)
  then have "IPNet_Contains net x \<longleftrightarrow> length (canon x) = l
      \<and> map2 (AND) (IP net) (CIDRMask (prefix_length net) l) = map2 (AND) (canon x) (CIDRMask (prefix_length net) l)"
    using l by (simp add: IPNet_Contains_def canon_def Let_def)
  also have "\<dots> \<longleftrightarrow> length (canon x) = l
      \<and> take (prefix_length net) (bits_of (canon x)) = take (prefix_length net) (bits_of (IP net))"
    using l(2,3) masked_eq_iff [of "IP net" l "canon x" "prefix_length net"] by auto
  finally show ?thesis using l(3) by simp
qed

subsection \<open>The networks ParseCIDR returns\<close>

lemma masked_idem: "length ip = l \<Longrightarrow>
    map2 (AND) (map2 (AND) ip (CIDRMask n l)) (CIDRMask n l) = map2 (AND) ip (CIDRMask n l)"
  by (rule nth_equalityI) (simp_all add: and.assoc)

text \<open>
  The two shapes of a result: an IPv4 address (in 16 bytes) with a 4-byte network, or an
  IPv6 address with a 16-byte network.
\<close>

lemma ParseCIDR_cases:
  assumes "ParseCIDR s = Inr (ip, net)"
  obtains
    (v4) ip4 n where "length ip4 = 4" "n \<le> 32" "ip = v4InV6Prefix @ ip4"
      "net = \<lparr>IP = map2 (AND) ip4 (CIDRMask n 4), Mask = CIDRMask n 4\<rparr>"
  | (v6) n where "length ip = 16" "n \<le> 128" "net = \<lparr>IP = map2 (AND) ip (CIDRMask n 16), Mask = CIDRMask n 16\<rparr>"
proof -
  from assms obtain a n where a: "wf_addr a" "n \<le> addr_BitLen a" "ip = addr_As16 a"
    "net = \<lparr>IP = the (IP_Mask ip (CIDRMask n (addr_BitLen a div 8))), Mask = CIDRMask n (addr_BitLen a div 8)\<rparr>"
    by (rule ParseCIDR_Inr)
  show thesis
  proof (cases a)
    case (Addr4 ip4)
    with a v4 [of ip4 n] show thesis by (simp add: IP_Mask_v4)
  next
    case (Addr6 ip6 z)
    with a v6 [of n] show thesis by (simp add: IP_Mask_v6)
  qed
qed

lemma wf_netI:
  assumes "length ip = l" "l = 4 \<or> l = 16 \<and> To4 (map2 (AND) ip (CIDRMask n l)) = None" "n \<le> 8 * l"
  shows "wf_net \<lparr>IP = map2 (AND) ip (CIDRMask n l), Mask = CIDRMask n l\<rparr>"
  unfolding wf_net_def
  by (rule exI [of _ l], rule exI [of _ n]) (use assms masked_idem [OF assms(1), of n] in auto)

lemma ParseCIDR_wf_net:
  assumes "ParseCIDR s = Inr (ip, net)" "length (IP net) = 4 \<or> To4 (IP net) = None"
  shows "wf_net net"
  using assms(1)
proof (cases rule: ParseCIDR_cases)
  case (v4 ip4 n)
  then show ?thesis by (auto intro!: wf_netI)
next
  case (v6 n)
  with assms(2) show ?thesis by (auto intro!: wf_netI)
qed

text \<open>The mask is the one the text asks for, and the host is inside its own network.\<close>

lemma ParseCIDR_self:
  assumes "ParseCIDR s = Inr (ip, net)" "length (IP net) = 4 \<or> To4 (IP net) = None"
    "length (IP net) = length (canon ip)"
  shows "IPNet_Contains net ip"
proof -
  note wf = ParseCIDR_wf_net [OF assms(1,2)]
  have "take (prefix_length net) (bits_of (canon ip)) = take (prefix_length net) (bits_of (IP net))"
    using assms(1)
  proof (cases rule: ParseCIDR_cases)
    case (v4 ip4 n)
    then show ?thesis
      by (simp add: canon_def bits_of_masked prefix_length_def Mask_Size_CIDRMask)
  next
    case (v6 n)
    then have "canon ip = ip" using assms(3) length16_To4 [OF v6(1)]
      by (auto simp: canon_def split: option.splits)
    with v6 show ?thesis
      by (simp add: bits_of_masked prefix_length_def Mask_Size_CIDRMask)
  qed
  with wf assms(3) show ?thesis by (simp add: Contains_prefix)
qed

subsection \<open>Text of an address as a gateway\<close>

lemma show_host_lengths: "show_nat 32 = ''32''" "show_nat 128 = ''128''"
  by code_simp+

lemma appendPrefixLength_v4:
  assumes "length g = 4"
  shows "ParseCIDR (appendPrefixLength (string4 g)) = Inr (v4InV6Prefix @ g, \<lparr>IP = g, Mask = CIDRMask 32 4\<rparr>)"
proof -
  have chars: "CHR '':'' \<notin> set (string4 g)" "CHR ''/'' \<notin> set (string4 g)"
    using string4_chars [of "CHR '':''" g] string4_chars [of "CHR ''/''" g] by auto
  then have "\<not> suffix ''/32'' (string4 g)" by (auto simp: suffix_def)
  with chars have "appendPrefixLength (string4 g) = string4 g @ ''/'' @ show_nat 32"
    by (simp add: appendPrefixLength_def strings_HasSuffix_def show_host_lengths)
  moreover have "map2 (AND) g (CIDRMask 32 4) = g"
  proof -
    have "bits_of (map2 (AND) g (CIDRMask 32 4)) = bits_of g" using assms by (simp add: bits_of_masked)
    then show ?thesis using assms by (simp add: bits_of_inject)
  qed
  ultimately show ?thesis
    using ParseCIDR_parts [OF ParseAddr_string4 [OF assms] chars(2), of 32] assms by (simp add: IP_Mask_v4)
qed

lemma appendPrefixLength_v6:
  assumes "length g = 16"
  shows "ParseCIDR (appendPrefixLength (string6 g)) = Inr (g, \<lparr>IP = g, Mask = CIDRMask 128 16\<rparr>)"
proof -
  have chars: "CHR ''/'' \<notin> set (string6 g)"
    using string6_chars [of "CHR ''/''" g] by auto
  then have "\<not> suffix ''/128'' (string6 g)" by (auto simp: suffix_def)
  with string6_has_colon [OF assms]
  have "appendPrefixLength (string6 g) = string6 g @ ''/'' @ show_nat 128"
    by (simp add: appendPrefixLength_def strings_HasSuffix_def show_host_lengths)
  moreover have "map2 (AND) g (CIDRMask 128 16) = g"
  proof -
    have "bits_of (map2 (AND) g (CIDRMask 128 16)) = bits_of g" using assms by (simp add: bits_of_masked)
    then show ?thesis using assms by (simp add: bits_of_inject)
  qed
  ultimately show ?thesis
    using ParseCIDR_parts [OF ParseAddr_string6 [OF assms] chars, of 128] assms by (simp add: IP_Mask_v6)
qed

text \<open>
  For an address in the shape of a network address (4 bytes, or 16 bytes and not mapped)
  both printers agree, and what is parsed back is the address.
\<close>

definition plain_ip :: "ip \<Rightarrow> bool" where
  "plain_ip g \<longleftrightarrow> length g = 4 \<or> length g = 16 \<and> To4 g = None"

lemma plain_text:
  assumes "plain_ip g"
  obtains a gip where "netip_ParseAddr (IP_String g) = Some a" "addr_String a = IP_String g"
    "addr_Next a = map_option (if length g = 4 then Addr4 else (\<lambda>x. Addr6 x [])) (ip_next g)"
    "ParseCIDR (appendPrefixLength (IP_String g)) = Inr (gip, \<lparr>IP = g, Mask = CIDRMask (8 * length g) (length g)\<rparr>)"
    "canon gip = g" "length gip = 16"
proof (cases "length g = 4")
  case True
  then have "IP_String g = string4 g" by (auto simp: IP_String_def To4_v4)
  with True that [of "Addr4 g" "v4InV6Prefix @ g"] show thesis
    by (simp add: ParseAddr_string4 appendPrefixLength_v4 canon_def) (simp add: v4InV6Prefix_def)
next
  case False
  with assms have g: "length g = 16" "To4 g = None" by (auto simp: plain_ip_def)
  then have "IP_String g = string6 g" by (auto simp: IP_String_def)
  with g that [of "Addr6 g []" g] show thesis
    by (simp add: ParseAddr_string6 appendPrefixLength_v6 canon_def)
qed

subsection \<open>The gateway assumed by default\<close>

text \<open>The network address has a clear last bit, so its successor differs in that bit only.\<close>

lemma network_next:
  assumes "wf_net net" "prefix_length net < 8 * length (IP net)"
  obtains g where "ip_next (IP net) = Some g" "length g = length (IP net)" "g \<noteq> IP net"
    "bits_of g = take (prefix_length net) (bits_of (IP net))
       @ replicate (8 * length (IP net) - prefix_length net - 1) False @ [True]"
    "take 12 (IP net) = take 12 g \<or> length g = 4"
proof -
  let ?p = "prefix_length net"
  from assms(1) obtain l where l: "l = 4 \<or> l = 16" "length (IP net) = l"
    "bits_of (IP net) = take ?p (bits_of (IP net)) @ replicate (8 * l - ?p) False"
    by (rule wf_netE) auto
  have "8 * l - ?p = Suc (8 * l - ?p - 1)" using assms(2) l(2) by simp
  then have r: "replicate (8 * l - ?p) False = replicate (8 * l - ?p - 1) False @ [False]"
    by (metis replicate_Suc replicate_append_same)
  obtain bs b where nb: "IP net = bs @ [b]" using l by (cases "IP net" rule: rev_cases) auto
  have lb: "bits_of (IP net) = bits_of bs @ take 7 (byte_bits b) @ [bit b 0]"
    by (simp add: nb byte_bits_def)
  have pre: "bits_of bs @ take 7 (byte_bits b) = take ?p (bits_of (IP net)) @ replicate (8 * l - ?p - 1) False"
    and last: "\<not> bit b 0"
  proof -
    have "(bits_of bs @ take 7 (byte_bits b)) @ [bit b 0]
        = (take ?p (bits_of (IP net)) @ replicate (8 * l - ?p - 1) False) @ [False]"
      using lb l(3) r by simp
    then show "bits_of bs @ take 7 (byte_bits b) = take ?p (bits_of (IP net)) @ replicate (8 * l - ?p - 1) False"
      and "\<not> bit b 0" by (simp_all only: append1_eq_conv simp_thms)
  qed
  note nx = even_byte_next [OF last]
  show thesis
  proof (rule that)
    show "ip_next (IP net) = Some (bs @ [b + 1])" unfolding nb by (rule ip_next_snoc) (rule nx)
    show "bits_of (bs @ [b + 1]) = take ?p (bits_of (IP net))
       @ replicate (8 * length (IP net) - ?p - 1) False @ [True]"
      using pre l(2) nx(2) by simp
    show "bs @ [b + 1] \<noteq> IP net" by (simp add: nb)
    show "take 12 (IP net) = take 12 (bs @ [b + 1]) \<or> length (bs @ [b + 1]) = 4"
      using l nb by auto
  qed (simp add: nb)
qed

lemma wf_net_plain: "wf_net net \<Longrightarrow> plain_ip (IP net)"
  by (auto simp: wf_net_def plain_ip_def)

lemma plain_ip_next:
  assumes "plain_ip a" "length g = length a" "take 12 a = take 12 g \<or> length g = 4"
  shows "plain_ip g"
  using assms by (auto simp: plain_ip_def To4_def split: if_splits)

lemma default_candidate:
  assumes "plain_ip (IP net)" "ip_next (IP net) = Some g" "plain_ip g"
  shows "gateway_candidate [] force False net = Inr (IP_String g)"
proof -
  from assms(1) obtain a where a: "netip_ParseAddr (IP_String (IP net)) = Some a"
    "addr_Next a = map_option (if length (IP net) = 4 then Addr4 else (\<lambda>x. Addr6 x [])) (ip_next (IP net))"
    by (rule plain_text) blast
  have "length g = length (IP net)" using assms(2) by (auto simp: ip_next_def split: if_splits)
  then have "addr_option_String (addr_Next a) = IP_String g"
    using assms a(2) by (auto simp: addr_option_String_def IP_String_def plain_ip_def To4_v4)
  with a(1) show ?thesis by (simp add: gateway_candidate_def)
qed

lemma ParseCIDR_nonempty: "ParseCIDR h = Inr r \<Longrightarrow> h \<noteq> []"
  by (auto simp: ParseCIDR_def strings_SplitN2_def)

lemma validate_default:
  assumes h: "ParseCIDR h = Inr (hip, net)" and wf: "wf_net net"
    and g: "ip_next (IP net) = Some g" "plain_ip g"
  obtains gip gnet where "ParseCIDR (appendPrefixLength (IP_String g)) = Inr (gip, gnet)" "canon gip = g"
    "ValidateHostAndGateway h [] force False =
      (if IP_Equal hip gip \<and> \<not> force
       then Inl (Errorf (IP_String hip @ '': host address must be distinct from gateway address''))
       else Inr (IP_String g))"
proof -
  from g(2) obtain gip gnet where p: "ParseCIDR (appendPrefixLength (IP_String g)) = Inr (gip, gnet)" "canon gip = g"
    by (rule plain_text) blast
  with ParseCIDR_nonempty [OF h] h default_candidate [OF wf_net_plain [OF wf] g] that [of gip gnet]
  show thesis by (simp add: ValidateHostAndGateway_def)
qed

lemma default_gateway_inside:
  assumes "ParseCIDR h = Inr (hip, net)" "length (IP net) = 4 \<or> To4 (IP net) = None"
    and "prefix_length net < 8 * length (IP net)"
  obtains g gip gnet where "ip_next (IP net) = Some g"
    "ParseCIDR (appendPrefixLength (IP_String g)) = Inr (gip, gnet)" "IPNet_Contains net gip"
    "ValidateHostAndGateway h [] force False =
        (if IP_Equal hip gip \<and> \<not> force
         then Inl (Errorf (IP_String hip @ '': host address must be distinct from gateway address''))
         else Inr (IP_String g))"
proof -
  note wf = ParseCIDR_wf_net [OF assms(1,2)]
  from wf assms(3) obtain g where g: "ip_next (IP net) = Some g" "length g = length (IP net)"
    "bits_of g = take (prefix_length net) (bits_of (IP net))
       @ replicate (8 * length (IP net) - prefix_length net - 1) False @ [True]"
    "take 12 (IP net) = take 12 g \<or> length g = 4" by (rule network_next)
  note plain = plain_ip_next [OF wf_net_plain [OF wf] g(2,4)]
  obtain gip gnet where v: "ParseCIDR (appendPrefixLength (IP_String g)) = Inr (gip, gnet)" "canon gip = g"
    "ValidateHostAndGateway h [] force False =
        (if IP_Equal hip gip \<and> \<not> force
         then Inl (Errorf (IP_String hip @ '': host address must be distinct from gateway address''))
         else Inr (IP_String g))" by (rule validate_default [OF assms(1) wf g(1) plain])
  have "IPNet_Contains net gip" using wf g(2,3) v(2) assms(3) by (simp add: Contains_prefix)
  with g(1) v that show thesis by blast
qed

text \<open>
  C23. Without \<open>-g\<close> and \<open>-x\<close>, and with a host address whose network is not IPv4-mapped and has
  a prefix shorter than the address (so no \<open>/32\<close> or \<open>/128\<close>, for which see below),
  \<open>ValidateHostAndGateway\<close> answers with the first address behind the network
  address: its text is read back as an address that \<open>IPNet.Contains\<close> puts inside the host's
  network. The only other answer is the refusal of a gateway that equals the host address.
\<close>

theorem default_gateway_in_network:
  assumes "ParseCIDR h = Inr (hip, net)" "length (IP net) = 4 \<or> To4 (IP net) = None"
    and "prefix_length net < 8 * length (IP net)"
  shows "\<exists>g gip gnet. ip_next (IP net) = Some g
    \<and> ParseCIDR (appendPrefixLength (IP_String g)) = Inr (gip, gnet) \<and> IPNet_Contains net gip
    \<and> ValidateHostAndGateway h [] force False =
        (if IP_Equal hip gip \<and> \<not> force
         then Inl (Errorf (IP_String hip @ '': host address must be distinct from gateway address''))
         else Inr (IP_String g))"
  using default_gateway_inside [OF assms, of force] by metis

theorem default_gateway_in_network_witness:
  "ParseCIDR ''10.0.2.15/24'' = Inr (v4InV6Prefix @ [10, 0, 2, 15], \<lparr>IP = [10, 0, 2, 0], Mask = [255, 255, 255, 0]\<rparr>)
   \<and> ValidateHostAndGateway ''10.0.2.15/24'' [] False False = Inr ''10.0.2.1''"
proof -
  let ?net = "\<lparr>IP = [10, 0, 2, 0], Mask = [255, 255, 255, 0]\<rparr> :: ipnet"
  have p: "ParseCIDR ''10.0.2.15/24'' = Inr (v4InV6Prefix @ [10, 0, 2, 15], ?net)" by code_simp
  have l: "length (IP ?net) = 4 \<or> To4 (IP ?net) = None" by simp
  have k: "prefix_length ?net < 8 * length (IP ?net)" by code_simp
  have n: "ip_next (IP ?net) = Some [10, 0, 2, 1]" "IP_String [10, 0, 2, 1] = ''10.0.2.1''"
    "ParseCIDR (appendPrefixLength ''10.0.2.1'') = Inr (v4InV6Prefix @ [10, 0, 2, 1], \<lparr>IP = [10, 0, 2, 1], Mask = [255, 255, 255, 255]\<rparr>)"
    "\<not> IP_Equal (v4InV6Prefix @ [10, 0, 2, 15]) (v4InV6Prefix @ [10, 0, 2, 1])" by code_simp+
  from default_gateway_in_network [OF p l k, of False] p n show ?thesis by auto
qed

text \<open>
  C27. For a host address with a full prefix length (\<open>/32\<close>, \<open>/128\<close>) there is no other
  address in the network, and the default gateway is the next address, outside the
  network: nothing checks it, with or without the force flag. (A gateway given with \<open>-g\<close>
  is refused there unless forced.)
\<close>

theorem host_route_gateway_outside:
  assumes "ParseCIDR h = Inr (hip, net)" "length (IP net) = 4 \<or> To4 (IP net) = None"
    and "prefix_length net = 8 * length (IP net)"
    and "ip_next (IP net) = Some g" "plain_ip g"
  shows "\<exists>gip gnet. ParseCIDR (appendPrefixLength (IP_String g)) = Inr (gip, gnet)
    \<and> \<not> IPNet_Contains net gip \<and> ValidateHostAndGateway h [] force False = Inr (IP_String g)"
proof -
  note wf = ParseCIDR_wf_net [OF assms(1,2)]
  obtain gip gnet where v: "ParseCIDR (appendPrefixLength (IP_String g)) = Inr (gip, gnet)" "canon gip = g"
    "ValidateHostAndGateway h [] force False =
        (if IP_Equal hip gip \<and> \<not> force
         then Inl (Errorf (IP_String hip @ '': host address must be distinct from gateway address''))
         else Inr (IP_String g))" by (rule validate_default [OF assms(1) wf assms(4,5)])
  have len: "length g = length (IP net)" using assms(4) by (auto simp: ip_next_def split: if_splits)
  have ne: "g \<noteq> IP net"
  proof
    assume "g = IP net"
    then have "be_nat (nat_be_fixed (length (IP net)) (be_nat (IP net) + 1)) = be_nat (IP net)"
      using assms(4) by (auto simp: ip_next_def split: if_splits)
    moreover have "be_nat (IP net) + 1 < 256 ^ length (IP net)"
      using assms(4) by (auto simp: ip_next_def split: if_splits)
    ultimately show False by (simp add: be_nat_nat_be_fixed)
  qed
  have "\<not> IPNet_Contains net gip"
    using wf v(2) ne len assms(3) by (simp add: Contains_prefix bits_of_inject)
  moreover have "\<not> IP_Equal hip gip"
  proof -
    have "IPNet_Contains net hip \<or> canon hip \<noteq> canon gip" using assms(1)
    proof (cases rule: ParseCIDR_cases)
      case (v4 ip4 n)
      then have "n = 32" using assms(3) by (simp add: prefix_length_def Mask_Size_CIDRMask)
      with v4 show ?thesis using ParseCIDR_self [OF assms(1,2)] by (simp add: canon_def)
    next
      case (v6 n)
      then have "n = 128" using assms(3) by (simp add: prefix_length_def Mask_Size_CIDRMask)
      then have "bits_of (map2 (AND) hip (CIDRMask n 16)) = bits_of hip" using v6 by (simp add: bits_of_masked)
      then have "IP net = hip" using v6 by (simp add: bits_of_inject)
      then have "canon hip = IP net" using assms(2) v6 length16_To4 [OF v6(1)]
        by (auto simp: canon_def split: option.splits)
      then show ?thesis using ne v(2) by simp
    qed
    moreover have "IP_Equal hip gip \<Longrightarrow> canon hip = canon gip \<and> IPNet_Contains net hip = IPNet_Contains net gip"
      by (auto simp: IP_Equal_def canon_def To4_def IPNet_Contains_def split: if_splits)
    ultimately show ?thesis using \<open>\<not> IPNet_Contains net gip\<close> by blast
  qed
  ultimately show ?thesis using v by auto
qed

theorem host_route_gateway_outside_witness:
  "ValidateHostAndGateway ''10.0.2.15/32'' [] False False = Inr ''10.0.2.16''"
proof -
  let ?net = "\<lparr>IP = [10, 0, 2, 15], Mask = [255, 255, 255, 255]\<rparr> :: ipnet"
  have p: "ParseCIDR ''10.0.2.15/32'' = Inr (v4InV6Prefix @ [10, 0, 2, 15], ?net)" by code_simp
  have l: "length (IP ?net) = 4 \<or> To4 (IP ?net) = None" by simp
  have k: "prefix_length ?net = 8 * length (IP ?net)" by code_simp
  have n: "ip_next (IP ?net) = Some [10, 0, 2, 16]" "IP_String [10, 0, 2, 16] = ''10.0.2.16''" by code_simp+
  have g: "plain_ip [10, 0, 2, 16]" by (simp add: plain_ip_def)
  from host_route_gateway_outside [OF p l k n(1) g, of False] n(2) show ?thesis by auto
qed

end
