(* ===== verification/MaxHostFacts.thy ===== *)
theory MaxHostFacts
  imports Gateway
begin

section \<open>The gateway at the end of the network\<close>

text \<open>
  \<open>MaxHost\<close> computes with \<open>big.Int\<close>. The lemmas of this theory read a bit list as a number
  (\<open>bval\<close>), connect it to the bytes of an address, and show which address \<open>MaxHost\<close> prints:
  the network prefix followed by ones and a final zero, as long as the first byte of the
  network is not zero. With a zero byte in front \<open>big.Int.Bytes\<close> gives a shorter slice,
  which \<open>IP.String\<close> does not print as an address.
\<close>

definition bval :: "bool list \<Rightarrow> nat" where
  "bval bs = foldl (\<lambda>v b. 2 * v + of_bool b) 0 bs"

lemma foldl_bval: "foldl (\<lambda>v b. 2 * v + of_bool b) a bs = a * 2 ^ length bs + bval bs"
proof (induction bs arbitrary: a)
  case (Cons b bs)
  show ?case using Cons [of "2 * a + of_bool b"] Cons [of "of_bool b"]
    by (simp add: bval_def algebra_simps)
qed (simp add: bval_def)

lemma bval_Nil [simp]: "bval [] = 0"
  by (simp add: bval_def)

lemma bval_single [simp]: "bval [b] = of_bool b"
  by (simp add: bval_def)

lemma bval_append: "bval (as @ bs) = bval as * 2 ^ length bs + bval bs"
  using foldl_bval [of "bval as" bs] by (simp add: bval_def)

lemma bval_snoc: "bval (bs @ [b]) = 2 * bval bs + of_bool b"
  by (simp add: bval_def)

lemma bval_lt: "bval bs < 2 ^ length bs"
  by (induction bs rule: rev_induct) (auto simp: bval_snoc)

lemma bval_False [simp]: "bval (replicate n False) = 0"
  by (induction n) (simp_all add: bval_snoc flip: replicate_append_same)

lemma Suc_bval_True: "Suc (bval (replicate n True)) = 2 ^ n"
  by (induction n) (simp_all add: bval_snoc flip: replicate_append_same)

lemma bval_True: "bval (replicate n True) = 2 ^ n - 1"
  using Suc_bval_True [of n] by linarith

lemma bval_inject: "length as = length bs \<Longrightarrow> bval as = bval bs \<longleftrightarrow> as = bs"
proof (induction bs arbitrary: as rule: rev_induct)
  case (snoc b bs)
  then obtain as' a where as: "as = as' @ [a]" "length as' = length bs"
    by (cases as rule: rev_cases) auto
  have "2 * x + of_bool a = 2 * y + of_bool b \<longleftrightarrow> x = y \<and> a = b" for x y :: nat
    by (cases a; cases b; simp; presburger)
  with as snoc.IH [OF as(2)] show ?case by (simp add: bval_snoc)
qed simp

lemma bval_byte_bits: "bval (byte_bits b) = unat b"
proof -
  have "unat b = take_bit 8 (unat b)" by (simp add: take_bit_nat_eq_self)
  also have "\<dots> = horner_sum of_bool 2 (map (bit (unat b)) [0..<8])"
    by (rule horner_sum_bit_eq_take_bit [symmetric])
  also have "map (bit (unat b)) [0..<8] = map (bit b) [0, 1, 2, 3, 4, 5, 6, 7]"
    by (simp add: upt_rec bit_unsigned_iff numeral_eq_Suc)
  finally show ?thesis by (simp add: byte_bits_def bval_def)
qed

lemma bval_bits_of: "bval (bits_of bs) = be_nat bs"
proof (induction bs rule: rev_induct)
  case Nil
  show ?case by (simp add: be_nat_def)
qed (simp add: bval_append be_nat_snoc bval_byte_bits)

lemma be_nat_Cons: "be_nat (b # bs) = unat b * 256 ^ length bs + be_nat bs"
proof -
  have "be_nat (b # bs) = unat b * 2 ^ (8 * length bs) + be_nat bs"
    unfolding bval_bits_of [symmetric] by (simp add: bval_append bval_byte_bits bval_bits_of)
  then show ?thesis by (simp add: power_mult)
qed

lemma be_nat_append: "be_nat (as @ bs) = be_nat as * 256 ^ length bs + be_nat bs"
  using bval_append [of "bits_of as" "bits_of bs"] bval_bits_of [of "as @ bs"]
  by (simp add: bval_bits_of power_mult)

lemma be_nat_head_zero: "bs \<noteq> [] \<Longrightarrow> hd bs = 0 \<longleftrightarrow> be_nat bs < 256 ^ (length bs - 1)"
proof (cases bs)
  case (Cons b cs)
  have "256 ^ length cs \<le> unat b * 256 ^ length cs" if "b \<noteq> 0"
  proof -
    have "1 \<le> unat b" using that by (metis Suc_leI One_nat_def not_gr_zero unat_eq_zero)
    then show ?thesis by (metis mult_le_mono1 mult_1)
  qed
  then have "b \<noteq> 0 \<Longrightarrow> \<not> be_nat bs < 256 ^ length cs" unfolding Cons be_nat_Cons by (meson not_le trans_le_add1)
  then show ?thesis using Cons be_nat_lt [of cs] by (auto simp: be_nat_Cons)
qed simp

lemma nat_be_eq_fixed: "n < 256 ^ Suc l \<Longrightarrow> 256 ^ l \<le> n \<Longrightarrow> nat_be n = nat_be_fixed (Suc l) n"
proof (induction l arbitrary: n)
  case 0
  then show ?case by (simp add: nat_be.simps)
next
  case (Suc l)
  have "n div 256 < 256 ^ Suc l" using Suc.prems(1) by (simp add: less_mult_imp_div_less mult.commute)
  moreover have "256 ^ l \<le> n div 256" using Suc.prems(2) by (simp add: less_eq_div_iff_mult_less_eq mult.commute)
  ultimately have "nat_be (n div 256) = nat_be_fixed (Suc l) (n div 256)" by (rule Suc.IH)
  moreover have "n \<noteq> 0" using Suc.prems(2) by (metis not_le power_eq_0_iff zero_less_numeral zero_less_power)
  ultimately show ?case by (simp add: nat_be.simps [of n])
qed

lemma or_shifted: "(2 ^ h - 1) OR (p * 2 ^ h) = p * 2 ^ h + (2 ^ h - 1 :: nat)"
proof -
  have "(2 ^ h - 1 :: nat) = Bit_Operations.mask h" "p * 2 ^ h = push_bit h p"
    by (simp_all add: mask_eq_exp_minus_1 push_bit_eq_mult)
  moreover have "Bit_Operations.mask h OR push_bit h p = push_bit h p + Bit_Operations.mask h"
    by (subst or.commute, rule disjunctive_add [symmetric]) (auto simp: bit_simps)
  ultimately show ?thesis by simp
qed

lemma be_nat_masked:
  assumes "bits_of bs = take p (bits_of bs) @ replicate h False"
  shows "be_nat bs = bval (take p (bits_of bs)) * 2 ^ h"
  using arg_cong [OF assms, of bval] by (simp add: bval_append bval_bits_of)

text \<open>The address \<open>MaxHost\<close> means: prefix, ones and a final zero.\<close>

lemma MaxHost_value:
  assumes "wf_net net" "prefix_length net < 8 * length (IP net)" "prefix_length net \<noteq> 31 \<or> length (IP net) = 16"
  obtains a where "length a = length (IP net)" "MaxHost net = IP_String (nat_be (be_nat a))"
    "bits_of a = take (prefix_length net) (bits_of (IP net))
       @ replicate (8 * length (IP net) - prefix_length net - 1) True @ [False]"
    "be_nat (IP net) \<le> be_nat a"
proof -
  let ?p = "prefix_length net"
  from assms(1) obtain l where l: "l = 4 \<or> l = 16" "length (IP net) = l"
    "bits_of (IP net) = take ?p (bits_of (IP net)) @ replicate (8 * l - ?p) False"
    "Mask_Size (Mask net) = (?p, 8 * l)" by (rule wf_netE) auto
  define h where "h = 8 * l - ?p"
  define P where "P = bval (take ?p (bits_of (IP net)))"
  obtain k where k: "h = Suc k" using assms(2) l(2) by (cases h) (auto simp: h_def)
  have ip: "be_nat (IP net) = P * 2 ^ h" using be_nat_masked [OF l(3)] by (simp add: h_def P_def)
  define n where "n = P * 2 ^ h + (2 ^ h - 1) - 1"
  have b: "n = bval (take ?p (bits_of (IP net)) @ replicate k True @ [False])"
  proof -
    have "q + (2 ^ h - 1) - 1 = q + 2 * bval (replicate k True)" for q :: nat
      unfolding k power_Suc Suc_bval_True [symmetric] by simp
    then show ?thesis by (simp add: n_def k P_def bval_append bval_snoc flip: append_assoc)
  qed
  have "P * 2 ^ h + (2 ^ h - 1) < 256 ^ l"
  proof -
    have "bval (take ?p (bits_of (IP net)) @ replicate h True) < 2 ^ (8 * l)"
      using bval_lt [of "take ?p (bits_of (IP net)) @ replicate h True"] l(2) assms(2) by (simp add: h_def)
    then show ?thesis by (simp add: bval_append bval_True P_def power_mult)
  qed
  then have n: "n < 256 ^ l" by (simp add: n_def)
  let ?a = "nat_be_fixed l n"
  have an: "be_nat ?a = n" using n by (rule be_nat_nat_be_fixed)
  have m: "MaxHost net = IP_String (nat_be n)"
  proof -
    have "?p \<noteq> 8 * l" "\<not> (?p = 31 \<and> length (IP net) = 4)" using assms(2,3) l(2) by auto
    moreover have "((2 ^ h - 1) OR be_nat (IP net)) - 1 = n" unfolding ip or_shifted n_def ..
    ultimately show ?thesis unfolding MaxHost_def l(4) Let_def prod.case h_def by simp
  qed
  show thesis
  proof (rule that [of ?a])
    show "length ?a = length (IP net)" using l(2) by simp
    show "MaxHost net = IP_String (nat_be (be_nat ?a))" unfolding an by (rule m)
    show "bits_of ?a = take ?p (bits_of (IP net)) @ replicate (8 * length (IP net) - ?p - 1) True @ [False]"
    proof (rule iffD1 [OF bval_inject])
      show "bval (bits_of ?a) = bval (take ?p (bits_of (IP net)) @ replicate (8 * length (IP net) - ?p - 1) True @ [False])"
        unfolding bval_bits_of an using b k l(2) h_def by simp
      show "length (bits_of ?a) = length (take ?p (bits_of (IP net)) @ replicate (8 * length (IP net) - ?p - 1) True @ [False])"
        using assms(2) l(2) by simp
    qed
    show "be_nat (IP net) \<le> be_nat ?a" using Suc_bval_True [of k] unfolding an unfolding ip n_def k by simp
  qed
qed

text \<open>
  C25. With \<open>-x\<close> and no \<open>-g\<close>, for a network whose first byte is not zero, and other than
  an IPv4 \<open>/31\<close> or a host route, \<open>MaxHost\<close> prints the address that has the network's prefix,
  ones behind it and a final zero; that address lies in the network.
\<close>

theorem MaxHost_last_usable:
  assumes "wf_net net" "prefix_length net < 8 * length (IP net)"
    and "prefix_length net \<noteq> 31 \<or> length (IP net) = 16" "hd (IP net) \<noteq> 0"
  shows "\<exists>a. length a = length (IP net) \<and> MaxHost net = IP_String a
    \<and> bits_of a = take (prefix_length net) (bits_of (IP net))
        @ replicate (8 * length (IP net) - prefix_length net - 1) True @ [False]
    \<and> IPNet_Contains net a"
proof -
  from assms(1-3) obtain a where a: "length a = length (IP net)" "MaxHost net = IP_String (nat_be (be_nat a))"
    "bits_of a = take (prefix_length net) (bits_of (IP net))
       @ replicate (8 * length (IP net) - prefix_length net - 1) True @ [False]"
    "be_nat (IP net) \<le> be_nat a" by (rule MaxHost_value)
  from assms(1) have l: "length (IP net) = 4 \<or> length (IP net) = 16" by (auto simp: wf_net_def)
  then have "a \<noteq> []" "IP net \<noteq> []" using a(1) by auto
  then have hd: "hd a \<noteq> 0" "256 ^ (length a - 1) \<le> be_nat a"
    using assms(4) a(1,4) be_nat_head_zero [of a] be_nat_head_zero [of "IP net"] by auto
  have "nat_be (be_nat a) = nat_be_fixed (Suc (length a - 1)) (be_nat a)"
    using hd(2) be_nat_lt [of a] \<open>a \<noteq> []\<close> by (intro nat_be_eq_fixed) auto
  also have "\<dots> = a" using \<open>a \<noteq> []\<close> by (simp add: nat_be_fixed_be_nat)
  finally have "MaxHost net = IP_String a" using a(2) by simp
  moreover have "canon a = a"
    using l a(1) hd(1) \<open>a \<noteq> []\<close> by (cases a) (auto simp: canon_def To4_def v4InV6Prefix_def numeral_eq_Suc split: if_splits)
  then have "IPNet_Contains net a" using assms(1,2) a(1,3) by (simp add: Contains_prefix)
  ultimately show ?thesis using a(1,3) by blast
qed

theorem MaxHost_last_usable_witness:
  "MaxHost \<lparr>IP = [192, 168, 4, 0], Mask = CIDRMask 22 4\<rparr> = ''192.168.7.254''"
proof -
  let ?net = "\<lparr>IP = [192, 168, 4, 0], Mask = CIDRMask 22 4\<rparr> :: ipnet"
  have "map2 (AND) [192, 168, 4, 0] (CIDRMask 22 4) = [192, 168, 4, 0]" by code_simp
  then have w: "wf_net ?net" unfolding wf_net_def by (intro exI [of _ 4] exI [of _ 22]) simp
  have p: "prefix_length ?net = 22" by code_simp
  have c: "22 < 8 * length (IP ?net)" "(22::nat) \<noteq> 31 \<or> length (IP ?net) = 16" "hd (IP ?net) \<noteq> 0" by simp_all
  obtain a where "length a = length (IP ?net)" and m: "MaxHost ?net = IP_String a" and
    "bits_of a = take 22 (bits_of (IP ?net)) @ replicate (8 * length (IP ?net) - 22 - 1) True @ [False]"
    using MaxHost_last_usable [OF w, unfolded p, OF c] by blast
  then have a: "length a = 4" "bits_of a = take 22 (bits_of [192, 168, 4, 0]) @ replicate 9 True @ [False]"
    by (simp_all del: bits_of_Cons)
  have "bits_of a = bits_of [192, 168, 7, 254]" unfolding a(2) by code_simp
  then have "a = [192, 168, 7, 254]" using a(1) by (simp add: bits_of_inject del: bits_of_Cons)
  then have "MaxHost ?net = IP_String [192, 168, 7, 254]" using m by simp
  also have "\<dots> = ''192.168.7.254''" by code_simp
  finally show ?thesis .
qed

subsection \<open>A network with a zero byte in front\<close>

lemma be_nat_nat_be: "be_nat (nat_be n) = n"
proof (induction n rule: nat_be.induct)
  case (1 n)
  show ?case
  proof (cases "n = 0")
    case False
    with 1 show ?thesis by (simp add: nat_be.simps [of n] be_nat_snoc unat_of_nat_byte)
  qed (simp add: nat_be.simps be_nat_def)
qed

lemma length_nat_be: "n < 256 ^ l \<Longrightarrow> length (nat_be n) \<le> l"
proof (induction l arbitrary: n)
  case (Suc l)
  then have "n div 256 < 256 ^ l" by (simp add: less_mult_imp_div_less mult.commute)
  with Suc.IH show ?case by (simp add: nat_be.simps [of n])
qed (simp add: nat_be.simps)

lemma hex_char: "c \<in> set (hex_EncodeToString bs) \<Longrightarrow> is_hexdigit c"
  by (auto simp: hex_EncodeToString_def hex_byte_def)

lemma ParseCIDR_question_mark: "ParseCIDR (appendPrefixLength (CHR ''?'' # hex_EncodeToString bs))
  = Inl (External (''invalid CIDR address: '' @ CHR ''?'' # hex_EncodeToString bs @ ''/32''))"
proof -
  let ?s = "CHR ''?'' # hex_EncodeToString bs"
  have c: "CHR '':'' \<notin> set ?s" "CHR ''/'' \<notin> set ?s" "CHR ''.'' \<notin> set ?s" "CHR ''%'' \<notin> set ?s"
    using hex_char by (fastforce simp: is_hexdigit_def is_digit_def)+
  have "\<not> suffix ''/32'' ?s" using set_mono_suffix [of "''/32''" ?s] c(2) by auto
  then have ap: "appendPrefixLength ?s = ?s @ ''/32''"
    using c(1) by (simp add: appendPrefixLength_def strings_HasSuffix_def)
  have d: "dropWhile (\<lambda>c. c \<noteq> CHR ''.'' \<and> c \<noteq> CHR '':'' \<and> c \<noteq> CHR ''%'') ?s = []"
    using c by (auto simp del: dropWhile.simps simp: dropWhile_eq_Nil_conv)
  from d have "netip_ParseAddr ?s = None" unfolding netip_ParseAddr_def by (simp only: list.case)
  with SplitN2_found [OF c(2), of "''32''"] show ?thesis
    unfolding ap ParseCIDR_def Let_def by simp
qed

text \<open>
  C26. With \<open>-x\<close> and no \<open>-g\<close>, an IPv6 host whose network has a prefix length of at least 8 and
  less than 128, starts with a zero byte and does not have twelve zero bytes in front (for
  example \<open>64:ff9b::/96\<close>) is refused, forced or not: \<open>big.Int.Bytes\<close> drops the
  leading zero bytes and the gateway text is a question mark with hexadecimal digits, which
  does not parse. (With twelve zero bytes in front the remaining four bytes print as an IPv4
  address, and the answer may be an address of the other family.)
\<close>

theorem MaxHost_leading_zero_refused:
  assumes "ParseCIDR h = Inr (hip, net)" "length (IP net) = 16" "To4 (IP net) = None"
    and "8 \<le> prefix_length net" "prefix_length net < 128" "hd (IP net) = 0" "take 12 (IP net) \<noteq> replicate 12 0"
  shows "\<exists>g. MaxHost net = CHR ''?'' # g \<and> ValidateHostAndGateway h [] force True =
    Inl (Wrapf (CHR ''?'' # g @ '': parsing gateway address'')
          (External (''invalid CIDR address: '' @ CHR ''?'' # g @ ''/32'')))"
proof -
  have wf: "wf_net net" using ParseCIDR_wf_net assms(1-3) by blast
  from assms(2,5) wf obtain a where a: "length a = length (IP net)" "MaxHost net = IP_String (nat_be (be_nat a))"
    "bits_of a = take (prefix_length net) (bits_of (IP net))
       @ replicate (8 * length (IP net) - prefix_length net - 1) True @ [False]"
    "be_nat (IP net) \<le> be_nat a" using MaxHost_value [of net] by auto
  obtain x as y ys where xy: "a = x # as" "IP net = y # ys" using a(1) assms(2) by (cases a; cases "IP net") auto
  have "byte_bits x = take 8 (bits_of a)" by (simp add: xy)
  also have "\<dots> = take 8 (bits_of (IP net))" using a(3) assms(2,4) by (simp add: min_def)
  also have "\<dots> = byte_bits y" by (simp add: xy)
  finally have "x = 0" using assms(6) xy by simp
  then have up: "be_nat a < 256 ^ 15" using be_nat_head_zero [of a] a(1) assms(2) xy by simp
  have "\<not> be_nat (IP net) < 256 ^ 4"
  proof -
    have "be_nat (take 12 (IP net)) \<noteq> be_nat (replicate 12 0)"
      using assms(2,7) nat_be_fixed_be_nat [of "take 12 (IP net)"] nat_be_fixed_be_nat [of "replicate 12 0"] by auto
    moreover have "be_nat (replicate 12 0) = 0" by (simp add: be_nat_def numeral_eq_Suc)
    ultimately have "256 ^ 4 \<le> be_nat (take 12 (IP net)) * 256 ^ 4" by simp
    then show ?thesis using be_nat_append [of "take 12 (IP net)" "drop 12 (IP net)"] assms(2) by simp
  qed
  then have lo: "\<not> be_nat a < 256 ^ 4" using a(4) by simp
  let ?b = "nat_be (be_nat a)"
  have "length ?b \<le> 15" using up by (rule length_nat_be)
  moreover have "4 < length ?b"
  proof (rule ccontr)
    assume "\<not> 4 < length ?b"
    then have "(256::nat) ^ length ?b \<le> 256 ^ 4" by (intro power_increasing) auto
    then show False using lo be_nat_lt [of ?b] by (simp add: be_nat_nat_be)
  qed
  ultimately have "MaxHost net = CHR ''?'' # hex_EncodeToString ?b" using a(2) by (auto simp: IP_String_def)
  moreover from this have "ValidateHostAndGateway h [] force True =
    Inl (Wrapf (CHR ''?'' # hex_EncodeToString ?b @ '': parsing gateway address'')
          (External (''invalid CIDR address: '' @ CHR ''?'' # hex_EncodeToString ?b @ ''/32'')))"
    using assms(1) ParseCIDR_nonempty [OF assms(1)]
    by (simp add: ValidateHostAndGateway_def gateway_candidate_def ParseCIDR_question_mark)
  ultimately show ?thesis by blast
qed

theorem MaxHost_leading_zero_refused_witness:
  "\<exists>g. ValidateHostAndGateway ''64:ff9b::5/96'' [] True True =
    Inl (Wrapf (CHR ''?'' # g @ '': parsing gateway address'')
          (External (''invalid CIDR address: '' @ CHR ''?'' # g @ ''/32'')))"
proof -
  let ?ip = "[0, 100, 255, 155, 0, 0, 0, 0, 0, 0, 0, 0, 0, 0, 0, 0] :: ip"
  let ?net = "\<lparr>IP = ?ip, Mask = CIDRMask 96 16\<rparr> :: ipnet"
  have h: "ParseCIDR ''64:ff9b::5/96'' = Inr ([0, 100, 255, 155, 0, 0, 0, 0, 0, 0, 0, 0, 0, 0, 0, 5], ?net)"
    by code_simp
  have "length (IP ?net) = 16" "To4 (IP ?net) = None" "8 \<le> prefix_length ?net" "prefix_length ?net < 128"
    "hd (IP ?net) = 0" "take 12 (IP ?net) \<noteq> replicate 12 0" by code_simp+
  from MaxHost_leading_zero_refused [OF h this] show ?thesis by blast
qed

subsection \<open>What an accepted gateway satisfies\<close>

text \<open>
  C24. Without the force flag, a gateway that \<open>ValidateHostAndGateway\<close> returns parses and is
  not the host's address; one given with \<open>-g\<close> is returned as given and lies in the host's
  network.
\<close>

theorem validated_gateway_safe:
  assumes "ValidateHostAndGateway h g False x = Inr gw"
  shows "\<exists>hip net gip gnet. ParseCIDR h = Inr (hip, net)
    \<and> ParseCIDR (appendPrefixLength gw) = Inr (gip, gnet) \<and> \<not> IP_Equal hip gip
    \<and> (g \<noteq> [] \<longrightarrow> gw = g \<and> IPNet_Contains net gip)"
proof -
  from assms obtain hip net where h: "ParseCIDR h = Inr (hip, net)"
    by (auto simp: ValidateHostAndGateway_def split: if_splits sum.splits)
  with assms obtain gip gnet where g: "gateway_candidate g False x net = Inr gw"
    "ParseCIDR (appendPrefixLength gw) = Inr (gip, gnet)" "\<not> IP_Equal hip gip"
    by (auto simp: ValidateHostAndGateway_def split: if_splits sum.splits prod.splits)
  moreover have "g \<noteq> [] \<longrightarrow> gw = g \<and> IPNet_Contains net gip"
    using g by (auto simp: gateway_candidate_def split: if_splits sum.splits prod.splits)
  ultimately show ?thesis using h by blast
qed

theorem validated_gateway_safe_witness:
  "ValidateHostAndGateway ''fd00::15/64'' ''fd00::1'' False False = Inr ''fd00::1''
   \<and> (\<exists>hip net gip gnet. ParseCIDR ''fd00::15/64'' = Inr (hip, net)
    \<and> ParseCIDR (appendPrefixLength ''fd00::1'') = Inr (gip, gnet) \<and> IPNet_Contains net gip)"
proof -
  have "ValidateHostAndGateway ''fd00::15/64'' ''fd00::1'' False False = Inr ''fd00::1''" by code_simp
  with validated_gateway_safe [OF this] show ?thesis by auto
qed

end
