(* ===== verification/Usage.thy ===== *)
theory Usage
  imports Options
begin

section \<open>Usage texts\<close>

text \<open>
  The texts that the program and its two commands print on standard error, as lists of
  lines. The one of \<open>stprov remote\<close> is a format: \<open>Fprintf\<close> puts the defaults in the place of
  its verbs.
\<close>

definition unlines :: "string list \<Rightarrow> string" where
  "unlines ls = concat (map (\<lambda>l. l @ [CHR 0x0A]) ls)"

text \<open>\<open>Sprintf\<close> for formats whose only verb is \<open>%s\<close>; an argument that is missing is reported.\<close>

fun Sprintf_s :: "string \<Rightarrow> string list \<Rightarrow> string" where
  "Sprintf_s [] args = []"
| "Sprintf_s [c] args = [c]"
| "Sprintf_s (c # d # cs) args =
     (if c = CHR ''%'' \<and> d = CHR ''s'' then
        (case args of [] \<Rightarrow> ''%!s(MISSING)'' @ Sprintf_s cs [] | a # as \<Rightarrow> a @ Sprintf_s cs as)
      else c # Sprintf_s (d # cs) args)"

text \<open>\<open>strings.ReplaceAll\<close> of a single character.\<close>

definition strings_ReplaceAll :: "string \<Rightarrow> char \<Rightarrow> string \<Rightarrow> string" where
  "strings_ReplaceAll s old new = strings_Join (strings_Split s old) new"

definition stprov_usage :: string where
  "stprov_usage = unlines [
      ''Usage:'',
      '''',
      ''  stprov help'',
      ''  stprov version'',
      ''  stprov local <SUBCOMMAND> [Options]'',
      ''  stprov remote <SUBCOMMAND> [Options]'',
      '''',
      ''The local and remote commands accept the subcommand \"help\".'']"

definition local_usage :: string where
  "local_usage = unlines [
      ''Usage:'',
      '''',
      ''  stprov local run -o OTP -i IP_ADDR [-p PORT]'',
      ''        [--pk FILENAME --kek FILENAME --db FILENAME [--dbx FILENAME] [-n]]'',
      '''',
      ''    Contributes entropy to stprov remote, which is listening on a given IP'',
      ''    address (-i) and port (-p).  A one-time password (-o) is used to bootstrap'',
      ''    HTTPS.  Secure Boot keys can optionally be provisioned in Setup Mode.'',
      '''',
      ''    Upon success, the following key-value pairs are output on stdout, one pair'',
      ''    per line.  The order of these lines cannot be relied on.  New keys may be'',
      ''    added, so ignore unknown keys if you are consuming this output.  Key-value'',
      ''    pairs:'',
      '''',
      ''    publickey=<the public key of the platform's SSH hostkey>'',
      ''    fingerprint=<the fingerprint of the platform's SSH hostkey>'',
      ''    hostname=<the platform's hostname>'',
      ''    ip=<the platform's IP address>'',
      '''',
      ''  Options:'',
      '''',
      ''    -o, --otp   One-time password to establish a secure connection'',
      ''    -i, --ip    Remote stprov address (e.g., 10.0.2.10)'',
      ''    -p, --port  Remote stprov port (Default: 2009)'',
      ''        --pk    Filename to read Secure Boot PK from (.auth format), must be self-signed'',
      ''        --kek   Filename to read Secure Boot KEK from (.auth format), must be signed by PK'',
      ''        --db    Filename to read Secure Boot db from (.auth format), must be signed by KEK'',
      ''        --dbx   Filename to read Secure Boot dbx from (.auth format), must be signed by KEK'',
      ''    -n, --no-uefi-menu-reboot'',
      ''                Don't request the firmware to reboot into UEFI menu'']"

definition usage_string :: string where
  "usage_string = unlines [
      ''Usage:'',
      '''',
      ''  stprov remote run -o OTP [-i IP_ADDR] [-p PORT] [-a ALLOWED_HOST [-a ALLOWED_HOST ...]'',
      '''',
      ''    Starts a server on a given IP address (-i) and port (-o), waiting for'',
      ''    commands from stprov local.  A one-time password (-o) is used to establish'',
      ''    a mutually authenticated HTTPS connection.  Connections are only accepted'',
      ''    from the allowed hosts (-a), a repeated option that uses CIDR notation.'',
      '''',
      ''    An SSH hostkey is written to EFI NVRAM on success.  Secure Boot objects PK,'',
      ''    KEK, db, and dbx are also written to EFI NVRAM if provided by stprov local.'',
      '''',
      ''  Options:'',
      '''',
      ''    -o, --otp    One-time password to establish a secure connection'',
      ''    -i, --ip     Listening address (Default: 0.0.0.0)'',
      ''    -p, --port   Listening port (Default: 2009)'',
      ''    -a, --allow  Source IP addresses allowed to connect in CIDR notation'',
      ''                 (Default: %s; can be repeated)'',
      '''',
      ''    If the subnet mask is omitted with the -a option, it defaults to \"/32\"'',
      ''    (IPv4) or \"/128\" (IPv6).  E.g., 10.0.0.1 and 10.0.0.1/32 are equivalent.'',
      '''',
      ''    If your input interface scrambles the '/' (slash) when typing, it is'',
      ''    possible to type 'm' as a replacement for the '/' in CIDR notation'',
      ''    addresses.  This is possible for the arguments to the flags -i and -a.'',
      '''',
      '''',
      ''  stprov remote dhcp -h HOSTNAME | -H FULL_HOSTNAME'',
      ''                     -r OSPKG_URL [-r OSPKG_URL ...] [-u USER] [-p PASSWORD]'',
      ''                     [-m MAC | -I INTERFACE | -w WAIT]'',
      ''                     [-d DNS [-d DNS ...]]'',
      '''',
      ''    Configures the network using DHCP. If none of -m and -I are specified, the'',
      ''    interface is guessed.'',
      '''',
      ''    A host configuration and a hostname is written to EFI NVRAM on success.'',
      '''',
      '''',
      ''  stprov remote static -i HOST_ADDR'',
      ''                       -r OSPKG_URL [-r OSPKG_URL ...] [-u USER] [-p PASSWORD]'',
      ''                       [-h HOSTNAME | -H FULL_HOSTNAME]'',
      ''                       [-A | -m MAC | -I INTERFACE | {-B | -b INTERFACE [-b INTERFACE ...]} [-M BONDING_MODE]] [-w WAIT]'',
      ''                       [-g GATEWAY] [-x] [-f]'',
      ''                       [-d DNS [-d DNS ...]]'',
      '''',
      ''    Configures a static network configuration and persist it to EFI-NVRAM.  If'',
      ''    none of -m and -I are specified, the network interface is guessed.  If -A'',
      ''    is specified, the interface guessing involves pinging the gateway.  If -B'',
      ''    is specified, the interface guessing is instead tailored for bonding.'',
      '''',
      ''    A host configuration and a hostname is written to EFI NVRAM on success.'',
      '''',
      ''  Options:'',
      '''',
      ''    -i, --ip               Host address in CIDR notation (e.g., 10.0.2.10/26)'',
      ''    -h, --host             Host name prefix (full host name becomes HOSTNAME.%s)'',
      ''    -H, --full-host        Full host name (e.g., host.example.org)'',
      ''    -r, --url              OS package URLs (see defaults below; can be repeated)'',
      ''    -u, --user             User name when using a templated user:password URL (Default: %s)'',
      ''    -p, --pass             Password when using a templated user:password URL (Default: %s)'',
      ''    -m, --mac              MAC address of network interface to select (e.g., aa:bb:cc:dd:ee:ff)'',
      ''    -I, --interface        Name of network interface to select (e.g., eth0)'',
      ''    -A, --autodetect       Autodetect network interface and ping gateway'',
      ''    -B, --bonding-auto     Autodetect network interfaces to bond into bond0'',
      ''    -b, --bonding          Name of network interface to bond into bond0 (can be repeated)'',
      ''    -M, --bonding-mode     Bonding mode (Default: %s)'',
      ''    -w, --wait             Wait at most this long for link up (Default: 4s)'',
      ''    -g, --gateway          Gateway IP address (Default: assuming first address in HOST_ADDR's network)'',
      ''    -x, --try-last-gateway Override default gateway and instead assume last address in HOST_ADDR's network'',
      ''    -f, --force            Proceed despite failing configuration sanity checks, logging ignored issues'',
      ''    -d, --dns              DNS server IP addresses (Default: %s; can be repeated)'',
      '''',
      ''    The first occurrence of the pattern user:password in the specified OS'',
      ''    package URL(s) are substituted with the values of -u and -p.  For example,'',
      ''    \"user:password\" might get substituted to \"alice:sikritpassword\".'',
      '''',
      ''    The default OS package URL(s) are:'',
      ''    %s.'',
      '''',
      ''    Bonding mode (-M) is one of: balance-rr, active-backup, balance-xor,'',
      ''    broadcast, 802.3ad, balance-tlb, balance-alb.'',
      '''',
      ''    If your input interface scrambles the '/' (slash) when typing, it is'',
      ''    possible to type 'm' as a replacement for the '/' in CIDR notation'',
      ''    addresses.  This is possible for the arguments to the flags -i and -g.'']"

definition remote_usage :: string where
  "remote_usage = Sprintf_s usage_string
     [strings_ReplaceAll DefAllowedNetworks CHR '','' '', '', DefHostname, DefUser, DefPassword, DefBondingMode,
      strings_ReplaceAll DefDNS CHR '','' '', '', strings_ReplaceAll DefTemplateURL CHR '','' ('','' @ [CHR 0x0A] @ ''    '')]"

lemma unlines_Cons: "unlines (l # ls) = l @ CHR 0x0A # unlines ls"
  by (simp add: unlines_def)

lemma Sprintf_s_Cons: "c \<noteq> CHR ''%'' \<Longrightarrow> Sprintf_s (c # cs) args = c # Sprintf_s cs args"
  by (cases cs) auto

lemma remote_usage_start: "prefix ''Usage:'' remote_usage"
  unfolding remote_usage_def usage_string_def unlines_Cons [of "''Usage:''"] by (simp add: Sprintf_s_Cons)

end
