(* ===== verification/Flags.thy ===== *)
theory Flags
  imports Usage "HOL-Library.Monad_Syntax"
begin

section \<open>Option parsing: options.New and the flag sets of the commands\<close>

text \<open>
  The program parses its command line with the standard package \<open>flag\<close>, through the helper
  functions of \<open>internal/options\<close>. This theory models the part of \<open>flag\<close> they use: a flag
  set maps option names to variables of the program, \<open>parseOne\<close> consumes one option, and
  \<open>Parse\<close> with \<open>ExitOnError\<close> ends the process on a bad command line. Variables are named as
  in the source; their values have one of the four types the program registers. Defining a
  name twice panics in Go and is \<open>None\<close> here.
\<close>

datatype optval = BoolV bool | IntV int | StringV string | SliceV SliceFlag

type_synonym vars = "string \<Rightarrow> optval"

record flagset =
  fs_name :: string
  formal :: "(string \<times> string) list"
  vars :: vars
  fs_args :: "string list"

definition fs_Var :: "string \<Rightarrow> string \<Rightarrow> flagset \<Rightarrow> flagset option" where
  "fs_Var var name fs =
     (if map_of (formal fs) name \<noteq> None then None else Some (fs\<lparr>formal := (name, var) # formal fs\<rparr>))"

definition set_var :: "string \<Rightarrow> optval \<Rightarrow> flagset \<Rightarrow> flagset" where
  "set_var var v fs = fs\<lparr>vars := (vars fs)(var := v)\<rparr>"

text \<open>\<open>BoolVar\<close>, \<open>StringVar\<close> and \<open>IntVar\<close> store the default before they register the name.\<close>

definition fs_XVar :: "optval \<Rightarrow> string \<Rightarrow> string \<Rightarrow> flagset \<Rightarrow> flagset option" where
  "fs_XVar value var name fs = fs_Var var name (set_var var value fs)"

definition AddBool :: "string \<Rightarrow> string \<Rightarrow> string \<Rightarrow> bool \<Rightarrow> flagset \<Rightarrow> flagset option" where
  "AddBool opt short long value fs =
     Option.bind (fs_XVar (BoolV value) opt short fs) (fs_XVar (BoolV value) opt long)"

definition AddString :: "string \<Rightarrow> string \<Rightarrow> string \<Rightarrow> string \<Rightarrow> flagset \<Rightarrow> flagset option" where
  "AddString opt short long value fs =
     Option.bind (fs_XVar (StringV value) opt short fs) (fs_XVar (StringV value) opt long)"

definition AddInt :: "string \<Rightarrow> string \<Rightarrow> string \<Rightarrow> int \<Rightarrow> flagset \<Rightarrow> flagset option" where
  "AddInt opt short long value fs =
     Option.bind (fs_XVar (IntV value) opt short fs) (fs_XVar (IntV value) opt long)"

definition slice_of :: "optval \<Rightarrow> SliceFlag" where
  "slice_of v = (case v of SliceV i \<Rightarrow> i | _ \<Rightarrow> \<lparr>Values = [], is_set = False\<rparr>)"

definition AddStringS :: "string \<Rightarrow> string \<Rightarrow> string \<Rightarrow> string \<Rightarrow> flagset \<Rightarrow> flagset option" where
  "AddStringS opt short long value fs =
     (let fs' = set_var opt (SliceV (AddStringS_default value (slice_of (vars fs opt)))) fs in
      Option.bind (fs_Var opt short fs') (fs_Var opt long))"

subsection \<open>Values: strconv.ParseBool and ParseInt with base 0\<close>

definition ParseBool :: "string \<Rightarrow> bool option" where
  "ParseBool s =
     (if s \<in> {''1'', ''t'', ''T'', ''TRUE'', ''true'', ''True''} then Some True
      else if s \<in> {''0'', ''f'', ''F'', ''FALSE'', ''false'', ''False''} then Some False
      else None)"

definition lower :: "char \<Rightarrow> char" where
  "lower c = (let n = of_char c in if 65 \<le> n \<and> n \<le> (90 :: nat) then char_of (n + 32) else c)"

definition base_letter :: "char \<Rightarrow> nat option" where
  "base_letter c =
     (if lower c = CHR ''b'' then Some 2 else if lower c = CHR ''o'' then Some 8
      else if lower c = CHR ''x'' then Some 16 else None)"

text \<open>The base and the digits that are left: \<open>0b\<close>, \<open>0o\<close> and \<open>0x\<close> only before a digit.\<close>

definition detect_base :: "string \<Rightarrow> nat \<times> string" where
  "detect_base s =
     (case s of
        c # s1 \<Rightarrow>
          (if c \<noteq> CHR ''0'' then (10, s)
           else (case s1 of
               x # y # s2 \<Rightarrow> (case base_letter x of Some b \<Rightarrow> (b, y # s2) | None \<Rightarrow> (8, s1))
             | _ \<Rightarrow> (8, s1)))
      | [] \<Rightarrow> (10, s))"

definition uint_digit :: "char \<Rightarrow> nat option" where
  "uint_digit c =
     (let n = of_char (lower c) in
      if is_digit c then Some (digit_val c)
      else if 97 \<le> n \<and> n \<le> (122 :: nat) then Some (n - 87) else None)"

text \<open>The two errors of numbers, as \<open>flag\<close> reports them.\<close>

definition errParse :: string where "errParse = ''parse error''"
definition errRange :: string where "errRange = ''value out of range''"

fun uint_loop :: "nat \<Rightarrow> string \<Rightarrow> nat \<Rightarrow> string + nat" where
  "uint_loop base [] n = Inr n"
| "uint_loop base (c # s) n =
     (if c = CHR ''_'' then uint_loop base s n
      else (case uint_digit c of
          None \<Rightarrow> Inl errParse
        | Some d \<Rightarrow>
            if d \<ge> base then Inl errParse
            else if n * base + d \<ge> 2 ^ 64 then Inl errRange
            else uint_loop base s (n * base + d)))"

fun underscore_loop :: "bool \<Rightarrow> string \<Rightarrow> char \<Rightarrow> bool" where
  "underscore_loop hex [] i = (i \<noteq> CHR ''_'')"
| "underscore_loop hex (c # s) i =
     (if is_digit c \<or> hex \<and> lower c \<in> set ''abcdef'' then underscore_loop hex s CHR ''0''
      else if c = CHR ''_'' then i = CHR ''0'' \<and> underscore_loop hex s CHR ''_''
      else i \<noteq> CHR ''_'' \<and> underscore_loop hex s CHR ''!'')"

definition underscoreOK :: "string \<Rightarrow> bool" where
  "underscoreOK s =
     (case s of
        c # x # s2 \<Rightarrow>
          (if c = CHR ''0'' \<and> base_letter x \<noteq> None then underscore_loop (base_letter x = Some 16) s2 CHR ''0''
           else underscore_loop False s CHR ''^'')
      | _ \<Rightarrow> underscore_loop False s CHR ''^'')"

definition ParseUint0 :: "string \<Rightarrow> string + nat" where
  "ParseUint0 s =
     (if s = [] then Inl errParse
      else (case detect_base s of (base, ds) \<Rightarrow>
        (case uint_loop base ds 0 of
           Inl e \<Rightarrow> Inl e
         | Inr n \<Rightarrow> if CHR ''_'' \<in> set ds \<and> \<not> underscoreOK s then Inl errParse else Inr n)))"

definition ParseInt0 :: "string \<Rightarrow> string + int" where
  "ParseInt0 s =
     (let (neg, ds) = (case s of [] \<Rightarrow> (False, s)
          | c # cs \<Rightarrow> if c = CHR ''-'' then (True, cs) else if c = CHR ''+'' then (False, cs) else (False, s)) in
      case ParseUint0 ds of
        Inl e \<Rightarrow> Inl e
      | Inr un \<Rightarrow>
          if \<not> neg \<and> un \<ge> 2 ^ 63 then Inl errRange
          else if neg \<and> un > 2 ^ 63 then Inl errRange
          else Inr (if neg then - int un else int un))"

text \<open>\<open>Set\<close> of the four kinds of values.\<close>

definition Value_Set :: "string \<Rightarrow> optval \<Rightarrow> string + optval" where
  "Value_Set s v =
     (case v of
        BoolV b \<Rightarrow> (case ParseBool s of None \<Rightarrow> Inl errParse | Some b' \<Rightarrow> Inr (BoolV b'))
      | IntV i \<Rightarrow> (case ParseInt0 s of Inl e \<Rightarrow> Inl e | Inr i' \<Rightarrow> Inr (IntV i'))
      | StringV t \<Rightarrow> Inr (StringV s)
      | SliceV i \<Rightarrow> Inr (SliceV (SliceFlag_Set s i)))"

fun is_bool_flag :: "optval \<Rightarrow> bool" where
  "is_bool_flag (BoolV b) = True"
| "is_bool_flag _ = False"

subsection \<open>FlagSet.Parse\<close>

text \<open>
  One call of \<open>parseOne\<close>: it saw an option, or it is over, or it failed; \<open>ErrHelp\<close> is the
  failure of an undefined \<open>-h\<close> or \<open>-help\<close>.
\<close>

datatype parsed = Seen flagset | Finished flagset | ErrHelp | Failed string

text \<open>The name of an option and the value behind its first equals sign.\<close>

definition split_value :: "string \<Rightarrow> string \<times> string option" where
  "split_value name =
     (case name of [] \<Rightarrow> ([], None)
      | c # cs \<Rightarrow>
          (case dropWhile (\<lambda>x. x \<noteq> CHR ''='') cs of
             [] \<Rightarrow> (name, None)
           | _ # value \<Rightarrow> (c # takeWhile (\<lambda>x. x \<noteq> CHR ''='') cs, Some value)))"

text \<open>Setting a variable; the error's text depends on how the option was written.\<close>

definition set_flag :: "string \<Rightarrow> string \<Rightarrow> string \<Rightarrow> flagset \<Rightarrow> parsed" where
  "set_flag complaint var value fs =
     (case Value_Set value (vars fs var) of
        Inl e \<Rightarrow> Failed (complaint @ '': '' @ e)
      | Inr v \<Rightarrow> Seen (set_var var v fs))"

definition parse_named :: "string \<Rightarrow> string option \<Rightarrow> flagset \<Rightarrow> parsed" where
  "parse_named name value fs =
     (let invalid = (\<lambda>v. ''invalid value '' @ quote v @ '' for flag -'' @ name) in
      case map_of (formal fs) name of
        None \<Rightarrow>
          (if name = ''help'' \<or> name = ''h'' then ErrHelp
           else Failed (''flag provided but not defined: -'' @ name))
      | Some var \<Rightarrow>
          if is_bool_flag (vars fs var)
          then (case value of
              Some v \<Rightarrow> set_flag (''invalid boolean value '' @ quote v @ '' for -'' @ name) var v fs
            | None \<Rightarrow> set_flag (''invalid boolean flag '' @ name) var ''true'' fs)
          else (case (value, fs_args fs) of
              (Some v, _) \<Rightarrow> set_flag (invalid v) var v fs
            | (None, v # rest) \<Rightarrow> set_flag (invalid v) var v (fs\<lparr>fs_args := rest\<rparr>)
            | (None, []) \<Rightarrow> Failed (''flag needs an argument: -'' @ name)))"

definition bad_name :: "string \<Rightarrow> bool" where
  "bad_name name \<longleftrightarrow> name = [] \<or> hd name = CHR ''-'' \<or> hd name = CHR ''=''"

definition parseOne :: "flagset \<Rightarrow> parsed" where
  "parseOne fs =
     (case fs_args fs of
        [] \<Rightarrow> Finished fs
      | s # rest \<Rightarrow>
          if length s < 2 \<or> hd s \<noteq> CHR ''-'' then Finished fs
          else if s = ''--'' then Finished (fs\<lparr>fs_args := rest\<rparr>)
          else (let name = (if s ! 1 = CHR ''-'' then drop 2 s else drop 1 s) in
            if bad_name name then Failed (''bad flag syntax: '' @ s)
            else (case split_value name of (n, value) \<Rightarrow> parse_named n value (fs\<lparr>fs_args := rest\<rparr>))))"

lemma set_flag_args: "set_flag t var v fs = Seen fs' \<Longrightarrow> fs_args fs' = fs_args fs"
  by (auto simp: set_flag_def set_var_def split: sum.splits)

lemma parse_named_args: "parse_named n v fs = Seen fs' \<Longrightarrow> length (fs_args fs') \<le> length (fs_args fs)"
  by (auto simp: parse_named_def Let_def dest!: set_flag_args split: option.splits if_splits list.splits)

lemma parseOne_decreases: "parseOne fs = Seen fs' \<Longrightarrow> length (fs_args fs') < length (fs_args fs)"
  by (auto simp: parseOne_def Let_def dest!: parse_named_args split: list.splits if_splits prod.splits)

text \<open>
  What \<open>options.New\<close> comes to: a flag set, or the end of the process with a status and what
  was printed on standard error.
\<close>

datatype outcome = Parsed flagset | Exit nat string | Panic

function Parse :: "string \<Rightarrow> flagset \<Rightarrow> outcome" where
  "Parse usage fs =
     (case parseOne fs of
        Seen fs' \<Rightarrow> Parse usage fs'
      | Finished fs' \<Rightarrow> Parsed fs'
      | ErrHelp \<Rightarrow> Exit 0 usage
      | Failed m \<Rightarrow> Exit 2 (m @ [CHR 0x0A] @ usage))"
  by pat_completeness auto
termination
  by (relation "measure (\<lambda>(usage, fs). length (fs_args fs))") (auto intro: parseOne_decreases)

declare Parse.simps [simp del]

definition New :: "string list \<Rightarrow> string \<Rightarrow> (flagset \<Rightarrow> flagset option) \<Rightarrow> vars \<Rightarrow> outcome" where
  "New args usage setup vs =
     (let args' = (if args = [] then [''''] else args);
          fs = \<lparr>fs_name = hd args', formal = [], vars = vs, fs_args = []\<rparr> in
      case setup fs of
        None \<Rightarrow> Panic
      | Some fs' \<Rightarrow> Parse usage (fs'\<lparr>fs_args := tl args'\<rparr>))"

lemma vars_set_var [simp]: "vars (set_var x v fs) = (vars fs)(x := v)" "formal (set_var x v fs) = formal fs"
    "fs_args (set_var x v fs) = fs_args fs" "fs_name (set_var x v fs) = fs_name fs"
  by (simp_all add: set_var_def)

subsection \<open>Repeated and comma-separated options\<close>

text \<open>The command line that gives an option once for each value, as two arguments each.\<close>

definition repeated :: "string \<Rightarrow> string list \<Rightarrow> string list" where
  "repeated name values = concat (map (\<lambda>v. [CHR ''-'' # name, v]) values)"

definition plain_name :: "string \<Rightarrow> bool" where
  "plain_name name \<longleftrightarrow> \<not> bad_name name \<and> CHR ''='' \<notin> set name"

lemma split_plain_name: "plain_name name \<Longrightarrow> split_value name = (name, None)"
proof (cases name)
  case (Cons c cs)
  moreover assume "plain_name name"
  ultimately have "dropWhile (\<lambda>x. x \<noteq> CHR ''='') cs = []" by (auto simp: plain_name_def dropWhile_eq_Nil_conv)
  with Cons show ?thesis unfolding split_value_def by (simp only: list.case)
qed (simp add: split_value_def)

lemma parseOne_value:
  assumes "plain_name name" "map_of (formal fs) name = Some var" "\<not> is_bool_flag (vars fs var)"
    "Value_Set v (vars fs var) = Inr w"
  shows "parseOne (fs\<lparr>fs_args := (CHR ''-'' # name) # v # rest\<rparr>) = Seen (set_var var w (fs\<lparr>fs_args := rest\<rparr>))"
proof -
  obtain c cs where n: "name = c # cs" "c \<noteq> CHR ''-''" using assms(1) by (cases name) (auto simp: plain_name_def bad_name_def)
  have "\<not> bad_name name" using assms(1) by (simp add: plain_name_def)
  with assms n show ?thesis
    by (simp add: parseOne_def split_plain_name parse_named_def set_flag_def set_var_def)
qed

lemma Parse_repeated_slice:
  assumes "plain_name name"
  shows "map_of (formal fs) name = Some var \<Longrightarrow> vars fs var = SliceV i \<Longrightarrow>
    Parse usage (fs\<lparr>fs_args := repeated name vs @ rest\<rparr>)
    = Parse usage ((set_var var (SliceV (fold SliceFlag_Set vs i)) fs)\<lparr>fs_args := rest\<rparr>)"
proof (induction vs arbitrary: fs i)
  case Nil
  then show ?case by (simp add: repeated_def set_var_def fun_upd_idem)
next
  case (Cons v vs)
  let ?fs = "set_var var (SliceV (SliceFlag_Set v i)) fs"
  have "parseOne (fs\<lparr>fs_args := repeated name (v # vs) @ rest\<rparr>) = Seen (?fs\<lparr>fs_args := repeated name vs @ rest\<rparr>)"
    using parseOne_value [OF assms, of fs var v "SliceV (SliceFlag_Set v i)" "repeated name vs @ rest"] Cons.prems
    by (simp add: repeated_def Value_Set_def set_var_def)
  moreover have "Parse usage (?fs\<lparr>fs_args := repeated name vs @ rest\<rparr>)
      = Parse usage ((set_var var (SliceV (fold SliceFlag_Set vs (SliceFlag_Set v i))) ?fs)\<lparr>fs_args := rest\<rparr>)"
    using Cons.prems by (intro Cons.IH) simp_all
  ultimately show ?case by (simp add: Parse.simps [of usage "fs\<lparr>fs_args := _\<rparr>"] set_var_def)
qed

lemma Parse_no_args: "fs_args fs = [] \<Longrightarrow> Parse usage fs = Parsed fs"
  by (simp add: Parse.simps parseOne_def)

text \<open>
  An option registered with \<open>AddStringS\<close> and given one or more times on the command
  line ends up with the comma-separated parts of all its values, in the order given; the
  default is dropped. Without the option the default's parts are used.
\<close>

theorem repeated_option_values:
  assumes "plain_name short" "plain_name long" "short \<noteq> long" "name = short \<or> name = long"
    and "\<not> is_set (slice_of (vs0 opt))"
  shows "\<exists>fs. New (cmd # repeated name vs) usage (AddStringS opt short long dflt) vs0 = Parsed fs
    \<and> Values (slice_of (vars fs opt)) =
       (if vs \<noteq> [] then concat (map (\<lambda>v. strings_Split v CHR '','') vs)
        else if dflt \<noteq> [] then strings_Split dflt CHR '','' else Values (slice_of (vs0 opt)))"
proof -
  define i where "i = AddStringS_default dflt (slice_of (vs0 opt))"
  define fs where "fs = \<lparr>fs_name = cmd, formal = [(long, opt), (short, opt)], vars = vs0(opt := SliceV i), fs_args = []\<rparr>"
  have add: "AddStringS opt short long dflt \<lparr>fs_name = cmd, formal = [], vars = vs0, fs_args = []\<rparr> = Some fs"
    using assms(3) by (simp add: AddStringS_def fs_Var_def set_var_def Let_def i_def fs_def)
  have "plain_name name" "map_of (formal fs) name = Some opt" "vars fs opt = SliceV i"
    using assms(1,2,4) by (auto simp: fs_def)
  from Parse_repeated_slice [OF this, of usage vs "[]"]
  have "Parse usage (fs\<lparr>fs_args := repeated name vs\<rparr>)
      = Parsed ((set_var opt (SliceV (fold SliceFlag_Set vs i)) fs)\<lparr>fs_args := []\<rparr>)"
    by (simp add: Parse_no_args)
  then have new: "New (cmd # repeated name vs) usage (AddStringS opt short long dflt) vs0
      = Parsed ((set_var opt (SliceV (fold SliceFlag_Set vs i)) fs)\<lparr>fs_args := []\<rparr>)"
    by (simp add: New_def add)
  have unset: "\<not> is_set i" using assms(5) by (simp add: i_def AddStringS_default_def)
  have vals: "Values (fold SliceFlag_Set vs i) =
      (if vs \<noteq> [] then concat (map (\<lambda>v. strings_Split v CHR '','') vs) else Values i)"
  proof (cases vs)
    case (Cons v ws)
    have "is_set (SliceFlag_Set v i)" "Values (SliceFlag_Set v i) = strings_Split v CHR '',''"
      using unset by (simp_all add: SliceFlag_Set_def)
    with Cons fold_SliceFlag_Set [of "SliceFlag_Set v i" ws] show ?thesis by simp
  qed simp
  show ?thesis unfolding new using vals
    by (simp add: slice_of_def i_def AddStringS_default_def set_var_def)
qed

theorem repeated_option_values_witness:
  "\<exists>fs. New [''run'', ''-a'', ''10.0.0.0/8,fd00::1'', ''-a'', ''127.0.0.1''] remote_usage (AddStringS ''optAllowedCIDRs'' ''a'' ''allow'' DefAllowedNetworks)
     (\<lambda>_. SliceV \<lparr>Values = [], is_set = False\<rparr>) = Parsed fs
   \<and> Values (slice_of (vars fs ''optAllowedCIDRs'')) = [''10.0.0.0/8'', ''fd00::1'', ''127.0.0.1'']"
proof -
  have p: "plain_name ''a''" "plain_name ''allow''" by code_simp+
  have i: "\<not> is_set (slice_of (SliceV \<lparr>Values = [], is_set = False\<rparr>))" by (simp add: slice_of_def)
  have s: "strings_Split ''10.0.0.0/8,fd00::1'' CHR '','' = [''10.0.0.0/8'', ''fd00::1'']"
    "strings_Split ''127.0.0.1'' CHR '','' = [''127.0.0.1'']" by code_simp+
  from repeated_option_values [OF p, of "''a''" "\<lambda>_. SliceV \<lparr>Values = [], is_set = False\<rparr>" "''optAllowedCIDRs''"
      "''run''" "[''10.0.0.0/8,fd00::1'', ''127.0.0.1'']" remote_usage DefAllowedNetworks] i s
  show ?thesis by (simp add: repeated_def)
qed

end
