(* ===== verification/Hexify.thy ===== *)
theory Hexify
  imports Prelude
begin

section \<open>Hex dumps: internal/hexify\<close>

text \<open>
  \<open>Format\<close> prints a buffer sixteen bytes to a line. The model runs the loop of the code, one
  index at a time, over the text written so far and the sixteen-byte buffer of the
  printable column; the theorem says what the lines of the result are.
\<close>

text \<open>\<open>%4d\<close> of a natural number and \<open>%02X\<close> of a byte.\<close>

definition pad4d :: "nat \<Rightarrow> string" where
  "pad4d n = (let s = show_nat n in replicate (4 - length s) CHR '' '' @ s)"

definition upper_digit :: "nat \<Rightarrow> char" where
  "upper_digit d = (if d < 10 then char_of (48 + d) else char_of (55 + d))"

definition hex2X :: "byte \<Rightarrow> string" where
  "hex2X b = [upper_digit (unat b div 16), upper_digit (unat b mod 16)]"

text \<open>The body of the loop; \<open>%\<close> of the code is \<open>mod\<close>.\<close>

definition format_step :: "bytes \<Rightarrow> nat \<Rightarrow> string \<times> bytes \<Rightarrow> string \<times> bytes" where
  "format_step inp i st =
     (let (out, buf) = st;
          out1 = (if i mod 16 = 0 then out @ pad4d i else out);
          out2 = (if i mod 8 = 0 then out1 @ '' '' else out1);
          out3 = (if i < length inp then out2 @ '' '' @ hex2X (inp ! i) else out2 @ ''   '');
          buf' = (if i \<ge> length inp then buf[i mod 16 := 32]
                  else if inp ! i < 32 \<or> inp ! i > 126 then buf[i mod 16 := 46]
                  else buf[i mod 16 := inp ! i]);
          out4 = (if i mod 16 = 15 then out3 @ ''  '' @ bytes_str buf' @ [CHR 0x0A] else out3) in
      (out4, buf'))"

text \<open>\<open>(len(in) + 15) &^ 15\<close>: the length rounded up to a multiple of sixteen.\<close>

definition rounded :: "nat \<Rightarrow> nat" where
  "rounded n = (n + 15) - (n + 15) mod 16"

definition Format :: "bytes \<Rightarrow> string" where
  "Format inp = fst (fold (format_step inp) [0..<rounded (length inp)] ([], replicate 16 0))"

subsection \<open>The lines\<close>

definition hex_cell :: "bytes \<Rightarrow> nat \<Rightarrow> string" where
  "hex_cell inp i = (if i < length inp then CHR '' '' # hex2X (inp ! i) else ''   '')"

definition text_cell :: "bytes \<Rightarrow> nat \<Rightarrow> char" where
  "text_cell inp i =
     (if i \<ge> length inp then CHR '' ''
      else if 32 \<le> inp ! i \<and> inp ! i \<le> 126 then char_of_byte (inp ! i) else CHR ''.'')"

definition format_line :: "bytes \<Rightarrow> nat \<Rightarrow> string" where
  "format_line inp k =
     pad4d (16 * k) @ '' '' @ concat (map (hex_cell inp) [16 * k..<16 * k + 8])
       @ '' '' @ concat (map (hex_cell inp) [16 * k + 8..<16 * k + 16])
       @ ''  '' @ map (text_cell inp) [16 * k..<16 * k + 16] @ [CHR 0x0A]"

definition byte_cell :: "bytes \<Rightarrow> nat \<Rightarrow> byte" where
  "byte_cell inp i = (if i \<ge> length inp then 32 else if inp ! i < 32 \<or> inp ! i > 126 then 46 else inp ! i)"

lemma char_of_byte_cell: "char_of_byte (byte_cell inp i) = text_cell inp i"
proof -
  have "char_of_byte 32 = CHR '' ''" "char_of_byte 46 = CHR ''.''" by code_simp+
  then show ?thesis by (auto simp: byte_cell_def text_cell_def not_le not_less)
qed

lemma format_step_eq:
  "format_step inp i (out, buf) =
     (let buf' = buf[i mod 16 := byte_cell inp i] in
      (out @ (if i mod 16 = 0 then pad4d i else []) @ (if i mod 8 = 0 then '' '' else [])
         @ hex_cell inp i @ (if i mod 16 = 15 then ''  '' @ bytes_str buf' @ [CHR 0x0A] else []), buf'))"
  by (simp add: format_step_def byte_cell_def hex_cell_def Let_def)

definition piece :: "bytes \<Rightarrow> nat \<Rightarrow> nat \<Rightarrow> string" where
  "piece inp k j = (if j = 0 then pad4d (16 * k) else []) @ (if j mod 8 = 0 then '' '' else []) @ hex_cell inp (16 * k + j)"

lemma format_line_pieces:
  "format_line inp k = concat (map (piece inp k) [0..<16])
     @ ''  '' @ map (text_cell inp) [16 * k..<16 * k + 16] @ [CHR 0x0A]"
proof -
  have u: "[0..<16] = 0 # [Suc 0..<8] @ 8 # [9..<16]" by (simp add: upt_rec)
  have m: "map (piece inp k) [Suc 0..<8] = map (\<lambda>j. hex_cell inp (16 * k + j)) [Suc 0..<8]"
    "map (piece inp k) [9..<16] = map (\<lambda>j. hex_cell inp (16 * k + j)) [9..<16]"
  proof -
    have "j mod 8 \<noteq> 0 \<and> j \<noteq> 0" if "j \<in> set [Suc 0..<8] \<or> j \<in> set [9..<16]" for j :: nat
    proof -
      from that have "Suc 0 \<le> j \<and> j < 8 \<or> 9 \<le> j \<and> j < 16"
        by (simp only: atLeastLessThan_iff set_upt)
      then show ?thesis by presburger
    qed
    then show "map (piece inp k) [Suc 0..<8] = map (\<lambda>j. hex_cell inp (16 * k + j)) [Suc 0..<8]"
      "map (piece inp k) [9..<16] = map (\<lambda>j. hex_cell inp (16 * k + j)) [9..<16]"
      by (auto simp: piece_def intro!: map_cong)
  qed
  have c: "map (hex_cell inp) [16 * k + a..<16 * k + b] = map (\<lambda>j. hex_cell inp (16 * k + j)) [a..<b]" for a b
    by (rule nth_equalityI) (simp_all add: add.assoc)
  have "[0..<8] = 0 # [Suc 0..<8]" "[8..<16] = 8 # [9..<16::nat]" by (simp_all add: upt_rec)
  then show ?thesis using c [of 0 8] unfolding u format_line_def c [of 8 16]
    by (simp add: piece_def m)
qed

lemma format_step_piece:
  assumes "j < 15"
  shows "format_step inp (16 * k + j) (out, buf) = (out @ piece inp k j, buf[j := byte_cell inp (16 * k + j)])"
proof -
  have "j mod 16 = j" using assms by (intro mod_less) linarith
  then have m: "(16 * k + j) mod 16 = j" by (simp only: mod_mult_self4)
  have "16 * k + j = 8 * (2 * k) + j" by linarith
  then have n: "(16 * k + j) mod 8 = j mod 8" by (simp only: mod_mult_self4)
  show ?thesis using assms unfolding format_step_eq m n piece_def Let_def by simp
qed

lemma fold_format_part:
  assumes "length buf = 16" "j \<le> 15"
  shows "fold (format_step inp) [16 * k..<16 * k + j] (out, buf)
    = (out @ concat (map (piece inp k) [0..<j]), map (byte_cell inp) [16 * k..<16 * k + j] @ drop j buf)"
  using assms(2)
proof (induction j)
  case (Suc j)
  have u: "[16 * k..<16 * k + Suc j] = [16 * k..<16 * k + j] @ [16 * k + j]" by simp
  have d: "drop j buf = buf ! j # drop (Suc j) buf" using assms(1) Suc.prems by (simp add: Cons_nth_drop_Suc)
  have "j < 15" "j \<le> 15" using Suc.prems by simp_all
  then show ?case unfolding u fold_append comp_apply Suc.IH [OF \<open>j \<le> 15\<close>]
    by (simp add: format_step_piece d list_update_append)
qed simp

lemma fold_format_line:
  assumes "length buf = 16"
  shows "fold (format_step inp) [16 * k..<16 * k + 16] (out, buf)
    = (out @ format_line inp k, map (byte_cell inp) [16 * k..<16 * k + 16])"
proof -
  have "[16 * k..<Suc (16 * k + 15)] = [16 * k..<16 * k + 15] @ [16 * k + 15]" by (rule upt_Suc_append) simp
  then have u: "[16 * k..<16 * k + 16] = [16 * k..<16 * k + 15] @ [16 * k + 15]" by (simp only: add_Suc_right [symmetric]) simp
  have v: "[0..<16] = [0..<15] @ [15]" using upt_Suc_append [of 0 15] by simp
  have "length (drop 15 buf) = 1" using assms by simp
  then obtain b where b: "drop 15 buf = [b]" by (metis One_nat_def length_0_conv length_Suc_conv)
  have "(16 * k + 15) mod 8 = 7" by presburger
  then show ?thesis
    using fold_format_part [OF assms, of 15 inp k out] b
    unfolding u format_line_pieces v
    by (simp add: format_step_eq piece_def list_update_append Let_def char_of_byte_cell comp_def)
qed

lemma fold_format_lines:
  "\<exists>buf. length buf = 16 \<and> fold (format_step inp) [0..<16 * m] ([], replicate 16 0)
     = (concat (map (format_line inp) [0..<m]), buf)"
proof (induction m)
  case (Suc m)
  then obtain buf where b: "length buf = 16"
    "fold (format_step inp) [0..<16 * m] ([], replicate 16 0) = (concat (map (format_line inp) [0..<m]), buf)" by blast
  have "[0..<16 * Suc m] = [0..<16 * m] @ [16 * m..<16 * m + 16]"
    using upt_add_eq_append [of 0 "16 * m" 16] by (simp add: algebra_simps)
  then show ?case using b fold_format_line [OF b(1)] by simp
qed simp

lemma rounded_lines: "rounded n = 16 * ((n + 15) div 16)"
  by (simp add: rounded_def minus_mod_eq_mult_div)

text \<open>
  C40. The dump of a buffer has one line for each sixteen bytes begun, and every line is the
  offset in four columns, the bytes in two groups of eight as upper-case hexadecimal
  (blank past the end), and the printable characters with a full stop for the others.
\<close>

theorem Format_lines:
  "Format inp = concat (map (format_line inp) [0..<(length inp + 15) div 16])"
  using fold_format_lines [of inp "(length inp + 15) div 16"] by (auto simp: Format_def rounded_lines)

end
