(* ===== verification/EfiVars.thy ===== *)
theory EfiVars
  imports Prelude
begin

section \<open>EFI variables\<close>

text \<open>
  EFI-NVRAM is reached through the package \<open>efivarfs\<close> of u-root, with GUIDs parsed by
  \<open>google/uuid\<close>. Both are parameters, the fields of the record \<open>efi\<close>, over a state \<open>'s\<close> of
  the firmware's variables. What the program relies on is named \<open>efi_laws\<close>: a successful
  write of non-empty data without authentication is what the next read of that variable
  returns, and touches no other variable. The package's constants are fields as well.
\<close>

record descriptor =
  desc_Name :: string
  GUID :: bytes

type_synonym attrs = "32 word"

record 's efi =
  uuid_Parse :: "string \<Rightarrow> goerror + bytes"
  efivarfs_New :: "'s \<Rightarrow> goerror option"
  ReadVariable :: "'s \<Rightarrow> descriptor \<Rightarrow> goerror + attrs \<times> bytes"
  WriteVariable :: "descriptor \<Rightarrow> attrs \<Rightarrow> bytes \<Rightarrow> 's \<Rightarrow> 's \<times> goerror option"
  AttributeNonVolatile :: attrs
  AttributeBootserviceAccess :: attrs
  AttributeRuntimeAccess :: attrs
  AttributeTimeBasedAuthenticatedWriteAccess :: attrs

unbundle bit_operations_syntax

text \<open>The attributes of every variable the program writes without authentication.\<close>

definition plain_attrs :: "'s efi \<Rightarrow> attrs" where
  "plain_attrs E = (AttributeNonVolatile E OR AttributeBootserviceAccess E) OR AttributeRuntimeAccess E"

definition efi_laws :: "'s efi \<Rightarrow> bool" where
  "efi_laws E \<longleftrightarrow>
     (\<forall>d b s s'. WriteVariable E d (plain_attrs E) b s = (s', None) \<longrightarrow>
        (b \<noteq> [] \<longrightarrow> (\<exists>a. ReadVariable E s' d = Inr (a, b)))
        \<and> (\<forall>d'. d' \<noteq> d \<longrightarrow> ReadVariable E s' d' = ReadVariable E s d')
        \<and> efivarfs_New E s' = efivarfs_New E s)"

lemma efi_read_back: "efi_laws E \<Longrightarrow> WriteVariable E d (plain_attrs E) b s = (s', None) \<Longrightarrow> b \<noteq> [] \<Longrightarrow>
    \<exists>a. ReadVariable E s' d = Inr (a, b)"
  and efi_frame: "efi_laws E \<Longrightarrow> WriteVariable E d (plain_attrs E) b s = (s', None) \<Longrightarrow> d' \<noteq> d \<Longrightarrow>
    ReadVariable E s' d' = ReadVariable E s d'"
  and efi_New_frame: "efi_laws E \<Longrightarrow> WriteVariable E d (plain_attrs E) b s = (s', None) \<Longrightarrow>
    efivarfs_New E s' = efivarfs_New E s"
  by (auto simp: efi_laws_def)

text \<open>A store of variables that satisfies the laws: a map, with writing nothing as deletion.\<close>

type_synonym varmap = "descriptor \<Rightarrow> (attrs \<times> bytes) option"

definition map_efi :: "(string \<Rightarrow> goerror + bytes) \<Rightarrow> varmap efi" where
  "map_efi parse =
     \<lparr>uuid_Parse = parse,
      efivarfs_New = (\<lambda>m. None),
      ReadVariable = (\<lambda>m d. case m d of None \<Rightarrow> Inl (NotExist ''variable does not exist'') | Some v \<Rightarrow> Inr v),
      WriteVariable = (\<lambda>d a b m. (m(d := if b = [] then None else Some (a, b)), None)),
      AttributeNonVolatile = 1, AttributeBootserviceAccess = 2, AttributeRuntimeAccess = 4,
      AttributeTimeBasedAuthenticatedWriteAccess = 32\<rparr>"

lemma map_efi_laws: "efi_laws (map_efi parse)"
  by (auto simp: efi_laws_def map_efi_def)

subsection \<open>Values kept in a variable\<close>

text \<open>
  The contract of a value that the program keeps in one EFI variable: what was written can
  be read back, reading looks at that variable only, and writing leaves the others alone.
\<close>

locale persistent =
  fixes E :: "'s efi"
    and var :: descriptor
    and wr :: "'v \<Rightarrow> 's \<Rightarrow> 's \<times> goerror option"
    and rd :: "'s \<Rightarrow> goerror + 'v"
    and storable :: "'v \<Rightarrow> bool"
  assumes read_back: "efi_laws E \<Longrightarrow> storable v \<Longrightarrow> wr v s = (s', None) \<Longrightarrow> rd s' = Inr v"
    and read_local: "ReadVariable E s var = ReadVariable E s' var \<Longrightarrow> efivarfs_New E s = efivarfs_New E s' \<Longrightarrow> rd s = rd s'"
    and write_frame: "efi_laws E \<Longrightarrow> wr v s = (s', None) \<Longrightarrow> d \<noteq> var \<Longrightarrow> ReadVariable E s' d = ReadVariable E s d"
    and write_New: "efi_laws E \<Longrightarrow> wr v s = (s', None) \<Longrightarrow> efivarfs_New E s' = efivarfs_New E s"
begin

text \<open>The last value written is the one that is read.\<close>

lemma last_write:
  "efi_laws E \<Longrightarrow> storable v' \<Longrightarrow> wr v s = (s1, None) \<Longrightarrow> wr v' s1 = (s2, None) \<Longrightarrow> rd s2 = Inr v'"
  by (rule read_back)

text \<open>A write to another variable in between does not matter.\<close>

lemma read_after_other:
  assumes "efi_laws E" "storable v" "wr v s = (s1, None)"
    and "ReadVariable E s2 var = ReadVariable E s1 var" "efivarfs_New E s2 = efivarfs_New E s1"
  shows "rd s2 = Inr v"
  using read_local [OF assms(4,5)] read_back [OF assms(1-3)] by simp

end

end
