(* ===== verification/StConfig.thy ===== *)
theory StConfig
  imports EfiVars GoNet
begin

section \<open>Host configuration and host name in EFI-NVRAM: internal/st\<close>

text \<open>
  \<open>internal/st\<close> keeps two values in EFI variables. The host configuration is a type of the
  stboot package with its own JSON form; the record below has the fields that the program
  sets, and the JSON functions, the variable's name and the type of addresses with a mask
  (\<open>'a\<close>, \<open>netlink.Addr\<close>) are parameters.
\<close>

datatype ip_addr_mode = IPDynamic | IPStatic

record net_if =
  InterfaceName :: string
  MACAddress :: "bytes option"

record 'a host_config =
  IPAddrMode :: ip_addr_mode
  HostIP :: "'a option"
  DefaultGateway :: "ip option"
  DNSServer :: "ip list"
  NetworkInterfaces :: "net_if list"
  BondingMode :: nat
  BondName :: "string option"
  OSPkgPointer :: "string option"
  Description :: "string option"

record 'a hostlib =
  HostConfigEFIVarName :: string
  json_Marshal_config :: "'a host_config \<Rightarrow> goerror + bytes"
  json_Unmarshal_config :: "bytes \<Rightarrow> goerror + 'a host_config"

definition writeEFI :: "'s efi \<Rightarrow> bytes \<Rightarrow> bytes \<Rightarrow> string \<Rightarrow> 's \<Rightarrow> 's \<times> goerror option" where
  "writeEFI E b varUUID efiName s =
     (let desc = \<lparr>desc_Name = efiName, GUID = varUUID\<rparr>;
          attrs = (AttributeBootserviceAccess E OR AttributeRuntimeAccess E) OR AttributeNonVolatile E in
      case efivarfs_New E s of
        Some e \<Rightarrow> (s, Some (Wrapf ''marshal'' e))
      | None \<Rightarrow> WriteVariable E desc attrs b s)"

definition readEFI :: "'s efi \<Rightarrow> bytes \<Rightarrow> string \<Rightarrow> 's \<Rightarrow> goerror + bytes" where
  "readEFI E varUUID efiName s =
     (case efivarfs_New E s of
        Some e \<Rightarrow> Inl (Wrapf ''marshal'' e)
      | None \<Rightarrow> (case ReadVariable E s \<lparr>desc_Name = efiName, GUID = varUUID\<rparr> of
          Inl e \<Rightarrow> Inl e
        | Inr (a, b) \<Rightarrow> Inr b))"

definition HostConfigEFIVariableName :: "'s efi \<Rightarrow> 'a hostlib \<Rightarrow> goerror + (string \<times> bytes)" where
  "HostConfigEFIVariableName E H =
     (let err = Inl (Errorf (''invalid host config EFI var name: '' @ HostConfigEFIVarName H)) in
      case strings_SplitN2 (HostConfigEFIVarName H) CHR ''-'' of
        [name, guid] \<Rightarrow> (case uuid_Parse E guid of Inl e \<Rightarrow> err | Inr efiUuid \<Rightarrow> Inr (name, efiUuid))
      | _ \<Rightarrow> err)"

definition WriteHostConfigEFI :: "'s efi \<Rightarrow> 'a hostlib \<Rightarrow> 'a host_config \<Rightarrow> 's \<Rightarrow> 's \<times> goerror option" where
  "WriteHostConfigEFI E H cfg s =
     (case json_Marshal_config H cfg of
        Inl e \<Rightarrow> (s, Some (Wrapf ''marshal'' e))
      | Inr b \<Rightarrow>
          (case HostConfigEFIVariableName E H of
             Inl e \<Rightarrow> (s, Some (Errorf (''invalid host config EFI var name: '' @ HostConfigEFIVarName H)))
           | Inr (efiName, efiGuid) \<Rightarrow> writeEFI E b efiGuid efiName s))"

definition HostConfigEFI :: "'s efi \<Rightarrow> 'a hostlib \<Rightarrow> 's \<Rightarrow> goerror + 'a host_config" where
  "HostConfigEFI E H s =
     (case HostConfigEFIVariableName E H of
        Inl e \<Rightarrow> Inl (Errorf (''invalid host config EFI var name: '' @ HostConfigEFIVarName H))
      | Inr (efiName, efiGuid) \<Rightarrow>
          (case readEFI E efiGuid efiName s of
             Inl e \<Rightarrow> Inl (Wrapf ''read'' e)
           | Inr b \<Rightarrow> json_Unmarshal_config H b))"

definition HostName_WriteEFI :: "'s efi \<Rightarrow> bytes \<Rightarrow> string \<Rightarrow> string \<Rightarrow> 's \<Rightarrow> 's \<times> goerror option" where
  "HostName_WriteEFI E varUUID efiName hn s = writeEFI E (str_bytes hn) varUUID efiName s"

definition HostName_ReadEFI :: "'s efi \<Rightarrow> bytes \<Rightarrow> string \<Rightarrow> 's \<Rightarrow> goerror + string" where
  "HostName_ReadEFI E varUUID efiName s =
     (case readEFI E varUUID efiName s of
        Inl e \<Rightarrow> Inl (Wrapf ''read'' e)
      | Inr b \<Rightarrow> Inr (bytes_str b))"

subsection \<open>Both are persistent values\<close>

lemma attrs_plain: "(AttributeBootserviceAccess E OR AttributeRuntimeAccess E) OR AttributeNonVolatile E = plain_attrs E"
  by (simp add: plain_attrs_def ac_simps)

lemma writeEFI_ok:
  "writeEFI E b g n s = (s', None) \<longleftrightarrow> efivarfs_New E s = None
     \<and> WriteVariable E \<lparr>desc_Name = n, GUID = g\<rparr> (plain_attrs E) b s = (s', None)"
  by (auto simp: writeEFI_def attrs_plain Let_def split: option.splits)

lemma readEFI_writeEFI:
  "efi_laws E \<Longrightarrow> writeEFI E b g n s = (s', None) \<Longrightarrow> b \<noteq> [] \<Longrightarrow> readEFI E g n s' = Inr b"
  by (auto simp: writeEFI_ok readEFI_def dest: efi_New_frame efi_read_back split: option.splits)

lemma readEFI_local:
  "ReadVariable E s \<lparr>desc_Name = n, GUID = g\<rparr> = ReadVariable E s' \<lparr>desc_Name = n, GUID = g\<rparr> \<Longrightarrow>
   efivarfs_New E s = efivarfs_New E s' \<Longrightarrow> readEFI E g n s = readEFI E g n s'"
  unfolding readEFI_def by (erule ssubst, simp only:)

definition json_laws :: "'a hostlib \<Rightarrow> bool" where
  "json_laws H \<longleftrightarrow> (\<forall>cfg b. json_Marshal_config H cfg = Inr b \<longrightarrow> b \<noteq> [] \<and> json_Unmarshal_config H b = Inr cfg)"

interpretation hostname: persistent E "\<lparr>desc_Name = n, GUID = g\<rparr>" "HostName_WriteEFI E g n"
    "HostName_ReadEFI E g n" "\<lambda>hn. hn \<noteq> []"
  for E :: "'s efi" and g n
proof unfold_locales
  fix s s'
  assume "ReadVariable E s \<lparr>desc_Name = n, GUID = g\<rparr> = ReadVariable E s' \<lparr>desc_Name = n, GUID = g\<rparr>"
    "efivarfs_New E s = efivarfs_New E s'"
  then have "readEFI E g n s = readEFI E g n s'" by (rule readEFI_local)
  then show "HostName_ReadEFI E g n s = HostName_ReadEFI E g n s'" by (simp only: HostName_ReadEFI_def)
next
  fix v s s'
  assume "efi_laws E" "v \<noteq> []" "HostName_WriteEFI E g n v s = (s', None)"
  then show "HostName_ReadEFI E g n s' = Inr v"
    by (simp add: HostName_WriteEFI_def HostName_ReadEFI_def readEFI_writeEFI del: map_map)
next
  fix v s s' d
  assume "efi_laws E" "HostName_WriteEFI E g n v s = (s', None)"
  note w = this(1) this(2) [unfolded HostName_WriteEFI_def writeEFI_ok, THEN conjunct2]
  show "efivarfs_New E s' = efivarfs_New E s" by (rule efi_New_frame [OF w])
  show "d \<noteq> \<lparr>desc_Name = n, GUID = g\<rparr> \<Longrightarrow> ReadVariable E s' d = ReadVariable E s d" by (rule efi_frame [OF w])
qed

definition config_var :: "'s efi \<Rightarrow> 'a hostlib \<Rightarrow> descriptor" where
  "config_var E H = (case HostConfigEFIVariableName E H of
     Inl e \<Rightarrow> \<lparr>desc_Name = [], GUID = []\<rparr> | Inr (n, g) \<Rightarrow> \<lparr>desc_Name = n, GUID = g\<rparr>)"

lemma WriteHostConfigEFI_ok:
  "WriteHostConfigEFI E H cfg s = (s', None) \<longleftrightarrow>
     (\<exists>b n g. json_Marshal_config H cfg = Inr b \<and> HostConfigEFIVariableName E H = Inr (n, g)
        \<and> writeEFI E b g n s = (s', None))"
  by (auto simp: WriteHostConfigEFI_def split: sum.splits)

interpretation config: persistent E "config_var E H" "WriteHostConfigEFI E H"
    "HostConfigEFI E H" "\<lambda>cfg. json_laws H"
  for E :: "'s efi" and H :: "'a hostlib"
proof unfold_locales
  fix v s s'
  assume "efi_laws E" "json_laws H" "WriteHostConfigEFI E H v s = (s', None)"
  then show "HostConfigEFI E H s' = Inr v"
    by (auto simp: WriteHostConfigEFI_ok HostConfigEFI_def json_laws_def readEFI_writeEFI)
next
  fix s s'
  assume "ReadVariable E s (config_var E H) = ReadVariable E s' (config_var E H)" "efivarfs_New E s = efivarfs_New E s'"
  then show "HostConfigEFI E H s = HostConfigEFI E H s'"
    using readEFI_local [of E s _ _ s'] by (auto simp: HostConfigEFI_def config_var_def split: sum.splits)
next
  fix v s s' d
  assume l: "efi_laws E" and "WriteHostConfigEFI E H v s = (s', None)"
  then obtain b where w: "WriteVariable E (config_var E H) (plain_attrs E) b s = (s', None)"
    by (auto simp: WriteHostConfigEFI_ok config_var_def writeEFI_ok)
  show "efivarfs_New E s' = efivarfs_New E s" by (rule efi_New_frame [OF l w])
  show "d \<noteq> config_var E H \<Longrightarrow> ReadVariable E s' d = ReadVariable E s d" by (rule efi_frame [OF l w])
qed

text \<open>
  A host configuration that was written is read back as it was, whatever host name is
  written in between (to another variable), and the host name likewise.
\<close>

theorem config_and_hostname_read_back:
  assumes "efi_laws E" "json_laws H" "hn \<noteq> []" "config_var E H \<noteq> \<lparr>desc_Name = n, GUID = g\<rparr>"
    and "WriteHostConfigEFI E H cfg s = (s1, None)" "HostName_WriteEFI E g n hn s1 = (s2, None)"
  shows "HostConfigEFI E H s2 = Inr cfg \<and> HostName_ReadEFI E g n s2 = Inr hn"
proof
  show "HostConfigEFI E H s2 = Inr cfg"
    by (rule config.read_after_other [OF assms(1,2,5) hostname.write_frame [OF assms(1,6,4)] hostname.write_New [OF assms(1,6)]])
  show "HostName_ReadEFI E g n s2 = Inr hn"
    by (rule hostname.read_back [OF assms(1,3,6)])
qed

text \<open>A library that satisfies the laws: one configuration is marshalled, to one byte.\<close>

definition one_config_lib :: "'a host_config \<Rightarrow> 'a hostlib" where
  "one_config_lib c =
     \<lparr>HostConfigEFIVarName = ''STHostConfig-f401f2c1'',
      json_Marshal_config = (\<lambda>cfg. if cfg = c then Inr [123] else Inl (External ''json'')),
      json_Unmarshal_config = (\<lambda>b. Inr c)\<rparr>"

lemma one_config_lib_laws: "json_laws (one_config_lib c)"
  by (simp add: json_laws_def one_config_lib_def)

theorem config_and_hostname_read_back_witness:
  fixes c :: "unit host_config"
  defines "c \<equiv> \<lparr>IPAddrMode = IPDynamic, HostIP = None, DefaultGateway = None, DNSServer = [],
    NetworkInterfaces = [], BondingMode = 0, BondName = None, OSPkgPointer = None, Description = None\<rparr>"
  shows "\<exists>s2. HostConfigEFI (map_efi (\<lambda>g. Inr (str_bytes g))) (one_config_lib c) s2 = Inr c
    \<and> HostName_ReadEFI (map_efi (\<lambda>g. Inr (str_bytes g))) [1] ''STHostName'' s2 = Inr ''mullis''"
proof -
  let ?E = "map_efi (\<lambda>g. Inr (str_bytes g))" and ?H = "one_config_lib c"
  have n: "HostConfigEFIVariableName ?E ?H = Inr (''STHostConfig'', str_bytes ''f401f2c1'')"
    by (simp add: HostConfigEFIVariableName_def map_efi_def one_config_lib_def strings_SplitN2_def)
  then have d: "config_var ?E ?H \<noteq> \<lparr>desc_Name = ''STHostName'', GUID = [1]\<rparr>" by (simp add: config_var_def)
  have w: "\<exists>s'. writeEFI ?E b g nm s = (s', None)" for b g nm s
    by (simp add: writeEFI_def map_efi_def)
  have "json_Marshal_config ?H c = Inr [123]" by (simp add: one_config_lib_def)
  then obtain s1 where s1: "WriteHostConfigEFI ?E ?H c Map.empty = (s1, None)"
    using n w [of "[123]" "str_bytes ''f401f2c1''" "''STHostConfig''" Map.empty] by (auto simp only: WriteHostConfigEFI_ok)
  obtain s2 where s2: "HostName_WriteEFI ?E [1] ''STHostName'' ''mullis'' s1 = (s2, None)"
    unfolding HostName_WriteEFI_def using w by blast
  from config_and_hostname_read_back [OF map_efi_laws one_config_lib_laws _ d s1 s2] show ?thesis by auto
qed

end
