(* ===== verification/SecureBoot.thy ===== *)
theory SecureBoot
  imports EfiVars
begin

section \<open>Secure Boot in setup mode: internal/sb\<close>

text \<open>
  The operations of \<open>internal/sb\<close> over the firmware's variables: whether the platform is in
  setup mode, the authenticated writes of PK, KEK, db and dbx, and the request to boot into
  the firmware's menu. The 64-bit \<open>OsIndications\<close> is a word, read and written little-endian.
\<close>

definition efiGlobalVariableGUID :: string where
  "efiGlobalVariableGUID = ''8be4df61-93ca-11d2-aa0d-00e098032b8c''"
definition efiImageSecurityDatabaseGUID :: string where
  "efiImageSecurityDatabaseGUID = ''d719b2cb-3d3a-4596-a3bc-dad00e67656f''"
definition efiOsInditationsBootToFirmwareUI :: "64 word" where
  "efiOsInditationsBootToFirmwareUI = 1"

text \<open>\<open>binary.LittleEndian\<close> on eight bytes.\<close>

fun le_word :: "bytes \<Rightarrow> 64 word" where
  "le_word [] = 0"
| "le_word (b # bs) = ucast b OR push_bit 8 (le_word bs)"

fun put_le :: "nat \<Rightarrow> 64 word \<Rightarrow> bytes" where
  "put_le 0 w = []"
| "put_le (Suc n) w = ucast w # put_le n (drop_bit 8 w)"

subsection \<open>Reading and writing\<close>

definition efiRead :: "'s efi \<Rightarrow> string \<Rightarrow> string \<Rightarrow> 's \<Rightarrow> goerror + bytes" where
  "efiRead E name guid s =
     (case uuid_Parse E guid of
        Inl e \<Rightarrow> Inl (Wrapf ''parse guid'' e)
      | Inr gid \<Rightarrow>
          (case efivarfs_New E s of
             Some e \<Rightarrow> Inl (Wrapf ''new efivarfs'' e)
           | None \<Rightarrow>
               (case ReadVariable E s \<lparr>desc_Name = name, GUID = gid\<rparr> of
                  Inl e \<Rightarrow> Inl (Wrapf ''read efivarfs'' e)
                | Inr (a, b) \<Rightarrow> Inr b)))"

definition efiWrite :: "'s efi \<Rightarrow> string \<Rightarrow> string \<Rightarrow> bytes \<Rightarrow> 's \<Rightarrow> 's \<times> goerror option" where
  "efiWrite E name guid data s =
     (case efivarfs_New E s of
        Some e \<Rightarrow> (s, Some (Wrapf ''new efivarfs'' e))
      | None \<Rightarrow>
          (case uuid_Parse E guid of
             Inl e \<Rightarrow> (s, Some (Wrapf (''parse guid '' @ guid) e))
           | Inr gid \<Rightarrow>
               (let attrs = (AttributeNonVolatile E OR AttributeBootserviceAccess E) OR AttributeRuntimeAccess E in
                WriteVariable E \<lparr>desc_Name = name, GUID = gid\<rparr> attrs data s)))"

definition efiAuthenticatedWrite :: "'s efi \<Rightarrow> string \<Rightarrow> string \<Rightarrow> bytes \<Rightarrow> 's \<Rightarrow> 's \<times> goerror option" where
  "efiAuthenticatedWrite E name guid authData s =
     (case efivarfs_New E s of
        Some e \<Rightarrow> (s, Some (Wrapf ''new efivarfs'' e))
      | None \<Rightarrow>
          (case uuid_Parse E guid of
             Inl e \<Rightarrow> (s, Some (Wrapf (''parse guid '' @ guid) e))
           | Inr gid \<Rightarrow>
               (let attrs = ((AttributeNonVolatile E OR AttributeBootserviceAccess E) OR AttributeRuntimeAccess E)
                      OR AttributeTimeBasedAuthenticatedWriteAccess E in
                WriteVariable E \<lparr>desc_Name = name, GUID = gid\<rparr> attrs authData s)))"

definition IsSetupMode :: "'s efi \<Rightarrow> 's \<Rightarrow> goerror + bool" where
  "IsSetupMode E s =
     (case efiRead E ''SetupMode'' efiGlobalVariableGUID s of
        Inl e \<Rightarrow> Inl (Wrapf ''SetupMode'' e)
      | Inr b \<Rightarrow>
          if length b \<noteq> 1 then Inl (Errorf ''unexpected length: %!w(<nil>)'')
          else if b ! 0 \<noteq> 0 \<and> b ! 0 \<noteq> 1 then Inl (Errorf (''unexpected value: '' @ show_nat (unat (b ! 0))))
          else Inr (b ! 0 = 1))"

definition Provision :: "'s efi \<Rightarrow> bytes \<Rightarrow> bytes \<Rightarrow> bytes \<Rightarrow> bytes \<Rightarrow> 's \<Rightarrow> 's \<times> goerror option" where
  "Provision E pk kek db dbx s =
     (case efiAuthenticatedWrite E ''PK'' efiGlobalVariableGUID pk s of
        (s1, Some e) \<Rightarrow> (s1, Some (Wrapf ''PK'' e))
      | (s1, None) \<Rightarrow>
          (case efiAuthenticatedWrite E ''KEK'' efiGlobalVariableGUID kek s1 of
             (s2, Some e) \<Rightarrow> (s2, Some (Wrapf ''KEK'' e))
           | (s2, None) \<Rightarrow>
               (case efiAuthenticatedWrite E ''db'' efiImageSecurityDatabaseGUID db s2 of
                  (s3, Some e) \<Rightarrow> (s3, Some (Wrapf ''db'' e))
                | (s3, None) \<Rightarrow>
                    if dbx \<noteq> [] then
                      (case efiAuthenticatedWrite E ''dbx'' efiImageSecurityDatabaseGUID dbx s3 of
                         (s4, Some e) \<Rightarrow> (s4, Some (Wrapf ''dbx'' e))
                       | (s4, None) \<Rightarrow> (s4, None))
                    else (s3, None))))"

definition RequestRebootIntoUEFIMenu :: "'s efi \<Rightarrow> 's \<Rightarrow> 's \<times> goerror option" where
  "RequestRebootIntoUEFIMenu E s =
     (let b = (case efiRead E ''OsIndications'' efiGlobalVariableGUID s of
                 Inl e \<Rightarrow> replicate 8 0 | Inr b \<Rightarrow> b) in
      if length b \<noteq> 8 then (s, Some (Errorf (''OsIndications: unexpected data length '' @ show_nat (length b))))
      else
        (let osIndications = le_word b in
         if osIndications AND efiOsInditationsBootToFirmwareUI \<noteq> 0 then (s, None)
         else
           (let data = put_le 8 (osIndications OR efiOsInditationsBootToFirmwareUI) in
            case efiWrite E ''OsIndications'' efiGlobalVariableGUID data s of
              (s', Some e) \<Rightarrow> (s', Some (Wrapf ''OsIndications'' e))
            | (s', None) \<Rightarrow> (s', None))))"

subsection \<open>Setup mode\<close>

text \<open>
  \<open>IsSetupMode\<close> gives a value exactly when the variable can be read and is the single
  byte 0 or 1; it is then whether the byte is 1. Anything else is an error.
\<close>

theorem IsSetupMode_value:
  "IsSetupMode E s = Inr v \<longleftrightarrow>
     efiRead E ''SetupMode'' efiGlobalVariableGUID s = Inr [if v then 1 else 0]"
proof -
  have "length b = 1 \<longleftrightarrow> (\<exists>x. b = [x])" for b :: bytes by (auto simp: length_Suc_conv)
  then show ?thesis by (auto simp: IsSetupMode_def split: sum.splits if_splits)
qed

subsection \<open>The order of the keys\<close>

definition auth_attrs :: "'s efi \<Rightarrow> attrs" where
  "auth_attrs E = plain_attrs E OR AttributeTimeBasedAuthenticatedWriteAccess E"

lemma efiAuthenticatedWrite_ok:
  "efiAuthenticatedWrite E name guid data s = (s', None) \<longleftrightarrow> efivarfs_New E s = None
     \<and> (\<exists>gid. uuid_Parse E guid = Inr gid
          \<and> WriteVariable E \<lparr>desc_Name = name, GUID = gid\<rparr> (auth_attrs E) data s = (s', None))"
  by (auto simp: efiAuthenticatedWrite_def auth_attrs_def plain_attrs_def Let_def split: option.splits sum.splits)

text \<open>The keys in the order they are written, with the GUIDs of their variables.\<close>

definition sb_keys :: "bytes \<Rightarrow> bytes \<Rightarrow> bytes \<Rightarrow> bytes \<Rightarrow> (string \<times> string \<times> bytes) list" where
  "sb_keys pk kek db dbx =
     [(''PK'', efiGlobalVariableGUID, pk), (''KEK'', efiGlobalVariableGUID, kek),
      (''db'', efiImageSecurityDatabaseGUID, db)]
     @ (if dbx \<noteq> [] then [(''dbx'', efiImageSecurityDatabaseGUID, dbx)] else [])"

text \<open>\<open>wrote E ks s s'\<close>: the writes of \<open>ks\<close>, each successful, lead from \<open>s\<close> to \<open>s'\<close>.\<close>

inductive wrote :: "'s efi \<Rightarrow> (string \<times> string \<times> bytes) list \<Rightarrow> 's \<Rightarrow> 's \<Rightarrow> bool" for E where
  wrote_none: "wrote E [] s s"
| wrote_key: "efivarfs_New E s = None \<Longrightarrow> uuid_Parse E guid = Inr gid \<Longrightarrow>
    WriteVariable E \<lparr>desc_Name = name, GUID = gid\<rparr> (auth_attrs E) data s = (s1, None) \<Longrightarrow>
    wrote E ks s1 s2 \<Longrightarrow> wrote E ((name, guid, data) # ks) s s2"

inductive_simps wrote_Nil [simp]: "wrote E [] s s'"
inductive_simps wrote_Cons: "wrote E (k # ks) s s'"

lemma wrote_Cons_iff:
  "wrote E ((name, guid, data) # ks) s s2 \<longleftrightarrow>
     (\<exists>s1. efiAuthenticatedWrite E name guid data s = (s1, None) \<and> wrote E ks s1 s2)"
  by (auto simp: wrote_Cons efiAuthenticatedWrite_ok)

lemma wrote_append: "wrote E (ks @ ls) s s2 \<longleftrightarrow> (\<exists>s1. wrote E ks s s1 \<and> wrote E ls s1 s2)"
  by (induction ks arbitrary: s) (auto simp: wrote_Cons_iff split_paired_all)

text \<open>The loop that \<open>Provision\<close> unrolls.\<close>

fun write_keys :: "'s efi \<Rightarrow> (string \<times> string \<times> bytes) list \<Rightarrow> 's \<Rightarrow> 's \<times> goerror option" where
  "write_keys E [] s = (s, None)"
| "write_keys E ((name, guid, data) # ks) s =
     (case efiAuthenticatedWrite E name guid data s of
        (s1, Some e) \<Rightarrow> (s1, Some (Wrapf name e))
      | (s1, None) \<Rightarrow> write_keys E ks s1)"

lemma Provision_write_keys: "Provision E pk kek db dbx s = write_keys E (sb_keys pk kek db dbx) s"
  by (auto simp: Provision_def sb_keys_def split: prod.split option.split)

lemma write_keys_None: "write_keys E ks s = (s', None) \<longleftrightarrow> wrote E ks s s'"
  by (induction ks arbitrary: s) (auto simp: wrote_Cons_iff split: prod.splits option.splits)

lemma write_keys_Some:
  "write_keys E ks s = (s', Some err) \<Longrightarrow> \<exists>pre name guid data rest s1 e.
     ks = pre @ (name, guid, data) # rest \<and> wrote E pre s s1
     \<and> efiAuthenticatedWrite E name guid data s1 = (s', Some e) \<and> err = Wrapf name e"
proof (induction ks arbitrary: s)
  case (Cons k ks)
  obtain name guid data where k: "k = (name, guid, data)" by (cases k)
  show ?case
  proof (cases "efiAuthenticatedWrite E name guid data s")
    case (Pair s1 r)
    show ?thesis
    proof (cases r)
      case None
      with Cons k Pair obtain pre name' guid' data' rest s2 e where
        "ks = pre @ (name', guid', data') # rest" "wrote E pre s1 s2"
        "efiAuthenticatedWrite E name' guid' data' s2 = (s', Some e)" "err = Wrapf name' e" by auto blast
      moreover from this None k Pair have "wrote E (k # pre) s s2" by (auto simp: wrote_Cons_iff)
      ultimately show ?thesis by (metis append_Cons)
    next
      case (Some e)
      with Cons.prems k Pair show ?thesis by (fastforce intro: exI [of _ "[]"])
    qed
  qed
qed simp

text \<open>
  C37. \<open>Provision\<close> succeeds exactly when PK, KEK, db and, if given, dbx have been written in
  this order, each as an authenticated variable. When it fails, the error names the first
  key that could not be written: those before it were written, those after it were not
  tried, and the state is the one that the failed write left.
\<close>

theorem Provision_order:
  "case Provision E pk kek db dbx s of
     (s', None) \<Rightarrow> wrote E (sb_keys pk kek db dbx) s s'
   | (s', Some err) \<Rightarrow> \<exists>pre name guid data rest s1 e.
       sb_keys pk kek db dbx = pre @ (name, guid, data) # rest \<and> wrote E pre s s1
       \<and> efiAuthenticatedWrite E name guid data s1 = (s', Some e) \<and> err = Wrapf name e"
proof (cases "write_keys E (sb_keys pk kek db dbx) s")
  case (Pair s' r)
  show ?thesis
  proof (cases r)
    case None
    with Pair have "wrote E (sb_keys pk kek db dbx) s s'" by (simp add: write_keys_None)
    with Pair None show ?thesis unfolding Provision_write_keys by simp
  next
    case (Some err)
    with Pair write_keys_Some [of E "sb_keys pk kek db dbx" s s' err] show ?thesis unfolding Provision_write_keys by simp
  qed
qed

subsection \<open>OsIndications\<close>

lemma length_put_le [simp]: "length (put_le n w) = n"
  by (induction n w rule: put_le.induct) simp_all

lemma put_le_Nil [simp]: "put_le n w = [] \<longleftrightarrow> n = 0"
  by (cases n) simp_all

lemma le_word_put_le: "le_word (put_le n w) = take_bit (8 * n) w"
proof (induction n w rule: put_le.induct)
  case (2 n w)
  show ?case
    by (rule bit_word_eqI) (auto simp: 2 bit_simps)
qed simp

lemma efiWrite_ok:
  "efiWrite E name guid data s = (s', None) \<longleftrightarrow> efivarfs_New E s = None
     \<and> (\<exists>gid. uuid_Parse E guid = Inr gid
          \<and> WriteVariable E \<lparr>desc_Name = name, GUID = gid\<rparr> (plain_attrs E) data s = (s', None))"
  by (auto simp: efiWrite_def plain_attrs_def Let_def split: option.splits sum.splits)

lemma efiRead_efiWrite:
  assumes "efi_laws E" "efiWrite E name guid data s = (s', None)" "data \<noteq> []"
  shows "efiRead E name guid s' = Inr data"
proof -
  from assms(2) obtain gid where g: "efivarfs_New E s = None" "uuid_Parse E guid = Inr gid"
    and w: "WriteVariable E \<lparr>desc_Name = name, GUID = gid\<rparr> (plain_attrs E) data s = (s', None)"
    by (auto simp: efiWrite_ok)
  from efi_read_back [OF assms(1) w assms(3)] efi_New_frame [OF assms(1) w] g
  show ?thesis by (auto simp: efiRead_def)
qed

text \<open>
  C38. After a successful \<open>RequestRebootIntoUEFIMenu\<close> the variable \<open>OsIndications\<close> holds
  eight bytes: the old word (zero when it could not be read) with bit 0 set and every other
  bit kept.
\<close>

theorem RequestReboot_sets_bit:
  assumes "efi_laws E" "RequestRebootIntoUEFIMenu E s = (s', None)"
  shows "\<exists>b. efiRead E ''OsIndications'' efiGlobalVariableGUID s' = Inr b \<and> length b = 8
    \<and> le_word b = (case efiRead E ''OsIndications'' efiGlobalVariableGUID s of Inl e \<Rightarrow> 0 | Inr b0 \<Rightarrow> le_word b0) OR 1"
proof -
  define old where "old = (case efiRead E ''OsIndications'' efiGlobalVariableGUID s of Inl e \<Rightarrow> replicate 8 0 | Inr b \<Rightarrow> b)"
  have w: "(case efiRead E ''OsIndications'' efiGlobalVariableGUID s of Inl e \<Rightarrow> 0 | Inr b0 \<Rightarrow> le_word b0) = le_word old"
    by (simp add: old_def numeral_eq_Suc split: sum.split)
  have l: "length old = 8" using assms(2) by (auto simp: RequestRebootIntoUEFIMenu_def old_def Let_def split: if_splits)
  show ?thesis
  proof (cases "le_word old AND 1 = 0")
    case False
    then have "s' = s" using assms(2) l by (simp add: RequestRebootIntoUEFIMenu_def old_def [symmetric] efiOsInditationsBootToFirmwareUI_def)
    moreover obtain b where "efiRead E ''OsIndications'' efiGlobalVariableGUID s = Inr b"
      using False by (cases "efiRead E ''OsIndications'' efiGlobalVariableGUID s") (auto simp: old_def numeral_eq_Suc)
    moreover have "le_word old OR 1 = le_word old"
    proof -
      have "bit (le_word old) 0" using False by (simp add: and_one_eq bit_0 odd_iff_mod_2_eq_one)
      then show ?thesis by (auto intro!: bit_word_eqI simp: bit_simps)
    qed
    ultimately show ?thesis using l w by (auto simp: old_def)
  next
    case True
    then have "efiWrite E ''OsIndications'' efiGlobalVariableGUID (put_le 8 (le_word old OR 1)) s = (s', None)"
      using assms(2) l by (simp add: RequestRebootIntoUEFIMenu_def old_def [symmetric] efiOsInditationsBootToFirmwareUI_def
          split: prod.splits option.splits)
    with efiRead_efiWrite [OF assms(1) this] show ?thesis unfolding w
      by (simp add: le_word_put_le take_bit_word_eq_self)
  qed
qed

theorem RequestReboot_sets_bit_witness:
  "\<exists>s'. RequestRebootIntoUEFIMenu (map_efi (\<lambda>g. Inr [1])) (Map.empty(\<lparr>desc_Name = ''OsIndications'', GUID = [1]\<rparr> \<mapsto> (7, [4, 1, 0, 0, 0, 0, 0, 0]))) = (s', None)
    \<and> (\<exists>b. efiRead (map_efi (\<lambda>g. Inr [1])) ''OsIndications'' efiGlobalVariableGUID s' = Inr b \<and> le_word b = 261)"
proof -
  let ?E = "map_efi (\<lambda>g. Inr [1])" and ?s = "Map.empty(\<lparr>desc_Name = ''OsIndications'', GUID = [1]\<rparr> \<mapsto> (7, [4, 1, 0, 0, 0, 0, 0, 0]))"
  have r: "efiRead ?E ''OsIndications'' efiGlobalVariableGUID ?s = Inr [4, 1, 0, 0, 0, 0, 0, 0]"
    by (simp add: efiRead_def map_efi_def)
  have l: "le_word [4, 1, 0, 0, 0, 0, 0, 0] = 260" by simp
  obtain s' where s': "RequestRebootIntoUEFIMenu ?E ?s = (s', None)"
    unfolding RequestRebootIntoUEFIMenu_def r using l
    by (simp add: efiWrite_def map_efi_def efiOsInditationsBootToFirmwareUI_def Let_def del: le_word.simps put_le.simps)
  from RequestReboot_sets_bit [OF map_efi_laws s'] obtain b where
    "efiRead ?E ''OsIndications'' efiGlobalVariableGUID s' = Inr b" "le_word b = 260 OR 1"
    unfolding r sum.case l by blast
  moreover have "(260 OR 1 :: 64 word) = 261" by simp
  ultimately have "\<exists>b. efiRead ?E ''OsIndications'' efiGlobalVariableGUID s' = Inr b \<and> le_word b = 261" by metis
  with s' show ?thesis by blast
qed

end
