(* ===== verification/Pem.thy ===== *)
theory Pem
  imports GoStrings
begin

section \<open>encoding/base64 and encoding/pem\<close>

text \<open>
  The part of the standard library behind the PEM blocks that the program writes: standard
  base64 with padding, and \<open>pem.EncodeToMemory\<close> of a block without headers. The lemmas read
  the base64 text back, so that a PEM block determines its type and its bytes.
\<close>

definition b64_char :: "nat \<Rightarrow> char" where
  "b64_char n =
     (if n < 26 then char_of (65 + n) else if n < 52 then char_of (71 + n)
      else if n < 62 then char_of (n - 4) else if n = 62 then CHR ''+'' else CHR ''/'')"

fun b64_encode :: "bytes \<Rightarrow> string" where
  "b64_encode (a # b # c # bs) =
     (let n = unat a * 65536 + unat b * 256 + unat c in
      [b64_char (n div 262144), b64_char (n div 4096 mod 64), b64_char (n div 64 mod 64), b64_char (n mod 64)]
        @ b64_encode bs)"
| "b64_encode [a, b] =
     (let n = unat a * 256 + unat b in
      [b64_char (n div 1024), b64_char (n div 16 mod 64), b64_char (n mod 16 * 4), CHR ''=''])"
| "b64_encode [a] = [b64_char (unat a div 4), b64_char (unat a mod 4 * 16), CHR ''='', CHR ''='']"
| "b64_encode [] = []"

text \<open>The line breaker: lines of 64 characters, each with a newline, the last one shorter.\<close>

function break_lines :: "string \<Rightarrow> string" where
  "break_lines s = (if s = [] then [] else take 64 s @ [CHR 0x0A] @ break_lines (drop 64 s))"
  by pat_completeness auto
termination
  by (relation "measure length") auto

declare break_lines.simps [simp del]

definition pem_EncodeToMemory :: "string \<Rightarrow> bytes \<Rightarrow> bytes option" where
  "pem_EncodeToMemory ty bs =
     Some (str_bytes (''-----BEGIN '' @ ty @ ''-----'' @ [CHR 0x0A] @ break_lines (b64_encode bs)
       @ ''-----END '' @ ty @ ''-----'' @ [CHR 0x0A]))"

subsection \<open>Reading base64 back\<close>

definition b64_val :: "char \<Rightarrow> nat" where
  "b64_val c =
     (let n = of_char c in
      if 97 \<le> n then n - 71 else if 65 \<le> n then n - 65
      else if 48 \<le> n then n + 4 else if n = 43 then 62 else 63)"

lemma b64_val_char [simp]: "n < 64 \<Longrightarrow> b64_val (b64_char n) = n"
  by (auto simp: b64_val_def b64_char_def Let_def)

lemma b64_char_not_pad [simp]: "n < 64 \<Longrightarrow> b64_char n \<noteq> CHR ''=''"
proof
  assume "n < 64" "b64_char n = CHR ''=''"
  moreover have "(of_char CHR ''='' :: nat) = 61" by simp
  ultimately show False by (auto simp: b64_char_def split: if_splits dest!: arg_cong [of _ _ "of_char :: char \<Rightarrow> nat"])
qed

fun b64_decode :: "string \<Rightarrow> bytes" where
  "b64_decode (p # q # r # s # cs) =
     (if r = CHR ''='' then [of_nat ((b64_val p * 64 + b64_val q) div 16)]
      else if s = CHR ''=''
      then (let n = (b64_val p * 4096 + b64_val q * 64 + b64_val r) div 4 in [of_nat (n div 256), of_nat n])
      else (let n = b64_val p * 262144 + b64_val q * 4096 + b64_val r * 64 + b64_val s in
        [of_nat (n div 65536), of_nat (n div 256), of_nat n]) @ b64_decode cs)"
| "b64_decode _ = []"

lemma of_nat_byte_mod: "of_nat (a * 256 + unat (b :: byte)) = b"
proof -
  have "of_nat (a * 256 + unat b) = (of_nat a * 256 + b :: byte)" by simp
  also have "(256 :: byte) = 0" by simp
  finally show ?thesis by simp
qed

lemma b64_three:
  fixes a b c :: byte
  defines "n \<equiv> unat a * 65536 + unat b * 256 + unat c"
  shows "n div 262144 < 64" and "n div 65536 = unat a" and "n div 256 = unat a * 256 + unat b"
    and "n div 262144 * 262144 + n div 4096 mod 64 * 4096 + n div 64 mod 64 * 64 + n mod 64 = n"
proof -
  have b: "unat a < 256" "unat b < 256" "unat c < 256" by simp_all
  then have "n < 16777216" unfolding n_def by linarith
  then show "n div 262144 < 64" by simp
  have "n = unat a * 65536 + (unat b * 256 + unat c)" "unat b * 256 + unat c < 65536"
    using b by (simp add: n_def, linarith)
  then show "n div 65536 = unat a" by (metis div_mult_self3 div_less add.right_neutral mult.commute zero_neq_numeral)
  have "n = (unat a * 256 + unat b) * 256 + unat c" by (simp add: n_def)
  then show "n div 256 = unat a * 256 + unat b" using b(3) by (metis div_mult_self3 div_less add.right_neutral mult.commute zero_neq_numeral)
  show "n div 262144 * 262144 + n div 4096 mod 64 * 4096 + n div 64 mod 64 * 64 + n mod 64 = n"
    using rune_digits [of n] by linarith
qed

lemma b64_decode_encode [codec_simps]: "b64_decode (b64_encode bs) = bs"
proof (induction bs rule: b64_encode.induct)
  case (1 a b c bs)
  define n where "n = unat a * 65536 + unat b * 256 + unat c"
  note t = b64_three [of a b c, folded n_def]
  have n: "n = (unat a * 256 + unat b) * 256 + unat c" by (simp add: n_def)
  have "of_nat n = c" unfolding n by (rule of_nat_byte_mod)
  moreover have "of_nat (n div 256) = b" unfolding t(3) by (rule of_nat_byte_mod)
  moreover have "of_nat (n div 65536) = a" unfolding t(2) by simp
  ultimately show ?case using 1 t(1,4) by (simp add: n_def [symmetric] Let_def)
next
  case (2 a b)
  define n where "n = unat a * 256 + unat b"
  have "n < 65536" using unat_byte_lt [of a] unat_byte_lt [of b] unfolding n_def by linarith
  then have p: "n div 1024 < 64" "n mod 16 * 4 < 64" by simp_all
  have "n div 1024 = n div 16 div 64" by (simp add: div_mult2_eq [symmetric])
  then have "n div 1024 * 4096 + n div 16 mod 64 * 64 + n mod 16 * 4 = n * 4"
    using div_mult_mod_eq [of n 16] div_mult_mod_eq [of "n div 16" 64] by linarith
  then have d: "(n div 1024 * 4096 + n div 16 mod 64 * 64 + n mod 16 * 4) div 4 = n" by simp
  have "n div 256 = unat a" using unat_byte_lt [of b] by (simp add: n_def)
  moreover have "of_nat n = b" unfolding n_def by (rule of_nat_byte_mod)
  ultimately show ?case using p d by (simp add: n_def [symmetric] Let_def)
next
  case (3 a)
  have "unat a div 4 * 64 + unat a mod 4 * 16 = unat a * 16" using div_mult_mod_eq [of "unat a" 4] by linarith
  moreover have "unat a div 4 < 64" "unat a mod 4 * 16 < 64" using unat_byte_lt [of a] by linarith+
  ultimately show ?case by simp
qed simp

lemma b64_encode_inject: "b64_encode a = b64_encode b \<longleftrightarrow> a = b"
  by (metis b64_decode_encode)

text \<open>A block is determined by its bytes: newlines are only between the lines.\<close>

lemma b64_char_no_newline [simp]: "b64_char n \<noteq> CHR 0x0A" if "n < 64"
proof
  assume "b64_char n = CHR 0x0A"
  then have "b64_val (b64_char n) = b64_val CHR 0x0A" by (rule arg_cong)
  moreover have "b64_val CHR 0x0A = 63" by code_simp
  ultimately have "n = 63" using that by simp
  with \<open>b64_char n = CHR 0x0A\<close> show False by (simp add: b64_char_def)
qed

lemmas newline_no_b64_char [simp] = b64_char_no_newline [THEN not_sym]

lemma break_lines_Nil [simp]: "break_lines [] = []"
  by (simp add: break_lines.simps)

lemma b64_encode_no_newline: "CHR 0x0A \<notin> set (b64_encode bs)"
proof (induction bs rule: b64_encode.induct)
  case (1 a b c bs)
  show ?case using 1 b64_three(1) [of a b c] by (simp add: Let_def)
next
  case (2 a b)
  have "unat a * 256 + unat b < 65536" using unat_byte_lt [of a] unat_byte_lt [of b] by linarith
  then have "(unat a * 256 + unat b) div 1024 < 64" "(unat a * 256 + unat b) mod 16 * 4 < 64" by simp_all
  then show ?case by (simp add: Let_def)
next
  case (3 a)
  have "unat a div 4 < 64" "unat a mod 4 * 16 < 64" using unat_byte_lt [of a] by linarith+
  then show ?case by simp
qed simp

lemma filter_break_lines: "CHR 0x0A \<notin> set s \<Longrightarrow> filter (\<lambda>c. c \<noteq> CHR 0x0A) (break_lines s) = s"
proof (induction s rule: break_lines.induct)
  case (1 s)
  have "CHR 0x0A \<notin> set (take 64 s)" "CHR 0x0A \<notin> set (drop 64 s)"
    using 1 by (auto dest: in_set_takeD in_set_dropD)
  moreover have "filter (\<lambda>c. c \<noteq> CHR 0x0A) (take 64 s) = take 64 s"
    using calculation(1) by (auto intro: filter_True)
  ultimately show ?case using 1 by (cases "s = []") (simp_all add: break_lines.simps [of s])
qed

lemma break_lines_inject:
  "CHR 0x0A \<notin> set s \<Longrightarrow> CHR 0x0A \<notin> set t \<Longrightarrow> break_lines s = break_lines t \<longleftrightarrow> s = t"
  by (metis filter_break_lines)

lemma pem_inject: "pem_EncodeToMemory ty a = pem_EncodeToMemory ty b \<longleftrightarrow> a = b"
  by (simp only: pem_EncodeToMemory_def option.inject str_bytes_inject same_append_eq append_same_eq
      break_lines_inject b64_encode_no_newline not_False_eq_True b64_encode_inject append_assoc [symmetric])

end
