(* ===== verification/SSHKey.thy ===== *)
theory SSHKey
  imports EfiVars Pem
begin

section \<open>SSH host keys: internal/ssh\<close>

text \<open>
  An Ed25519 host key, its OpenSSH private key format and its PEM form in EFI-NVRAM. The
  wire format of \<open>golang.org/x/crypto/ssh\<close> (\<open>Marshal\<close>, \<open>Unmarshal\<close>, public keys and
  fingerprints) and the derivation of an Ed25519 public key from a seed are parameters,
  the fields of \<open>sshlib\<close>. A source of randomness is the list of bytes it still has;
  \<open>Read\<close> and \<open>io.ReadFull\<close> take from it or fail.
\<close>

record HostKey =
  Private :: bytes
  Check :: "32 word"
  Comment :: string

record ed25519KeyBody =
  Pub :: bytes
  Priv :: bytes
  BodyComment :: string
  Pad :: bytes

record keyBody =
  Check1 :: "32 word"
  Check2 :: "32 word"
  Keytype :: string
  Rest :: bytes

record authBody =
  CipherName :: string
  KdfName :: string
  KdfOpts :: string
  NumKeys :: "32 word"
  PubKey :: bytes
  PrivKeyBlock :: bytes

record sshlib =
  ed25519_PublicOfSeed :: "bytes \<Rightarrow> bytes"
  KeyAlgoED25519 :: string
  Marshal_pub :: "string \<Rightarrow> bytes \<Rightarrow> bytes"
  Marshal_body :: "ed25519KeyBody \<Rightarrow> bytes"
  Marshal_key :: "keyBody \<Rightarrow> bytes"
  Marshal_auth :: "authBody \<Rightarrow> bytes"
  Unmarshal_body :: "bytes \<Rightarrow> goerror + ed25519KeyBody"
  Unmarshal_key :: "bytes \<Rightarrow> goerror + keyBody"
  Unmarshal_auth :: "bytes \<Rightarrow> goerror + authBody"
  NewPublicKey :: "bytes \<Rightarrow> goerror + bytes"
  FingerprintSHA256 :: "bytes \<Rightarrow> string"
  MarshalAuthorizedKey :: "bytes \<Rightarrow> bytes"

definition PEMTypePrivateKey :: string where
  "PEMTypePrivateKey = ''OPENSSH PRIVATE KEY''"

definition authMagic :: bytes where
  "authMagic = str_bytes (''openssh-key-v1'' @ [CHR 0x00])"

subsection \<open>Randomness\<close>

definition ReadFull :: "nat \<Rightarrow> bytes \<Rightarrow> goerror + bytes \<times> bytes" where
  "ReadFull n r = (if length r < n then Inl (External ''hkdf: entropy limit reached'') else Inr (take n r, drop n r))"

lemma ReadFull_ok: "n \<le> length r \<Longrightarrow> ReadFull n r = Inr (take n r, drop n r)"
  by (simp add: ReadFull_def)

definition be_uint32 :: "bytes \<Rightarrow> 32 word" where
  "be_uint32 bs = foldl (\<lambda>w b. push_bit 8 w OR ucast b) 0 bs"

text \<open>\<open>ed25519.GenerateKey\<close>: a seed of 32 bytes; the private key is the seed and the public key.\<close>

definition ed25519_GenerateKey :: "sshlib \<Rightarrow> bytes \<Rightarrow> goerror + bytes \<times> bytes \<times> bytes" where
  "ed25519_GenerateKey S rand =
     (case ReadFull 32 rand of
        Inl e \<Rightarrow> Inl e
      | Inr (seed, rest) \<Rightarrow> Inr (ed25519_PublicOfSeed S seed, seed @ ed25519_PublicOfSeed S seed, rest))"

definition NewHostKey :: "sshlib \<Rightarrow> bytes \<Rightarrow> string \<Rightarrow> goerror + HostKey" where
  "NewHostKey S rand comment =
     (case ed25519_GenerateKey S rand of
        Inl e \<Rightarrow> Inl (Wrapf ''generate key'' e)
      | Inr (pub, priv, rest) \<Rightarrow>
          (case ReadFull 4 rest of
             Inl e \<Rightarrow> Inl (Wrapf ''read random'' e)
           | Inr (check, _) \<Rightarrow> Inr \<lparr>Private = priv, Check = be_uint32 check, Comment = comment\<rparr>))"

subsection \<open>The public key\<close>

text \<open>\<open>copy\<close> into a fresh slice of \<open>n\<close> bytes, and \<open>ed25519.PrivateKey.Public\<close>.\<close>

definition go_copy :: "nat \<Rightarrow> bytes \<Rightarrow> bytes" where
  "go_copy n src = take n src @ replicate (n - length src) 0"

definition Private_Public :: "bytes \<Rightarrow> bytes" where
  "Private_Public priv = go_copy 32 (drop 32 priv)"

definition publicKey :: "sshlib \<Rightarrow> HostKey \<Rightarrow> goerror + bytes" where
  "publicKey S hk =
     (case NewPublicKey S (Private_Public (Private hk)) of
        Inl e \<Rightarrow> Inl (Wrapf ''derive public key'' e)
      | Inr pub \<Rightarrow> Inr pub)"

definition Fingerprint :: "sshlib \<Rightarrow> HostKey \<Rightarrow> goerror + string" where
  "Fingerprint S hk = (case publicKey S hk of Inl e \<Rightarrow> Inl e | Inr pub \<Rightarrow> Inr (FingerprintSHA256 S pub))"

definition PublicKey :: "sshlib \<Rightarrow> HostKey \<Rightarrow> goerror + string" where
  "PublicKey S hk =
     (case publicKey S hk of
        Inl e \<Rightarrow> Inl e
      | Inr pub \<Rightarrow> Inr (strings_TrimRight (bytes_str (MarshalAuthorizedKey S pub)) (CHR 0x0A)))"

subsection \<open>Writing\<close>

lemma pad_decreases:
  assumes "m mod 8 \<noteq> (0::nat)"
  shows "(8 - Suc m mod 8) mod 8 < (8 - m mod 8) mod 8"
proof (cases "m mod 8 = 7")
  case False
  moreover have "m mod 8 < 8" by simp
  ultimately have "m mod 8 < 7" by linarith
  then show ?thesis using assms by (simp add: mod_Suc)
qed (simp add: mod_Suc)

text \<open>The loop of \<open>addPad\<close> from index \<open>i\<close>, for a comment of length \<open>n\<close>.\<close>

function pad_loop :: "nat \<Rightarrow> nat \<Rightarrow> bytes" where
  "pad_loop n i = (if (119 + 4 + n + i) mod 8 \<noteq> 0 then of_nat (i + 1) # pad_loop n (i + 1) else [])"
  by pat_completeness auto
termination
  by (relation "measure (\<lambda>(n, i). (8 - (119 + 4 + n + i) mod 8) mod 8)")
    (use pad_decreases in \<open>simp_all only: wf_measure in_measure prod.case add_Suc_right Suc_eq_plus1 [symmetric]\<close>)

declare pad_loop.simps [simp del]

definition addPad :: "ed25519KeyBody \<Rightarrow> ed25519KeyBody" where
  "addPad b = b\<lparr>Pad := Pad b @ pad_loop (length (BodyComment b)) 0\<rparr>"

definition body_of :: "HostKey \<Rightarrow> ed25519KeyBody" where
  "body_of hk = addPad
     \<lparr>Pub = go_copy 32 (Private_Public (Private hk)), Priv = go_copy 64 (Private hk),
      BodyComment = Comment hk, Pad = []\<rparr>"

definition auth_of :: "sshlib \<Rightarrow> HostKey \<Rightarrow> authBody" where
  "auth_of S hk =
     (let key = body_of hk;
          pk1 = \<lparr>Check1 = Check hk, Check2 = Check hk, Keytype = KeyAlgoED25519 S, Rest = Marshal_body S key\<rparr> in
      \<lparr>CipherName = ''none'', KdfName = ''none'', KdfOpts = '''', NumKeys = 1,
       PubKey = Marshal_pub S (KeyAlgoED25519 S) (Pub key), PrivKeyBlock = Marshal_key S pk1\<rparr>)"

text \<open>\<open>write\<close> into a buffer, which never fails.\<close>

definition write_key :: "sshlib \<Rightarrow> HostKey \<Rightarrow> bytes" where
  "write_key S hk = authMagic @ Marshal_auth S (auth_of S hk)"

definition writePEM :: "sshlib \<Rightarrow> HostKey \<Rightarrow> goerror + bytes" where
  "writePEM S hk =
     (case pem_EncodeToMemory PEMTypePrivateKey (write_key S hk) of
        None \<Rightarrow> Inl (Errorf ''pem-encode key: failed'')
      | Some b \<Rightarrow> Inr b)"

definition WriteEFI :: "'s efi \<Rightarrow> sshlib \<Rightarrow> HostKey \<Rightarrow> bytes \<Rightarrow> string \<Rightarrow> 's \<Rightarrow> 's \<times> goerror option" where
  "WriteEFI E S hk varUUID name s =
     (case writePEM S hk of
        Inl e \<Rightarrow> (s, Some (Wrapf ''marshal'' e))
      | Inr b \<Rightarrow>
          (let attrs = (AttributeBootserviceAccess E OR AttributeRuntimeAccess E) OR AttributeNonVolatile E in
           case efivarfs_New E s of
             Some e \<Rightarrow> (s, Some (Wrapf ''marshal'' e))
           | None \<Rightarrow>
               (case WriteVariable E \<lparr>desc_Name = name, GUID = varUUID\<rparr> attrs b s of
                  (s', Some e) \<Rightarrow> (s', Some (Wrapf ''write'' e))
                | (s', None) \<Rightarrow> (s', None))))"

subsection \<open>Reading\<close>

definition pad_expected :: "bytes \<Rightarrow> bool" where
  "pad_expected bs = list_all (\<lambda>(i, b). unat b = i + 1) (enumerate 0 bs)"

definition read_key :: "sshlib \<Rightarrow> bytes \<Rightarrow> goerror + HostKey" where
  "read_key S key =
     (if length key < length authMagic \<or> take (length authMagic) key \<noteq> authMagic
      then Inl (Errorf ''ssh: invalid openssh private key format'')
      else (case Unmarshal_auth S (drop (length authMagic) key) of
          Inl e \<Rightarrow> Inl e
        | Inr w \<Rightarrow>
            if KdfName w \<noteq> ''none'' \<or> CipherName w \<noteq> ''none''
            then Inl (Errorf ''ssh: cannot decode encrypted private keys'')
            else (case Unmarshal_key S (PrivKeyBlock w) of
                Inl e \<Rightarrow> Inl e
              | Inr pk1 \<Rightarrow>
                  if Check1 pk1 \<noteq> Check2 pk1 then Inl (Errorf ''ssh: checkint mismatch'')
                  else if Keytype pk1 \<noteq> KeyAlgoED25519 S then Inl (Errorf ''ssh: unhandled key type'')
                  else (case Unmarshal_body S (Rest pk1) of
                      Inl e \<Rightarrow> Inl e
                    | Inr b \<Rightarrow>
                        if length (Priv b) \<noteq> 64 then Inl (Errorf ''ssh: private key unexpected length'')
                        else if \<not> pad_expected (Pad b) then Inl (Errorf ''ssh: padding not as expected'')
                        else Inr \<lparr>Private = Priv b, Check = Check1 pk1, Comment = BodyComment b\<rparr>))))"

end
