(* ===== verification/SSHWire.thy ===== *)
theory SSHWire
  imports SSHKey
begin

section \<open>What the host key format guarantees\<close>

text \<open>
  The documented behaviour of the wire format (\<open>ssh_laws\<close>): strings take four bytes and
  their length, the last field may take the rest, and \<open>Unmarshal\<close> inverts \<open>Marshal\<close> on
  values whose fields have less than \<open>2 ^ 32\<close> bytes. From it follow the round trip of a host
  key, the padding, and what \<open>read\<close> accepts. An implementation of the wire format of
  RFC 4251 shows that the laws can hold.
\<close>

definition fits :: "'x list \<Rightarrow> bool" where
  "fits xs \<longleftrightarrow> length xs < 2 ^ 32"

definition ssh_laws :: "sshlib \<Rightarrow> bool" where
  "ssh_laws S \<longleftrightarrow>
     KeyAlgoED25519 S = ''ssh-ed25519''
     \<and> (\<forall>b. fits (Pub b) \<and> fits (Priv b) \<and> fits (BodyComment b) \<longrightarrow> Unmarshal_body S (Marshal_body S b) = Inr b)
     \<and> (\<forall>k. fits (Keytype k) \<longrightarrow> Unmarshal_key S (Marshal_key S k) = Inr k)
     \<and> (\<forall>a. fits (CipherName a) \<and> fits (KdfName a) \<and> fits (KdfOpts a) \<and> fits (PubKey a) \<and> fits (PrivKeyBlock a)
          \<longrightarrow> Unmarshal_auth S (Marshal_auth S a) = Inr a)
     \<and> (\<forall>n b. length (Marshal_pub S n b) = 8 + length n + length b)
     \<and> (\<forall>b. length (Marshal_body S b) = 12 + length (Pub b) + length (Priv b) + length (BodyComment b) + length (Pad b))
     \<and> (\<forall>k. length (Marshal_key S k) = 12 + length (Keytype k) + length (Rest k))"

subsection \<open>The padding\<close>

lemma pad_step:
  assumes "m mod 8 \<noteq> (0::nat)"
  shows "Suc ((8 - Suc m mod 8) mod 8) = (8 - m mod 8) mod 8"
proof (cases "m mod 8 = 7")
  case False
  moreover have "m mod 8 < 8" by simp
  ultimately have "m mod 8 < 7" by linarith
  then show ?thesis using assms by (simp add: mod_Suc)
qed (simp add: mod_Suc)

lemma pad_fills: "(m + (8 - m mod 8) mod 8) mod 8 = (0::nat)"
proof -
  have "m mod 8 \<le> 8" using mod_less_divisor [of 8 m] by linarith
  then have "(m mod 8 + (8 - m mod 8)) mod 8 = 0" by simp
  then show ?thesis by (simp only: mod_add_left_eq mod_add_right_eq)
qed

lemma length_pad_loop: "length (pad_loop n i) = (8 - (119 + 4 + n + i) mod 8) mod 8"
proof (induction n i rule: pad_loop.induct)
  case (1 n i)
  show ?case
  proof (cases "(119 + 4 + n + i) mod 8 = 0")
    case False
    then have "length (pad_loop n i) = Suc (length (pad_loop n (i + 1)))" by (subst pad_loop.simps) simp
    also have "\<dots> = Suc ((8 - Suc (119 + 4 + n + i) mod 8) mod 8)" using 1 [OF False] by simp
    also have "\<dots> = (8 - (119 + 4 + n + i) mod 8) mod 8" using False by (rule pad_step)
    finally show ?thesis .
  qed (simp add: pad_loop.simps)
qed

lemma pad_loop_values: "pad_loop n i = map of_nat [i + 1..<i + 1 + length (pad_loop n i)]"
proof (induction n i rule: pad_loop.induct)
  case (1 n i)
  show ?case
  proof (cases "(119 + 4 + n + i) mod 8 = 0")
    case False
    let ?l = "length (pad_loop n (i + 1))"
    from False have e: "pad_loop n i = of_nat (i + 1) # pad_loop n (i + 1)" by (subst pad_loop.simps) simp
    have "[i + 1..<i + 1 + length (pad_loop n i)] = (i + 1) # [i + 1 + 1..<i + 1 + 1 + ?l]"
      unfolding e by (subst upt_conv_Cons) (simp_all del: upt_Suc)
    then have "map of_nat [i + 1..<i + 1 + length (pad_loop n i)] = (of_nat (i + 1) # map of_nat [i + 1 + 1..<i + 1 + 1 + ?l] :: bytes)"
      by (simp only: list.map)
    also have "\<dots> = pad_loop n i" unfolding e using 1 [OF False] by (simp only:)
    finally show ?thesis ..
  qed (simp add: pad_loop.simps)
qed

lemma pad_values: "Pad (body_of hk) = map of_nat [1..<1 + length (Pad (body_of hk))]"
  using pad_loop_values [of "length (Comment hk)" 0] by (simp add: body_of_def addPad_def)

lemma length_Pad: "length (Pad (body_of hk)) = (8 - (123 + length (Comment hk)) mod 8) mod 8"
  by (simp add: body_of_def addPad_def length_pad_loop)

lemma pad_expected_iff: "pad_expected bs \<longleftrightarrow> (\<forall>i < length bs. unat (bs ! i) = i + 1)"
  by (force simp: pad_expected_def list_all_iff in_set_enumerate_eq)

lemma pad_expected_values: "pad_expected bs \<longleftrightarrow> (\<exists>k < 256. bs = map of_nat [1..<1 + k])"
proof
  assume e: "pad_expected bs"
  have "length bs < 256"
  proof (rule ccontr)
    assume "\<not> length bs < 256"
    with e have "unat (bs ! 255) = 256" by (simp add: pad_expected_iff)
    then show False using unat_byte_lt [of "bs ! 255"] by simp
  qed
  moreover have "bs ! i = of_nat (i + 1)" if "i < length bs" for i
  proof -
    have "unat (bs ! i) = i + 1" using e that by (simp add: pad_expected_iff)
    then have "of_nat (i + 1) = (of_nat (unat (bs ! i)) :: byte)" by (simp only:)
    then show ?thesis by simp
  qed
  then have "bs = map of_nat [1..<1 + length bs]" by (intro nth_equalityI) (simp_all del: upt_Suc)
  ultimately show "\<exists>k < 256. bs = map of_nat [1..<1 + k]" by blast
next
  assume "\<exists>k < 256. bs = map of_nat [1..<1 + k]"
  then obtain k where k: "k < 256" "bs = map of_nat [1..<1 + k]" by blast
  have "unat (bs ! i) = i + 1" if "i < length bs" for i
  proof -
    have "bs ! i = of_nat (1 + i)" "1 + i < 256" using k that by (simp_all del: upt_Suc of_nat_add of_nat_Suc)
    then show ?thesis using unat_of_nat_byte [of "1 + i"] by (simp del: of_nat_add of_nat_Suc)
  qed
  then show "pad_expected bs" by (simp add: pad_expected_iff)
qed

lemma pad_expected_body: "pad_expected (Pad (body_of hk))"
proof -
  have "length (Pad (body_of hk)) < 256" using length_Pad [of hk] mod_less_divisor [of 8 "8 - (123 + length (Comment hk)) mod 8"] by linarith
  then show ?thesis using pad_values [of hk] pad_expected_values by blast
qed

lemma body_fields [simp]:
  "BodyComment (body_of hk) = Comment hk" "Priv (body_of hk) = go_copy 64 (Private hk)"
  "Pub (body_of hk) = go_copy 32 (Private_Public (Private hk))"
  by (simp_all add: body_of_def addPad_def)

lemma length_go_copy [simp]: "length (go_copy n src) = n"
  by (simp add: go_copy_def)

lemma go_copy_same: "length src = n \<Longrightarrow> go_copy n src = src"
  by (simp add: go_copy_def)

text \<open>
  C39. The private-key block of a written host key is a multiple of eight bytes long,
  whatever the comment: \<open>addPad\<close> adds the bytes 1, 2, 3, ... up to at most seven of them.
\<close>

theorem private_block_padded:
  assumes "ssh_laws S"
  shows "length (PrivKeyBlock (auth_of S hk)) mod 8 = 0
    \<and> (\<exists>k < 8. Pad (body_of hk) = map of_nat [1..<1 + k])"
proof
  let ?m = "123 + length (Comment hk)"
  have "length (PrivKeyBlock (auth_of S hk)) = 8 + (?m + length (Pad (body_of hk)))"
    using assms by (simp add: ssh_laws_def auth_of_def Let_def)
  then show "length (PrivKeyBlock (auth_of S hk)) mod 8 = 0"
    using pad_fills [of ?m] unfolding length_Pad by (simp only: mod_add_self1)
  have "length (Pad (body_of hk)) < 8" unfolding length_Pad by simp
  then show "\<exists>k < 8. Pad (body_of hk) = map of_nat [1..<1 + k]" using pad_values [of hk] by blast
qed

subsection \<open>The round trip\<close>

lemma read_key_write_key:
  assumes "ssh_laws S" "length (Private hk) = 64" "length (Comment hk) < 2 ^ 31"
  shows "read_key S (write_key S hk) = Inr hk"
proof -
  define pk1 where "pk1 = \<lparr>Check1 = Check hk, Check2 = Check hk, Keytype = ''ssh-ed25519'', Rest = Marshal_body S (body_of hk)\<rparr>"
  have a: "KeyAlgoED25519 S = ''ssh-ed25519''" using assms(1) by (simp add: ssh_laws_def)
  have w: "auth_of S hk = \<lparr>CipherName = ''none'', KdfName = ''none'', KdfOpts = [], NumKeys = 1,
       PubKey = Marshal_pub S ''ssh-ed25519'' (Pub (body_of hk)), PrivKeyBlock = Marshal_key S pk1\<rparr>"
    by (simp add: auth_of_def Let_def a pk1_def)
  have "length (Pad (body_of hk)) < 8" unfolding length_Pad by simp
  then have len: "length (Marshal_key S pk1) < 2 ^ 32"
    using assms by (simp add: ssh_laws_def pk1_def)
  have "Unmarshal_auth S (Marshal_auth S (auth_of S hk)) = Inr (auth_of S hk)"
    using assms(1) len unfolding w by (simp add: ssh_laws_def fits_def)
  moreover have "Unmarshal_key S (Marshal_key S pk1) = Inr pk1"
    using assms(1) by (simp add: ssh_laws_def fits_def pk1_def)
  moreover have "Unmarshal_body S (Marshal_body S (body_of hk)) = Inr (body_of hk)"
    using assms by (simp add: ssh_laws_def fits_def)
  ultimately show ?thesis using assms(2) pad_expected_body [of hk]
    by (simp add: read_key_def write_key_def w pk1_def a go_copy_same)
qed

text \<open>
  C20. A host key with a 64-byte private key and a comment of less than 2 GiB that is
  written is read back as it was.
\<close>

theorem read_write_key:
  assumes "ssh_laws S" "length (Private hk) = 64" "length (Comment hk) < 2 ^ 31"
  shows "read_key S (write_key S hk) = Inr hk"
  using assms by (rule read_key_write_key)

text \<open>
  \<open>read\<close> accepts a file exactly if it starts with the magic bytes, is not encrypted, has
  equal check words, is an Ed25519 key of 64 bytes and is padded with 1, 2, 3, ...; the
  key it returns has the fields of the file.
\<close>

theorem read_key_accepts:
  "read_key S key = Inr hk \<longleftrightarrow>
     (\<exists>rest w pk1 b k. key = authMagic @ rest \<and> Unmarshal_auth S rest = Inr w
        \<and> KdfName w = ''none'' \<and> CipherName w = ''none''
        \<and> Unmarshal_key S (PrivKeyBlock w) = Inr pk1 \<and> Check1 pk1 = Check2 pk1 \<and> Keytype pk1 = KeyAlgoED25519 S
        \<and> Unmarshal_body S (Rest pk1) = Inr b \<and> length (Priv b) = 64
        \<and> k < 256 \<and> Pad b = map of_nat [1..<1 + k]
        \<and> hk = \<lparr>Private = Priv b, Check = Check1 pk1, Comment = BodyComment b\<rparr>)"
    (is "_ \<longleftrightarrow> ?r")
proof
  assume a: "read_key S key = Inr hk"
  then have "take (length authMagic) key = authMagic" by (simp add: read_key_def split: if_splits)
  then obtain rest where r: "key = authMagic @ rest" by (metis append_take_drop_id)
  with a obtain w pk1 b where "Unmarshal_auth S rest = Inr w" "KdfName w = ''none''" "CipherName w = ''none''"
    "Unmarshal_key S (PrivKeyBlock w) = Inr pk1" "Check1 pk1 = Check2 pk1" "Keytype pk1 = KeyAlgoED25519 S"
    "Unmarshal_body S (Rest pk1) = Inr b" "length (Priv b) = 64" "pad_expected (Pad b)"
    "hk = \<lparr>Private = Priv b, Check = Check1 pk1, Comment = BodyComment b\<rparr>"
    by (auto simp: read_key_def split: sum.splits if_splits)
  with r pad_expected_values [of "Pad b"] show ?r by blast
next
  assume ?r
  then obtain rest w pk1 b k where *: "key = authMagic @ rest" "Unmarshal_auth S rest = Inr w"
    "KdfName w = ''none''" "CipherName w = ''none''" "Unmarshal_key S (PrivKeyBlock w) = Inr pk1"
    "Check1 pk1 = Check2 pk1" "Keytype pk1 = KeyAlgoED25519 S" "Unmarshal_body S (Rest pk1) = Inr b"
    "length (Priv b) = 64" "k < 256" "Pad b = map of_nat [1..<1 + k]"
    "hk = \<lparr>Private = Priv b, Check = Check1 pk1, Comment = BodyComment b\<rparr>" by blast
  then have "pad_expected (Pad b)" using pad_expected_values by blast
  with * show "read_key S key = Inr hk" by (simp add: read_key_def)
qed

subsection \<open>The laws can hold: RFC 4251\<close>

definition put32 :: "32 word \<Rightarrow> bytes" where
  "put32 w = [ucast (drop_bit 24 w), ucast (drop_bit 16 w), ucast (drop_bit 8 w), ucast w]"

definition get32 :: "bytes \<Rightarrow> (32 word \<times> bytes) option" where
  "get32 bs = (if length bs < 4 then None else Some (be_uint32 (take 4 bs), drop 4 bs))"

definition put_str :: "bytes \<Rightarrow> bytes" where
  "put_str bs = put32 (of_nat (length bs)) @ bs"

definition get_str :: "bytes \<Rightarrow> (bytes \<times> bytes) option" where
  "get_str bs = Option.bind (get32 bs)
     (\<lambda>(n, r). if length r < unat n then None else Some (take (unat n) r, drop (unat n) r))"

lemma be_uint32_put32: "be_uint32 (put32 w) = w"
proof (rule bit_word_eqI)
  fix n
  assume "n < LENGTH(32)"
  then consider "n < 8" | "8 \<le> n" "n < 16" | "16 \<le> n" "n < 24" | "24 \<le> n" "n < 32" by fastforce
  then show "bit (be_uint32 (put32 w)) n = bit w n"
    unfolding be_uint32_def put32_def by cases (auto simp: bit_simps)
qed

lemma get32_put32 [simp]: "get32 (put32 w @ r) = Some (w, r)"
proof -
  have "length (put32 w) = 4" by (simp add: put32_def)
  then show ?thesis by (simp add: get32_def be_uint32_put32)
qed

lemma get_put_str [simp]: "length bs < 2 ^ 32 \<Longrightarrow> get_str (put_str bs @ r) = Some (bs, r)"
  by (simp add: get_str_def put_str_def unat_of_nat)

lemma length_put [simp]: "length (put32 w) = 4" "length (put_str bs) = 4 + length bs"
  by (simp_all add: put32_def put_str_def)

definition parsed_or :: "'x option \<Rightarrow> goerror + 'x" where
  "parsed_or r = (case r of None \<Rightarrow> Inl (External ''ssh: short read'') | Some x \<Rightarrow> Inr x)"

definition rfc_body :: "bytes \<Rightarrow> ed25519KeyBody option" where
  "rfc_body bs = Option.bind (get_str bs) (\<lambda>(pub, r). Option.bind (get_str r) (\<lambda>(priv, r).
     Option.bind (get_str r) (\<lambda>(c, r). Some \<lparr>Pub = pub, Priv = priv, BodyComment = bytes_str c, Pad = r\<rparr>)))"

definition rfc_key :: "bytes \<Rightarrow> keyBody option" where
  "rfc_key bs = Option.bind (get32 bs) (\<lambda>(c1, r). Option.bind (get32 r) (\<lambda>(c2, r).
     Option.bind (get_str r) (\<lambda>(t, r). Some \<lparr>Check1 = c1, Check2 = c2, Keytype = bytes_str t, Rest = r\<rparr>)))"

definition rfc_auth :: "bytes \<Rightarrow> authBody option" where
  "rfc_auth bs = Option.bind (get_str bs) (\<lambda>(c, r). Option.bind (get_str r) (\<lambda>(k, r).
     Option.bind (get_str r) (\<lambda>(ko, r). Option.bind (get32 r) (\<lambda>(n, r).
     Option.bind (get_str r) (\<lambda>(pub, r). Option.bind (get_str r) (\<lambda>(pr, r).
       if r \<noteq> [] then None else Some \<lparr>CipherName = bytes_str c, KdfName = bytes_str k, KdfOpts = bytes_str ko,
          NumKeys = n, PubKey = pub, PrivKeyBlock = pr\<rparr>))))))"

definition rfc_ssh :: sshlib where
  "rfc_ssh =
     \<lparr>ed25519_PublicOfSeed = go_copy 32, KeyAlgoED25519 = ''ssh-ed25519'',
      Marshal_pub = (\<lambda>n b. put_str (str_bytes n) @ put_str b),
      Marshal_body = (\<lambda>b. put_str (Pub b) @ put_str (Priv b) @ put_str (str_bytes (BodyComment b)) @ Pad b),
      Marshal_key = (\<lambda>k. put32 (Check1 k) @ put32 (Check2 k) @ put_str (str_bytes (Keytype k)) @ Rest k),
      Marshal_auth = (\<lambda>a. put_str (str_bytes (CipherName a)) @ put_str (str_bytes (KdfName a))
        @ put_str (str_bytes (KdfOpts a)) @ put32 (NumKeys a) @ put_str (PubKey a) @ put_str (PrivKeyBlock a)),
      Unmarshal_body = (\<lambda>bs. parsed_or (rfc_body bs)), Unmarshal_key = (\<lambda>bs. parsed_or (rfc_key bs)),
      Unmarshal_auth = (\<lambda>bs. parsed_or (rfc_auth bs)),
      NewPublicKey = Inr, FingerprintSHA256 = bytes_str, MarshalAuthorizedKey = (\<lambda>b. b @ [10])\<rparr>"

lemma rfc_ssh_laws: "ssh_laws rfc_ssh"
proof -
  have "get_str (put_str bs) = Some (bs, [])" if "length bs < 2 ^ 32" for bs
    using get_put_str [OF that, of "[]"] by simp
  then show ?thesis
    by (simp add: ssh_laws_def rfc_ssh_def parsed_or_def rfc_body_def rfc_key_def rfc_auth_def fits_def del: map_map)
qed

theorem private_block_padded_witness:
  "length (PrivKeyBlock (auth_of rfc_ssh \<lparr>Private = replicate 64 7, Check = 5, Comment = ''root@host''\<rparr>)) mod 8 = 0"
  using private_block_padded [OF rfc_ssh_laws] by blast

theorem read_write_key_witness:
  "read_key rfc_ssh (write_key rfc_ssh \<lparr>Private = replicate 64 7, Check = 5, Comment = ''root@host''\<rparr>)
    = Inr \<lparr>Private = replicate 64 7, Check = 5, Comment = ''root@host''\<rparr>"
  by (rule read_write_key [OF rfc_ssh_laws]) simp_all

subsection \<open>The key in EFI-NVRAM\<close>

lemma WriteEFI_read_back:
  assumes "efi_laws E" "WriteEFI E S hk g n s = (s', None)"
  obtains a pem where "ReadVariable E s' \<lparr>desc_Name = n, GUID = g\<rparr> = Inr (a, pem)" "writePEM S hk = Inr pem"
proof -
  obtain pem where p: "writePEM S hk = Inr pem" "pem \<noteq> []"
    by (auto simp: writePEM_def pem_EncodeToMemory_def)
  have at: "(AttributeBootserviceAccess E OR AttributeRuntimeAccess E) OR AttributeNonVolatile E = plain_attrs E"
    by (simp add: plain_attrs_def ac_simps)
  have "WriteVariable E \<lparr>desc_Name = n, GUID = g\<rparr> (plain_attrs E) pem s = (s', None)"
    using assms(2) p by (auto simp: WriteEFI_def at Let_def split: option.splits prod.splits)
  from efi_read_back [OF assms(1) this p(2)] p(1) that show thesis by blast
qed

text \<open>
  C21. After a successful \<open>WriteEFI\<close> the variable holds the PEM block of the key, and keys
  with different content leave different bytes: the stored text determines the key.
\<close>

theorem WriteEFI_stores_key:
  assumes "efi_laws E" "ssh_laws S" "WriteEFI E S hk g n s = (s', None)"
  shows "\<exists>a pem. ReadVariable E s' \<lparr>desc_Name = n, GUID = g\<rparr> = Inr (a, pem) \<and> writePEM S hk = Inr pem
    \<and> (\<forall>hk'. writePEM S hk' = Inr pem \<and> length (Private hk) = 64 \<and> length (Private hk') = 64
         \<and> length (Comment hk) < 2 ^ 31 \<and> length (Comment hk') < 2 ^ 31 \<longrightarrow> hk' = hk)"
proof -
  from assms(1,3) obtain a pem where r: "ReadVariable E s' \<lparr>desc_Name = n, GUID = g\<rparr> = Inr (a, pem)"
    and p: "writePEM S hk = Inr pem" by (rule WriteEFI_read_back)
  have "hk' = hk" if "writePEM S hk' = Inr pem" "length (Private hk) = 64" "length (Private hk') = 64"
    "length (Comment hk) < 2 ^ 31" "length (Comment hk') < 2 ^ 31" for hk'
  proof -
    have "pem_EncodeToMemory PEMTypePrivateKey (write_key S hk') = pem_EncodeToMemory PEMTypePrivateKey (write_key S hk)"
      using p that(1) by (auto simp: writePEM_def split: option.splits)
    then have "write_key S hk' = write_key S hk" by (simp only: pem_inject)
    then show ?thesis using read_key_write_key [OF assms(2) that(2,4)] read_key_write_key [OF assms(2) that(3,5)] by simp
  qed
  with r p show ?thesis by blast
qed

theorem WriteEFI_stores_key_witness:
  "\<exists>s' a pem. WriteEFI (map_efi (\<lambda>g. Inr [])) rfc_ssh \<lparr>Private = replicate 64 7, Check = 5, Comment = ''ospkg''\<rparr>
      [1] ''STHostKey'' Map.empty = (s', None)
    \<and> ReadVariable (map_efi (\<lambda>g. Inr [])) s' \<lparr>desc_Name = ''STHostKey'', GUID = [1]\<rparr> = Inr (a, pem)
    \<and> writePEM rfc_ssh \<lparr>Private = replicate 64 7, Check = 5, Comment = ''ospkg''\<rparr> = Inr pem"
proof -
  let ?E = "map_efi (\<lambda>g. Inr [])" and ?hk = "\<lparr>Private = replicate 64 7, Check = 5, Comment = ''ospkg''\<rparr>"
  obtain s' where s': "WriteEFI ?E rfc_ssh ?hk [1] ''STHostKey'' Map.empty = (s', None)"
    by (simp add: WriteEFI_def writePEM_def pem_EncodeToMemory_def map_efi_def Let_def)
  from WriteEFI_stores_key [OF map_efi_laws rfc_ssh_laws s'] s' show ?thesis by blast
qed

end
