(* ===== verification/Secrets.thy ===== *)
theory Secrets
  imports SSHWire GoNet
begin

section \<open>Derived secrets: internal/secrets\<close>

text \<open>
  All secrets come from HKDF-SHA256 with a secret, the decimal context as salt and the
  label as info. HKDF and the X.509 and TLS functions are parameters, the fields of
  \<open>crypto\<close>; the HKDF reader is the list of the bytes it can give (\<open>hkdf_laws\<close>: 255 hash
  lengths). The operating system's randomness is a list of bytes, passed on. A TLS client's
  check of the certificates that a server presents is a parameter too, \<open>tls_Verify\<close>: it
  takes the client's roots and the server name it expects.
\<close>

record template =
  SerialNumber :: int
  Version :: nat
  NotBefore :: "int \<times> int"
  NotAfter :: "int \<times> int"
  KeyUsage :: "string list"
  ExtKeyUsage :: "string list"
  DNSNames :: "string list"

record ('c, 'k) crypto =
  hkdf_sha256 :: "bytes \<Rightarrow> bytes \<Rightarrow> bytes \<Rightarrow> bytes"
  x509_CreateCertificate :: "bytes \<Rightarrow> template \<Rightarrow> template \<Rightarrow> bytes \<Rightarrow> bytes \<Rightarrow> goerror + bytes"
  x509_MarshalPKCS8PrivateKey :: "bytes \<Rightarrow> goerror + bytes"
  x509_ParseCertificate :: "bytes \<Rightarrow> goerror + 'c"
  tls_X509KeyPair :: "bytes option \<Rightarrow> bytes option \<Rightarrow> goerror + 'k"
  tls_Verify :: "'c list \<Rightarrow> string \<Rightarrow> 'k list \<Rightarrow> goerror option"

definition EntropyBytes :: nat where "EntropyBytes = 32"

definition hkdf_laws :: "('c, 'k) crypto \<Rightarrow> bool" where
  "hkdf_laws C \<longleftrightarrow> (\<forall>secret salt info. length (hkdf_sha256 C secret salt info) = 255 * 32)"

text \<open>\<open>io.ReadFull\<close> of the system's randomness, which fails only if that ends.\<close>

definition NewEntropy :: "bytes \<Rightarrow> (goerror + bytes) \<times> bytes" where
  "NewEntropy rand =
     (if rand = [] then (Inl (External ''EOF''), [])
      else if length rand < EntropyBytes then (Inl (External ''unexpected EOF''), [])
      else (Inr (take EntropyBytes rand), drop EntropyBytes rand))"

lemma NewEntropy_ok: "32 \<le> length rand \<Longrightarrow> NewEntropy rand = (Inr (take 32 rand), drop 32 rand)"
  by (auto simp: NewEntropy_def EntropyBytes_def)

lemma NewEntropy_Inr: "NewEntropy rand = (Inr x, r) \<Longrightarrow> 32 \<le> length rand \<and> x = take 32 rand \<and> r = drop 32 rand"
  by (auto simp: NewEntropy_def EntropyBytes_def split: if_splits)

definition Reader :: "('c, 'k) crypto \<Rightarrow> bytes \<Rightarrow> string \<Rightarrow> nat \<Rightarrow> bytes" where
  "Reader C secret label context =
     (let c = show_nat context; l = ''stprov:'' @ label in
      hkdf_sha256 C secret (str_bytes c) (str_bytes l))"

text \<open>\<open>io.ReadFull\<close> of a reader into an array of \<open>EntropyBytes\<close>.\<close>

definition read_entropy :: "bytes \<Rightarrow> goerror + bytes" where
  "read_entropy r = (case ReadFull EntropyBytes r of Inl e \<Rightarrow> Inl e | Inr (x, _) \<Rightarrow> Inr x)"

definition NewUniqueDeviceSecret :: "('c, 'k) crypto \<Rightarrow> bytes \<Rightarrow> bytes \<Rightarrow> (goerror + bytes) \<times> bytes" where
  "NewUniqueDeviceSecret C ext rand =
     (case NewEntropy rand of
        (Inl e, r) \<Rightarrow> (Inl e, r)
      | (Inr loc, r) \<Rightarrow> (read_entropy (Reader C (loc @ ext) ''uds'' 1), r))"

definition Identity :: "('c, 'k) crypto \<Rightarrow> bytes \<Rightarrow> goerror + bytes" where
  "Identity C uds = read_entropy (Reader C uds ''uds:identity'' 1)"

definition Authentication :: "('c, 'k) crypto \<Rightarrow> bytes \<Rightarrow> goerror + bytes" where
  "Authentication C uds = read_entropy (Reader C uds ''uds:authentication'' 1)"

definition SSH :: "('c, 'k) crypto \<Rightarrow> sshlib \<Rightarrow> bytes \<Rightarrow> goerror + HostKey" where
  "SSH C S uds = NewHostKey S (Reader C uds ''uds:ssh'' 1) ''ospkg@system-transparency''"

definition NewOneTimePassword :: "('c, 'k) crypto \<Rightarrow> string \<Rightarrow> goerror + bytes" where
  "NewOneTimePassword C secret = read_entropy (Reader C (str_bytes secret) ''otp'' 1)"

definition BasicAuthPassword :: "('c, 'k) crypto \<Rightarrow> bytes \<Rightarrow> goerror + string" where
  "BasicAuthPassword C otp =
     (case read_entropy (Reader C otp ''otp:basicAuthPassword'' 1) of
        Inl e \<Rightarrow> Inl e
      | Inr pw \<Rightarrow> Inr (hex_EncodeToString pw))"

subsection \<open>Certificates\<close>

definition DummyServerName :: string where "DummyServerName = ''stprov''"

text \<open>\<open>time.Unix\<close> normalises the nanoseconds.\<close>

definition time_Unix :: "int \<Rightarrow> int \<Rightarrow> int \<times> int" where
  "time_Unix sec nsec = (sec + nsec div 1000000000, nsec mod 1000000000)"

definition certificate_template :: template where
  "certificate_template =
     \<lparr>SerialNumber = 0, Version = 3, NotBefore = time_Unix 0 0,
      NotAfter = time_Unix 2147483647 2147483647,
      KeyUsage = [''DigitalSignature'', ''DataEncipherment''],
      ExtKeyUsage = [''ClientAuth'', ''ServerAuth''],
      DNSNames = [DummyServerName]\<rparr>"

definition keyGen :: "('c, 'k) crypto \<Rightarrow> sshlib \<Rightarrow> bytes \<Rightarrow> ip \<Rightarrow> goerror + bytes \<times> bytes" where
  "keyGen C S otp ip =
     (case ed25519_GenerateKey S (Reader C otp ''otp:keygen'' 1) of
        Inl e \<Rightarrow> Inl e
      | Inr (pub, priv, _) \<Rightarrow>
          (let tmpl = certificate_template in
           case x509_CreateCertificate C (Reader C otp ''otp:keygen'' 2) tmpl tmpl pub priv of
             Inl e \<Rightarrow> Inl e
           | Inr crtDER \<Rightarrow>
               (case x509_MarshalPKCS8PrivateKey C priv of
                  Inl e \<Rightarrow> Inl e
                | Inr privDER \<Rightarrow> Inr (privDER, crtDER))))"

definition X509Certificate :: "('c, 'k) crypto \<Rightarrow> sshlib \<Rightarrow> bytes \<Rightarrow> ip \<Rightarrow> goerror + 'c" where
  "X509Certificate C S otp ip =
     (case keyGen C S otp ip of
        Inl e \<Rightarrow> Inl e
      | Inr (_, crtDER) \<Rightarrow> x509_ParseCertificate C crtDER)"

definition TLSCertificate :: "('c, 'k) crypto \<Rightarrow> sshlib \<Rightarrow> bytes \<Rightarrow> ip \<Rightarrow> goerror + 'k" where
  "TLSCertificate C S otp ip =
     (case keyGen C S otp ip of
        Inl e \<Rightarrow> Inl (Wrapf ''generate key-pair'' e)
      | Inr (privDER, crtDER) \<Rightarrow>
          (let privPEM = pem_EncodeToMemory ''PRIVATE KEY'' privDER;
               crtPEM = pem_EncodeToMemory ''CERTIFICATE'' crtDER in
           case tls_X509KeyPair C crtPEM privPEM of
             Inl e \<Rightarrow> Inl (Wrapf ''encode key-pair'' e)
           | Inr crt \<Rightarrow> Inr crt))"

subsection \<open>What is derived\<close>

lemma read_entropy_hkdf:
  "hkdf_laws C \<Longrightarrow> read_entropy (Reader C secret label ctx) = Inr (take 32 (Reader C secret label ctx))"
  by (simp add: read_entropy_def Reader_def Let_def hkdf_laws_def EntropyBytes_def ReadFull_ok)

lemma length_Reader: "hkdf_laws C \<Longrightarrow> length (Reader C secret label ctx) = 8160"
  by (simp add: Reader_def Let_def hkdf_laws_def)

lemma NewUniqueDeviceSecret_eq:
  "hkdf_laws C \<Longrightarrow> 32 \<le> length rand \<Longrightarrow>
    NewUniqueDeviceSecret C ext rand = (Inr (take 32 (Reader C (take 32 rand @ ext) ''uds'' 1)), drop 32 rand)"
  by (simp add: NewUniqueDeviceSecret_def NewEntropy_ok read_entropy_hkdf)

lemma NewUniqueDeviceSecret_Inr:
  "hkdf_laws C \<Longrightarrow> NewUniqueDeviceSecret C ext rand = (Inr uds, r) \<longleftrightarrow>
    32 \<le> length rand \<and> uds = take 32 (Reader C (take 32 rand @ ext) ''uds'' 1) \<and> r = drop 32 rand"
  by (auto simp: NewUniqueDeviceSecret_def read_entropy_hkdf NewEntropy_ok dest: NewEntropy_Inr split: prod.splits sum.splits)

text \<open>
  C13. A unique device secret needs both sources of entropy: with 32 bytes received each, two
  servers that get a secret get the same one exactly when the 32 bytes of their own randomness
  agree and the 32 bytes received agree, provided that HKDF does not collide on the two inputs
  at hand, in the 32 bytes that are used. A secret has 32 bytes, uses up 32 bytes of
  randomness, and cannot be had exactly when there is less.
\<close>

theorem NewUniqueDeviceSecret_mixes:
  assumes "hkdf_laws C" "length ext = 32" "length ext' = 32"
    and "NewUniqueDeviceSecret C ext rand = (Inr uds, rest)" "NewUniqueDeviceSecret C ext' rand' = (Inr uds', rest')"
    and "inj_on (\<lambda>secret. take 32 (hkdf_sha256 C secret (str_bytes ''1'') (str_bytes ''stprov:uds'')))
           {take 32 rand @ ext, take 32 rand' @ ext'}"
  shows "(uds = uds' \<longleftrightarrow> take 32 rand = take 32 rand' \<and> ext = ext')
    \<and> length uds = 32 \<and> rand = take 32 rand @ rest \<and> length (take 32 rand) = 32
    \<and> ((\<exists>e r. NewUniqueDeviceSecret C ext small = (Inl e, r)) \<longleftrightarrow> length small < 32)"
proof -
  define f where "f = (\<lambda>secret. take 32 (hkdf_sha256 C secret (str_bytes ''1'') (str_bytes ''stprov:uds'')))"
  have "show_nat 1 = ''1''" by code_simp
  then have f: "take 32 (Reader C s ''uds'' 1) = f s" for s by (simp add: Reader_def Let_def f_def)
  have l: "length (f s) = 32" for s unfolding f [symmetric] by (simp add: length_Reader [OF assms(1)])
  note a = assms(4,5) [unfolded NewUniqueDeviceSecret_Inr [OF assms(1)] f]
  have i: "f x = f y \<longleftrightarrow> x = y" if "x \<in> {take 32 rand @ ext, take 32 rand' @ ext'}" "y \<in> {take 32 rand @ ext, take 32 rand' @ ext'}" for x y
    using assms(6) that unfolding f_def [symmetric] by (rule inj_on_eq_iff)
  have "uds = uds' \<longleftrightarrow> take 32 rand @ ext = take 32 rand' @ ext'" using a i by simp
  also have "\<dots> \<longleftrightarrow> take 32 rand = take 32 rand' \<and> ext = ext'" using a by simp
  finally have e: "uds = uds' \<longleftrightarrow> take 32 rand = take 32 rand' \<and> ext = ext'" .
  have "(\<exists>e r. NewUniqueDeviceSecret C ext small = (Inl e, r)) \<longleftrightarrow> \<not> (\<exists>u r. NewUniqueDeviceSecret C ext small = (Inr u, r))"
    by (cases "NewUniqueDeviceSecret C ext small"; cases "fst (NewUniqueDeviceSecret C ext small)") auto
  also have "\<dots> \<longleftrightarrow> length small < 32" by (simp add: NewUniqueDeviceSecret_Inr [OF assms(1)] not_le)
  finally show ?thesis using a l e by simp
qed

text \<open>
  The basic-auth password is 64 hexadecimal digits that spell the 32 derived bytes.
\<close>

theorem BasicAuthPassword_spells:
  assumes "hkdf_laws C"
  shows "\<exists>pw. BasicAuthPassword C otp = Inr pw \<and> length pw = 64
    \<and> hex_decode pw = take 32 (Reader C otp ''otp:basicAuthPassword'' 1)"
  using assms by (simp add: BasicAuthPassword_def read_entropy_hkdf length_Reader)

subsection \<open>Domain separation\<close>

text \<open>HKDF with its output changed for one label and context, whatever the secret.\<close>

definition at_point :: "('c, 'k) crypto \<Rightarrow> string \<Rightarrow> nat \<Rightarrow> (bytes \<Rightarrow> bytes) \<Rightarrow> ('c, 'k) crypto" where
  "at_point C label ctx f = C\<lparr>hkdf_sha256 := (\<lambda>secret salt info.
     if salt = str_bytes (show_nat ctx) \<and> info = str_bytes (''stprov:'' @ label) then f secret
     else hkdf_sha256 C secret salt info)\<rparr>"

lemma Reader_other:
  "(label, ctx) \<noteq> (l, c) \<Longrightarrow> Reader (at_point C label ctx f) secret l c = Reader C secret l c"
  by (auto simp: Reader_def at_point_def Let_def)

lemma at_point_others [simp]:
  "x509_CreateCertificate (at_point C label ctx f) = x509_CreateCertificate C"
  "x509_MarshalPKCS8PrivateKey (at_point C label ctx f) = x509_MarshalPKCS8PrivateKey C"
  by (simp_all add: at_point_def)

text \<open>
  C22. The derived secrets use pairwise different labels and contexts: changing HKDF at one
  label and context (by any function of the secret) changes no secret derived at another.
\<close>

theorem secrets_separated:
  fixes C label ctx f
  defines "C' \<equiv> at_point C label ctx f"
  shows "((label, ctx) \<noteq> (''uds'', 1) \<longrightarrow> NewUniqueDeviceSecret C' ext rand = NewUniqueDeviceSecret C ext rand)
    \<and> ((label, ctx) \<noteq> (''uds:identity'', 1) \<longrightarrow> Identity C' uds = Identity C uds)
    \<and> ((label, ctx) \<noteq> (''uds:authentication'', 1) \<longrightarrow> Authentication C' uds = Authentication C uds)
    \<and> ((label, ctx) \<noteq> (''uds:ssh'', 1) \<longrightarrow> SSH C' S uds = SSH C S uds)
    \<and> ((label, ctx) \<noteq> (''otp'', 1) \<longrightarrow> NewOneTimePassword C' secret = NewOneTimePassword C secret)
    \<and> ((label, ctx) \<noteq> (''otp:basicAuthPassword'', 1) \<longrightarrow> BasicAuthPassword C' otp = BasicAuthPassword C otp)
    \<and> ((label, ctx) \<noteq> (''otp:keygen'', 1) \<and> (label, ctx) \<noteq> (''otp:keygen'', 2) \<longrightarrow> keyGen C' S otp ip = keyGen C S otp ip)"
  unfolding C'_def
  by (intro conjI impI; (elim conjE)?; simp only: NewUniqueDeviceSecret_def Identity_def Authentication_def
      SSH_def NewOneTimePassword_def BasicAuthPassword_def keyGen_def Reader_other at_point_others not_False_eq_True)

text \<open>
  What is relied on of TLS. A server presents a key pair made from a self-signed certificate,
  the DER text that \<open>CreateCertificate\<close> gave for a template with the use \<open>ServerAuth\<close> and with
  the expected name among its names. A client that has this very certificate as a root accepts
  it. A client whose only root is another certificate, read from other DER bytes, refuses it with
  \<open>x509.UnknownAuthorityError\<close>: the template is not one of an authority, so that no
  certificate made with it vouches for another. The clock is taken to be within the
  validity of the template, 1970 to 2038.
\<close>

definition tls_laws :: "('c, 'k) crypto \<Rightarrow> bool" where
  "tls_laws C \<longleftrightarrow>
     (\<forall>rnd tmpl pub priv der key pair name der' crt.
        x509_CreateCertificate C rnd tmpl tmpl pub priv = Inr der
        \<and> tls_X509KeyPair C (pem_EncodeToMemory ''CERTIFICATE'' der) key = Inr pair
        \<and> name \<in> set (DNSNames tmpl) \<and> ''ServerAuth'' \<in> set (ExtKeyUsage tmpl)
        \<and> x509_ParseCertificate C der' = Inr crt \<longrightarrow>
          (der' = der \<longrightarrow> tls_Verify C [crt] name [pair] = None)
          \<and> (der' \<noteq> der \<longrightarrow> (\<exists>m. tls_Verify C [crt] name [pair] = Some (UnknownAuthority m))))"

text \<open>
  A client and a server with the certificates of their one-time passwords: the client
  accepts the server exactly when both have the same DER bytes, and otherwise sees an unknown
  authority.
\<close>

lemma derived_certificates:
  assumes "tls_laws C" "X509Certificate C S otp ip = Inr crt" "TLSCertificate C S otp' ip' = Inr pair"
    and "keyGen C S otp ip = Inr (key, der)" "keyGen C S otp' ip' = Inr (key', der')"
  shows "(der = der' \<longrightarrow> tls_Verify C [crt] DummyServerName [pair] = None)
    \<and> (der \<noteq> der' \<longrightarrow> (\<exists>m. tls_Verify C [crt] DummyServerName [pair] = Some (UnknownAuthority m)))"
proof -
  have "x509_ParseCertificate C der = Inr crt" using assms(2,4) by (simp add: X509Certificate_def)
  moreover obtain k where "tls_X509KeyPair C (pem_EncodeToMemory ''CERTIFICATE'' der') k = Inr pair"
    using assms(3,5) by (auto simp: TLSCertificate_def Let_def split: sum.splits)
  moreover obtain rnd pub priv where "x509_CreateCertificate C rnd certificate_template certificate_template pub priv = Inr der'"
    using assms(5) by (auto simp: keyGen_def Let_def split: sum.splits prod.splits)
  moreover have "DummyServerName \<in> set (DNSNames certificate_template)" "''ServerAuth'' \<in> set (ExtKeyUsage certificate_template)"
    by (simp_all add: certificate_template_def)
  ultimately show ?thesis using assms(1) unfolding tls_laws_def by blast
qed

text \<open>
  The certificate that a client derives from the one-time password is the one in the
  server's TLS key pair: both come from the same DER bytes, whatever addresses the two
  sides use.
\<close>

theorem certificates_agree:
  assumes "X509Certificate C S otp ip = Inr crt" "TLSCertificate C S otp ip' = Inr pair"
  shows "\<exists>privDER crtDER. x509_ParseCertificate C crtDER = Inr crt
    \<and> tls_X509KeyPair C (pem_EncodeToMemory ''CERTIFICATE'' crtDER) (pem_EncodeToMemory ''PRIVATE KEY'' privDER) = Inr pair"
proof -
  have "keyGen C S otp ip' = keyGen C S otp ip" by (simp add: keyGen_def)
  with assms show ?thesis
    by (auto simp: X509Certificate_def TLSCertificate_def Let_def split: sum.splits prod.splits)
qed

subsection \<open>Concrete functions that satisfy the laws\<close>

definition demo_crypto :: "(bytes, bytes option \<times> bytes option) crypto" where
  "demo_crypto =
     \<lparr>hkdf_sha256 = (\<lambda>secret salt info. take 8160 (info @ salt @ secret @ replicate 8160 0)),
      x509_CreateCertificate = (\<lambda>r t p pub priv. Inr (take 64 r @ pub @ concat (map str_bytes (DNSNames t)))),
      x509_MarshalPKCS8PrivateKey = Inr,
      x509_ParseCertificate = Inr,
      tls_X509KeyPair = (\<lambda>crt key. Inr (crt, key)),
      tls_Verify = (\<lambda>roots name keys.
        if list_ex (\<lambda>root. list_ex (\<lambda>key. fst key = pem_EncodeToMemory ''CERTIFICATE'' root) keys
             \<and> sublist (str_bytes name) root) roots
        then None else Some (UnknownAuthority ''x509: certificate signed by unknown authority''))\<rparr>"

lemma demo_crypto_laws: "hkdf_laws demo_crypto"
  by (auto simp: hkdf_laws_def demo_crypto_def min_def)

lemma sublist_concat: "x \<in> set xs \<Longrightarrow> sublist x (concat xs)"
  by (auto simp: in_set_conv_decomp intro: sublist_appendI)

lemma demo_tls_laws: "tls_laws demo_crypto"
proof -
  have "sublist (str_bytes name) (take 64 rnd @ pub @ concat (map str_bytes names))" if "name \<in> set names" for name rnd pub names
  proof -
    have "str_bytes name \<in> set (map str_bytes names)" unfolding set_map using that by (rule imageI)
    from sublist_concat [OF this] obtain ps ss where "concat (map str_bytes names) = ps @ str_bytes name @ ss"
      by (auto simp: sublist_def simp del: map_map)
    then show ?thesis unfolding sublist_def by (intro exI [of _ "take 64 rnd @ pub @ ps"] exI [of _ ss]) simp
  qed
  then show ?thesis unfolding tls_laws_def by (auto simp: demo_crypto_def pem_inject simp del: map_map)
qed

theorem NewUniqueDeviceSecret_mixes_witness:
  "\<exists>uds uds'. NewUniqueDeviceSecret demo_crypto (replicate 32 1) (replicate 40 2) = (Inr uds, replicate 8 2)
     \<and> NewUniqueDeviceSecret demo_crypto (replicate 32 1) (replicate 40 3) = (Inr uds', replicate 8 3)
     \<and> uds \<noteq> uds' \<and> length uds = 32"
proof -
  let ?uds = "\<lambda>b. take 32 (Reader demo_crypto (take 32 (replicate 40 b) @ replicate 32 1) ''uds'' 1)"
  have u: "NewUniqueDeviceSecret demo_crypto (replicate 32 1) (replicate 40 b) = (Inr (?uds b), replicate 8 b)" for b
    by (simp add: NewUniqueDeviceSecret_eq [OF demo_crypto_laws])
  let ?f = "\<lambda>secret. take 32 (hkdf_sha256 demo_crypto secret (str_bytes ''1'') (str_bytes ''stprov:uds''))"
  have "?f (take 32 (replicate 40 2) @ replicate 32 1) ! 11 \<noteq> ?f (take 32 (replicate 40 3) @ replicate 32 1) ! 11"
    by (simp add: demo_crypto_def nth_append)
  then have ne: "?f (take 32 (replicate 40 2) @ replicate 32 1) \<noteq> ?f (take 32 (replicate 40 3) @ replicate 32 1)"
    by (rule contrapos_nn) (rule arg_cong)
  then have "inj_on ?f {take 32 (replicate 40 2) @ replicate 32 1, take 32 (replicate 40 3) @ replicate 32 1}"
    unfolding inj_on_def by (metis insert_iff empty_iff)
  from NewUniqueDeviceSecret_mixes [OF demo_crypto_laws _ _ u [of 2] u [of 3] this] u [of 2] u [of 3] show ?thesis by simp
qed

theorem BasicAuthPassword_spells_witness:
  "\<exists>pw. BasicAuthPassword demo_crypto (replicate 32 9) = Inr pw \<and> length pw = 64"
  using BasicAuthPassword_spells [OF demo_crypto_laws, of "replicate 32 9"] by blast

theorem secrets_separated_witness:
  "Authentication (at_point demo_crypto ''uds:identity'' 1 rev) (replicate 32 3) = Authentication demo_crypto (replicate 32 3)"
  using secrets_separated [of "''uds:identity''" 1 demo_crypto rev] by simp

theorem certificates_agree_witness:
  "\<exists>crt pair privDER crtDER. X509Certificate demo_crypto rfc_ssh (replicate 32 3) [10, 0, 0, 1] = Inr crt
    \<and> TLSCertificate demo_crypto rfc_ssh (replicate 32 3) [10, 0, 0, 2] = Inr pair
    \<and> x509_ParseCertificate demo_crypto crtDER = Inr crt
    \<and> tls_X509KeyPair demo_crypto (pem_EncodeToMemory ''CERTIFICATE'' crtDER) (pem_EncodeToMemory ''PRIVATE KEY'' privDER) = Inr pair"
proof -
  obtain pub priv r where g: "ed25519_GenerateKey rfc_ssh (Reader demo_crypto (replicate 32 3) ''otp:keygen'' 1) = Inr (pub, priv, r)"
    by (simp add: ed25519_GenerateKey_def ReadFull_def length_Reader [OF demo_crypto_laws])
  have c: "x509_CreateCertificate demo_crypto rd t p pub priv = Inr (take 64 rd @ pub @ concat (map str_bytes (DNSNames t)))" "x509_MarshalPKCS8PrivateKey demo_crypto k = Inr k"
    "x509_ParseCertificate demo_crypto d = Inr d" "tls_X509KeyPair demo_crypto a b = Inr (a, b)" for rd t p k d a b
    by (simp_all add: demo_crypto_def)
  have k: "\<exists>a b. keyGen demo_crypto rfc_ssh (replicate 32 3) ip = Inr (a, b)" for ip
    unfolding keyGen_def g by (simp add: c Let_def)
  have crt: "\<exists>crt. X509Certificate demo_crypto rfc_ssh (replicate 32 3) [10, 0, 0, 1] = Inr crt"
    using k [of "[10, 0, 0, 1]"] by (auto simp: X509Certificate_def c)
  have pair: "\<exists>pair. TLSCertificate demo_crypto rfc_ssh (replicate 32 3) [10, 0, 0, 2] = Inr pair"
    using k [of "[10, 0, 0, 2]"] by (auto simp: TLSCertificate_def c Let_def)
  from crt pair certificates_agree show ?thesis by meson
qed

end
