(* ===== verification/ServeHttp.thy ===== *)
theory ServeHttp
  imports GoStrings
begin

section \<open>The file server of the integration tests (src/integration/serve-http)\<close>

text \<open>
  One request is read from standard input and answered with a file below the directory of
  option \<open>-d\<close>. Which file that is, is decided by \<open>path.Clean\<close> and \<open>path.Join\<close> of the Go
  standard library, which are modelled here; \<open>http.ServeFile\<close> is the parameter \<open>serveFile\<close>, and
  reading the request and writing the response are results. The theorem: for the paths a
  parsed request has, the file is the cleaned directory followed by the components of the
  path, none of which is ``..''.
\<close>

text \<open>\<open>path.Clean\<close> goes through the components and keeps the output as a list of them.\<close>

definition rooted :: "string \<Rightarrow> bool" where
  "rooted p = (p \<noteq> [] \<and> hd p = CHR ''/'')"

definition clean_step :: "bool \<Rightarrow> string list \<Rightarrow> string \<Rightarrow> string list" where
  "clean_step root out e =
     (if e = [] \<or> e = ''.'' then out
      else if e = ''..'' then
        (if out \<noteq> [] \<and> last out \<noteq> ''..'' then butlast out
         else if root then out
         else out @ [''..''])
      else out @ [e])"

definition clean_parts :: "string \<Rightarrow> string list" where
  "clean_parts p = foldl (clean_step (rooted p)) [] (strings_Split p (CHR ''/''))"

definition render_path :: "bool \<Rightarrow> string list \<Rightarrow> string" where
  "render_path root out =
     (let s = (if root then ''/'' else []) @ strings_Join out ''/'' in if s = [] then ''.'' else s)"

definition path_Clean :: "string \<Rightarrow> string" where
  "path_Clean p = render_path (rooted p) (clean_parts p)"

definition path_Join2 :: "string \<Rightarrow> string \<Rightarrow> string" where
  "path_Join2 a b =
     (if a = [] \<and> b = [] then [] else path_Clean (if a = [] then b else a @ ''/'' @ b))"

text \<open>The requests and responses as far as the program looks at them.\<close>

record serve_request =
  serve_method :: string
  serve_path :: string

record serve_result =
  serve_status :: nat
  serve_body :: string
  serve_for :: "serve_request option"

definition serve_response ::
    "(serve_request \<Rightarrow> string \<Rightarrow> serve_result) \<Rightarrow> serve_request \<Rightarrow> string \<Rightarrow> serve_result" where
  "serve_response serveFile req dir =
     (let file = path_Join2 dir (path_Clean (serve_path req))
      in (serveFile req file)\<lparr>serve_for := Some req\<rparr>)"

text \<open>
  \<open>main\<close> behind the parsing of \<open>-d\<close>: \<open>Inl\<close> is the line with which the program ends with
  status 1, \<open>Inr\<close> the response that was written.
\<close>

definition serve_main ::
    "(serve_request \<Rightarrow> string \<Rightarrow> serve_result) \<Rightarrow> (serve_result \<Rightarrow> string + unit) \<Rightarrow>
     string + serve_request \<Rightarrow> string \<Rightarrow> string + serve_result" where
  "serve_main serveFile rspWrite readRequest dir =
     (case readRequest of
        Inl err \<Rightarrow> Inl (''Failed reading request: '' @ err)
      | Inr req \<Rightarrow>
          (let rsp = serve_response serveFile req dir
           in (case rspWrite rsp of
                 Inl err \<Rightarrow> Inl (''Failed writing response: '' @ err)
               | Inr _ \<Rightarrow> Inr rsp)))"

subsection \<open>Cleaned paths\<close>

text \<open>A component that \<open>path.Clean\<close> appends to its output and that climbs nowhere.\<close>

definition plain :: "string \<Rightarrow> bool" where
  "plain e \<longleftrightarrow> e \<noteq> [] \<and> e \<noteq> ''.'' \<and> e \<noteq> ''..'' \<and> CHR ''/'' \<notin> set e"

lemma Split_append: "strings_Split (a @ sep # b) sep = strings_Split a sep @ strings_Split b sep"
  by (induction a) (auto split: list.splits)

lemma clean_step_plain: "plain e \<Longrightarrow> clean_step r out e = out @ [e]"
  by (simp add: clean_step_def plain_def)

lemma clean_steps_plain:
  "\<forall>e\<in>set es. plain e \<Longrightarrow> foldl (clean_step r) out es = out @ es"
  by (induction es arbitrary: out) (auto simp: clean_step_plain)

lemma clean_steps_empty [simp]: "clean_step r out [] = out" "clean_step r out ''.'' = out"
  by (simp_all add: clean_step_def)

lemma clean_step_keeps_plain:
  assumes "\<forall>x\<in>set out. plain x" "r \<or> e \<noteq> ''..''" "CHR ''/'' \<notin> set e"
  shows "\<forall>x\<in>set (clean_step r out e). plain x"
  using assms by (auto simp: clean_step_def plain_def dest!: in_set_butlastD)

lemma clean_steps_keep_plain:
  assumes "\<forall>x\<in>set out. plain x" "r \<or> ''..'' \<notin> set es" "\<forall>e\<in>set es. CHR ''/'' \<notin> set e"
  shows "\<forall>x\<in>set (foldl (clean_step r) out es). plain x"
  using assms
proof (induction es arbitrary: out)
  case (Cons e es)
  have "\<forall>x\<in>set (clean_step r out e). plain x"
    using Cons.prems by (intro clean_step_keeps_plain) auto
  then show ?case using Cons.IH [of "clean_step r out e"] Cons.prems by auto
qed simp

lemma clean_parts_plain:
  assumes "rooted p \<or> ''..'' \<notin> set (strings_Split p (CHR ''/''))"
  shows "\<forall>x\<in>set (clean_parts p). plain x"
  unfolding clean_parts_def using assms Split_parts_no_sep by (intro clean_steps_keep_plain) auto

lemma Split_plain_Join:
  assumes "es \<noteq> []" "\<forall>e\<in>set es. plain e"
  shows "strings_Split (strings_Join es ''/'') (CHR ''/'') = es"
  using assms by (intro Split_Join) (auto simp: plain_def)

text \<open>Reading a cleaned path again appends exactly its components.\<close>

lemma clean_steps_render:
  assumes "\<forall>e\<in>set es. plain e"
  shows "foldl (clean_step r) out (strings_Split (render_path root es) (CHR ''/'')) = out @ es"
proof (cases "es = []")
  case True
  then show ?thesis by (simp add: render_path_def)
next
  case False
  have "strings_Join es ''/'' \<noteq> []" 
    using False assms by (cases es rule: remdups_adj.cases) (auto simp: plain_def)
  then show ?thesis
    using Split_plain_Join [OF False assms] clean_steps_plain [OF assms]
    by (simp add: render_path_def Let_def)
qed

lemma rooted_append [simp]: "a \<noteq> [] \<Longrightarrow> rooted (a @ b) = rooted a"
  by (simp add: rooted_def)

text \<open>What \<open>path.Join\<close> makes of a directory and a cleaned path.\<close>

lemma path_Join2_Clean:
  assumes "dir \<noteq> []" "rooted p \<or> ''..'' \<notin> set (strings_Split p (CHR ''/''))"
  shows "path_Join2 dir (path_Clean p) = render_path (rooted dir) (clean_parts dir @ clean_parts p)"
  using assms(1) clean_steps_render [OF clean_parts_plain [OF assms(2)]]
  by (simp add: path_Join2_def path_Clean_def clean_parts_def [of "dir @ CHR ''/'' # x" for x]
      Split_append clean_parts_def [of dir, symmetric])

text \<open>Cleaning is idempotent on the paths of requests.\<close>

lemma path_Clean_idem:
  assumes "rooted p"
  shows "path_Clean (path_Clean p) = path_Clean p"
  using clean_steps_render [OF clean_parts_plain, of p] assms
  by (auto simp: path_Clean_def clean_parts_def [of "render_path a b" for a b])
    (auto simp: render_path_def rooted_def Let_def)

subsection \<open>The served file\<close>

lemma served_file_below_directory:
  assumes "dir \<noteq> []"
    and "rooted (serve_path req) \<or> ''..'' \<notin> set (strings_Split (serve_path req) (CHR ''/''))"
  shows "\<exists>below. (\<forall>e\<in>set below. plain e) \<and>
      serve_response serveFile req dir =
        (serveFile req (render_path (rooted dir) (clean_parts dir @ below)))\<lparr>serve_for := Some req\<rparr>"
  using path_Join2_Clean [OF assms] clean_parts_plain [OF assms(2)]
  by (auto simp: serve_response_def Let_def)

lemma served_file_below_directory_witness:
  "\<exists>below. (\<forall>e\<in>set below. plain e) \<and>
     serve_response (\<lambda>req file. \<lparr>serve_status = 200, serve_body = file, serve_for = None\<rparr>)
       \<lparr>serve_method = ''GET'', serve_path = ''/../../etc/./passwd''\<rparr> ''saved'' =
     \<lparr>serve_status = 200, serve_body = render_path False (''saved'' # below),
      serve_for = Some \<lparr>serve_method = ''GET'', serve_path = ''/../../etc/./passwd''\<rparr>\<rparr>"
  using served_file_below_directory [of "''saved''"
      "\<lparr>serve_method = ''GET'', serve_path = ''/../../etc/./passwd''\<rparr>"
      "\<lambda>req file. \<lparr>serve_status = 200, serve_body = file, serve_for = None\<rparr>"]
  by (auto simp: rooted_def clean_parts_def clean_step_def)

text \<open>
  The condition on the path is needed: cleaning a path that is neither rooted nor free of
  ``..'' keeps the leading ``..'', which leaves the directory. The parser of
  requests of \<open>net/http\<close> gives no such path.
\<close>

lemma relative_path_climbs: "path_Join2 ''saved'' (path_Clean ''../../passwd'') = ''../passwd''"
  by (simp add: path_Join2_def path_Clean_def clean_parts_def clean_step_def render_path_def
      rooted_def)

lemma dotdot_request_is_contained:
  "path_Join2 ''saved'' (path_Clean ''/../../etc/./passwd'') = ''saved/etc/passwd''"
  by (simp add: path_Join2_def path_Clean_def clean_parts_def clean_step_def render_path_def
      rooted_def)

end
