(* ===== verification/GoHttp.thy ===== *)
theory GoHttp
  imports GoNet
begin

section \<open>net/http and host:port texts\<close>

text \<open>
  What the server and the client use of \<open>net/http\<close>: requests as the handler sees them, a
  response that is being written, status texts, and \<open>net.SplitHostPort\<close>. A request knows
  the result of reading its body, and whether writing its response fails. A response is
  aborted when its handler panics or never returns: \<open>net/http\<close> recovers, closes the connection
  and what was written does not reach the client.
\<close>

record request =
  Method :: string
  RemoteAddr :: string
  BasicAuth :: "(string \<times> string) option"
  Body :: "goerror + bytes"
  write_error :: "goerror option"

record response =
  status :: "nat option"
  Allow :: "string option"
  written :: bytes
  aborted :: bool

definition MethodGet :: string where "MethodGet = ''GET''"
definition MethodPost :: string where "MethodPost = ''POST''"
definition MethodHead :: string where "MethodHead = ''HEAD''"

definition StatusOK :: nat where "StatusOK = 200"
definition StatusBadRequest :: nat where "StatusBadRequest = 400"
definition StatusForbidden :: nat where "StatusForbidden = 403"
definition StatusMethodNotAllowed :: nat where "StatusMethodNotAllowed = 405"
definition StatusInternalServerError :: nat where "StatusInternalServerError = 500"

lemmas status_defs = StatusOK_def StatusBadRequest_def StatusForbidden_def StatusMethodNotAllowed_def
  StatusInternalServerError_def

text \<open>\<open>http.StatusText\<close>; unknown codes have none.\<close>

definition status_texts :: "(nat \<times> string) list" where
  "status_texts =
     [(100, ''Continue''), (101, ''Switching Protocols''), (102, ''Processing''), (103, ''Early Hints''),
      (200, ''OK''), (201, ''Created''), (202, ''Accepted''), (203, ''Non-Authoritative Information''),
      (204, ''No Content''), (205, ''Reset Content''), (206, ''Partial Content''),
      (207, ''Multi-Status''), (208, ''Already Reported''), (226, ''IM Used''),
      (300, ''Multiple Choices''), (301, ''Moved Permanently''), (302, ''Found''), (303, ''See Other''),
      (304, ''Not Modified''), (305, ''Use Proxy''), (307, ''Temporary Redirect''),
      (308, ''Permanent Redirect''), (400, ''Bad Request''), (401, ''Unauthorized''),
      (402, ''Payment Required''), (403, ''Forbidden''), (404, ''Not Found''),
      (405, ''Method Not Allowed''), (406, ''Not Acceptable''), (407, ''Proxy Authentication Required''),
      (408, ''Request Timeout''), (409, ''Conflict''), (410, ''Gone''), (411, ''Length Required''),
      (412, ''Precondition Failed''), (413, ''Request Entity Too Large''),
      (414, ''Request URI Too Long''), (415, ''Unsupported Media Type''),
      (416, ''Requested Range Not Satisfiable''), (417, ''Expectation Failed''),
      (418, ''I'' @ [char_of (39 :: nat)] @ ''m a teapot''), (421, ''Misdirected Request''),
      (422, ''Unprocessable Entity''), (423, ''Locked''), (424, ''Failed Dependency''),
      (425, ''Too Early''), (426, ''Upgrade Required''), (428, ''Precondition Required''),
      (429, ''Too Many Requests''), (431, ''Request Header Fields Too Large''),
      (451, ''Unavailable For Legal Reasons''), (500, ''Internal Server Error''),
      (501, ''Not Implemented''), (502, ''Bad Gateway''), (503, ''Service Unavailable''),
      (504, ''Gateway Timeout''), (505, ''HTTP Version Not Supported''),
      (506, ''Variant Also Negotiates''), (507, ''Insufficient Storage''), (508, ''Loop Detected''),
      (510, ''Not Extended''), (511, ''Network Authentication Required'')]"

definition StatusText :: "nat \<Rightarrow> string" where
  "StatusText code = (case map_of status_texts code of None \<Rightarrow> [] | Some t \<Rightarrow> t)"

text \<open>The first status wins; writing a body without one means 200.\<close>

definition http_Error :: "string \<Rightarrow> nat \<Rightarrow> response \<Rightarrow> response" where
  "http_Error m code w =
     w\<lparr>status := (case status w of None \<Rightarrow> Some code | Some c \<Rightarrow> Some c),
       written := written w @ str_bytes m @ [10]\<rparr>"

definition w_Write :: "bytes \<Rightarrow> response \<Rightarrow> response" where
  "w_Write b w = w\<lparr>status := (case status w of None \<Rightarrow> Some StatusOK | Some c \<Rightarrow> Some c), written := written w @ b\<rparr>"

definition new_response :: response where
  "new_response = \<lparr>status = None, Allow = None, written = [], aborted = False\<rparr>"

text \<open>The status the client sees: a handler that writes nothing answers 200.\<close>

definition status_code :: "response \<Rightarrow> nat" where
  "status_code w = (case status w of None \<Rightarrow> StatusOK | Some c \<Rightarrow> c)"

subsection \<open>net.SplitHostPort\<close>

definition last_colon :: "string \<Rightarrow> (string \<times> string) option" where
  "last_colon s = (if CHR '':'' \<in> set s
     then Some (rev (tl (dropWhile (\<lambda>c. c \<noteq> CHR '':'') (rev s))), rev (takeWhile (\<lambda>c. c \<noteq> CHR '':'') (rev s)))
     else None)"

definition addr_error :: "string \<Rightarrow> string \<Rightarrow> goerror + string \<times> string" where
  "addr_error hostport why = Inl (External (''address '' @ hostport @ '': '' @ why))"

definition SplitHostPort :: "string \<Rightarrow> goerror + string \<times> string" where
  "SplitHostPort hostport =
     (case last_colon hostport of
        None \<Rightarrow> addr_error hostport ''missing port in address''
      | Some (front, port) \<Rightarrow>
          if hostport ! 0 = CHR ''['' then
            (let host = takeWhile (\<lambda>c. c \<noteq> CHR '']'') (tl hostport);
                 after = dropWhile (\<lambda>c. c \<noteq> CHR '']'') (tl hostport) in
             if after = [] then addr_error hostport ''missing ']' in address''
             else if tl after = [] then addr_error hostport ''missing port in address''
             else if tl after = CHR '':'' # port then
               (if CHR ''['' \<in> set (tl hostport) then addr_error hostport ''unexpected '[' in address''
                else if CHR '']'' \<in> set (tl after) then addr_error hostport ''unexpected ']' in address''
                else Inr (host, port))
             else if tl after ! 0 = CHR '':'' then addr_error hostport ''too many colons in address''
             else addr_error hostport ''missing port in address'')
          else if CHR '':'' \<in> set front then addr_error hostport ''too many colons in address''
          else if CHR ''['' \<in> set hostport then addr_error hostport ''unexpected '[' in address''
          else if CHR '']'' \<in> set hostport then addr_error hostport ''unexpected ']' in address''
          else Inr (front, port))"

text \<open>\<open>net.JoinHostPort\<close>: how the server writes the address of a client.\<close>

definition JoinHostPort :: "string \<Rightarrow> string \<Rightarrow> string" where
  "JoinHostPort host port =
     (if CHR '':'' \<in> set host then ''['' @ host @ '']:'' @ port else host @ '':'' @ port)"

lemma until_char [go_std]:
  "c \<notin> set xs \<Longrightarrow> takeWhile (\<lambda>x. x \<noteq> c) (xs @ c # ys) = xs"
  "c \<notin> set xs \<Longrightarrow> dropWhile (\<lambda>x. x \<noteq> c) (xs @ c # ys) = c # ys"
  by (induction xs) auto

lemma last_colon_append:
  assumes "CHR '':'' \<notin> set port"
  shows "last_colon (front @ CHR '':'' # port) = Some (front, port)"
proof -
  have "CHR '':'' \<notin> set (rev port)" using assms by simp
  then show ?thesis by (simp add: last_colon_def until_char)
qed

definition plain_host :: "string \<Rightarrow> bool" where
  "plain_host s \<longleftrightarrow> CHR ''['' \<notin> set s \<and> CHR '']'' \<notin> set s"

lemma Split_Join_HostPort:
  assumes "plain_host host" "plain_host port" "CHR '':'' \<notin> set port"
  shows "SplitHostPort (JoinHostPort host port) = Inr (host, port)"
proof (cases "CHR '':'' \<in> set host")
  case True
  have l: "last_colon (''['' @ host @ '']:'' @ port) = Some (''['' @ host @ '']'', port)"
    using last_colon_append [OF assms(3), of "''['' @ host @ '']''"] by simp
  have "takeWhile (\<lambda>c. c \<noteq> CHR '']'') (host @ '']:'' @ port) = host"
    "dropWhile (\<lambda>c. c \<noteq> CHR '']'') (host @ '']:'' @ port) = '']:'' @ port"
    using assms(1) by (simp_all add: plain_host_def until_char)
  with True l assms show ?thesis
    by (simp add: JoinHostPort_def SplitHostPort_def plain_host_def Let_def)
next
  case False
  have l: "last_colon (host @ '':'' @ port) = Some (host, port)"
    using last_colon_append [OF assms(3), of host] by simp
  have "(host @ '':'' @ port) ! 0 \<noteq> CHR ''[''"
    using assms(1) by (cases host) (auto simp: plain_host_def)
  with False l assms show ?thesis
    by (simp add: JoinHostPort_def SplitHostPort_def plain_host_def)
qed

lemma Split_too_many_colons:
  assumes "CHR '':'' \<in> set host" "plain_host host" "CHR '':'' \<notin> set port"
  shows "SplitHostPort (host @ '':'' @ port) = addr_error (host @ '':'' @ port) ''too many colons in address''"
proof -
  have l: "last_colon (host @ '':'' @ port) = Some (host, port)"
    using last_colon_append [OF assms(3), of host] by simp
  have "(host @ '':'' @ port) ! 0 \<noteq> CHR ''[''" using assms(1,2) by (cases host) (auto simp: plain_host_def)
  with l assms(1) show ?thesis by (simp add: SplitHostPort_def)
qed

end
