(* ===== verification/ApiData.thy ===== *)
theory ApiData
  imports Secrets GoHttp SecureBoot
begin

section \<open>The messages of the API: internal/api/api.go\<close>

text \<open>
  The three requests that stprov local sends to stprov remote, and the response to a commit.
  The JSON encoding of a message is a parameter (\<open>jsonlib\<close>); what is relied on is that
  decoding inverts encoding (\<open>message_laws\<close>).
\<close>

definition Protocol :: string where "Protocol = ''stprov/v0.0.1''"
definition EndpointAddData :: string where "EndpointAddData = ''add-data''"
definition EndpointAddSecureBoot :: string where "EndpointAddSecureBoot = ''add-secure-boot''"
definition EndpointCommit :: string where "EndpointCommit = ''commit''"
definition BasicAuthUser :: string where "BasicAuthUser = ''example-user''"

record AddDataRequest =
  Entropy :: bytes
  Timestamp :: int

record AddSecureBootRequest =
  PK :: bytes
  KEK :: bytes
  Db :: bytes
  Dbx :: bytes
  RebootIntoUEFIMenu :: bool

record CommitResponse =
  cr_PublicKey :: string
  cr_Fingerprint :: string
  cr_HostName :: string
  cr_Authentication :: string
  cr_Identity :: string

record jsonlib =
  Marshal_AddData :: "AddDataRequest \<Rightarrow> goerror + bytes"
  Marshal_SecureBoot :: "AddSecureBootRequest \<Rightarrow> goerror + bytes"
  Marshal_Commit :: "CommitResponse \<Rightarrow> goerror + bytes"
  Unmarshal_AddData :: "bytes \<Rightarrow> goerror + AddDataRequest"
  Unmarshal_SecureBoot :: "bytes \<Rightarrow> goerror + AddSecureBootRequest"
  Unmarshal_Commit :: "bytes \<Rightarrow> goerror + CommitResponse"

definition message_laws :: "jsonlib \<Rightarrow> bool" where
  "message_laws J \<longleftrightarrow>
     (\<forall>m b. Marshal_AddData J m = Inr b \<longrightarrow> Unmarshal_AddData J b = Inr m)
     \<and> (\<forall>m b. Marshal_SecureBoot J m = Inr b \<longrightarrow> Unmarshal_SecureBoot J b = Inr m)
     \<and> (\<forall>m b. Marshal_Commit J m = Inr b \<longrightarrow> Unmarshal_Commit J b = Inr m)"

text \<open>Everything the two sides take from other packages.\<close>

record ('s, 'c, 'k) lib =
  lib_efi :: "'s efi"
  lib_crypto :: "('c, 'k) crypto"
  lib_ssh :: sshlib
  lib_json :: jsonlib

definition NewAddDataRequest :: "int \<Rightarrow> bytes \<Rightarrow> (goerror + AddDataRequest) \<times> bytes" where
  "NewAddDataRequest now rand =
     (case NewEntropy rand of
        (Inl e, r) \<Rightarrow> (Inl (Wrapf ''api'' e), r)
      | (Inr entropy, r) \<Rightarrow> (Inr \<lparr>Entropy = entropy, Timestamp = now\<rparr>, r))"

definition SecureBoot_Check :: "AddSecureBootRequest \<Rightarrow> goerror option" where
  "SecureBoot_Check r =
     (if PK r = [] then Some (Errorf ''invalid request: PK is required'')
      else if KEK r = [] then Some (Errorf ''invalid request: KEK is required'')
      else if Db r = [] then Some (Errorf ''invalid request: db is required'')
      else None)"

definition NewAddSecureBootRequest :: "bytes \<Rightarrow> bytes \<Rightarrow> bytes \<Rightarrow> bytes \<Rightarrow> bool \<Rightarrow> AddSecureBootRequest \<times> goerror option" where
  "NewAddSecureBootRequest pk kek db dbx rebootIntoUEFIMenu =
     (let req = \<lparr>PK = pk, KEK = kek, Db = db, Dbx = dbx, RebootIntoUEFIMenu = rebootIntoUEFIMenu\<rparr> in
      (req, SecureBoot_Check req))"

definition NewCommitResponse :: "('s, 'c, 'k) lib \<Rightarrow> bytes \<Rightarrow> string \<Rightarrow> goerror + CommitResponse" where
  "NewCommitResponse L uds hostname =
     (case SSH (lib_crypto L) (lib_ssh L) uds of
        Inl e \<Rightarrow> Inl (Wrapf ''ssh'' e)
      | Inr hk \<Rightarrow>
     (case Fingerprint (lib_ssh L) hk of
        Inl e \<Rightarrow> Inl (Wrapf ''ssh'' e)
      | Inr fpr \<Rightarrow>
     (case PublicKey (lib_ssh L) hk of
        Inl e \<Rightarrow> Inl (Wrapf ''ssh'' e)
      | Inr pk \<Rightarrow>
     (case Identity (lib_crypto L) uds of
        Inl e \<Rightarrow> Inl (Wrapf ''identity'' e)
      | Inr idn \<Rightarrow>
     (case Authentication (lib_crypto L) uds of
        Inl e \<Rightarrow> Inl (Wrapf ''authentication'' e)
      | Inr auth \<Rightarrow>
          Inr \<lparr>cr_PublicKey = pk, cr_Fingerprint = fpr, cr_HostName = hostname,
               cr_Authentication = hex_EncodeToString auth, cr_Identity = hex_EncodeToString idn\<rparr>)))))"

lemma SecureBoot_Check_None [simp]:
  "SecureBoot_Check r = None \<longleftrightarrow> PK r \<noteq> [] \<and> KEK r \<noteq> [] \<and> Db r \<noteq> []"
  by (simp add: SecureBoot_Check_def)

text \<open>
  A commit response describes the host key of its unique device secret: the public key
  and the fingerprint are those of the key that \<open>SSH\<close> derives, the other two values are the
  hexadecimal identity and authentication secrets, and the host name is the one given.
\<close>

theorem NewCommitResponse_describes:
  "NewCommitResponse L uds hostname = Inr cr \<longleftrightarrow>
     (\<exists>hk idn auth. SSH (lib_crypto L) (lib_ssh L) uds = Inr hk
        \<and> PublicKey (lib_ssh L) hk = Inr (cr_PublicKey cr) \<and> Fingerprint (lib_ssh L) hk = Inr (cr_Fingerprint cr)
        \<and> Identity (lib_crypto L) uds = Inr idn \<and> cr_Identity cr = hex_EncodeToString idn
        \<and> Authentication (lib_crypto L) uds = Inr auth \<and> cr_Authentication cr = hex_EncodeToString auth
        \<and> cr_HostName cr = hostname)"
  by (cases cr) (auto simp: NewCommitResponse_def split: sum.splits)

end
