(* ===== verification/ApiServer.thy ===== *)
theory ApiServer
  imports ApiData
begin

section \<open>stprov remote's server: internal/api/server.go and handler.go\<close>

text \<open>
  The server's fields are a record that extends its configuration. Handlers work on a
  \<open>world\<close>: the firmware's variables, the system's randomness and the server. The channel
  \<open>commit\<close> only carries a signal; the field counts the signals that were sent. The channel has
  a buffer for one signal and its receiver takes one: two signals can be sent in all, a
  third handler waits. \<open>Run\<close> closes the channel at its end, and a handler that sends or waits
  then panics. Logging and contexts with deadlines are left out.
\<close>

record ServerConfig =
  Secret :: string
  RemoteIP :: ip
  RemotePort :: int
  LocalCIDR :: "ipnet list"
  HostName :: string
  Deadline :: int
  Timeout :: int

record 'k server = ServerConfig +
  Addr :: string
  Certificates :: "'k list"
  srv_Entropy :: bytes
  srv_Timestamp :: int
  UDS :: "bytes option"
  basicAuthPassword :: string
  commit :: nat
  commit_closed :: bool

record ('s, 'k) world =
  nvram :: 's
  rand :: bytes
  srv :: "'k server"

definition NewServer :: "('s, 'c, 'k) lib \<Rightarrow> ServerConfig \<Rightarrow> goerror + 'k server" where
  "NewServer L cfg =
     (case NewOneTimePassword (lib_crypto L) (Secret cfg) of
        Inl e \<Rightarrow> Inl (Wrapf ''derive one-time password'' e)
      | Inr otp \<Rightarrow>
     (case TLSCertificate (lib_crypto L) (lib_ssh L) otp (RemoteIP cfg) of
        Inl e \<Rightarrow> Inl (Wrapf ''derive tls certificate'' e)
      | Inr crt \<Rightarrow>
     (case BasicAuthPassword (lib_crypto L) otp of
        Inl e \<Rightarrow> Inl (Wrapf ''derive basic auth password'' e)
      | Inr pw \<Rightarrow>
          Inr (ServerConfig.extend cfg
                 \<lparr>Addr = IP_String (RemoteIP cfg) @ '':'' @ show_int (RemotePort cfg),
                  Certificates = [crt], srv_Entropy = replicate 32 0, srv_Timestamp = 0,
                  UDS = None, basicAuthPassword = pw, commit = 0, commit_closed = False\<rparr>))))"

definition checkHTTPMethod :: "string \<Rightarrow> bool" where
  "checkHTTPMethod m \<longleftrightarrow> m = MethodGet \<or> m = MethodPost"

subsection \<open>The guards of every request\<close>

type_synonym ('s, 'k) handler_func =
  "request \<Rightarrow> response \<Rightarrow> ('s, 'k) world \<Rightarrow> ('s, 'k) world \<times> response \<times> nat \<times> goerror option"

record ('s, 'k) handler =
  Endpoint :: string
  hMethod :: string
  HandlerFunc :: "('s, 'k) handler_func"

text \<open>A guard gives the response to send when the request is refused.\<close>

definition verifyMethod :: "string \<Rightarrow> response \<Rightarrow> request \<Rightarrow> response option" where
  "verifyMethod method w r =
     (if method = Method r then None
      else if checkHTTPMethod (Method r)
      then Some (http_Error (StatusText StatusMethodNotAllowed) StatusMethodNotAllowed (w\<lparr>Allow := Some method\<rparr>))
      else Some (http_Error (StatusText StatusBadRequest) StatusBadRequest w))"

definition verifyNetwork :: "'k server \<Rightarrow> response \<Rightarrow> request \<Rightarrow> response option" where
  "verifyNetwork s w r =
     (case SplitHostPort (RemoteAddr r) of
        Inl e \<Rightarrow> Some (http_Error ''Malformed address:port format'' StatusInternalServerError w)
      | Inr (host, _) \<Rightarrow>
          (case ParseIP host of
             None \<Rightarrow> Some (http_Error ''Hostname must be an IP address'' StatusInternalServerError w)
           | Some addr \<Rightarrow>
               if list_ex (\<lambda>n. IPNet_Contains n addr) (LocalCIDR s) then None
               else Some (http_Error ''Invalid IP address'' StatusForbidden w)))"

definition authenticateUser :: "'k server \<Rightarrow> response \<Rightarrow> request \<Rightarrow> response option" where
  "authenticateUser s w r =
     (case BasicAuth r of
        None \<Rightarrow> Some (http_Error ''BasicAuth header is required'' StatusForbidden w)
      | Some (user, password) \<Rightarrow>
          if user \<noteq> BasicAuthUser \<or> password \<noteq> basicAuthPassword s
          then Some (http_Error ''BasicAuth credentials were insufficient'' StatusForbidden w)
          else None)"

definition ServeHTTP :: "('s, 'k) handler \<Rightarrow> request \<Rightarrow> response \<Rightarrow> ('s, 'k) world \<Rightarrow> ('s, 'k) world \<times> response" where
  "ServeHTTP h r w wd =
     (case verifyMethod (hMethod h) w r of Some w' \<Rightarrow> (wd, w')
      | None \<Rightarrow>
     (case verifyNetwork (srv wd) w r of Some w' \<Rightarrow> (wd, w')
      | None \<Rightarrow>
     (case authenticateUser (srv wd) w r of Some w' \<Rightarrow> (wd, w')
      | None \<Rightarrow>
     (case HandlerFunc h r w wd of
        (wd', w', code, Some e) \<Rightarrow> (wd', http_Error (StatusText code) code w')
      | (wd', w', code, None) \<Rightarrow> (wd', w')))))"

subsection \<open>The three handlers\<close>

definition unpackPost :: "(bytes \<Rightarrow> goerror + 'm) \<Rightarrow> request \<Rightarrow> goerror + 'm" where
  "unpackPost unmarshal r = (case Body r of Inl e \<Rightarrow> Inl e | Inr b \<Rightarrow> unmarshal b)"

definition handleAddData :: "('s, 'c, 'k) lib \<Rightarrow> ('s, 'k) handler_func" where
  "handleAddData L r w wd =
     (case unpackPost (Unmarshal_AddData (lib_json L)) r of
        Inl e \<Rightarrow> (wd, w, StatusBadRequest, Some e)
      | Inr data \<Rightarrow>
          if length (Entropy data) \<noteq> EntropyBytes
          then (wd, w, StatusBadRequest, Some (Errorf (''invalid number of entropy bytes: '' @ show_nat (length (Entropy data)))))
          else if Timestamp data < 0
          then (wd, w, StatusBadRequest, Some (Errorf (''invalid unix timestamp '' @ show_int (Timestamp data))))
          else (wd\<lparr>srv := (srv wd)\<lparr>srv_Timestamp := Timestamp data, srv_Entropy := Entropy data\<rparr>\<rparr>, w, StatusOK, None))"

text \<open>The body of \<open>handleAddSecureBoot\<close>, with the variable its deferred function reads.\<close>

definition addSecureBoot_body :: "('s, 'c, 'k) lib \<Rightarrow> request \<Rightarrow> 's \<Rightarrow> 's \<times> bool \<times> nat \<times> goerror option" where
  "addSecureBoot_body L r s =
     (if IsSetupMode (lib_efi L) s = Inr False then (s, False, StatusForbidden, Some (Errorf ''not in setup mode''))
      else (case unpackPost (Unmarshal_SecureBoot (lib_json L)) r of
          Inl e \<Rightarrow> (s, False, StatusBadRequest, Some e)
        | Inr data \<Rightarrow>
            (case SecureBoot_Check data of
               Some e \<Rightarrow> (s, False, StatusBadRequest, Some e)
             | None \<Rightarrow>
                 (case Provision (lib_efi L) (PK data) (KEK data) (Db data) (Dbx data) s of
                    (s', Some e) \<Rightarrow> (s', RebootIntoUEFIMenu data, StatusBadRequest, Some e)
                  | (s', None) \<Rightarrow> (s', RebootIntoUEFIMenu data, StatusOK, None)))))"

definition handleAddSecureBoot :: "('s, 'c, 'k) lib \<Rightarrow> ('s, 'k) handler_func" where
  "handleAddSecureBoot L r w wd =
     (case addSecureBoot_body L r (nvram wd) of
        (s, reboot, code, err) \<Rightarrow>
          (wd\<lparr>nvram := (if reboot then fst (RequestRebootIntoUEFIMenu (lib_efi L) s) else s)\<rparr>, w, code, err))"

text \<open>
  If writing the response fails, the status 200 was sent and the client has an error of the
  connection. The secret is stored before the signal is sent; if the signal cannot be sent,
  the handler does not return and the response is aborted.
\<close>

definition handleCommit :: "('s, 'c, 'k) lib \<Rightarrow> ('s, 'k) handler_func" where
  "handleCommit L r w wd =
     (case NewUniqueDeviceSecret (lib_crypto L) (srv_Entropy (srv wd)) (rand wd) of
        (Inl e, rd) \<Rightarrow> (wd\<lparr>rand := rd\<rparr>, w, StatusInternalServerError, Some (Wrapf ''new unique device secret'' e))
      | (Inr uds, rd) \<Rightarrow>
     (case NewCommitResponse L uds (HostName (srv wd)) of
        Inl e \<Rightarrow> (wd\<lparr>rand := rd\<rparr>, w, StatusInternalServerError, Some (Wrapf ''new commit response'' e))
      | Inr cr \<Rightarrow>
     (case Marshal_Commit (lib_json L) cr of
        Inl e \<Rightarrow> (wd\<lparr>rand := rd\<rparr>, w, StatusInternalServerError, Some (Wrapf ''marshal commit response'' e))
      | Inr b \<Rightarrow>
     (case write_error r of
        Some e \<Rightarrow> (wd\<lparr>rand := rd\<rparr>, (w_Write b w)\<lparr>aborted := True\<rparr>, StatusInternalServerError, Some (Wrapf ''write commit response'' e))
      | None \<Rightarrow>
          if commit_closed (srv wd) \<or> 2 \<le> commit (srv wd)
          then (wd\<lparr>rand := rd, srv := (srv wd)\<lparr>UDS := Some uds\<rparr>\<rparr>, (w_Write b w)\<lparr>aborted := True\<rparr>, StatusOK, None)
          else (wd\<lparr>rand := rd, srv := (srv wd)\<lparr>UDS := Some uds, commit := Suc (commit (srv wd))\<rparr>\<rparr>,
                w_Write b w, StatusOK, None)))))"

definition handlers :: "('s, 'c, 'k) lib \<Rightarrow> ('s, 'k) handler list" where
  "handlers L =
     [\<lparr>Endpoint = EndpointAddData, hMethod = MethodPost, HandlerFunc = handleAddData L\<rparr>,
      \<lparr>Endpoint = EndpointAddSecureBoot, hMethod = MethodPost, HandlerFunc = handleAddSecureBoot L\<rparr>,
      \<lparr>Endpoint = EndpointCommit, hMethod = MethodGet, HandlerFunc = handleCommit L\<rparr>]"

text \<open>The routes that \<open>Run\<close> registers; any other path is not found.\<close>

definition route :: "('s, 'c, 'k) lib \<Rightarrow> string \<Rightarrow> ('s, 'k) handler option" where
  "route L path = find (\<lambda>h. path = ''/'' @ Protocol @ ''/'' @ Endpoint h) (handlers L)"

definition serve :: "('s, 'c, 'k) lib \<Rightarrow> string \<Rightarrow> request \<Rightarrow> ('s, 'k) world \<Rightarrow> ('s, 'k) world \<times> response" where
  "serve L path r wd =
     (case route L path of
        None \<Rightarrow> (wd, http_Error ''404 page not found'' 404 new_response)
      | Some h \<Rightarrow> ServeHTTP h r new_response wd)"

end
