(* ===== verification/ApiGuards.thy ===== *)
theory ApiGuards
  imports ApiServer Gateway
begin

section \<open>What the server guarantees\<close>

text \<open>
  The contract between \<open>ServeHTTP\<close> and the handlers is a locale: a handler keeps the
  server's invariant, never forgets a unique device secret, leaves the server alone when it
  fails, and does not answer 200 then. From it follow the properties of every request, and
  from those the ones of the life of a server (\<open>Run\<close>).
\<close>

definition server_inv :: "ServerConfig \<Rightarrow> string \<Rightarrow> 'k server \<Rightarrow> bool" where
  "server_inv cfg pw s \<longleftrightarrow> ServerConfig.truncate s = cfg \<and> basicAuthPassword s = pw
     \<and> length (srv_Entropy s) = 32 \<and> 0 \<le> srv_Timestamp s
     \<and> (0 < commit s \<longrightarrow> UDS s \<noteq> None) \<and> (\<forall>uds. UDS s = Some uds \<longrightarrow> length uds = 32)"

lemma NewServer_inv:
  assumes "NewServer L cfg = Inr s"
  shows "server_inv cfg (basicAuthPassword s) s \<and> UDS s = None \<and> commit s = 0 \<and> \<not> commit_closed s"
  using assms by (auto simp: NewServer_def server_inv_def ServerConfig.defs split: sum.splits)

lemma NewUniqueDeviceSecret_length:
  "NewUniqueDeviceSecret C ext rd = (Inr uds, rd') \<Longrightarrow> length uds = 32"
  by (auto simp: NewUniqueDeviceSecret_def NewEntropy_def read_entropy_def ReadFull_def EntropyBytes_def split: sum.splits prod.splits if_splits)

locale handler_contract =
  fixes f :: "('s, 'k) handler_func"
  assumes keeps_inv: "f r w wd = (wd', w', code, res) \<Longrightarrow> server_inv cfg pw (srv wd) \<Longrightarrow> server_inv cfg pw (srv wd')"
    and keeps_uds: "f r w wd = (wd', w', code, res) \<Longrightarrow> UDS (srv wd) \<noteq> None \<Longrightarrow> UDS (srv wd') \<noteq> None"
    and keeps_closed: "f r w wd = (wd', w', code, res) \<Longrightarrow> commit_closed (srv wd') = commit_closed (srv wd)"
    and fails_frame: "f r w wd = (wd', w', code, Some e) \<Longrightarrow> srv wd' = srv wd \<and> (w' = w \<or> aborted w') \<and> code \<noteq> StatusOK"
    and succeeds: "f r w wd = (wd', w', code, None) \<Longrightarrow> status w = None \<Longrightarrow> status_code w' = StatusOK"
begin

lemma ServeHTTP_inv:
  "ServeHTTP \<lparr>Endpoint = p, hMethod = m, HandlerFunc = f\<rparr> r w wd = (wd', w') \<Longrightarrow>
     server_inv cfg pw (srv wd) \<Longrightarrow> server_inv cfg pw (srv wd')"
  by (auto simp: ServeHTTP_def split: option.splits prod.splits dest: keeps_inv)

lemma ServeHTTP_uds:
  "ServeHTTP \<lparr>Endpoint = p, hMethod = m, HandlerFunc = f\<rparr> r w wd = (wd', w') \<Longrightarrow>
     UDS (srv wd) \<noteq> None \<Longrightarrow> UDS (srv wd') \<noteq> None"
  by (auto simp: ServeHTTP_def split: option.splits prod.splits dest: keeps_uds)

lemma ServeHTTP_closed:
  "ServeHTTP \<lparr>Endpoint = p, hMethod = m, HandlerFunc = f\<rparr> r w wd = (wd', w') \<Longrightarrow>
     commit_closed (srv wd') = commit_closed (srv wd)"
  by (auto simp: ServeHTTP_def split: option.splits prod.splits dest: keeps_closed)

text \<open>A client that does not see 200 has not changed the server.\<close>

lemma ServeHTTP_not_ok:
  assumes "ServeHTTP \<lparr>Endpoint = p, hMethod = m, HandlerFunc = f\<rparr> r new_response wd = (wd', w')" "status_code w' \<noteq> StatusOK"
  shows "srv wd' = srv wd"
proof -
  have n: "status new_response = None" by (simp add: new_response_def)
  from assms show ?thesis
    using fails_frame [of r new_response wd] succeeds [OF _ n, of r wd]
    by (fastforce simp: ServeHTTP_def split: option.splits prod.splits)
qed

end

interpretation add_data: handler_contract "handleAddData L" for L :: "('s, 'c, 'k) lib"
  by unfold_locales (auto simp: handleAddData_def server_inv_def EntropyBytes_def ServerConfig.defs status_code_def status_defs
      split: sum.splits if_splits)

interpretation add_secure_boot: handler_contract "handleAddSecureBoot L" for L :: "('s, 'c, 'k) lib"
  by unfold_locales (auto simp: handleAddSecureBoot_def addSecureBoot_body_def status_code_def status_defs
      split: sum.splits if_splits prod.splits option.splits)

text \<open>The two ways in which a commit ends: without any effect, or with a new secret.\<close>

lemma handleCommit_cases:
  assumes "handleCommit L r w wd = (wd', w', code, e)"
  obtains (failed) x rd where "e = Some x" "wd' = wd\<lparr>rand := rd\<rparr>" "w' = w \<or> aborted w'" "code = StatusInternalServerError"
  | (stored) uds rd cr b where "e = None" "code = StatusOK"
      "NewUniqueDeviceSecret (lib_crypto L) (srv_Entropy (srv wd)) (rand wd) = (Inr uds, rd)"
      "NewCommitResponse L uds (HostName (srv wd)) = Inr cr" "Marshal_Commit (lib_json L) cr = Inr b"
      "nvram wd' = nvram wd" "rand wd' = rd" "UDS (srv wd') = Some uds"
      "if commit_closed (srv wd) \<or> 2 \<le> commit (srv wd)
       then srv wd' = (srv wd)\<lparr>UDS := Some uds\<rparr> \<and> w' = (w_Write b w)\<lparr>aborted := True\<rparr>
       else srv wd' = (srv wd)\<lparr>UDS := Some uds, commit := Suc (commit (srv wd))\<rparr> \<and> w' = w_Write b w"
proof -
  obtain res rd where u: "NewUniqueDeviceSecret (lib_crypto L) (srv_Entropy (srv wd)) (rand wd) = (res, rd)"
    by (cases "NewUniqueDeviceSecret (lib_crypto L) (srv_Entropy (srv wd)) (rand wd)")
  note d = assms [unfolded handleCommit_def u prod.case]
  show thesis
  proof (cases res)
    case (Inl x)
    with d failed show thesis by auto
  next
    case uds: (Inr uds)
    show thesis
    proof (cases "NewCommitResponse L uds (HostName (srv wd))")
      case (Inl x)
      with d uds failed show thesis by auto
    next
      case cr: (Inr cr)
      show thesis
      proof (cases "Marshal_Commit (lib_json L) cr")
        case (Inl x)
        with d uds cr failed show thesis by auto
      next
        case b: (Inr b)
        show thesis
        proof (cases "write_error r")
          case None
          with d uds cr b have o: "e = None" "code = StatusOK" "nvram wd' = nvram wd" "rand wd' = rd" "UDS (srv wd') = Some uds"
            "if commit_closed (srv wd) \<or> 2 \<le> commit (srv wd)
             then srv wd' = (srv wd)\<lparr>UDS := Some uds\<rparr> \<and> w' = (w_Write b w)\<lparr>aborted := True\<rparr>
             else srv wd' = (srv wd)\<lparr>UDS := Some uds, commit := Suc (commit (srv wd))\<rparr> \<and> w' = w_Write b w"
            by (simp_all split: if_splits) auto
          show thesis by (rule stored [OF o(1,2) u [unfolded uds] cr b o(3-6)])
        next
          case (Some x)
          with d uds cr b failed show thesis by auto
        qed
      qed
    qed
  qed
qed

lemma commit_keeps_inv:
  assumes "handleCommit L r w wd = (wd', w', code, e)" "server_inv cfg pw (srv wd)"
  shows "server_inv cfg pw (srv wd')"
  using assms(1)
proof (cases rule: handleCommit_cases)
  case failed
  then show ?thesis using assms(2) by simp
next
  case (stored uds)
  then have "length uds = 32" by (auto dest: NewUniqueDeviceSecret_length)
  then show ?thesis using assms(2) stored(9) by (auto simp: server_inv_def ServerConfig.defs split: if_splits)
qed

lemma commit_result:
  assumes "handleCommit L r w wd = (wd', w', code, e)"
  shows "e = None \<Longrightarrow> status w = None \<Longrightarrow> status_code w' = StatusOK"
    and "e \<noteq> None \<Longrightarrow> srv wd' = srv wd \<and> (w' = w \<or> aborted w') \<and> code \<noteq> StatusOK"
    and "UDS (srv wd) \<noteq> None \<Longrightarrow> UDS (srv wd') \<noteq> None"
    and "commit_closed (srv wd') = commit_closed (srv wd)"
  using assms by (cases rule: handleCommit_cases; simp add: w_Write_def status_code_def status_defs split: if_splits)+

interpretation do_commit: handler_contract "handleCommit L" for L :: "('s, 'c, 'k) lib"
  by unfold_locales (simp_all add: commit_keeps_inv commit_result)

lemmas handlers_contract = add_data.ServeHTTP_inv add_secure_boot.ServeHTTP_inv do_commit.ServeHTTP_inv
lemmas handlers_uds = add_data.ServeHTTP_uds add_secure_boot.ServeHTTP_uds do_commit.ServeHTTP_uds
lemmas handlers_closed = add_data.ServeHTTP_closed add_secure_boot.ServeHTTP_closed do_commit.ServeHTTP_closed
lemmas handlers_not_ok = add_data.ServeHTTP_not_ok add_secure_boot.ServeHTTP_not_ok do_commit.ServeHTTP_not_ok

lemma route_cases:
  assumes "route L path = Some h"
  obtains "path = ''/stprov/v0.0.1/add-data''" "h = \<lparr>Endpoint = EndpointAddData, hMethod = MethodPost, HandlerFunc = handleAddData L\<rparr>"
  | "path = ''/stprov/v0.0.1/add-secure-boot''" "h = \<lparr>Endpoint = EndpointAddSecureBoot, hMethod = MethodPost, HandlerFunc = handleAddSecureBoot L\<rparr>"
  | "path = ''/stprov/v0.0.1/commit''" "h = \<lparr>Endpoint = EndpointCommit, hMethod = MethodGet, HandlerFunc = handleCommit L\<rparr>"
  using assms by (auto simp: route_def handlers_def Protocol_def EndpointAddData_def EndpointAddSecureBoot_def
      EndpointCommit_def split: if_splits)

lemma serve_inv: "serve L path r wd = (wd', w') \<Longrightarrow> server_inv cfg pw (srv wd) \<Longrightarrow> server_inv cfg pw (srv wd')"
  by (auto simp: serve_def split: option.splits elim!: route_cases dest: handlers_contract)

lemma serve_uds: "serve L path r wd = (wd', w') \<Longrightarrow> UDS (srv wd) \<noteq> None \<Longrightarrow> UDS (srv wd') \<noteq> None"
  by (auto simp: serve_def split: option.splits elim!: route_cases dest: handlers_uds)

lemma serve_closed: "serve L path r wd = (wd', w') \<Longrightarrow> commit_closed (srv wd') = commit_closed (srv wd)"
  by (auto simp: serve_def split: option.splits elim!: route_cases dest: handlers_closed)

lemma serve_admitted:
  assumes "route L path = Some h" "hMethod h = Method r" "verifyNetwork (srv wd) new_response r = None"
    "BasicAuth r = Some (BasicAuthUser, basicAuthPassword (srv wd))"
  shows "serve L path r wd =
    (case HandlerFunc h r new_response wd of
        (wd', w', code, Some e) \<Rightarrow> (wd', http_Error (StatusText code) code w')
      | (wd', w', code, None) \<Rightarrow> (wd', w'))"
  using assms by (simp add: serve_def ServeHTTP_def verifyMethod_def authenticateUser_def)

lemma route_answers:
  assumes "route L path = Some h" "HandlerFunc h r new_response wd = (wd', w', code, res)"
  shows "(res = None \<longrightarrow> status_code w' = StatusOK) \<and> (res \<noteq> None \<longrightarrow> (w' = new_response \<or> aborted w') \<and> code \<noteq> StatusOK)"
proof -
  have n: "status new_response = None" "\<not> aborted new_response" by (simp_all add: new_response_def)
  from assms(1) show ?thesis
  proof (cases rule: route_cases)
    case 1
    then have "handleAddData L r new_response wd = (wd', w', code, res)" using assms(2) by simp
    then show ?thesis using n(2) by (cases res) (auto dest: add_data.succeeds [OF _ n(1)] add_data.fails_frame)
  next
    case 2
    then have "handleAddSecureBoot L r new_response wd = (wd', w', code, res)" using assms(2) by simp
    then show ?thesis using n(2) by (cases res) (auto dest: add_secure_boot.succeeds [OF _ n(1)] add_secure_boot.fails_frame)
  next
    case 3
    then have "handleCommit L r new_response wd = (wd', w', code, res)" using assms(2) by simp
    then show ?thesis using n(2) by (cases res) (auto dest: do_commit.succeeds [OF _ n(1)] do_commit.fails_frame)
  qed
qed

end
