(* ===== verification/DemoLib.thy ===== *)
theory DemoLib
  imports ApiData
begin

section \<open>Libraries that satisfy the laws\<close>

text \<open>
  Concrete functions for the parameters of the model, to show that the hypotheses about the
  libraries can hold together: variables in a map, the wire format of RFC 4251, a keyed
  stream in place of HKDF, and messages as lists of escaped fields.
\<close>

definition put_field :: "bytes \<Rightarrow> bytes" where
  "put_field bs = concat (map (\<lambda>b. [1, b]) bs) @ [0]"

fun get_field :: "bytes \<Rightarrow> (bytes \<times> bytes) option" where
  "get_field [] = None"
| "get_field [x] = (if x = 0 then Some ([], []) else None)"
| "get_field (x # y # r) =
     (if x = 0 then Some ([], y # r) else map_option (\<lambda>(f, r'). (y # f, r')) (get_field r))"

lemma get_put_field [simp]: "get_field (put_field bs @ r) = Some (bs, r)"
proof (induction bs)
  case Nil
  show ?case by (cases r) (simp_all add: put_field_def)
next
  case (Cons b bs)
  have "put_field (b # bs) @ r = 1 # b # (put_field bs @ r)" by (simp add: put_field_def)
  with Cons show ?case by simp
qed

fun get_fields :: "nat \<Rightarrow> bytes \<Rightarrow> bytes list option" where
  "get_fields 0 bs = (if bs = [] then Some [] else None)"
| "get_fields (Suc n) bs = Option.bind (get_field bs) (\<lambda>(f, r). map_option (Cons f) (get_fields n r))"

lemma get_fields_put [simp]: "get_fields (length fs) (concat (map put_field fs)) = Some fs"
  by (induction fs) simp_all

definition put_int :: "int \<Rightarrow> bytes" where
  "put_int i = (if i < 0 then 1 else 0) # str_bytes (show_nat (nat (abs i)))"

definition get_int :: "bytes \<Rightarrow> int" where
  "get_int bs = (let n = int (dec_val (bytes_str (tl bs))) in if hd bs = 1 then - n else n)"

lemma get_put_int [simp]: "get_int (put_int i) = i"
  by (simp add: get_int_def put_int_def Let_def del: map_map)

definition or_short :: "'x option \<Rightarrow> goerror + 'x" where
  "or_short x = (case x of None \<Rightarrow> Inl (External ''unexpected end of input'') | Some y \<Rightarrow> Inr y)"

definition demo_json :: jsonlib where
  "demo_json =
     \<lparr>Marshal_AddData = (\<lambda>m. Inr (concat (map put_field [Entropy m, put_int (Timestamp m)]))),
      Marshal_SecureBoot = (\<lambda>m. Inr (concat (map put_field
        [PK m, KEK m, Db m, Dbx m, if RebootIntoUEFIMenu m then [1] else []]))),
      Marshal_Commit = (\<lambda>m. Inr (concat (map put_field (map str_bytes
        [cr_PublicKey m, cr_Fingerprint m, cr_HostName m, cr_Authentication m, cr_Identity m])))),
      Unmarshal_AddData = (\<lambda>b. case get_fields 2 b of
          Some [e, t] \<Rightarrow> Inr \<lparr>Entropy = e, Timestamp = get_int t\<rparr> | _ \<Rightarrow> or_short None),
      Unmarshal_SecureBoot = (\<lambda>b. case get_fields 5 b of
          Some [a, c, d, e, r] \<Rightarrow> Inr \<lparr>PK = a, KEK = c, Db = d, Dbx = e, RebootIntoUEFIMenu = (r \<noteq> [])\<rparr>
        | _ \<Rightarrow> or_short None),
      Unmarshal_Commit = (\<lambda>b. case get_fields 5 b of
          Some [p, f, h, a, i] \<Rightarrow> Inr \<lparr>cr_PublicKey = bytes_str p, cr_Fingerprint = bytes_str f,
             cr_HostName = bytes_str h, cr_Authentication = bytes_str a, cr_Identity = bytes_str i\<rparr>
        | _ \<Rightarrow> or_short None)\<rparr>"

lemma demo_json_laws: "message_laws demo_json"
proof -
  have f2: "get_fields 2 (put_field a @ put_field b) = Some [a, b]" for a b
    using get_fields_put [of "[a, b]"] by (simp add: numeral_2_eq_2)
  have f5: "get_fields 5 (put_field a @ put_field b @ put_field c @ put_field d @ put_field e) = Some [a, b, c, d, e]" for a b c d e
    using get_fields_put [of "[a, b, c, d, e]"] by (simp add: numeral_eq_Suc)
  show ?thesis unfolding message_laws_def demo_json_def by (simp add: f2 f5 del: map_map)
qed

definition demo_lib :: "(varmap, bytes, bytes option \<times> bytes option) lib" where
  "demo_lib = \<lparr>lib_efi = map_efi (\<lambda>g. Inr (str_bytes g)), lib_crypto = demo_crypto, lib_ssh = rfc_ssh, lib_json = demo_json\<rparr>"

lemma demo_lib_fields [simp]:
  "lib_efi demo_lib = map_efi (\<lambda>g. Inr (str_bytes g))" "lib_crypto demo_lib = demo_crypto"
  "lib_ssh demo_lib = rfc_ssh" "lib_json demo_lib = demo_json"
  by (simp_all add: demo_lib_def)

lemma demo_functions [simp]:
  "x509_CreateCertificate demo_crypto rd t p pub priv = Inr (take 64 rd @ pub @ concat (map str_bytes (DNSNames t)))"
  "x509_MarshalPKCS8PrivateKey demo_crypto k = Inr k" "x509_ParseCertificate demo_crypto d = Inr d"
  "tls_X509KeyPair demo_crypto a b = Inr (a, b)" "NewPublicKey rfc_ssh pub = Inr pub"
  by (simp_all add: demo_crypto_def rfc_ssh_def)

lemma demo_SSH: "\<exists>hk. SSH demo_crypto rfc_ssh uds = Inr hk"
  by (simp add: SSH_def NewHostKey_def ed25519_GenerateKey_def ReadFull_def length_Reader [OF demo_crypto_laws])

lemma demo_NewCommitResponse: "\<exists>cr. NewCommitResponse demo_lib uds hn = Inr cr"
proof -
  obtain hk where "SSH demo_crypto rfc_ssh uds = Inr hk" using demo_SSH ..
  then show ?thesis
    by (simp add: NewCommitResponse_def Fingerprint_def PublicKey_def publicKey_def Identity_def Authentication_def
        read_entropy_hkdf [OF demo_crypto_laws])
qed

end
