(* ===== verification/ApiFacts.thy ===== *)
theory ApiFacts
  imports ApiGuards DemoLib
begin

section \<open>Properties of the requests\<close>

subsection \<open>A running server\<close>

definition demo_world :: "(varmap, bytes option \<times> bytes option) world" where
  "demo_world =
     \<lparr>nvram = Map.empty, rand = replicate 64 7,
      srv = \<lparr>Secret = ''otp'', RemoteIP = v4InV6Prefix @ [10, 0, 2, 10], RemotePort = 2009,
        LocalCIDR = [\<lparr>IP = [10, 0, 2, 0], Mask = [255, 255, 255, 0]\<rparr>], HostName = ''host.local'', Deadline = 15, Timeout = 60,
        Addr = ''10.0.2.10:2009'', Certificates = [], srv_Entropy = replicate 32 0, srv_Timestamp = 0,
        UDS = None, basicAuthPassword = ''pw'', commit = 0, commit_closed = False\<rparr>\<rparr>"

definition demo_request :: "string \<Rightarrow> bytes \<Rightarrow> request" where
  "demo_request m b = \<lparr>Method = m, RemoteAddr = ''10.0.2.2:40000'', BasicAuth = Some (''example-user'', ''pw''),
     Body = Inr b, write_error = None\<rparr>"

lemma demo_route_commit: "route demo_lib ''/stprov/v0.0.1/commit''
    = Some \<lparr>Endpoint = EndpointCommit, hMethod = MethodGet, HandlerFunc = handleCommit demo_lib\<rparr>"
  by (simp add: route_def handlers_def Protocol_def EndpointAddData_def EndpointAddSecureBoot_def EndpointCommit_def)

lemma demo_network: "verifyNetwork (srv demo_world) w (demo_request m b) = None"
proof -
  have "SplitHostPort ''10.0.2.2:40000'' = Inr (''10.0.2.2'', ''40000'')" by code_simp
  moreover have "ParseIP ''10.0.2.2'' = Some (v4InV6Prefix @ [10, 0, 2, 2])" by code_simp
  moreover have "IPNet_Contains \<lparr>IP = [10, 0, 2, 0], Mask = [255, 255, 255, 0]\<rparr> (v4InV6Prefix @ [10, 0, 2, 2])" by code_simp
  ultimately show ?thesis by (simp add: verifyNetwork_def demo_world_def demo_request_def)
qed

lemma demo_serve:
  assumes "route demo_lib path = Some h" "hMethod h = m"
  shows "serve demo_lib path (demo_request m b) demo_world =
    (case HandlerFunc h (demo_request m b) new_response demo_world of
        (wd', w', code, Some e) \<Rightarrow> (wd', http_Error (StatusText code) code w')
      | (wd', w', code, None) \<Rightarrow> (wd', w'))"
  using assms demo_network
  by (intro serve_admitted) (simp_all add: demo_request_def demo_world_def BasicAuthUser_def)

lemma demo_commit:
  "\<exists>uds wd' w'. serve demo_lib ''/stprov/v0.0.1/commit'' (demo_request MethodGet []) demo_world = (wd', w')
     \<and> UDS (srv wd') = Some uds \<and> commit (srv wd') = 1 \<and> status_code w' = StatusOK \<and> \<not> aborted w'"
proof -
  obtain uds rd where u: "NewUniqueDeviceSecret demo_crypto (replicate 32 0) (replicate 64 7) = (Inr uds, rd)"
    by (simp add: NewUniqueDeviceSecret_eq [OF demo_crypto_laws])
  obtain cr where c: "NewCommitResponse demo_lib uds ''host.local'' = Inr cr" using demo_NewCommitResponse by blast
  have "handleCommit demo_lib (demo_request MethodGet []) new_response demo_world
      = (demo_world\<lparr>rand := rd, srv := (srv demo_world)\<lparr>UDS := Some uds, commit := 1\<rparr>\<rparr>,
         w_Write (projr (Marshal_Commit demo_json cr)) new_response, StatusOK, None)"
    using u c by (simp add: handleCommit_def demo_world_def demo_request_def) (simp add: demo_json_def)
  then show ?thesis
    by (simp add: demo_serve [OF demo_route_commit] status_code_def w_Write_def new_response_def)
qed

subsection \<open>Guards\<close>

text \<open>
  C5. A request changes the world (EFI variables, randomness or server) only if it is for a
  registered path with that path's method, comes from an address inside an allowed network,
  and carries the user name and the password derived from the one-time password.
\<close>

theorem change_needs_authorisation:
  assumes "serve L path r wd = (wd', w')" "wd' \<noteq> wd"
  shows "\<exists>h host port addr n. route L path = Some h \<and> hMethod h = Method r
    \<and> SplitHostPort (RemoteAddr r) = Inr (host, port) \<and> ParseIP host = Some addr
    \<and> n \<in> set (LocalCIDR (srv wd)) \<and> IPNet_Contains n addr
    \<and> BasicAuth r = Some (BasicAuthUser, basicAuthPassword (srv wd))"
proof -
  from assms obtain h where h: "route L path = Some h" "verifyMethod (hMethod h) new_response r = None"
    "verifyNetwork (srv wd) new_response r = None" "authenticateUser (srv wd) new_response r = None"
    by (auto simp: serve_def ServeHTTP_def split: option.splits)
  from h(2) have "hMethod h = Method r" by (auto simp: verifyMethod_def split: if_splits)
  moreover from h(3) obtain host port addr n where "SplitHostPort (RemoteAddr r) = Inr (host, port)"
    "ParseIP host = Some addr" "n \<in> set (LocalCIDR (srv wd))" "IPNet_Contains n addr"
    by (auto simp: verifyNetwork_def list_ex_iff split: sum.splits prod.splits option.splits if_splits)
  moreover from h(4) have "BasicAuth r = Some (BasicAuthUser, basicAuthPassword (srv wd))"
    by (auto simp: authenticateUser_def split: option.splits if_splits)
  ultimately show ?thesis using h(1) by blast
qed

theorem change_needs_authorisation_witness:
  "\<exists>n \<in> set (LocalCIDR (srv demo_world)). \<exists>addr. ParseIP ''10.0.2.2'' = Some addr \<and> IPNet_Contains n addr"
proof -
  obtain wd' w' uds where s: "serve demo_lib ''/stprov/v0.0.1/commit'' (demo_request MethodGet []) demo_world = (wd', w')"
    "UDS (srv wd') = Some uds" using demo_commit by blast
  have "wd' \<noteq> demo_world" using s(2) by (auto simp: demo_world_def)
  moreover have "SplitHostPort ''10.0.2.2:40000'' = Inr (''10.0.2.2'', ''40000'')" by code_simp
  ultimately show ?thesis using change_needs_authorisation [OF s(1)] by (auto simp: demo_request_def)
qed

text \<open>
  C29. A request that is refused before its handler gets the first status that applies: 405
  for GET or POST on a path of the other method (with the path's method in \<open>Allow\<close>), 400
  for any other method, 500 for a client address that is not an IP address with a port, 403
  from outside the allowed networks and 403 for missing or wrong credentials. The world
  stays as it is.
\<close>

theorem refused_status:
  assumes "route L path = Some h"
  shows "(Method r \<noteq> hMethod h \<longrightarrow>
        (\<exists>w'. serve L path r wd = (wd, w') \<and> status w' = Some (if Method r \<in> {''GET'', ''POST''} then 405 else 400)
           \<and> Allow w' = (if Method r \<in> {''GET'', ''POST''} then Some (hMethod h) else None)))
    \<and> (Method r = hMethod h \<and> (\<forall>host port. SplitHostPort (RemoteAddr r) = Inr (host, port) \<longrightarrow> ParseIP host = None) \<longrightarrow>
        (\<exists>w'. serve L path r wd = (wd, w') \<and> status w' = Some 500))
    \<and> (\<forall>host port addr. Method r = hMethod h \<and> SplitHostPort (RemoteAddr r) = Inr (host, port) \<and> ParseIP host = Some addr
        \<and> ((\<forall>n \<in> set (LocalCIDR (srv wd)). \<not> IPNet_Contains n addr)
           \<or> BasicAuth r \<noteq> Some (BasicAuthUser, basicAuthPassword (srv wd))) \<longrightarrow>
        (\<exists>w'. serve L path r wd = (wd, w') \<and> status w' = Some 403))"
proof (intro conjI allI impI)
  assume "Method r \<noteq> hMethod h"
  then show "\<exists>w'. serve L path r wd = (wd, w') \<and> status w' = Some (if Method r \<in> {''GET'', ''POST''} then 405 else 400)
           \<and> Allow w' = (if Method r \<in> {''GET'', ''POST''} then Some (hMethod h) else None)"
    using assms by (auto simp: serve_def ServeHTTP_def verifyMethod_def checkHTTPMethod_def MethodGet_def MethodPost_def
        http_Error_def new_response_def status_defs)
next
  assume a: "Method r = hMethod h \<and> (\<forall>host port. SplitHostPort (RemoteAddr r) = Inr (host, port) \<longrightarrow> ParseIP host = None)"
  then show "\<exists>w'. serve L path r wd = (wd, w') \<and> status w' = Some 500"
    using assms by (cases "SplitHostPort (RemoteAddr r)") (auto simp: serve_def ServeHTTP_def verifyMethod_def
        verifyNetwork_def http_Error_def new_response_def status_defs)
next
  fix host port addr
  assume "Method r = hMethod h \<and> SplitHostPort (RemoteAddr r) = Inr (host, port) \<and> ParseIP host = Some addr
        \<and> ((\<forall>n \<in> set (LocalCIDR (srv wd)). \<not> IPNet_Contains n addr)
           \<or> BasicAuth r \<noteq> Some (BasicAuthUser, basicAuthPassword (srv wd)))"
  then show "\<exists>w'. serve L path r wd = (wd, w') \<and> status w' = Some 403"
    using assms by (auto simp: serve_def ServeHTTP_def verifyMethod_def verifyNetwork_def authenticateUser_def
        http_Error_def new_response_def status_defs list_ex_iff split: option.splits)
qed

theorem refused_status_witness:
  "\<exists>w'. serve demo_lib ''/stprov/v0.0.1/commit'' (demo_request ''POST'' []) demo_world = (demo_world, w')
     \<and> status w' = Some 405 \<and> Allow w' = Some ''GET''"
  using refused_status [OF demo_route_commit, of "demo_request ''POST'' []" demo_world]
  by (simp add: demo_request_def MethodGet_def)

text \<open>
  Only a request answered with 200 changes the server's fields: after any other answer
  the entropy, the timestamp, the unique device secret and the commit signals are as before.
\<close>

theorem not_ok_keeps_server:
  assumes "serve L path r wd = (wd', w')" "status_code w' \<noteq> 200"
  shows "srv wd' = srv wd"
  using assms handlers_not_ok
  by (auto simp: serve_def StatusOK_def split: option.splits elim!: route_cases)

theorem not_ok_keeps_server_witness:
  "\<exists>wd' w'. serve demo_lib ''/stprov/v0.0.1/commit'' (demo_request ''PUT'' []) demo_world = (wd', w')
     \<and> status_code w' = 400 \<and> srv wd' = srv demo_world"
proof -
  obtain w' where s: "serve demo_lib ''/stprov/v0.0.1/commit'' (demo_request ''PUT'' []) demo_world = (demo_world, w')"
    and c: "status_code w' = 400"
    by (simp add: serve_def demo_route_commit ServeHTTP_def verifyMethod_def demo_request_def checkHTTPMethod_def MethodGet_def
        MethodPost_def http_Error_def new_response_def status_defs status_code_def)
  from c have "status_code w' \<noteq> 200" by simp
  from not_ok_keeps_server [OF s this] have k: "srv demo_world = srv demo_world" .
  show ?thesis by (rule exI [of _ demo_world], rule exI [of _ w']) (intro conjI s c k)
qed

end
