(* ===== verification/ApiRun.thy ===== *)
theory ApiRun
  imports ApiFacts MaxHostFacts
begin

section \<open>The handlers' effects and the life of a server\<close>

subsection \<open>add-data, add-secure-boot, commit\<close>

text \<open>
  An add-data message that arrives as it was encoded is accepted exactly when it has 32
  bytes of entropy and a timestamp that is not negative; then the server holds both and
  nothing else changed. Otherwise the answer is 400 and nothing changed at all.
\<close>

theorem handleAddData_effect:
  assumes "message_laws (lib_json L)" "Marshal_AddData (lib_json L) m = Inr b" "Body r = Inr b"
    and "handleAddData L r w wd = (wd', w', code, e)"
  shows "w' = w \<and> (code = 200 \<longleftrightarrow> e = None) \<and> (code = 200 \<longleftrightarrow> length (Entropy m) = 32 \<and> 0 \<le> Timestamp m)
    \<and> (code = 200 \<longrightarrow> wd' = wd\<lparr>srv := (srv wd)\<lparr>srv_Entropy := Entropy m, srv_Timestamp := Timestamp m\<rparr>\<rparr>)
    \<and> (code \<noteq> 200 \<longrightarrow> code = 400 \<and> wd' = wd)"
proof -
  have "unpackPost (Unmarshal_AddData (lib_json L)) r = Inr m"
    using assms(1-3) by (simp add: unpackPost_def message_laws_def)
  with assms(4) show ?thesis by (auto simp: handleAddData_def EntropyBytes_def status_defs split: if_splits)
qed

theorem handleAddData_effect_witness:
  "\<exists>b wd' w' e. Marshal_AddData demo_json \<lparr>Entropy = replicate 32 5, Timestamp = 1700000000\<rparr> = Inr b
     \<and> handleAddData demo_lib (demo_request ''POST'' b) new_response demo_world = (wd', w', 200, e)
     \<and> srv_Entropy (srv wd') = replicate 32 5"
proof -
  let ?m = "\<lparr>Entropy = replicate 32 5, Timestamp = 1700000000\<rparr>"
  obtain b where b: "Marshal_AddData (lib_json demo_lib) ?m = Inr b" by (simp add: demo_json_def)
  obtain wd' w' code e where h: "handleAddData demo_lib (demo_request ''POST'' b) new_response demo_world = (wd', w', code, e)"
    by (metis prod_cases4)
  have "message_laws (lib_json demo_lib)" "Body (demo_request ''POST'' b) = Inr b"
    by (simp_all add: demo_json_laws demo_request_def)
  from handleAddData_effect [OF this(1) b this(2) h] have "code = 200" "srv_Entropy (srv wd') = replicate 32 5" by simp_all
  with b h show ?thesis by auto
qed

text \<open>
  C12. In a platform that says it is not in setup mode, add-secure-boot is refused with 403
  and writes no EFI variable. EFI variables change only for a message that decodes and has
  PK, KEK and db; the reboot into the firmware's menu is requested only after that, too.
\<close>

theorem secure_boot_needs_setup_mode:
  assumes "handleAddSecureBoot L r w wd = (wd', w', code, e)"
  shows "(IsSetupMode (lib_efi L) (nvram wd) = Inr False \<longrightarrow> wd' = wd \<and> code = 403 \<and> e \<noteq> None)
    \<and> (nvram wd' \<noteq> nvram wd \<longrightarrow> IsSetupMode (lib_efi L) (nvram wd) \<noteq> Inr False
        \<and> (\<exists>data s reboot. unpackPost (Unmarshal_SecureBoot (lib_json L)) r = Inr data
             \<and> PK data \<noteq> [] \<and> KEK data \<noteq> [] \<and> Db data \<noteq> []
             \<and> s = fst (Provision (lib_efi L) (PK data) (KEK data) (Db data) (Dbx data) (nvram wd))
             \<and> nvram wd' = (if RebootIntoUEFIMenu data then fst (RequestRebootIntoUEFIMenu (lib_efi L) s) else s)))"
proof (cases "IsSetupMode (lib_efi L) (nvram wd) = Inr False")
  case True
  with assms show ?thesis by (auto simp: handleAddSecureBoot_def addSecureBoot_body_def status_defs)
next
  case False
  show ?thesis
  proof (cases "unpackPost (Unmarshal_SecureBoot (lib_json L)) r")
    case (Inl x)
    with assms False show ?thesis by (auto simp: handleAddSecureBoot_def addSecureBoot_body_def)
  next
    case (Inr data)
    then show ?thesis
    proof (cases "SecureBoot_Check data")
      case None
      then have "PK data \<noteq> [] \<and> KEK data \<noteq> [] \<and> Db data \<noteq> []" by simp
      moreover have "nvram wd' = (if RebootIntoUEFIMenu data
          then fst (RequestRebootIntoUEFIMenu (lib_efi L) (fst (Provision (lib_efi L) (PK data) (KEK data) (Db data) (Dbx data) (nvram wd))))
          else fst (Provision (lib_efi L) (PK data) (KEK data) (Db data) (Dbx data) (nvram wd)))"
        using assms False Inr None by (auto simp: handleAddSecureBoot_def addSecureBoot_body_def split: prod.splits option.splits)
      ultimately show ?thesis using False Inr by simp
    next
      case (Some x)
      with assms False Inr show ?thesis by (auto simp: handleAddSecureBoot_def addSecureBoot_body_def)
    qed
  qed
qed

theorem secure_boot_needs_setup_mode_witness:
  "\<exists>code e. handleAddSecureBoot demo_lib (demo_request ''POST'' []) new_response
      (demo_world\<lparr>nvram := Map.empty(\<lparr>desc_Name = ''SetupMode'', GUID = str_bytes efiGlobalVariableGUID\<rparr> \<mapsto> (6, [0]))\<rparr>)
    = (demo_world\<lparr>nvram := Map.empty(\<lparr>desc_Name = ''SetupMode'', GUID = str_bytes efiGlobalVariableGUID\<rparr> \<mapsto> (6, [0]))\<rparr>, new_response, code, e)
    \<and> code = 403"
proof -
  let ?w = "demo_world\<lparr>nvram := Map.empty(\<lparr>desc_Name = ''SetupMode'', GUID = str_bytes efiGlobalVariableGUID\<rparr> \<mapsto> (6, [0]))\<rparr>"
  have s: "IsSetupMode (lib_efi demo_lib) (nvram ?w) = Inr False"
    by (simp add: IsSetupMode_def efiRead_def) (simp add: map_efi_def)
  obtain wd' w' code e where h: "handleAddSecureBoot demo_lib (demo_request ''POST'' []) new_response ?w = (wd', w', code, e)"
    by (metis prod_cases4)
  from secure_boot_needs_setup_mode [OF h] s have "wd' = ?w" "code = 403" by blast+
  moreover have "w' = new_response"
    using h by (auto simp: handleAddSecureBoot_def split: prod.splits)
  ultimately show ?thesis using h by blast
qed

text \<open>
  C11. A commit that does not fail stores the unique device secret it describes: the secret
  mixes the server's entropy with fresh randomness, and the body of the answer is the encoded
  response for that secret. The commit is signalled; the answer is lost exactly when the
  channel for signals was closed, or two signals were sent before.
\<close>

theorem handleCommit_describes_uds:
  assumes "message_laws (lib_json L)" "handleCommit L r new_response wd = (wd', w', code, None)"
  shows "\<exists>uds cr. UDS (srv wd') = Some uds
    \<and> fst (NewUniqueDeviceSecret (lib_crypto L) (srv_Entropy (srv wd)) (rand wd)) = Inr uds
    \<and> NewCommitResponse L uds (HostName (srv wd)) = Inr cr
    \<and> status_code w' = 200 \<and> Unmarshal_Commit (lib_json L) (written w') = Inr cr
    \<and> (aborted w' \<longleftrightarrow> commit_closed (srv wd) \<or> 2 \<le> commit (srv wd))
    \<and> (\<not> aborted w' \<longrightarrow> commit (srv wd') = Suc (commit (srv wd)))"
  using assms by (auto simp: handleCommit_def message_laws_def w_Write_def new_response_def status_code_def StatusOK_def
      split: sum.splits prod.splits option.splits if_splits)

theorem handleCommit_describes_uds_witness:
  "\<exists>wd' w' uds. handleCommit demo_lib (demo_request ''GET'' []) new_response demo_world = (wd', w', 200, None)
     \<and> UDS (srv wd') = Some uds"
proof -
  obtain uds rd where u: "NewUniqueDeviceSecret demo_crypto (replicate 32 0) (replicate 64 7) = (Inr uds, rd)"
    by (simp add: NewUniqueDeviceSecret_eq [OF demo_crypto_laws])
  obtain cr where c: "NewCommitResponse demo_lib uds ''host.local'' = Inr cr" using demo_NewCommitResponse by blast
  obtain b where b: "Marshal_Commit demo_json cr = Inr b" by (simp add: demo_json_def)
  obtain wd' w' where h: "handleCommit demo_lib (demo_request ''GET'' []) new_response demo_world = (wd', w', 200, None)"
    using u c b by (simp add: handleCommit_def demo_world_def demo_request_def StatusOK_def)
  have m: "message_laws (lib_json demo_lib)" by (simp add: demo_json_laws)
  from handleCommit_describes_uds [OF m h] h show ?thesis by blast
qed

subsection \<open>Run\<close>

text \<open>
  The life of a server. While it serves, requests are handled one at a time (handlers are
  taken to be atomic) until \<open>await\<close> receives the first commit signal and calls \<open>Shutdown\<close>.
  That ends the listener, and \<open>Run\<close> closes the channel for signals before it waits for
  \<open>Shutdown\<close>; requests that were accepted before may still be handled, before and after the
  channel is closed. If the listener dies, \<open>Run\<close> ends in the same way with an error. The
  context of \<open>listen\<close> is never cancelled while \<open>Run\<close> is running, so \<open>await\<close> only waits for
  the signal. \<open>Shutdown\<close> gives up after \<open>Timeout\<close>, and nothing bounds the time a handler takes
  (the context with the deadline is not read), so that a request may outlive \<open>Run\<close> and be
  handled while the operator is asked for confirmation.
\<close>

datatype phase = Serving | Closing | Closed "goerror option" | Returned "goerror option"

definition close_commit :: "('s, 'k) world \<Rightarrow> ('s, 'k) world" where
  "close_commit wd = wd\<lparr>srv := (srv wd)\<lparr>commit_closed := True\<rparr>\<rparr>"

inductive run_step :: "('s, 'c, 'k) lib \<Rightarrow> phase \<times> ('s, 'k) world \<Rightarrow> phase \<times> ('s, 'k) world \<Rightarrow> bool" for L where
  request: "serve L path r wd = (wd', w) \<Longrightarrow> run_step L (Serving, wd) (Serving, wd')"
| await: "0 < commit (srv wd) \<Longrightarrow> run_step L (Serving, wd) (Closing, wd)"
| in_flight: "serve L path r wd = (wd', w) \<Longrightarrow> run_step L (Closing, wd) (Closing, wd')"
| close: "run_step L (Closing, wd) (Closed None, close_commit wd)"
| died: "run_step L (Serving, wd) (Closed (Some (Wrapf ''server died'' e)), close_commit wd)"
| late: "serve L path r wd = (wd', w) \<Longrightarrow> run_step L (Closed e, wd) (Closed e, wd')"
| return: "run_step L (Closed e, wd) (Returned e, wd)"
| outlived: "serve L path r wd = (wd', w) \<Longrightarrow> run_step L (Returned e, wd) (Returned e, wd')"

lemma close_commit_srv [simp]:
  "UDS (srv (close_commit wd)) = UDS (srv wd)" "HostName (srv (close_commit wd)) = HostName (srv wd)"
  "nvram (close_commit wd) = nvram wd" "server_inv cfg pw (srv (close_commit wd)) = server_inv cfg pw (srv wd)"
  by (simp_all add: close_commit_def server_inv_def ServerConfig.defs)

text \<open>The world is the one in which \<open>listen\<close> reads the secret after \<open>Run\<close> has returned.\<close>

definition Run :: "('s, 'c, 'k) lib \<Rightarrow> ('s, 'k) world \<Rightarrow> goerror option \<Rightarrow> ('s, 'k) world \<Rightarrow> bool" where
  "Run L wd e wd' \<longleftrightarrow> (run_step L)\<^sup>*\<^sup>* (Serving, wd) (Returned e, wd')"

text \<open>The invariant of a run: once the signal was received there is a secret.\<close>

definition run_inv :: "ServerConfig \<Rightarrow> string \<Rightarrow> phase \<times> ('s, 'k) world \<Rightarrow> bool" where
  "run_inv cfg pw c \<longleftrightarrow> server_inv cfg pw (srv (snd c))
     \<and> (fst c \<in> {Closing, Closed None, Returned None} \<longrightarrow> UDS (srv (snd c)) \<noteq> None)"

lemma run_inv_serve: "serve L path r wd = (wd', w) \<Longrightarrow> run_inv cfg pw (ph, wd) \<Longrightarrow> run_inv cfg pw (ph, wd')"
  by (auto simp: run_inv_def dest: serve_inv serve_uds)

lemma run_step_inv: "run_step L c c' \<Longrightarrow> run_inv cfg pw c \<Longrightarrow> run_inv cfg pw c'"
proof (induction rule: run_step.induct)
  case (await wd)
  then show ?case by (auto simp: run_inv_def server_inv_def)
qed (auto simp: run_inv_def intro: run_inv_serve [unfolded run_inv_def] dest: serve_inv serve_uds)

lemma run_inv_reachable: "(run_step L)\<^sup>*\<^sup>* c c' \<Longrightarrow> run_inv cfg pw c \<Longrightarrow> run_inv cfg pw c'"
  by (induction rule: rtranclp_induct) (auto dest: run_step_inv)

text \<open>
  C7. A server made by \<open>NewServer\<close> keeps its configuration, its password, 32 bytes of
  entropy and a non-negative timestamp through any sequence of requests, and when \<open>Run\<close>
  returns without an error it has a unique device secret of 32 bytes.
\<close>

theorem Run_has_uds:
  assumes "NewServer L cfg = Inr s" "Run L \<lparr>nvram = v, rand = rd, srv = s\<rparr> e wd'"
  shows "ServerConfig.truncate (srv wd') = cfg \<and> basicAuthPassword (srv wd') = basicAuthPassword s
    \<and> length (srv_Entropy (srv wd')) = 32 \<and> 0 \<le> srv_Timestamp (srv wd')
    \<and> (e = None \<longrightarrow> (\<exists>uds. UDS (srv wd') = Some uds \<and> length uds = 32))"
proof -
  have "run_inv cfg (basicAuthPassword s) (Serving, \<lparr>nvram = v, rand = rd, srv = s\<rparr>)"
    using NewServer_inv [OF assms(1)] by (simp add: run_inv_def)
  with assms(2) have "run_inv cfg (basicAuthPassword s) (Returned e, wd')"
    unfolding Run_def by (rule run_inv_reachable)
  then show ?thesis by (auto simp: run_inv_def server_inv_def)
qed

lemma route_commit: "route L ''/stprov/v0.0.1/commit''
    = Some \<lparr>Endpoint = EndpointCommit, hMethod = MethodGet, HandlerFunc = handleCommit L\<rparr>"
  by (simp add: route_def handlers_def Protocol_def EndpointAddData_def EndpointAddSecureBoot_def EndpointCommit_def)

lemma serve_commit_ok:
  assumes "serve L ''/stprov/v0.0.1/commit'' r wd = (wd1, w1)" "status_code w1 = 200" "\<not> aborted w1"
  shows "\<exists>code. handleCommit L r new_response wd = (wd1, w1, code, None)"
proof -
  have n: "status new_response = None" by (simp add: new_response_def)
  note c = assms(1,2) [unfolded serve_def route_commit]
  then have g: "verifyMethod MethodGet new_response r = None" "verifyNetwork (srv wd) new_response r = None"
    "authenticateUser (srv wd) new_response r = None"
    by (auto simp: ServeHTTP_def verifyMethod_def verifyNetwork_def authenticateUser_def http_Error_def n status_code_def
        status_defs split: option.splits if_splits sum.splits prod.splits)
  obtain wd' w' code e where h: "handleCommit L r new_response wd = (wd', w', code, e)" by (metis prod_cases4)
  have "e = None"
  proof (rule ccontr)
    assume "e \<noteq> None"
    then obtain x where "e = Some x" by blast
    with do_commit.fails_frame [of L r new_response wd wd' w' code x] h c g assms(3) show False
      by (auto simp: ServeHTTP_def http_Error_def n status_code_def StatusOK_def)
  qed
  with h c g show ?thesis by (simp add: ServeHTTP_def)
qed

lemma commit_Run_returns:
  assumes "serve L ''/stprov/v0.0.1/commit'' r wd = (wd1, w1)" "status_code w1 = 200" "\<not> aborted w1"
  shows "\<exists>wd'. Run L wd None wd' \<and> UDS (srv wd') = UDS (srv wd1) \<and> UDS (srv wd1) \<noteq> None \<and> nvram wd' = nvram wd"
proof -
  from serve_commit_ok [OF assms] obtain code where "handleCommit L r new_response wd = (wd1, w1, code, None)" ..
  then have c: "0 < commit (srv wd1)" "nvram wd1 = nvram wd" "UDS (srv wd1) \<noteq> None"
    using assms(3) by (auto simp: handleCommit_def split: sum.splits prod.splits option.splits if_splits)
  have "run_step L (Serving, wd) (Serving, wd1)" using assms(1) by (rule run_step.request)
  moreover have "run_step L (Serving, wd1) (Closing, wd1)" using c(1) by (rule run_step.await)
  moreover have "run_step L (Closing, wd1) (Closed None, close_commit wd1)" by (rule run_step.close)
  moreover have "run_step L (Closed None, close_commit wd1) (Returned None, close_commit wd1)" by (rule run_step.return)
  ultimately have "Run L wd None (close_commit wd1)" unfolding Run_def by (meson converse_rtranclp_into_rtranclp rtranclp.rtrancl_refl)
  then show ?thesis using c(2,3) by (intro exI [of _ "close_commit wd1"]) simp
qed

text \<open>
  C30. A commit request that is answered with 200 lets \<open>Run\<close> return without an error, with
  the secret of that commit when no other request intervenes.
\<close>

theorem commit_lets_Run_return:
  assumes "serve L ''/stprov/v0.0.1/commit'' r wd = (wd1, w1)" "status_code w1 = 200" "\<not> aborted w1"
  shows "\<exists>wd'. Run L wd None wd' \<and> UDS (srv wd') = UDS (srv wd1) \<and> UDS (srv wd1) \<noteq> None \<and> nvram wd' = nvram wd"
  using assms by (rule commit_Run_returns)

theorem commit_lets_Run_return_witness:
  "\<exists>wd'. Run demo_lib demo_world None wd' \<and> UDS (srv wd') \<noteq> None"
proof -
  obtain wd1 w1 where "serve demo_lib ''/stprov/v0.0.1/commit'' (demo_request MethodGet []) demo_world = (wd1, w1)"
    "status_code w1 = 200" "\<not> aborted w1" using demo_commit by (auto simp: StatusOK_def)
  from commit_lets_Run_return [OF this] show ?thesis by auto
qed

theorem Run_has_uds_witness:
  "\<exists>s wd' uds. NewServer demo_lib (ServerConfig.truncate (srv demo_world)) = Inr s
     \<and> Run demo_lib \<lparr>nvram = Map.empty, rand = replicate 64 7, srv = s\<rparr> (Some (Wrapf ''server died'' (External ''bind''))) wd'
     \<and> length (srv_Entropy (srv wd')) = 32"
proof -
  have "\<exists>s. NewServer demo_lib (ServerConfig.truncate (srv demo_world)) = Inr s"
    by (simp add: NewServer_def NewOneTimePassword_def TLSCertificate_def keyGen_def ed25519_GenerateKey_def ReadFull_def
        BasicAuthPassword_def read_entropy_hkdf [OF demo_crypto_laws] length_Reader [OF demo_crypto_laws] Let_def)
  then obtain s where s: "NewServer demo_lib (ServerConfig.truncate (srv demo_world)) = Inr s" ..
  let ?w = "\<lparr>nvram = Map.empty, rand = replicate 64 7, srv = s\<rparr>"
  have "run_step demo_lib (Serving, ?w) (Closed (Some (Wrapf ''server died'' (External ''bind''))), close_commit ?w)"
    by (rule run_step.died)
  moreover have "run_step demo_lib (Closed e, close_commit ?w) (Returned e, close_commit ?w)" for e by (rule run_step.return)
  ultimately have r: "Run demo_lib ?w (Some (Wrapf ''server died'' (External ''bind''))) (close_commit ?w)"
    unfolding Run_def by (meson converse_rtranclp_into_rtranclp rtranclp.rtrancl_refl)
  from Run_has_uds [OF s r] s r show ?thesis by blast
qed

end
