(* ===== verification/RunPhases.thy ===== *)
theory RunPhases
  imports ApiRun
begin

section \<open>The phases of a server's life\<close>

text \<open>
  A server goes through its phases in one direction: it serves, stops to accept requests,
  has closed its channel, has returned. The phases are ordered by that.
\<close>

fun phase_rank :: "phase \<Rightarrow> nat" where
  "phase_rank Serving = 0"
| "phase_rank Closing = 1"
| "phase_rank (Closed e) = 2"
| "phase_rank (Returned e) = 3"

instantiation phase :: order
begin

definition less_eq_phase :: "phase \<Rightarrow> phase \<Rightarrow> bool" where
  "less_eq_phase p q \<longleftrightarrow> p = q \<or> phase_rank p < phase_rank q"

definition less_phase :: "phase \<Rightarrow> phase \<Rightarrow> bool" where
  "less_phase p q \<longleftrightarrow> phase_rank p < phase_rank q"

instance
  by standard (auto simp: less_eq_phase_def less_phase_def)

end

lemma run_step_forward: "run_step L c c' \<Longrightarrow> fst c \<le> fst c'"
  by (induction rule: run_step.induct) (auto simp: less_eq_phase_def)

lemma run_forward: "(run_step L)\<^sup>*\<^sup>* c c' \<Longrightarrow> fst c \<le> fst c'"
  by (induction rule: rtranclp_induct) (auto dest: run_step_forward)

subsection \<open>The server's own steps\<close>

text \<open>
  The steps of \<open>Run\<close> and \<open>await\<close> that are no requests: \<open>await\<close> receives a signal and calls
  \<open>Shutdown\<close>; the listener ends and the channel is closed, or the listener dies; \<open>Run\<close>
  returns.
\<close>

inductive quiet_step :: "('s, 'c, 'k) lib \<Rightarrow> phase \<times> ('s, 'k) world \<Rightarrow> phase \<times> ('s, 'k) world \<Rightarrow> bool" for L where
  await: "0 < commit (srv wd) \<Longrightarrow> quiet_step L (Serving, wd) (Closing, wd)"
| close: "quiet_step L (Closing, wd) (Closed None, close_commit wd)"
| died: "quiet_step L (Serving, wd) (Closed (Some (Wrapf ''server died'' e)), close_commit wd)"
| return: "quiet_step L (Closed e, wd) (Returned e, wd)"

text \<open>What such a step does, by phase.\<close>

inductive_simps quiet_step_simps:
  "quiet_step L (Serving, wd) c"
  "quiet_step L (Closing, wd) c"
  "quiet_step L (Closed e, wd) c"
  "quiet_step L (Returned e, wd) c"

lemma quiet_step_server: "quiet_step L (ph, wd) (ph', wd') \<Longrightarrow> wd' = wd \<or> wd' = close_commit wd"
  by (cases ph) (auto simp: quiet_step_simps)

lemma quiet_run_step: "quiet_step L c c' \<Longrightarrow> run_step L c c'"
  by (induction rule: quiet_step.induct) (auto intro: run_step.intros)

text \<open>A step of a run is a request, in any phase, or one of these.\<close>

lemma request_run_step: "serve L path r wd = (wd', w) \<Longrightarrow> run_step L (ph, wd) (ph, wd')"
  by (cases ph) (auto intro: run_step.intros)

lemma run_step_cases:
  assumes "run_step L (ph, wd) (ph', wd')"
  obtains (request) path r w where "ph' = ph" "serve L path r wd = (wd', w)"
  | (quiet) "quiet_step L (ph, wd) (ph', wd')"
  using assms by cases (auto intro: quiet_step.intros)

subsection \<open>Runs with their requests\<close>

text \<open>
  A run together with the requests that were handled, in order: path, request, the world
  before and after, and the response. Every run has such a record.
\<close>

record ('s, 'k) exchange =
  ex_path :: string
  ex_request :: request
  ex_before :: "('s, 'k) world"
  ex_after :: "('s, 'k) world"
  ex_response :: response

inductive run_trace :: "('s, 'c, 'k) lib \<Rightarrow> phase \<times> ('s, 'k) world \<Rightarrow> ('s, 'k) exchange list
    \<Rightarrow> phase \<times> ('s, 'k) world \<Rightarrow> bool" for L c where
  start: "run_trace L c [] c"
| request: "run_trace L c es (ph, wd) \<Longrightarrow> serve L path r wd = (wd', w) \<Longrightarrow>
    run_trace L c (es @ [\<lparr>ex_path = path, ex_request = r, ex_before = wd, ex_after = wd', ex_response = w\<rparr>]) (ph, wd')"
| quiet: "run_trace L c es (ph, wd) \<Longrightarrow> quiet_step L (ph, wd) (ph', wd') \<Longrightarrow> run_trace L c es (ph', wd')"

lemma run_trace_reachable: "run_trace L c es c' \<Longrightarrow> (run_step L)\<^sup>*\<^sup>* c c'"
  by (induction rule: run_trace.induct) (auto intro: request_run_step quiet_run_step rtranclp.rtrancl_into_rtrancl)

lemma reachable_run_trace: "(run_step L)\<^sup>*\<^sup>* c c' \<Longrightarrow> \<exists>es. run_trace L c es c'"
proof (induction rule: rtranclp_induct)
  case base
  show ?case by (blast intro: run_trace.start)
next
  case (step c1 c2)
  obtain ph wd ph' wd' where c: "c1 = (ph, wd)" "c2 = (ph', wd')" by (cases c1, cases c2)
  from step(3) obtain es where es: "run_trace L c es (ph, wd)" using c by blast
  from step(2) have "run_step L (ph, wd) (ph', wd')" by (simp add: c)
  then show ?case
  proof (cases rule: run_step_cases)
    case (request path r w)
    with run_trace.request [OF es request(2)] c show ?thesis by blast
  next
    case quiet
    with run_trace.quiet [OF es] c show ?thesis by blast
  qed
qed

lemma run_trace_iff: "(run_step L)\<^sup>*\<^sup>* c c' \<longleftrightarrow> (\<exists>es. run_trace L c es c')"
  using run_trace_reachable reachable_run_trace by blast

lemma Run_run_trace: "Run L wd e wd' \<longleftrightarrow> (\<exists>es. run_trace L (Serving, wd) es (Returned e, wd'))"
  by (simp add: Run_def run_trace_iff)

end
