(* ===== verification/RemoteRun.thy ===== *)
theory RemoteRun
  imports RunPhases StConfig Hexify
begin

section \<open>stprov remote run: subcmd/remote/run\<close>

text \<open>
  The command that starts the server, waits for a commit, asks the operator to confirm and
  writes the host key. Since the server's life is a step relation, \<open>listen\<close> and \<open>Main\<close> are
  relations between the firmware's variables and the randomness before and after, and an
  outcome. Dereferencing a missing secret would panic; that is an outcome of its own, and a
  theorem shows that it does not happen. Logging and the hex dump on the terminal are left
  out.
\<close>

text \<open>\<open>%v\<close> of a list of texts.\<close>

definition show_list :: "string list \<Rightarrow> string" where
  "show_list xs = ''['' @ strings_Join xs '' '' @ '']''"

subsection \<open>Allowed networks\<close>

definition complete_prefix :: "string \<Rightarrow> goerror + string" where
  "complete_prefix addr =
     (if \<not> strings_Contains addr ''/'' then
        (case ParseIP addr of
           None \<Rightarrow> Inl (Errorf (''malformed address: '' @ addr))
         | Some p \<Rightarrow>
             if To4 p \<noteq> None then Inr (addr @ ''/32'')
             else if To16 p \<noteq> None then Inr (addr @ ''/128'')
             else Inr addr)
      else Inr addr)"

fun parseAllowedNets :: "string list \<Rightarrow> goerror + ipnet list" where
  "parseAllowedNets [] = Inr []"
| "parseAllowedNets (addr # addresses) =
     (case complete_prefix addr of
        Inl e \<Rightarrow> Inl e
      | Inr addr' \<Rightarrow>
          (case ParseCIDR addr' of
             Inl e \<Rightarrow> Inl (Errorf (''malformed address: '' @ addr'))
           | Inr (_, cidr) \<Rightarrow>
               (case parseAllowedNets addresses of
                  Inl e \<Rightarrow> Inl e
                | Inr nets \<Rightarrow> Inr (cidr # nets))))"

subsection \<open>Listening\<close>

text \<open>
  Standard input is what can be read from it and the error, \<open>EOF\<close> as a rule, behind that.
  \<open>readLine\<close> returns the text up to and with the first newline. The prompt is left out.
\<close>

definition readLine :: "string \<times> goerror \<Rightarrow> goerror + string" where
  "readLine stdin =
     (case stdin of (typed, err) \<Rightarrow>
        if CHR 0x0A \<in> set typed then Inr (takeWhile (\<lambda>c. c \<noteq> CHR 0x0A) typed @ [CHR 0x0A]) else Inl err)"

text \<open>The operator presses Enter.\<close>

definition enter :: "string \<times> goerror" where
  "enter = ([CHR 0x0A], External ''EOF'')"

lemma readLine_enter [simp]: "readLine enter = Inr [CHR 0x0A]"
  by (simp add: readLine_def enter_def)

definition listen :: "('s, 'c, 'k) lib \<Rightarrow> string \<Rightarrow> ipnet list \<Rightarrow> ip \<Rightarrow> int \<Rightarrow> string \<Rightarrow> string \<times> goerror
    \<Rightarrow> 's \<times> bytes \<Rightarrow> goerror + bytes option \<Rightarrow> 's \<times> bytes \<Rightarrow> bool" where
  "listen L otp allowNets addr port hostname stdin st res st' \<longleftrightarrow>
     (let cfg = \<lparr>Secret = otp, RemoteIP = addr, RemotePort = port, LocalCIDR = allowNets, HostName = hostname,
                 Deadline = 15000000000, Timeout = 60000000000\<rparr> in
      case NewServer L cfg of
        Inl e \<Rightarrow> res = Inl (Wrapf ''new server'' e) \<and> st' = st
      | Inr s \<Rightarrow>
          (\<exists>e wd. Run L \<lparr>nvram = fst st, rand = snd st, srv = s\<rparr> e wd \<and> st' = (nvram wd, rand wd)
             \<and> res = (case e of
                  Some x \<Rightarrow> Inl (Wrapf ''run server'' x)
                | None \<Rightarrow> (case readLine stdin of
                     Inl x \<Rightarrow> Inl (Wrapf ''read confirmation'' x)
                   | Inr _ \<Rightarrow> Inr (UDS (srv wd))))))"

definition writeHostKey :: "('s, 'c, 'k) lib \<Rightarrow> bytes \<Rightarrow> bytes \<Rightarrow> string \<Rightarrow> 's \<Rightarrow> 's \<times> goerror option" where
  "writeHostKey L uds varUUID name s =
     (case SSH (lib_crypto L) (lib_ssh L) uds of
        Inl e \<Rightarrow> (s, Some e)
      | Inr hk \<Rightarrow> WriteEFI (lib_efi L) (lib_ssh L) hk varUUID name s)"

datatype run_outcome = Success | Failure goerror | NilDereference

text \<open>The checks of the options, in order.\<close>

definition run_options :: "string list \<Rightarrow> int \<Rightarrow> string \<Rightarrow> string list \<Rightarrow> string \<Rightarrow> goerror + ip \<times> ipnet list" where
  "run_options args optPort optIP optAllowHosts optOTP =
     (if args \<noteq> [] then Inl (Errorf (''trailing arguments: '' @ show_list args))
      else if optOTP = [] then Inl (Errorf ''otp: one-time password is a required option'')
      else if optPort < 1 \<or> optPort > 65535
      then Inl (Errorf (''port: invalid: '' @ show_int optPort @ '' not in [1, 65535]''))
      else (case ParseIP optIP of
          None \<Rightarrow> Inl (Errorf (''ip: malformed ip address: '' @ optIP))
        | Some p \<Rightarrow> (case parseAllowedNets optAllowHosts of
            Inl e \<Rightarrow> Inl e
          | Inr nets \<Rightarrow> Inr (p, nets))))"

definition run_Main :: "('s, 'c, 'k) lib \<Rightarrow> string list \<Rightarrow> int \<Rightarrow> string \<Rightarrow> string list \<Rightarrow> string \<Rightarrow> bytes \<Rightarrow> string \<Rightarrow> string
    \<Rightarrow> string \<times> goerror \<Rightarrow> 's \<times> bytes \<Rightarrow> run_outcome \<Rightarrow> 's \<times> bytes \<Rightarrow> bool" where
  "run_Main L args optPort optIP optAllowHosts optOTP efiUUID efiKeyName efiHostName stdin st out st' \<longleftrightarrow>
     (case run_options args optPort optIP optAllowHosts optOTP of
        Inl e \<Rightarrow> out = Failure e \<and> st' = st
      | Inr (addr, allowNets) \<Rightarrow>
          (case HostName_ReadEFI (lib_efi L) efiUUID efiHostName (fst st) of
             Inl e \<Rightarrow> out = Failure (Wrapf (''ReadEFI: '' @ efiHostName) e) \<and> st' = st
           | Inr hostname \<Rightarrow>
               (\<exists>res st1. listen L optOTP allowNets addr optPort hostname stdin st res st1
                  \<and> (case res of
                       Inl e \<Rightarrow> out = Failure (Wrapf ''listen'' e) \<and> st' = st1
                     | Inr None \<Rightarrow> out = NilDereference \<and> st' = st1
                     | Inr (Some uds) \<Rightarrow>
                         (case writeHostKey L uds efiUUID efiKeyName (fst st1) of
                            (s, Some e) \<Rightarrow> out = Failure (Wrapf ''persist host key'' e) \<and> st' = (s, snd st1)
                          | (s, None) \<Rightarrow> out = Success \<and> st' = (s, snd st1))))))"

text \<open>A secret is handed on only by a run that ended without error and was confirmed.\<close>

lemma listen_InrE:
  assumes "listen L otp nets addr port hostname stdin st (Inr uds) st'"
  obtains s wd line where
    "NewServer L \<lparr>Secret = otp, RemoteIP = addr, RemotePort = port, LocalCIDR = nets, HostName = hostname,
       Deadline = 15000000000, Timeout = 60000000000\<rparr> = Inr s"
    "Run L \<lparr>nvram = fst st, rand = snd st, srv = s\<rparr> None wd" "uds = UDS (srv wd)" "st' = (nvram wd, rand wd)"
    "readLine stdin = Inr line"
  using assms by (cases "readLine stdin") (auto simp: listen_def split: sum.splits option.splits)

subsection \<open>Which clients are admitted\<close>

lemma string4_no: "CHR '':'' \<notin> set (string4 a)" "CHR ''['' \<notin> set (string4 a)" "CHR '']'' \<notin> set (string4 a)" "CHR ''/'' \<notin> set (string4 a)"
  using string4_chars [of _ a] by (fastforce simp: is_digit_def)+

lemma string6_no: "CHR ''['' \<notin> set (string6 a)" "CHR '']'' \<notin> set (string6 a)" "CHR ''/'' \<notin> set (string6 a)"
  using string6_chars [of _ a] by (fastforce simp: is_hexdigit_def is_digit_def)+

lemma IP_String_plain:
  "plain_ip a \<Longrightarrow> IP_String a = (if length a = 4 then string4 a else string6 a)"
  by (auto simp: plain_ip_def IP_String_def To4_v4)

lemma plain_ip_text:
  assumes "plain_ip a"
  shows "CHR ''/'' \<notin> set (IP_String a)" "plain_host (IP_String a)"
    "ParseIP (IP_String a) = Some (if length a = 4 then v4InV6Prefix @ a else a)"
    "CHR '':'' \<in> set (IP_String a) \<longleftrightarrow> length a = 16"
  using assms string6_has_colon [of a]
  by (auto simp: IP_String_plain string4_no string6_no plain_host_def ParseIP_def plain_ip_def ParseAddr_string4 ParseAddr_string6)

lemma Contains_mapped: "length a = 4 \<Longrightarrow> IPNet_Contains n (v4InV6Prefix @ a) = IPNet_Contains n a"
  by (simp add: IPNet_Contains_def To4_v4)

lemma verifyNetwork_iff:
  assumes "plain_ip a" "plain_host port" "CHR '':'' \<notin> set port"
  shows "verifyNetwork s w (r\<lparr>RemoteAddr := JoinHostPort (IP_String a) port\<rparr>) = None
    \<longleftrightarrow> (\<exists>n \<in> set (LocalCIDR s). IPNet_Contains n a)"
  using assms Split_Join_HostPort [OF plain_ip_text(2) [OF assms(1)] assms(2,3)] plain_ip_text(3) [OF assms(1)]
  by (auto simp: verifyNetwork_def list_ex_iff Contains_mapped)

text \<open>
  A client's request passes the network check exactly when the client's address, as
  \<open>net/http\<close> writes it with the port, lies in one of the allowed networks.
\<close>

theorem verifyNetwork_admits:
  assumes "plain_ip a" "plain_host port" "CHR '':'' \<notin> set port"
  shows "verifyNetwork s w (r\<lparr>RemoteAddr := JoinHostPort (IP_String a) port\<rparr>) = None
    \<longleftrightarrow> (\<exists>n \<in> set (LocalCIDR s). IPNet_Contains n a)"
  using assms by (rule verifyNetwork_iff)

theorem verifyNetwork_admits_witness:
  "verifyNetwork (srv demo_world) w ((demo_request ''GET'' [])\<lparr>RemoteAddr := JoinHostPort (IP_String [10, 0, 2, 77]) ''40000''\<rparr>) = None"
proof -
  have a: "plain_ip [10, 0, 2, 77]" "plain_host ''40000''" "CHR '':'' \<notin> set ''40000''" by (simp_all add: plain_ip_def plain_host_def)
  have "IPNet_Contains \<lparr>IP = [10, 0, 2, 0], Mask = [255, 255, 255, 0]\<rparr> [10, 0, 2, 77]" by code_simp
  then have "\<exists>n \<in> set (LocalCIDR (srv demo_world)). IPNet_Contains n [10, 0, 2, 77]" by (simp add: demo_world_def)
  then show ?thesis by (rule iffD2 [OF verifyNetwork_admits [OF a]])
qed

lemma plain_canon: "plain_ip a \<Longrightarrow> canon a = a"
  by (auto simp: plain_ip_def canon_def To4_v4)

lemma host_net:
  assumes "plain_ip a"
  defines "net \<equiv> \<lparr>IP = a, Mask = CIDRMask (8 * length a) (length a)\<rparr>"
  shows "wf_net net" "prefix_length net = 8 * length a" "IPNet_Contains net x \<longleftrightarrow> canon x = a"
proof -
  have m: "map2 (AND) a (CIDRMask (8 * length a) (length a)) = a"
  proof -
    have "bits_of (map2 (AND) a (CIDRMask (8 * length a) (length a))) = bits_of a"
      using bits_of_masked [of a "length a" "8 * length a"] by simp
    then show ?thesis by (simp add: bits_of_inject)
  qed
  show wf: "wf_net net" unfolding wf_net_def net_def
    by (rule exI [of _ "length a"], rule exI [of _ "8 * length a"]) (use assms(1) m in \<open>auto simp: plain_ip_def\<close>)
  show p: "prefix_length net = 8 * length a" by (simp add: net_def prefix_length_def Mask_Size_CIDRMask)
  have "IPNet_Contains net x \<longleftrightarrow> length (canon x) = length a \<and> bits_of (canon x) = bits_of a"
    using Contains_prefix [OF wf, of x] p by (auto simp: net_def)
  then show "IPNet_Contains net x \<longleftrightarrow> canon x = a" by (auto simp: bits_of_inject)
qed

lemma complete_prefix_plain:
  assumes "plain_ip a"
  shows "complete_prefix (IP_String a) = Inr (appendPrefixLength (IP_String a))"
proof -
  note t = plain_ip_text [OF assms]
  have n: "\<not> suffix ''/32'' (IP_String a)" "\<not> suffix ''/128'' (IP_String a)" using t(1) by (auto simp: suffix_def)
  show ?thesis using assms t n
    by (auto simp: complete_prefix_def appendPrefixLength_def strings_HasSuffix_def plain_ip_def To4_v4
        show_host_lengths To16_def)
qed

text \<open>
  An address given with \<open>-a\<close> without a prefix admits that address only.
\<close>

theorem bare_address_admits_itself:
  assumes "plain_ip a"
  shows "\<exists>net. parseAllowedNets [IP_String a] = Inr [net] \<and> (IPNet_Contains net x \<longleftrightarrow> canon x = a)"
proof -
  obtain gip where "ParseCIDR (appendPrefixLength (IP_String a)) = Inr (gip, \<lparr>IP = a, Mask = CIDRMask (8 * length a) (length a)\<rparr>)"
    using assms by (rule plain_text)
  then have "parseAllowedNets [IP_String a] = Inr [\<lparr>IP = a, Mask = CIDRMask (8 * length a) (length a)\<rparr>]"
    by (simp add: complete_prefix_plain [OF assms])
  then show ?thesis using host_net(3) [OF assms] by simp
qed

theorem bare_address_admits_itself_witness:
  "\<exists>net. parseAllowedNets [IP_String [10, 0, 2, 2]] = Inr [net] \<and> \<not> IPNet_Contains net [10, 0, 2, 3]"
proof -
  have "plain_ip [10, 0, 2, 2]" "canon [10, 0, 2, 3] = [10, 0, 2, 3]" by (simp_all add: plain_ip_def canon_def To4_def)
  then show ?thesis using bare_address_admits_itself [of "[10, 0, 2, 2]" "[10, 0, 2, 3]"] by auto
qed

end
