(* ===== verification/RemoteFacts.thy ===== *)
theory RemoteFacts
  imports RemoteRun
begin

section \<open>What stprov remote run guarantees\<close>

subsection \<open>Mapped addresses\<close>

lemma mapped_split: "length p = 16 \<Longrightarrow> To4 p \<noteq> None \<Longrightarrow> p = v4InV6Prefix @ drop 12 p \<and> length (drop 12 p) = 4"
  by (auto simp: To4_def split: if_splits) (metis append_take_drop_id)

lemma and_zero_mask [simp]: "x AND - 256 = (0 :: byte)"
proof -
  have "256 = (0 :: byte)" by simp
  then have "- 256 = (0 :: byte)" by (simp only: minus_zero)
  then show ?thesis by (simp only: and_zero_eq)
qed

lemma mapped_net: "length d = 4 \<Longrightarrow> map2 (AND) (v4InV6Prefix @ d) (CIDRMask 32 16) = replicate 16 0"
  by (auto simp: v4InV6Prefix_def length_Suc_conv numeral_eq_Suc mask_byte_def)

text \<open>
  C32. An IPv4 address that is given with \<open>-a\<close> in IPv6 notation (as \<open>::ffff:10.0.2.2\<close>)
  gets the prefix length of an IPv4 address but is masked as an IPv6 address: the allowed
  network is \<open>::/32\<close>, which does not contain the address, and contains others.
\<close>

theorem mapped_address_excludes_itself:
  assumes "netip_ParseAddr addr = Some (Addr6 p [])" "To4 p \<noteq> None" "CHR ''/'' \<notin> set addr"
  shows "\<exists>net. parseAllowedNets [addr] = Inr [net] \<and> \<not> IPNet_Contains net p
    \<and> IPNet_Contains net (replicate 15 0 @ [1])"
proof -
  let ?net = "\<lparr>IP = replicate 16 0, Mask = CIDRMask 32 16\<rparr>"
  have l: "length p = 16" using ParseAddr_wf [OF assms(1)] by simp
  obtain d where d: "p = v4InV6Prefix @ d" "length d = 4" using mapped_split [OF l assms(2)] by blast
  have "complete_prefix addr = Inr (addr @ ''/'' @ show_nat 32)"
    using assms by (auto simp: complete_prefix_def ParseIP_def show_host_lengths)
  moreover have "ParseCIDR (addr @ ''/'' @ show_nat 32) = Inr (p, ?net)"
    using ParseCIDR_parts [OF assms(1,3), of 32] l mapped_net [OF d(2)] by (simp add: IP_Mask_v6 d)
  ultimately have "parseAllowedNets [addr] = Inr [?net]" by simp
  moreover have "\<not> IPNet_Contains ?net p"
  proof -
    have "networkNumberAndMask ?net = Some (replicate 16 0, CIDRMask 32 16)" by code_simp
    then show ?thesis using d by (simp add: IPNet_Contains_def)
  qed
  moreover have "IPNet_Contains ?net (replicate 15 0 @ [1])" by code_simp
  ultimately show ?thesis by blast
qed

theorem mapped_address_excludes_itself_witness:
  "\<exists>net. parseAllowedNets [''::ffff:10.0.2.2''] = Inr [net] \<and> \<not> IPNet_Contains net (v4InV6Prefix @ [10, 0, 2, 2])"
proof -
  have "netip_ParseAddr ''::ffff:10.0.2.2'' = Some (Addr6 (v4InV6Prefix @ [10, 0, 2, 2]) [])" by code_simp
  moreover have "CHR ''/'' \<notin> set ''::ffff:10.0.2.2''" by simp
  ultimately show ?thesis using mapped_address_excludes_itself [of "''::ffff:10.0.2.2''"] by auto
qed

subsection \<open>The address the server listens on\<close>

lemma IP_String_mapped: "length d = 4 \<Longrightarrow> IP_String (v4InV6Prefix @ d) = string4 d"
proof -
  have l: "length v4InV6Prefix = 12" by (simp add: v4InV6Prefix_def)
  then have "v4InV6Prefix \<noteq> []" by auto
  with l show "length d = 4 \<Longrightarrow> ?thesis" by (simp add: IP_String_def)
qed

lemma show_int_port: "1 \<le> port \<Longrightarrow> plain_host (show_int port) \<and> CHR '':'' \<notin> set (show_int port)"
  using show_nat_digits [of _ "nat port"] by (fastforce simp: show_int_def plain_host_def is_digit_def)

lemma ParseIP_length: "ParseIP txt = Some a \<Longrightarrow> length a = 16"
proof -
  assume "ParseIP txt = Some a"
  then obtain b where b: "netip_ParseAddr txt = Some b" "a = addr_As16 b"
    by (auto simp: ParseIP_def split: option.splits if_splits)
  then show ?thesis using ParseAddr_wf [OF b(1)] by (cases b) (simp_all add: v4InV6Prefix_def)
qed

lemma IPv4_text:
  assumes "ParseIP txt = Some a" "To4 a \<noteq> None"
  shows "ParseIP (IP_String a) = Some a" "CHR '':'' \<notin> set (IP_String a)" "plain_host (IP_String a)"
proof -
  obtain d where d: "a = v4InV6Prefix @ d" "length d = 4" using mapped_split [OF ParseIP_length [OF assms(1)] assms(2)] by blast
  then have p: "plain_ip d" by (simp add: plain_ip_def)
  have "IP_String a = IP_String d" using d p by (simp add: IP_String_mapped IP_String_plain)
  with plain_ip_text [OF p] d show "ParseIP (IP_String a) = Some a" "CHR '':'' \<notin> set (IP_String a)" "plain_host (IP_String a)" by simp_all
qed

lemma NewServer_Addr: "NewServer L cfg = Inr s \<Longrightarrow> Addr s = IP_String (RemoteIP cfg) @ '':'' @ show_int (RemotePort cfg)"
  by (auto simp: NewServer_def ServerConfig.defs split: sum.splits)

lemma NewServer_listens:
  assumes "NewServer L cfg = Inr s" "ParseIP txt = Some (RemoteIP cfg)" "1 \<le> RemotePort cfg" "To4 (RemoteIP cfg) \<noteq> None"
  shows "SplitHostPort (Addr s) = Inr (IP_String (RemoteIP cfg), show_int (RemotePort cfg))"
    "ParseIP (IP_String (RemoteIP cfg)) = Some (RemoteIP cfg)"
proof -
  note t = IPv4_text [OF assms(2,4)] and p = show_int_port [OF assms(3)]
  have "Addr s = JoinHostPort (IP_String (RemoteIP cfg)) (show_int (RemotePort cfg))"
    using t(2) by (simp add: NewServer_Addr [OF assms(1)] JoinHostPort_def)
  then show "SplitHostPort (Addr s) = Inr (IP_String (RemoteIP cfg), show_int (RemotePort cfg))"
    using Split_Join_HostPort [OF t(3)] p by simp
  show "ParseIP (IP_String (RemoteIP cfg)) = Some (RemoteIP cfg)" by (rule t(1))
qed

text \<open>
  C33. The server's listen address splits into the IP address and the port that were
  configured when the address is an IPv4 address. For an IPv6 address it cannot be split
  (the address is not put in brackets), so that the listener cannot be opened.
\<close>

theorem NewServer_address:
  assumes "NewServer L cfg = Inr s" "ParseIP txt = Some (RemoteIP cfg)" "1 \<le> RemotePort cfg"
  shows "(To4 (RemoteIP cfg) \<noteq> None \<longrightarrow>
        (\<exists>host. SplitHostPort (Addr s) = Inr (host, show_int (RemotePort cfg)) \<and> ParseIP host = Some (RemoteIP cfg)))
    \<and> (To4 (RemoteIP cfg) = None \<longrightarrow>
        SplitHostPort (Addr s) = addr_error (Addr s) ''too many colons in address'')"
proof (cases "To4 (RemoteIP cfg) = None")
  case True
  with ParseIP_length [OF assms(2)] have "plain_ip (RemoteIP cfg)" by (simp add: plain_ip_def)
  note t = plain_ip_text [OF this]
  have "SplitHostPort (Addr s) = addr_error (Addr s) ''too many colons in address''"
    unfolding NewServer_Addr [OF assms(1)] using t(2,4) ParseIP_length [OF assms(2)] show_int_port [OF assms(3)]
    by (intro Split_too_many_colons) auto
  with True show ?thesis by simp
qed (use NewServer_listens [OF assms] in blast)

text \<open>The server of the examples, made from its configuration.\<close>

lemma demo_NewServer: "\<exists>s. NewServer demo_lib cfg = Inr s"
  by (simp add: NewServer_def NewOneTimePassword_def TLSCertificate_def keyGen_def ed25519_GenerateKey_def ReadFull_def
      BasicAuthPassword_def read_entropy_hkdf [OF demo_crypto_laws] length_Reader [OF demo_crypto_laws] Let_def)

theorem NewServer_address_witness:
  "\<exists>s. NewServer demo_lib (ServerConfig.truncate (srv demo_world)\<lparr>RemoteIP := replicate 15 0 @ [1]\<rparr>) = Inr s
     \<and> SplitHostPort (Addr s) = addr_error (Addr s) ''too many colons in address''"
proof -
  let ?cfg = "ServerConfig.truncate (srv demo_world)\<lparr>RemoteIP := replicate 15 0 @ [1]\<rparr>"
  obtain s where s: "NewServer demo_lib ?cfg = Inr s" using demo_NewServer ..
  have "ParseIP ''::1'' = Some (replicate 15 0 @ [1])" by code_simp
  then have "ParseIP ''::1'' = Some (RemoteIP ?cfg)" by simp
  moreover have "1 \<le> RemotePort ?cfg" by (simp add: demo_world_def ServerConfig.defs)
  moreover have "To4 (RemoteIP ?cfg) = None"
  proof -
    have "To4 (replicate 15 0 @ [1]) = None" by code_simp
    then show ?thesis by simp
  qed
  ultimately show ?thesis using NewServer_address [OF s] s by blast
qed

subsection \<open>The key that is written\<close>

text \<open>
  What the operator of stprov local was told about a secret, in the run of a server \<open>s\<close> with the
  requests \<open>es\<close>: one of them was a commit, a GET request from an allowed network with the
  server's credentials, that stored the secret and was answered with 200, and the answer
  decodes to the description of the secret. No later request changed the secret. The answer
  reaches the operator unless the run was ending: two commits were signalled before, or the
  channel for signals was closed.
\<close>

definition announced :: "('s, 'c, 'k) lib \<Rightarrow> 'k server \<Rightarrow> ('s, 'k) exchange list \<Rightarrow> bytes \<Rightarrow> bool" where
  "announced L s es uds \<longleftrightarrow>
     (\<exists>pre e post cr. es = pre @ e # post \<and> ex_path e = ''/stprov/v0.0.1/commit''
        \<and> Method (ex_request e) = MethodGet \<and> verifyNetwork s new_response (ex_request e) = None
        \<and> BasicAuth (ex_request e) = Some (BasicAuthUser, basicAuthPassword s)
        \<and> UDS (srv (ex_after e)) = Some uds \<and> status_code (ex_response e) = 200
        \<and> Unmarshal_Commit (lib_json L) (written (ex_response e)) = Inr cr
        \<and> NewCommitResponse L uds (HostName s) = Inr cr
        \<and> (aborted (ex_response e) \<longrightarrow> commit_closed (srv (ex_before e)) \<or> 2 \<le> commit (srv (ex_before e)))
        \<and> (\<forall>e' \<in> set post. UDS (srv (ex_after e')) = Some uds))"

lemma announced_later:
  "announced L s es uds \<Longrightarrow> UDS (srv (ex_after e)) = Some uds \<Longrightarrow> announced L s (es @ [e]) uds"
  unfolding announced_def by fastforce

text \<open>A request changes the secret only as an answered commit.\<close>

lemma serve_new_uds:
  assumes "message_laws (lib_json L)" "serve L path r wd = (wd', w')" "UDS (srv wd') \<noteq> UDS (srv wd)"
  shows "path = ''/stprov/v0.0.1/commit'' \<and> Method r = MethodGet \<and> verifyNetwork (srv wd) new_response r = None
    \<and> BasicAuth r = Some (BasicAuthUser, basicAuthPassword (srv wd))
    \<and> status_code w' = 200 \<and> (aborted w' \<longrightarrow> commit_closed (srv wd) \<or> 2 \<le> commit (srv wd))
    \<and> (\<exists>uds cr. UDS (srv wd') = Some uds \<and> Unmarshal_Commit (lib_json L) (written w') = Inr cr
         \<and> NewCommitResponse L uds (HostName (srv wd)) = Inr cr)"
proof -
  from assms(2,3) obtain h where h: "route L path = Some h" and s: "ServeHTTP h r new_response wd = (wd', w')"
    by (auto simp: serve_def split: option.splits)
  from s assms(3) have a: "authenticateUser (srv wd) new_response r = None"
    and g: "verifyMethod (hMethod h) new_response r = None" "verifyNetwork (srv wd) new_response r = None"
    and f: "\<exists>w1 code e. HandlerFunc h r new_response wd = (wd', w1, code, e) \<and> (e = None \<longrightarrow> w1 = w')"
    by (auto simp: ServeHTTP_def split: option.splits prod.splits)
  from a have b: "BasicAuth r = Some (BasicAuthUser, basicAuthPassword (srv wd))"
    by (auto simp: authenticateUser_def split: option.splits if_splits)
  from g(1) have m: "Method r = hMethod h" by (auto simp: verifyMethod_def split: if_splits)
  from f obtain w1 code e where f: "HandlerFunc h r new_response wd = (wd', w1, code, e)" "e = None \<longrightarrow> w1 = w'" by blast
  from h show ?thesis
  proof (cases rule: route_cases)
    case 1
    with f(1) assms(3) show ?thesis by (auto simp: handleAddData_def split: sum.splits if_splits)
  next
    case 2
    with f(1) assms(3) show ?thesis by (auto simp: handleAddSecureBoot_def split: prod.splits)
  next
    case 3
    then have c: "handleCommit L r new_response wd = (wd', w1, code, e)" using f(1) by simp
    then show ?thesis
    proof (cases rule: handleCommit_cases)
      case failed
      with assms(3) show ?thesis by simp
    next
      case (stored uds rd cr b)
      with f(2) have "w1 = w'" by simp
      with stored 3 b m g(2) assms(1) show ?thesis
        by (auto simp: message_laws_def w_Write_def new_response_def status_code_def StatusOK_def split: if_splits)
    qed
  qed
qed

lemma verifyNetwork_cong:
  assumes "LocalCIDR s' = LocalCIDR s"
  shows "verifyNetwork s' w r = verifyNetwork s w r"
  unfolding verifyNetwork_def assms ..

lemma same_server:
  assumes "server_inv cfg pw s" "server_inv cfg pw s'"
  shows "HostName s' = HostName s" "basicAuthPassword s' = basicAuthPassword s" "verifyNetwork s' w r = verifyNetwork s w r"
proof -
  have "HostName s' = HostName s \<and> LocalCIDR s' = LocalCIDR s \<and> basicAuthPassword s' = basicAuthPassword s"
    using assms by (auto simp: server_inv_def ServerConfig.defs)
  then show "HostName s' = HostName s" "basicAuthPassword s' = basicAuthPassword s" "verifyNetwork s' w r = verifyNetwork s w r"
    by (blast intro: verifyNetwork_cong)+
qed

text \<open>The secret that a server holds was announced in every record of its requests.\<close>

lemma trace_announced:
  assumes "message_laws (lib_json L)" "server_inv cfg pw s" "UDS s = None"
    and "run_trace L (Serving, \<lparr>nvram = v, rand = rd, srv = s\<rparr>) es c"
  shows "server_inv cfg pw (srv (snd c)) \<and> (\<forall>uds. UDS (srv (snd c)) = Some uds \<longrightarrow> announced L s es uds)"
  using assms(4)
proof (induction rule: run_trace.induct)
  case start
  then show ?case using assms(2,3) by simp
next
  case (request es ph wd path r wd' w)
  let ?e = "\<lparr>ex_path = path, ex_request = r, ex_before = wd, ex_after = wd', ex_response = w\<rparr>"
  from request(3) have i: "server_inv cfg pw (srv wd)" by simp
  then have i': "server_inv cfg pw (srv wd')" by (rule serve_inv [OF request(2)])
  note eq = same_server [OF assms(2) i]
  have "announced L s (es @ [?e]) uds" if u: "UDS (srv wd') = Some uds" for uds
  proof (cases "UDS (srv wd') = UDS (srv wd)")
    case True
    with u request(3) have "announced L s es uds" by simp
    then show ?thesis by (rule announced_later) (simp add: u)
  next
    case False
    from serve_new_uds [OF assms(1) request(2) False] obtain uds' cr where n: "path = ''/stprov/v0.0.1/commit''" "Method r = MethodGet"
      "verifyNetwork (srv wd) new_response r = None" "BasicAuth r = Some (BasicAuthUser, basicAuthPassword (srv wd))"
      "status_code w = 200" "aborted w \<longrightarrow> commit_closed (srv wd) \<or> 2 \<le> commit (srv wd)"
      "UDS (srv wd') = Some uds'" "Unmarshal_Commit (lib_json L) (written w) = Inr cr"
      "NewCommitResponse L uds' (HostName (srv wd)) = Inr cr" by (elim conjE exE)
    then show ?thesis unfolding announced_def using u eq
      by (intro exI [of _ es] exI [of _ ?e] exI [of _ "[]"] exI [of _ cr]) simp
  qed
  then show ?case using i' by simp
next
  case (quiet es ph wd ph' wd')
  then show ?case using quiet_step_server [OF quiet(2)] by auto
qed

lemma listen_confirmed: "listen L otp nets addr port hostname stdin st (Inr uds) st' \<Longrightarrow> \<exists>line. readLine stdin = Inr line"
  by (erule listen_InrE) blast

text \<open>
  What a successful \<open>stprov remote run\<close> leaves behind. The operator confirmed with a line. The
  server was the one that \<open>NewServer\<close> makes for the one-time password, the address, the port and
  the networks of the options and for the host name that was stored, and it ran until \<open>Run\<close>
  returned without an error, with a secret of 32 bytes. In every record of that run's requests the
  secret was announced. The SSH key of the secret was written in the state of the variables
  after the run, and its PEM text is read back.
\<close>

definition persisted :: "('s, 'c, 'k) lib \<Rightarrow> string list \<Rightarrow> int \<Rightarrow> string \<Rightarrow> string list \<Rightarrow> string \<Rightarrow> bytes \<Rightarrow> string \<Rightarrow> string
    \<Rightarrow> string \<times> goerror \<Rightarrow> 's \<times> bytes \<Rightarrow> 's \<times> bytes \<Rightarrow> bool" where
  "persisted L args port ip allow otp uuid keyName hostName stdin st st' \<longleftrightarrow>
     (\<exists>line addr nets hostname s wd uds hk a pem.
        readLine stdin = Inr line \<and> run_options args port ip allow otp = Inr (addr, nets)
        \<and> HostName_ReadEFI (lib_efi L) uuid hostName (fst st) = Inr hostname
        \<and> NewServer L \<lparr>Secret = otp, RemoteIP = addr, RemotePort = port, LocalCIDR = nets, HostName = hostname,
             Deadline = 15000000000, Timeout = 60000000000\<rparr> = Inr s
        \<and> Run L \<lparr>nvram = fst st, rand = snd st, srv = s\<rparr> None wd \<and> UDS (srv wd) = Some uds \<and> length uds = 32
        \<and> (\<forall>es. run_trace L (Serving, \<lparr>nvram = fst st, rand = snd st, srv = s\<rparr>) es (Returned None, wd)
             \<longrightarrow> announced L s es uds)
        \<and> SSH (lib_crypto L) (lib_ssh L) uds = Inr hk
        \<and> WriteEFI (lib_efi L) (lib_ssh L) hk uuid keyName (nvram wd) = (fst st', None) \<and> snd st' = rand wd
        \<and> ReadVariable (lib_efi L) (fst st') \<lparr>desc_Name = keyName, GUID = uuid\<rparr> = Inr (a, pem)
        \<and> writePEM (lib_ssh L) hk = Inr pem)"

lemma run_Main_cases:
  assumes "run_Main L args port ip allow otp uuid keyName hostName stdin (v, rd) out (v', rd')"
  obtains (failed) e where "out = Failure e"
  | (confirmed) addr nets hostname uds st1 where "run_options args port ip allow otp = Inr (addr, nets)"
      "HostName_ReadEFI (lib_efi L) uuid hostName v = Inr hostname"
      "listen L otp nets addr port hostname stdin (v, rd) (Inr uds) st1" "rd' = snd st1"
      "case uds of None \<Rightarrow> out = NilDereference
         | Some u \<Rightarrow> (\<exists>e. writeHostKey L u uuid keyName (fst st1) = (v', e)
             \<and> out = (case e of None \<Rightarrow> Success | Some x \<Rightarrow> Failure (Wrapf ''persist host key'' x)))"
proof (cases "run_options args port ip allow otp")
  case (Inl e)
  then show thesis using assms failed by (simp add: run_Main_def)
next
  case o: (Inr x)
  obtain addr nets where x: "x = (addr, nets)" by (cases x)
  show thesis
  proof (cases "HostName_ReadEFI (lib_efi L) uuid hostName v")
    case (Inl e)
    then show thesis using assms o x failed by (simp add: run_Main_def)
  next
    case h: (Inr hostname)
    from assms o x h obtain res st1 where l: "listen L otp nets addr port hostname stdin (v, rd) res st1"
      and m: "case res of Inl e \<Rightarrow> out = Failure (Wrapf ''listen'' e) \<and> (v', rd') = st1
       | Inr None \<Rightarrow> out = NilDereference \<and> (v', rd') = st1
       | Inr (Some uds) \<Rightarrow> (case writeHostKey L uds uuid keyName (fst st1) of
            (s, Some e) \<Rightarrow> out = Failure (Wrapf ''persist host key'' e) \<and> (v', rd') = (s, snd st1)
          | (s, None) \<Rightarrow> out = Success \<and> (v', rd') = (s, snd st1))"
      by (simp add: run_Main_def) blast
    show thesis
    proof (cases res)
      case (Inr uds)
      show thesis by (rule confirmed [OF o [unfolded x] h l [unfolded Inr]])
          (use m Inr in \<open>auto split: option.splits prod.splits\<close>)
    qed (use m failed in auto)
  qed
qed

text \<open>Without the operator's confirmation the host key is not written.\<close>

lemma unconfirmed_run_fails:
  assumes "readLine stdin = Inl x"
    and "run_Main L args port ip allow otp uuid keyName hostName stdin (v, rd) out (v', rd')"
  shows "\<exists>e. out = Failure e"
  using assms(2)
proof (cases rule: run_Main_cases)
  case (confirmed addr nets hostname uds st1)
  from listen_confirmed [OF confirmed(3)] show ?thesis using assms(1) by auto
qed simp

lemma run_Main_persisted:
  assumes "efi_laws (lib_efi L)" "message_laws (lib_json L)"
    and "run_Main L args port ip allow otp uuid keyName hostName stdin (v, rd) out (v', rd')"
  shows "out \<noteq> NilDereference
    \<and> (out = Success \<longrightarrow> persisted L args port ip allow otp uuid keyName hostName stdin (v, rd) (v', rd'))"
  using assms(3)
proof (cases rule: run_Main_cases)
  case (failed e)
  then show ?thesis by simp
next
  case (confirmed addr nets hostname uds st1)
  let ?cfg = "\<lparr>Secret = otp, RemoteIP = addr, RemotePort = port, LocalCIDR = nets, HostName = hostname,
                 Deadline = 15000000000, Timeout = 60000000000\<rparr>"
  from confirmed(3) obtain s wd line where s: "NewServer L ?cfg = Inr s" "Run L \<lparr>nvram = v, rand = rd, srv = s\<rparr> None wd"
    "uds = UDS (srv wd)" "st1 = (nvram wd, rand wd)" "readLine stdin = Inr line" by (elim listen_InrE) simp
  let ?wd = "\<lparr>nvram = v, rand = rd, srv = s\<rparr>"
  have i: "server_inv ?cfg (basicAuthPassword s) s" "UDS s = None" using NewServer_inv [OF s(1)] by simp_all
  have "run_inv ?cfg (basicAuthPassword s) (Returned None, wd)"
    using run_inv_reachable [OF s(2) [unfolded Run_def]] i by (simp add: run_inv_def)
  then obtain u where u: "UDS (srv wd) = Some u" "length u = 32" by (auto simp: run_inv_def server_inv_def)
  have a: "announced L s es u" if "run_trace L (Serving, ?wd) es (Returned None, wd)" for es
    using trace_announced [OF assms(2) i that] u(1) by simp
  from confirmed(5) u(1) s(3,4) obtain e where e: "writeHostKey L u uuid keyName (nvram wd) = (v', e)"
    "out = (case e of None \<Rightarrow> Success | Some x \<Rightarrow> Failure (Wrapf ''persist host key'' x))" by auto
  show ?thesis
  proof (cases e)
    case (Some x)
    with e show ?thesis by simp
  next
    case None
    with e(1) obtain hk where hk: "SSH (lib_crypto L) (lib_ssh L) u = Inr hk"
      "WriteEFI (lib_efi L) (lib_ssh L) hk uuid keyName (nvram wd) = (v', None)"
      by (auto simp: writeHostKey_def split: sum.splits)
    from assms(1) hk(2) obtain b pem where "ReadVariable (lib_efi L) v' \<lparr>desc_Name = keyName, GUID = uuid\<rparr> = Inr (b, pem)"
      "writePEM (lib_ssh L) hk = Inr pem" by (rule WriteEFI_read_back)
    with u hk s confirmed(1,2,4) a
    have "persisted L args port ip allow otp uuid keyName hostName stdin (v, rd) (v', rd')"
      unfolding persisted_def fst_conv snd_conv by (intro exI conjI allI impI) auto
    then show ?thesis using e(2) None by simp
  qed
qed

text \<open>
  C1. \<open>stprov remote run\<close> never reads a secret that is not there. When it succeeds, what it
  leaves behind is what \<open>persisted\<close> says: the operator confirmed, the server that ran was made
  from the one-time password and the other options and the stored host name, and the
  variable for the host key holds the PEM text of the SSH key of the secret of 32 bytes in
  that server. Whatever requests made up that run, the secret came from a commit among them, the
  last one to change the secret, which was a GET request from an allowed network with the
  credentials that the one-time password gives; it was answered with 200 and the description
  of the secret with the stored host name, an answer that is lost only when the run was
  already ending.
\<close>

theorem run_Main_persists_announced_key:
  assumes "efi_laws (lib_efi L)" "message_laws (lib_json L)"
    and "run_Main L args port ip allow otp uuid keyName hostName stdin (v, rd) out (v', rd')"
  shows "out \<noteq> NilDereference
    \<and> (out = Success \<longrightarrow> persisted L args port ip allow otp uuid keyName hostName stdin (v, rd) (v', rd'))"
  using assms by (rule run_Main_persisted)

subsection \<open>A run that succeeds\<close>

definition demo_nvram :: varmap where
  "demo_nvram = Map.empty(\<lparr>desc_Name = ''STHostName'', GUID = [1]\<rparr> \<mapsto> (7, str_bytes ''host.local''))"

lemma demo_commit_from:
  assumes "\<lparr>IP = [10, 0, 2, 0], Mask = [255, 255, 255, 0]\<rparr> \<in> set (LocalCIDR (srv wd))" "32 \<le> length (rand wd)"
    and r: "Method r = MethodGet" "BasicAuth r = Some (BasicAuthUser, basicAuthPassword (srv wd))" "write_error r = None"
      "RemoteAddr r = JoinHostPort (IP_String [10, 0, 2, 77]) ''40000''"
  shows "\<exists>wd' w' uds. serve demo_lib ''/stprov/v0.0.1/commit'' r wd = (wd', w') \<and> status_code w' = 200
     \<and> NewUniqueDeviceSecret demo_crypto (srv_Entropy (srv wd)) (rand wd) = (Inr uds, rand wd') \<and> UDS (srv wd') = Some uds
     \<and> (aborted w' \<longleftrightarrow> commit_closed (srv wd) \<or> 2 \<le> commit (srv wd))
     \<and> (\<not> aborted w' \<longrightarrow> srv wd' = (srv wd)\<lparr>UDS := Some uds, commit := Suc (commit (srv wd))\<rparr>)"
proof -
  have "plain_ip [10, 0, 2, 77]" "plain_host ''40000''" "CHR '':'' \<notin> set ''40000''" by (simp_all add: plain_ip_def plain_host_def)
  moreover have "IPNet_Contains \<lparr>IP = [10, 0, 2, 0], Mask = [255, 255, 255, 0]\<rparr> [10, 0, 2, 77]" by code_simp
  ultimately have "verifyNetwork (srv wd) new_response (r\<lparr>RemoteAddr := JoinHostPort (IP_String [10, 0, 2, 77]) ''40000''\<rparr>) = None"
    using verifyNetwork_iff assms(1) by blast
  then have n: "verifyNetwork (srv wd) new_response r = None" using r(4) by (metis request.surjective request.update_convs(2))
  have s: "serve demo_lib ''/stprov/v0.0.1/commit'' r wd = (case handleCommit demo_lib r new_response wd of
        (wd', w', code, Some e) \<Rightarrow> (wd', http_Error (StatusText code) code w') | (wd', w', code, None) \<Rightarrow> (wd', w'))"
    using serve_admitted [OF demo_route_commit _ n r(2)] r(1) by simp
  obtain uds rd where u: "NewUniqueDeviceSecret demo_crypto (srv_Entropy (srv wd)) (rand wd) = (Inr uds, rd)"
    using assms(2) by (simp add: NewUniqueDeviceSecret_eq [OF demo_crypto_laws])
  obtain cr where c: "NewCommitResponse demo_lib uds (HostName (srv wd)) = Inr cr" using demo_NewCommitResponse by blast
  obtain b where b: "Marshal_Commit demo_json cr = Inr b" by (simp add: demo_json_def)
  obtain wd' w' code e where h: "handleCommit demo_lib r new_response wd = (wd', w', code, e)" by (metis prod_cases4)
  with u c b r(3) have e: "e = None" by (auto simp: handleCommit_def split: if_splits)
  from h show ?thesis
  proof (cases rule: handleCommit_cases)
    case (stored uds' rd' cr' b')
    then have "serve demo_lib ''/stprov/v0.0.1/commit'' r wd = (wd', w')" "status_code w' = 200"
      "aborted w' \<longleftrightarrow> commit_closed (srv wd) \<or> 2 \<le> commit (srv wd)"
      "\<not> aborted w' \<longrightarrow> srv wd' = (srv wd)\<lparr>UDS := Some uds', commit := Suc (commit (srv wd))\<rparr>"
      using s h by (auto simp: status_code_def w_Write_def new_response_def StatusOK_def split: if_splits)
    then show ?thesis using stored u by auto
  qed (use e in simp)
qed

definition demo_run_config :: ServerConfig where
  "demo_run_config = \<lparr>Secret = ''otp'', RemoteIP = v4InV6Prefix @ [10, 0, 2, 10], RemotePort = 2009,
     LocalCIDR = [\<lparr>IP = [10, 0, 2, 0], Mask = [255, 255, 255, 0]\<rparr>], HostName = ''host.local'',
     Deadline = 15000000000, Timeout = 60000000000\<rparr>"

lemma demo_Run:
  obtains s wd uds where "NewServer demo_lib demo_run_config = Inr s"
    "Run demo_lib \<lparr>nvram = demo_nvram, rand = replicate 64 7, srv = s\<rparr> None wd" "UDS (srv wd) = Some uds" "nvram wd = demo_nvram"
proof -
  obtain s where s: "NewServer demo_lib demo_run_config = Inr s" using demo_NewServer ..
  let ?wd = "\<lparr>nvram = demo_nvram, rand = replicate 64 7, srv = s\<rparr>"
  have "LocalCIDR s = [\<lparr>IP = [10, 0, 2, 0], Mask = [255, 255, 255, 0]\<rparr>]" "commit s = 0" "\<not> commit_closed s"
    using NewServer_inv [OF s] by (auto simp: server_inv_def ServerConfig.defs demo_run_config_def)
  then obtain r wd1 w1 where c: "serve demo_lib ''/stprov/v0.0.1/commit'' r ?wd = (wd1, w1)" "status_code w1 = 200" "\<not> aborted w1"
    using demo_commit_from [of ?wd "\<lparr>Method = MethodGet, RemoteAddr = JoinHostPort (IP_String [10, 0, 2, 77]) ''40000'',
      BasicAuth = Some (BasicAuthUser, basicAuthPassword s), Body = Inr [], write_error = None\<rparr>"] by auto
  from commit_Run_returns [OF c] s that show thesis by auto
qed

text \<open>How \<open>listen\<close> and \<open>Main\<close> start with these options.\<close>

lemma demo_listen:
  assumes "NewServer demo_lib demo_run_config = Inr s"
    and "Run demo_lib \<lparr>nvram = demo_nvram, rand = replicate 64 7, srv = s\<rparr> None wd"
  shows "listen demo_lib ''otp'' [\<lparr>IP = [10, 0, 2, 0], Mask = [255, 255, 255, 0]\<rparr>] (v4InV6Prefix @ [10, 0, 2, 10]) 2009 ''host.local'' stdin
    (demo_nvram, replicate 64 7) (case readLine stdin of Inl x \<Rightarrow> Inl (Wrapf ''read confirmation'' x) | Inr _ \<Rightarrow> Inr (UDS (srv wd)))
    (nvram wd, rand wd)"
  unfolding listen_def Let_def assms(1) [unfolded demo_run_config_def] sum.case
  by (rule exI [of _ None], rule exI [of _ wd]) (use assms(2) in simp)

lemma demo_options:
  "run_options [] 2009 ''10.0.2.10'' [''10.0.2.0/24''] ''otp''
    = Inr (v4InV6Prefix @ [10, 0, 2, 10], [\<lparr>IP = [10, 0, 2, 0], Mask = [255, 255, 255, 0]\<rparr>])"
  by code_simp

lemma demo_host_name: "HostName_ReadEFI (map_efi (\<lambda>g. Inr (str_bytes g))) [1] ''STHostName'' demo_nvram = Inr ''host.local''"
  by (simp add: HostName_ReadEFI_def readEFI_def map_efi_def demo_nvram_def del: map_map)

lemma demo_run:
  "\<exists>v' rd'. run_Main demo_lib [] 2009 ''10.0.2.10'' [''10.0.2.0/24''] ''otp'' [1] ''STHostKey'' ''STHostName'' enter
     (demo_nvram, replicate 64 7) Success (v', rd')"
proof -
  obtain s wd uds where r: "NewServer demo_lib demo_run_config = Inr s"
    "Run demo_lib \<lparr>nvram = demo_nvram, rand = replicate 64 7, srv = s\<rparr> None wd" "UDS (srv wd) = Some uds" by (rule demo_Run)
  have "\<exists>v'. writeHostKey demo_lib uds [1] ''STHostKey'' (nvram wd) = (v', None)"
  proof -
    obtain hk where "SSH demo_crypto rfc_ssh uds = Inr hk" using demo_SSH ..
    then show ?thesis
      by (simp add: writeHostKey_def WriteEFI_def writePEM_def pem_EncodeToMemory_def map_efi_def Let_def)
  qed
  then obtain v' where w: "writeHostKey demo_lib uds [1] ''STHostKey'' (nvram wd) = (v', None)" ..
  have "run_Main demo_lib [] 2009 ''10.0.2.10'' [''10.0.2.0/24''] ''otp'' [1] ''STHostKey'' ''STHostName'' enter
     (demo_nvram, replicate 64 7) Success (v', rand wd)"
    unfolding run_Main_def demo_options sum.case prod.case fst_conv demo_lib_fields demo_host_name
    by (intro exI conjI, rule demo_listen [OF r(1,2)]) (simp add: r(3) w)
  then show ?thesis by blast
qed

lemma demo_unconfirmed:
  "\<exists>out v' rd'. run_Main demo_lib [] 2009 ''10.0.2.10'' [''10.0.2.0/24''] ''otp'' [1] ''STHostKey'' ''STHostName''
     ([], External ''EOF'') (demo_nvram, replicate 64 7) out (v', rd')"
proof -
  obtain s wd uds where r: "NewServer demo_lib demo_run_config = Inr s"
    "Run demo_lib \<lparr>nvram = demo_nvram, rand = replicate 64 7, srv = s\<rparr> None wd" "UDS (srv wd) = Some uds" by (rule demo_Run)
  have e: "readLine ([], External ''EOF'') = Inl (External ''EOF'')" by (simp add: readLine_def)
  have "run_Main demo_lib [] 2009 ''10.0.2.10'' [''10.0.2.0/24''] ''otp'' [1] ''STHostKey'' ''STHostName'' ([], External ''EOF'')
     (demo_nvram, replicate 64 7) (Failure (Wrapf ''listen'' (Wrapf ''read confirmation'' (External ''EOF'')))) (nvram wd, rand wd)"
    unfolding run_Main_def demo_options sum.case prod.case fst_conv demo_lib_fields demo_host_name
    by (intro exI conjI, rule demo_listen [OF r(1,2)]) (simp add: e)
  then show ?thesis by blast
qed

theorem run_Main_persists_announced_key_witness:
  "\<exists>st'. persisted demo_lib [] 2009 ''10.0.2.10'' [''10.0.2.0/24''] ''otp'' [1] ''STHostKey'' ''STHostName'' enter
     (demo_nvram, replicate 64 7) st'"
proof -
  obtain v' rd' where r: "run_Main demo_lib [] 2009 ''10.0.2.10'' [''10.0.2.0/24''] ''otp'' [1] ''STHostKey'' ''STHostName'' enter
     (demo_nvram, replicate 64 7) Success (v', rd')" using demo_run by blast
  have "efi_laws (lib_efi demo_lib)" "message_laws (lib_json demo_lib)" by (simp_all add: map_efi_laws demo_json_laws)
  from run_Main_persists_announced_key [OF this r] show ?thesis by blast
qed

end
