(* ===== verification/ApiClient.thy ===== *)
theory ApiClient
  imports RemoteFacts
begin

section \<open>stprov local's client: internal/api/client.go\<close>

text \<open>
  The client derives its password and the certificate it trusts from the one-time password
  and sends three kinds of requests. Sending a request is a parameter (\<open>httplib\<close>): whether
  the URL parses, and \<open>Do\<close>, which takes the client (for its TLS configuration) and the state
  of the rest of the world. Reading the response's body is part of the response.
\<close>

record ClientConfig =
  cl_Secret :: string
  cl_RemoteIP :: ip
  cl_RemotePort :: int
  cl_PK :: bytes
  cl_KEK :: bytes
  cl_DB :: bytes
  cl_DBX :: bytes
  cl_RebootIntoUEFIMenu :: bool

record 'c client = ClientConfig +
  RootCAs :: "'c list"
  ServerName :: string
  cl_basicAuthPassword :: string
  serverURL :: string

record http_request =
  rq_Method :: string
  rq_URL :: string
  rq_BasicAuth :: "(string \<times> string) option"
  rq_Body :: bytes

record http_response =
  StatusCode :: nat
  rs_Body :: "goerror + bytes"

record ('c, 'w) httplib =
  url_Parse :: "string \<Rightarrow> goerror option"
  Do :: "'c client \<Rightarrow> http_request \<Rightarrow> 'w \<Rightarrow> (goerror + http_response) \<times> 'w"

definition NewClient :: "('s, 'c, 'k) lib \<Rightarrow> ClientConfig \<Rightarrow> goerror + 'c client" where
  "NewClient L cfg =
     (case NewOneTimePassword (lib_crypto L) (cl_Secret cfg) of
        Inl e \<Rightarrow> Inl (Wrapf ''derive one-time password'' e)
      | Inr otp \<Rightarrow>
     (case X509Certificate (lib_crypto L) (lib_ssh L) otp (cl_RemoteIP cfg) of
        Inl e \<Rightarrow> Inl (Wrapf ''derive x509 certificate'' e)
      | Inr crt \<Rightarrow>
     (case BasicAuthPassword (lib_crypto L) otp of
        Inl e \<Rightarrow> Inl (Wrapf ''derive basic auth password'' e)
      | Inr pw \<Rightarrow>
          Inr (ClientConfig.extend cfg
                 \<lparr>RootCAs = [crt], ServerName = DummyServerName, cl_basicAuthPassword = pw,
                  serverURL = ''https://'' @ IP_String (cl_RemoteIP cfg) @ '':'' @ show_int (cl_RemotePort cfg)
                    @ ''/'' @ Protocol @ ''/''\<rparr>))))"

subsection \<open>Sending\<close>

definition send :: "('c, 'w) httplib \<Rightarrow> 'c client \<Rightarrow> string \<Rightarrow> string \<Rightarrow> bytes \<Rightarrow> 'w \<Rightarrow> (goerror + bytes) \<times> 'w" where
  "send H c method endpointURL b w =
     (case url_Parse H endpointURL of
        Some e \<Rightarrow> (Inl (Wrapf ''new request'' e), w)
      | None \<Rightarrow>
          (case Do H c \<lparr>rq_Method = method, rq_URL = endpointURL,
                  rq_BasicAuth = Some (BasicAuthUser, cl_basicAuthPassword c), rq_Body = b\<rparr> w of
             (Inl e, w') \<Rightarrow> (Inl (Wrapf ''do request'' e), w')
           | (Inr rsp, w') \<Rightarrow>
               if StatusCode rsp \<noteq> StatusOK then (Inl (Errorf (StatusText (StatusCode rsp))), w')
               else (rs_Body rsp, w')))"

definition doGet :: "('c, 'w) httplib \<Rightarrow> 'c client \<Rightarrow> string \<Rightarrow> 'w \<Rightarrow> (goerror + bytes) \<times> 'w" where
  "doGet H c endpointURL w = send H c MethodGet endpointURL [] w"

definition doPost :: "('c, 'w) httplib \<Rightarrow> 'c client \<Rightarrow> string \<Rightarrow> goerror + bytes \<Rightarrow> 'w \<Rightarrow> (goerror + bytes) \<times> 'w" where
  "doPost H c endpointURL i w =
     (case i of
        Inl e \<Rightarrow> (Inl (Wrapf ''marshal'' e), w)
      | Inr b \<Rightarrow> send H c MethodPost endpointURL b w)"

definition AddData :: "('s, 'c, 'k) lib \<Rightarrow> ('c, 'w) httplib \<Rightarrow> 'c client \<Rightarrow> int \<Rightarrow> bytes \<Rightarrow> 'w
    \<Rightarrow> (goerror + AddDataRequest) \<times> bytes \<times> 'w" where
  "AddData L H c now rd w =
     (case NewAddDataRequest now rd of
        (Inl e, rd') \<Rightarrow> (Inl (Wrapf ''create data'' e), rd', w)
      | (Inr data, rd') \<Rightarrow>
          (case doPost H c (serverURL c @ EndpointAddData) (Marshal_AddData (lib_json L) data) w of
             (Inl e, w') \<Rightarrow> (Inl (Wrapf ''post data'' e), rd', w')
           | (Inr b, w') \<Rightarrow> (Inr data, rd', w')))"

definition AddSecureBootKeys :: "('s, 'c, 'k) lib \<Rightarrow> ('c, 'w) httplib \<Rightarrow> 'c client \<Rightarrow> 'w \<Rightarrow> goerror option \<times> 'w" where
  "AddSecureBootKeys L H c w =
     (case NewAddSecureBootRequest (cl_PK c) (cl_KEK c) (cl_DB c) (cl_DBX c) (cl_RebootIntoUEFIMenu c) of
        (req, Some e) \<Rightarrow> (Some (Wrapf ''create secure boot request'' e), w)
      | (req, None) \<Rightarrow>
          (case doPost H c (serverURL c @ EndpointAddSecureBoot) (Marshal_SecureBoot (lib_json L) req) w of
             (Inl e, w') \<Rightarrow> (Some (Wrapf ''post secure boot keys'' e), w')
           | (Inr b, w') \<Rightarrow> (None, w')))"

definition Commit :: "('s, 'c, 'k) lib \<Rightarrow> ('c, 'w) httplib \<Rightarrow> 'c client \<Rightarrow> 'w \<Rightarrow> (goerror + CommitResponse) \<times> 'w" where
  "Commit L H c w =
     (case doGet H c (serverURL c @ EndpointCommit) w of
        (Inl e, w') \<Rightarrow> (Inl (Wrapf ''send commit'' e), w')
      | (Inr b, w') \<Rightarrow>
          (case Unmarshal_Commit (lib_json L) b of
             Inl e \<Rightarrow> (Inl (Wrapf ''unmarshal'' e), w')
           | Inr cr \<Rightarrow> (Inr cr, w')))"

subsection \<open>A client and a server\<close>

text \<open>
  A network between a client and the server's machine. What \<open>net/http\<close> and \<open>crypto/tls\<close> do
  with a URL that the client writes, a scheme, an authority without brackets, a path: the URL
  parses if what follows the last colon of the authority are digits; those are the port, the
  rest is the host. The connection is made when the server listens on that address and port
  (an IPv6 address cannot be split off the server's address, so that it does not listen at all;
  a server on \<open>0.0.0.0\<close> listens on each of its machine's IPv4 addresses, and the one dialled is
  taken to be one of them). Then the client verifies the server's certificate. What fails up
  to here is an error of \<open>Do\<close>, and the server has seen nothing. The server sees the path of the
  URL, what follows the authority, and requests that come from the address \<open>peer\<close>. An
  aborted response is an error of the connection. In which phase of \<open>Run\<close> a request is handled is
  not part of this: a connection may have been made before the listener ended.
\<close>

definition url_authority :: "string \<Rightarrow> string" where
  "url_authority url = takeWhile (\<lambda>c. c \<noteq> CHR ''/'') (drop (length ''https://'') url)"

definition url_path :: "string \<Rightarrow> string" where
  "url_path url = dropWhile (\<lambda>c. c \<noteq> CHR ''/'') (drop (length ''https://'') url)"

definition url_error :: "string \<Rightarrow> goerror option" where
  "url_error url =
     (case last_colon (url_authority url) of
        None \<Rightarrow> None
      | Some (host, port) \<Rightarrow>
          if list_all is_digit port then None
          else Some (External (''parse '' @ quote url @ '': invalid port '' @ quote ('':'' @ port) @ '' after host'')))"

definition listener :: "'k server \<Rightarrow> (ip \<times> nat) option" where
  "listener s =
     (case SplitHostPort (Addr s) of
        Inl e \<Rightarrow> None
      | Inr (host, port) \<Rightarrow>
          (case ParseIP host of
             None \<Rightarrow> None
           | Some a \<Rightarrow>
               if port \<noteq> [] \<and> list_all is_digit port \<and> 1 \<le> dec_val port \<and> dec_val port \<le> 65535
               then Some (a, dec_val port) else None))"

definition reaches :: "'k server \<Rightarrow> string \<Rightarrow> bool" where
  "reaches s url \<longleftrightarrow>
     (case (listener s, last_colon (url_authority url)) of
        (Some (a, n), Some (host, port)) \<Rightarrow>
          (case ParseIP host of
             None \<Rightarrow> False
           | Some dst \<Rightarrow> dec_val port = n \<and> (IP_Equal a dst \<or> IP_Equal a [0, 0, 0, 0] \<and> To4 dst \<noteq> None))
      | _ \<Rightarrow> False)"

definition dial_error :: "('s, 'c, 'k) lib \<Rightarrow> 'c client \<Rightarrow> string \<Rightarrow> 'k server \<Rightarrow> goerror option" where
  "dial_error L c url s =
     (if \<not> reaches s url then Some (External ''connect: connection refused'')
      else tls_Verify (lib_crypto L) (RootCAs c) (ServerName c) (Certificates s))"

definition incoming :: "string \<Rightarrow> http_request \<Rightarrow> request" where
  "incoming peer rq = \<lparr>Method = rq_Method rq, RemoteAddr = peer, BasicAuth = rq_BasicAuth rq,
     Body = Inr (rq_Body rq), write_error = None\<rparr>"

definition connected :: "('s, 'c, 'k) lib \<Rightarrow> string \<Rightarrow> ('c, ('s, 'k) world) httplib" where
  "connected L peer =
     \<lparr>url_Parse = url_error,
      Do = (\<lambda>c rq wd.
        case dial_error L c (rq_URL rq) (srv wd) of
          Some e \<Rightarrow> (Inl e, wd)
        | None \<Rightarrow> (case serve L (url_path (rq_URL rq)) (incoming peer rq) wd of
            (wd', w) \<Rightarrow> (if aborted w then Inl (External ''EOF'')
               else Inr \<lparr>StatusCode = status_code w, rs_Body = Inr (written w)\<rparr>, wd')))\<rparr>"

text \<open>A request reaches the server's handlers, or nothing happens and there is an error.\<close>

lemma send_served:
  assumes "send (connected L peer) c m url b wd = (res, wd')"
  obtains (refused) e where "res = Inl e" "wd' = wd"
  | (served) w where "url_error url = None" "dial_error L c url (srv wd) = None"
      "serve L (url_path url) (incoming peer \<lparr>rq_Method = m, rq_URL = url,
         rq_BasicAuth = Some (BasicAuthUser, cl_basicAuthPassword c), rq_Body = b\<rparr>) wd = (wd', w)"
      "aborted w \<longrightarrow> res = Inl (Wrapf ''do request'' (External ''EOF''))"
  using assms by (auto simp: send_def connected_def split: option.splits prod.splits if_splits)

lemma send_dial_error:
  "url_error url = None \<Longrightarrow> dial_error L c url (srv wd) = Some e \<Longrightarrow>
    send (connected L peer) c m url b wd = (Inl (Wrapf ''do request'' e), wd)"
  by (simp add: send_def connected_def)

lemma IP_String_no_slash: "CHR ''/'' \<notin> set (IP_String a)"
  by (auto simp: IP_String_def string4_no string6_no is_hexdigit_def is_digit_def dest!: hex_char split: option.splits)

lemma show_int_no_slash: "CHR ''/'' \<notin> set (show_int i)"
proof -
  have "CHR ''/'' \<notin> set (show_nat n)" for n using show_nat_digits [of "CHR ''/''" n] by (auto simp: is_digit_def)
  then show ?thesis by (simp add: show_int_def)
qed

lemma url_path_endpoint:
  assumes "NewClient L cfg = Inr c"
  shows "url_path (serverURL c @ e) = ''/stprov/v0.0.1/'' @ e"
proof -
  have u: "drop (length ''https://'') (serverURL c @ e)
      = (IP_String (cl_RemoteIP cfg) @ '':'' @ show_int (cl_RemotePort cfg)) @ ''/stprov/v0.0.1/'' @ e"
    using assms by (auto simp: NewClient_def ClientConfig.defs Protocol_def split: sum.splits)
  have "CHR ''/'' \<notin> set (IP_String (cl_RemoteIP cfg) @ '':'' @ show_int (cl_RemotePort cfg))"
    by (simp add: IP_String_no_slash show_int_no_slash)
  then show ?thesis unfolding url_path_def u using until_char(2) by fastforce
qed

text \<open>A client and a server with the same IPv4 address and port find each other.\<close>

lemma NewClient_serverURL:
  "NewClient L cfg = Inr c \<Longrightarrow> serverURL c @ e
    = ''https://'' @ (IP_String (cl_RemoteIP cfg) @ '':'' @ show_int (cl_RemotePort cfg)) @ ''/stprov/v0.0.1/'' @ e"
  by (auto simp: NewClient_def ClientConfig.defs Protocol_def split: sum.splits)

lemma show_int_digits: "1 \<le> i \<Longrightarrow> show_int i \<noteq> [] \<and> list_all is_digit (show_int i) \<and> dec_val (show_int i) = nat i"
  using show_nat_digits [of _ "nat i"] by (auto simp: show_int_def list_all_iff)

lemma client_dials:
  assumes "NewServer L scfg = Inr s" "NewClient L ccfg = Inr c"
    and addr: "cl_RemoteIP ccfg = RemoteIP scfg" "cl_RemotePort ccfg = RemotePort scfg" "ParseIP txt = Some (RemoteIP scfg)"
      "To4 (RemoteIP scfg) \<noteq> None" "1 \<le> RemotePort scfg" "RemotePort scfg \<le> 65535"
    and "Addr s' = Addr s"
  shows "url_error (serverURL c @ e) = None" "reaches s' (serverURL c @ e)"
proof -
  let ?h = "IP_String (RemoteIP scfg)" and ?p = "show_int (RemotePort scfg)"
  have "CHR ''/'' \<notin> set (?h @ '':'' @ ?p)" by (simp add: IP_String_no_slash show_int_no_slash)
  then have "url_authority (serverURL c @ e) = ?h @ '':'' @ ?p"
    unfolding url_authority_def NewClient_serverURL [OF assms(2)] addr(1,2) using until_char(1) [of "CHR ''/''" "?h @ '':'' @ ?p"] by simp
  moreover have "last_colon (?h @ '':'' @ ?p) = Some (?h, ?p)"
    using last_colon_append [of ?p ?h] show_int_port [OF addr(5)] by simp
  ultimately have a: "last_colon (url_authority (serverURL c @ e)) = Some (?h, ?p)" by simp
  note d = show_int_digits [OF addr(5)]
  show "url_error (serverURL c @ e) = None" using a d by (simp add: url_error_def)
  note n = NewServer_listens [OF assms(1) addr(3,5,4)]
  have "listener s' = Some (RemoteIP scfg, nat (RemotePort scfg))"
    using n d addr(5,6) by (auto simp: listener_def assms(9))
  with a n(2) d show "reaches s' (serverURL c @ e)" by (simp add: reaches_def IP_Equal_def)
qed

text \<open>
  The client trusts the server exactly when both one-time passwords give the same
  certificate, as two equal ones do.
\<close>

lemma client_verifies:
  assumes "tls_laws (lib_crypto L)" "NewServer L scfg = Inr s" "NewClient L ccfg = Inr c"
    and "NewOneTimePassword (lib_crypto L) (Secret scfg) = Inr otp" "NewOneTimePassword (lib_crypto L) (cl_Secret ccfg) = Inr otp'"
    and "keyGen (lib_crypto L) (lib_ssh L) otp (RemoteIP scfg) = Inr (key, der)"
      "keyGen (lib_crypto L) (lib_ssh L) otp' (cl_RemoteIP ccfg) = Inr (key', der')"
    and "Certificates s' = Certificates s"
  shows "(der' = der \<longrightarrow> tls_Verify (lib_crypto L) (RootCAs c) (ServerName c) (Certificates s') = None)
    \<and> (der' \<noteq> der \<longrightarrow> (\<exists>m. tls_Verify (lib_crypto L) (RootCAs c) (ServerName c) (Certificates s') = Some (UnknownAuthority m)))"
proof -
  from assms(2,4,8) obtain pair where s: "TLSCertificate (lib_crypto L) (lib_ssh L) otp (RemoteIP scfg) = Inr pair"
    "Certificates s' = [pair]" by (auto simp: NewServer_def ServerConfig.defs split: sum.splits)
  from assms(3,5) obtain crt where c: "X509Certificate (lib_crypto L) (lib_ssh L) otp' (cl_RemoteIP ccfg) = Inr crt"
    "RootCAs c = [crt]" "ServerName c = DummyServerName" by (auto simp: NewClient_def ClientConfig.defs split: sum.splits)
  from derived_certificates [OF assms(1) c(1) s(1) assms(7,6)] show ?thesis unfolding s(2) c(2,3) .
qed

lemma same_secret_verifies:
  assumes "tls_laws (lib_crypto L)" "NewServer L scfg = Inr s" "NewClient L ccfg = Inr c" "cl_Secret ccfg = Secret scfg"
    and "Certificates s' = Certificates s"
  shows "tls_Verify (lib_crypto L) (RootCAs c) (ServerName c) (Certificates s') = None"
proof -
  from assms(2) obtain otp pair where o: "NewOneTimePassword (lib_crypto L) (Secret scfg) = Inr otp"
    "TLSCertificate (lib_crypto L) (lib_ssh L) otp (RemoteIP scfg) = Inr pair" by (auto simp: NewServer_def split: sum.splits)
  from o(2) obtain key der where k: "keyGen (lib_crypto L) (lib_ssh L) otp (RemoteIP scfg) = Inr (key, der)"
    by (auto simp: TLSCertificate_def split: sum.splits)
  then have "keyGen (lib_crypto L) (lib_ssh L) otp (cl_RemoteIP ccfg) = Inr (key, der)" by (simp add: keyGen_def)
  from client_verifies [OF assms(1-3) o(1) _ k this assms(5)] o(1) assms(4) show ?thesis by simp
qed

text \<open>Both sides derive the same password from the same one-time password.\<close>

lemma same_password:
  "NewServer L scfg = Inr s \<Longrightarrow> NewClient L ccfg = Inr c \<Longrightarrow> cl_Secret ccfg = Secret scfg \<Longrightarrow>
    cl_basicAuthPassword c = basicAuthPassword s"
  by (auto simp: NewServer_def NewClient_def ServerConfig.defs ClientConfig.defs split: sum.splits)

end
