(* ===== verification/ApiSession.thy ===== *)
theory ApiSession
  imports ApiClient
begin

section \<open>A session between stprov local and stprov remote\<close>

lemma incoming_network:
  assumes "plain_ip a" "plain_host port" "CHR '':'' \<notin> set port" "\<exists>n \<in> set (LocalCIDR s). IPNet_Contains n a"
  shows "verifyNetwork s w (incoming (JoinHostPort (IP_String a) port) rq) = None"
proof -
  have "incoming (JoinHostPort (IP_String a) port) rq
      = (incoming [] rq)\<lparr>RemoteAddr := JoinHostPort (IP_String a) port\<rparr>" by (simp add: incoming_def)
  then show ?thesis by (simp only: verifyNetwork_iff [OF assms(1-3)] assms(4))
qed

text \<open>What the client gets back when its request is admitted, and when its password is wrong.\<close>

lemma send_admitted:
  assumes "url_error url = None" "dial_error L c url (srv wd) = None" "route L (url_path url) = Some h" "hMethod h = m"
    and "\<And>rq. verifyNetwork (srv wd) new_response (incoming peer rq) = None"
    and "cl_basicAuthPassword c = basicAuthPassword (srv wd)"
  shows "send (connected L peer) c m url b wd =
    (case HandlerFunc h (incoming peer \<lparr>rq_Method = m, rq_URL = url,
            rq_BasicAuth = Some (BasicAuthUser, cl_basicAuthPassword c), rq_Body = b\<rparr>) new_response wd of
        (wd', w', code, Some e) \<Rightarrow>
          (if aborted w' then Inl (Wrapf ''do request'' (External ''EOF'')) else Inl (Errorf (StatusText code)), wd')
      | (wd', w', code, None) \<Rightarrow>
          (if aborted w' then Inl (Wrapf ''do request'' (External ''EOF'')) else Inr (written w'), wd'))"
proof -
  let ?r = "incoming peer \<lparr>rq_Method = m, rq_URL = url, rq_BasicAuth = Some (BasicAuthUser, cl_basicAuthPassword c), rq_Body = b\<rparr>"
  obtain wd' w' code res where h: "HandlerFunc h ?r new_response wd = (wd', w', code, res)" by (metis prod_cases4)
  have n: "status new_response = None" by (simp add: new_response_def)
  note c = route_answers [OF assms(3) h]
  have "serve L (url_path url) ?r wd = (case res of
      Some e \<Rightarrow> (wd', http_Error (StatusText code) code w') | None \<Rightarrow> (wd', w'))"
  proof (subst serve_admitted [OF assms(3) _ assms(5)])
    show "hMethod h = Method ?r" "BasicAuth ?r = Some (BasicAuthUser, basicAuthPassword (srv wd))"
      using assms(4,6) by (simp_all add: incoming_def)
  qed (simp add: h)
  then show ?thesis using h c assms(1,2)
    by (auto simp: send_def connected_def http_Error_def status_code_def n split: option.splits)
qed

lemma send_refused:
  assumes "url_error url = None" "dial_error L c url (srv wd) = None" "route L (url_path url) = Some h" "hMethod h = m"
    and "\<And>rq. verifyNetwork (srv wd) new_response (incoming peer rq) = None"
    and "cl_basicAuthPassword c \<noteq> basicAuthPassword (srv wd)"
  shows "send (connected L peer) c m url b wd = (Inl (Errorf ''Forbidden''), wd)"
proof -
  let ?r = "incoming peer \<lparr>rq_Method = m, rq_URL = url, rq_BasicAuth = Some (BasicAuthUser, cl_basicAuthPassword c), rq_Body = b\<rparr>"
  have "verifyMethod (hMethod h) new_response ?r = None" using assms(4) by (simp add: verifyMethod_def incoming_def)
  moreover have "authenticateUser (srv wd) new_response ?r
      = Some (http_Error ''BasicAuth credentials were insufficient'' StatusForbidden new_response)"
    using assms(6) by (simp add: authenticateUser_def incoming_def)
  ultimately have "serve L (url_path url) ?r wd = (wd, http_Error ''BasicAuth credentials were insufficient'' StatusForbidden new_response)"
    using assms(3,5) by (simp add: serve_def ServeHTTP_def)
  moreover have "StatusText StatusForbidden = ''Forbidden''" by (simp add: StatusText_def status_texts_def StatusForbidden_def)
  ultimately show ?thesis using assms(1,2)
    by (simp add: send_def connected_def status_code_def http_Error_def new_response_def StatusForbidden_def StatusOK_def)
qed

lemma routes:
  "route L ''/stprov/v0.0.1/add-data''
    = Some \<lparr>Endpoint = EndpointAddData, hMethod = MethodPost, HandlerFunc = handleAddData L\<rparr>"
  "route L ''/stprov/v0.0.1/add-secure-boot''
    = Some \<lparr>Endpoint = EndpointAddSecureBoot, hMethod = MethodPost, HandlerFunc = handleAddSecureBoot L\<rparr>"
  by (simp_all add: route_def handlers_def Protocol_def EndpointAddData_def EndpointAddSecureBoot_def)

lemma client_urls:
  assumes "NewClient L cfg = Inr c"
  shows "url_path (serverURL c @ EndpointAddData) = ''/stprov/v0.0.1/add-data''"
    "url_path (serverURL c @ EndpointAddSecureBoot) = ''/stprov/v0.0.1/add-secure-boot''"
    "url_path (serverURL c @ EndpointCommit) = ''/stprov/v0.0.1/commit''"
  by (simp_all add: url_path_endpoint [OF assms] EndpointAddData_def EndpointAddSecureBoot_def EndpointCommit_def)

lemma NewAddDataRequest_ok:
  "32 \<le> length rd \<Longrightarrow> NewAddDataRequest now rd = (Inr \<lparr>Entropy = take 32 rd, Timestamp = now\<rparr>, drop 32 rd)"
  by (simp add: NewAddDataRequest_def NewEntropy_ok)

text \<open>Both sides with their addresses and the client's place in the network.\<close>

lemma session_works:
  assumes laws: "hkdf_laws (lib_crypto L)" "message_laws (lib_json L)" "tls_laws (lib_crypto L)"
    and both: "NewServer L scfg = Inr s" "NewClient L ccfg = Inr c" "cl_Secret ccfg = Secret scfg"
    and addr: "cl_RemoteIP ccfg = RemoteIP scfg" "cl_RemotePort ccfg = RemotePort scfg" "ParseIP txt = Some (RemoteIP scfg)"
      "To4 (RemoteIP scfg) \<noteq> None" "1 \<le> RemotePort scfg" "RemotePort scfg \<le> 65535"
    and peer: "plain_ip a" "plain_host port" "CHR '':'' \<notin> set port" "\<exists>n \<in> set (LocalCIDR scfg). IPNet_Contains n a"
    and data: "32 \<le> length rd" "0 \<le> now" "Marshal_AddData (lib_json L) \<lparr>Entropy = take 32 rd, Timestamp = now\<rparr> = Inr b"
    and uds: "32 \<le> length srd" "uds = take 32 (Reader (lib_crypto L) (take 32 srd @ take 32 rd) ''uds'' 1)"
    and cr: "NewCommitResponse L uds (HostName scfg) = Inr cr" "Marshal_Commit (lib_json L) cr = Inr b'"
  defines "H \<equiv> connected L (JoinHostPort (IP_String a) port)"
  shows "\<exists>wd1 wd2. AddData L H c now rd \<lparr>nvram = v, rand = srd, srv = s\<rparr>
        = (Inr \<lparr>Entropy = take 32 rd, Timestamp = now\<rparr>, drop 32 rd, wd1)
    \<and> Commit L H c wd1 = (Inr cr, wd2) \<and> UDS (srv wd2) = Some uds \<and> commit (srv wd2) = 1 \<and> nvram wd2 = v"
proof -
  let ?wd = "\<lparr>nvram = v, rand = srd, srv = s\<rparr>"
  let ?s1 = "s\<lparr>srv_Timestamp := now, srv_Entropy := take 32 rd\<rparr>"
  let ?wd1 = "?wd\<lparr>srv := ?s1\<rparr>"
  let ?wd2 = "?wd1\<lparr>rand := drop 32 srd, srv := ?s1\<lparr>UDS := Some uds, commit := 1\<rparr>\<rparr>"
  have s: "LocalCIDR s = LocalCIDR scfg" "HostName s = HostName scfg" "commit s = 0" "\<not> commit_closed s"
    using NewServer_inv [OF both(1)] by (auto simp: server_inv_def ServerConfig.defs)
  have dial: "url_error (serverURL c @ e) = None" "dial_error L c (serverURL c @ e) s' = None"
    if "Addr s' = Addr s" "Certificates s' = Certificates s" for e s'
    using client_dials [OF both(1,2) addr that(1)] same_secret_verifies [OF laws(3) both that(2)] by (simp_all add: dial_error_def)
  have net: "verifyNetwork (srv wd) new_response (incoming (JoinHostPort (IP_String a) port) rq) = None"
    if "LocalCIDR (srv wd) = LocalCIDR scfg" for wd rq
    by (rule incoming_network [OF peer(1-3)]) (simp only: that peer(4))
  have pw: "cl_basicAuthPassword c = basicAuthPassword s" using same_password [OF both] .
  have "send H c MethodPost (serverURL c @ EndpointAddData) b ?wd = (Inr [], ?wd1)"
    unfolding H_def using routes(1) [of L, folded client_urls(1) [OF both(2)]]
    by (subst send_admitted) (use net [of ?wd] dial [of s] s pw data laws(2) in \<open>auto simp: handleAddData_def unpackPost_def incoming_def
        message_laws_def EntropyBytes_def new_response_def\<close>)
  then have 1: "AddData L H c now rd ?wd = (Inr \<lparr>Entropy = take 32 rd, Timestamp = now\<rparr>, drop 32 rd, ?wd1)"
    using data by (simp add: AddData_def NewAddDataRequest_ok doPost_def)
  have n: "NewUniqueDeviceSecret (lib_crypto L) (take 32 rd) srd = (Inr uds, drop 32 srd)"
    using NewUniqueDeviceSecret_eq [OF laws(1) uds(1)] uds(2) by simp
  have "send H c MethodGet (serverURL c @ EndpointCommit) [] ?wd1 = (Inr b', ?wd2)"
    unfolding H_def using route_commit [of L, folded client_urls(3) [OF both(2)]]
    by (subst send_admitted) (use net [of ?wd1] dial [of ?s1] s pw n cr in \<open>auto simp: handleCommit_def incoming_def w_Write_def new_response_def\<close>)
  then have 2: "Commit L H c ?wd1 = (Inr cr, ?wd2)"
    using laws(2) cr(2) by (simp add: Commit_def doGet_def message_laws_def)
  show ?thesis by (rule exI [of _ ?wd1], rule exI [of _ ?wd2]) (use 1 2 in simp)
qed

text \<open>
  C4. A client and a server that were given the same one-time password, the same IPv4 address
  (as \<open>net.ParseIP\<close> gives it) and the same port agree on the secret, when the client's own
  address is in an allowed network: the client's URL parses and leads to where the server
  listens, the client accepts the server's certificate, add-data followed by commit
  succeeds, the server holds the secret that HKDF derives from
  the server's and the client's entropy, and the client's answer is its description, with
  the server's host name. No EFI variable was written and the server can stop.
\<close>

theorem session_agrees:
  assumes laws: "hkdf_laws (lib_crypto L)" "message_laws (lib_json L)" "tls_laws (lib_crypto L)"
    and both: "NewServer L scfg = Inr s" "NewClient L ccfg = Inr c" "cl_Secret ccfg = Secret scfg"
    and addr: "cl_RemoteIP ccfg = RemoteIP scfg" "cl_RemotePort ccfg = RemotePort scfg" "ParseIP txt = Some (RemoteIP scfg)"
      "To4 (RemoteIP scfg) \<noteq> None" "1 \<le> RemotePort scfg" "RemotePort scfg \<le> 65535"
    and peer: "plain_ip a" "plain_host port" "CHR '':'' \<notin> set port" "\<exists>n \<in> set (LocalCIDR scfg). IPNet_Contains n a"
    and data: "32 \<le> length rd" "0 \<le> now" "Marshal_AddData (lib_json L) \<lparr>Entropy = take 32 rd, Timestamp = now\<rparr> = Inr b"
    and uds: "32 \<le> length srd" "uds = take 32 (Reader (lib_crypto L) (take 32 srd @ take 32 rd) ''uds'' 1)"
    and cr: "NewCommitResponse L uds (HostName scfg) = Inr cr" "Marshal_Commit (lib_json L) cr = Inr b'"
  defines "H \<equiv> connected L (JoinHostPort (IP_String a) port)"
  shows "\<exists>wd1 wd2. AddData L H c now rd \<lparr>nvram = v, rand = srd, srv = s\<rparr>
        = (Inr \<lparr>Entropy = take 32 rd, Timestamp = now\<rparr>, drop 32 rd, wd1)
    \<and> Commit L H c wd1 = (Inr cr, wd2) \<and> UDS (srv wd2) = Some uds \<and> commit (srv wd2) = 1 \<and> nvram wd2 = v"
  unfolding H_def using laws both addr peer data uds cr by (rule session_works)

text \<open>Requests do not change where the server listens, its certificate or its password.\<close>

lemma serve_identity:
  assumes "serve L path r wd = (wd', w)"
  shows "Addr (srv wd') = Addr (srv wd) \<and> Certificates (srv wd') = Certificates (srv wd)
    \<and> LocalCIDR (srv wd') = LocalCIDR (srv wd) \<and> basicAuthPassword (srv wd') = basicAuthPassword (srv wd)"
proof (cases "srv wd' = srv wd")
  case False
  with assms obtain h w1 code e where h: "route L path = Some h" "HandlerFunc h r new_response wd = (wd', w1, code, e)"
    by (auto simp: serve_def ServeHTTP_def split: option.splits prod.splits)
  from h(1) show ?thesis
  proof (cases rule: route_cases)
    case 1
    with h(2) show ?thesis by (auto simp: handleAddData_def split: sum.splits if_splits)
  next
    case 2
    with h(2) show ?thesis by (auto simp: handleAddSecureBoot_def split: prod.splits)
  next
    case 3
    with h(2) have "handleCommit L r new_response wd = (wd', w1, code, e)" by simp
    then show ?thesis by (cases rule: handleCommit_cases) (auto split: if_splits)
  qed
qed simp

lemma run_identity:
  assumes "(run_step L)\<^sup>*\<^sup>* c c'"
  shows "Addr (srv (snd c')) = Addr (srv (snd c)) \<and> Certificates (srv (snd c')) = Certificates (srv (snd c))
    \<and> LocalCIDR (srv (snd c')) = LocalCIDR (srv (snd c)) \<and> basicAuthPassword (srv (snd c')) = basicAuthPassword (srv (snd c))"
  using assms
proof (induction rule: rtranclp_induct)
  case (step c1 c2)
  from step(2) show ?case using step(3) by cases (auto simp: close_commit_def dest!: serve_identity)
qed simp

text \<open>Each operation of a client fails with the error of its request.\<close>

lemma operations_fail:
  assumes req: "\<And>b. send H c MethodPost (serverURL c @ EndpointAddData) b wd = (Inl err, wd)"
      "\<And>b. send H c MethodPost (serverURL c @ EndpointAddSecureBoot) b wd = (Inl err, wd)"
      "send H c MethodGet (serverURL c @ EndpointCommit) [] wd = (Inl err, wd)"
    and data: "32 \<le> length rd" "Marshal_AddData (lib_json L) \<lparr>Entropy = take 32 rd, Timestamp = now\<rparr> = Inr b"
    and keys: "cl_PK c \<noteq> []" "cl_KEK c \<noteq> []" "cl_DB c \<noteq> []"
      "Marshal_SecureBoot (lib_json L) \<lparr>PK = cl_PK c, KEK = cl_KEK c, Db = cl_DB c, Dbx = cl_DBX c,
         RebootIntoUEFIMenu = cl_RebootIntoUEFIMenu c\<rparr> = Inr b'"
  shows "AddData L H c now rd wd = (Inl (Wrapf ''post data'' err), drop 32 rd, wd)
    \<and> AddSecureBootKeys L H c wd = (Some (Wrapf ''post secure boot keys'' err), wd)
    \<and> Commit L H c wd = (Inl (Wrapf ''send commit'' err), wd)"
  using data keys
  by (simp add: AddData_def NewAddDataRequest_ok doPost_def AddSecureBootKeys_def NewAddSecureBootRequest_def Let_def
      SecureBoot_Check_def Commit_def doGet_def req)

text \<open>
  C8. A client with a wrong one-time password changes nothing. If its certificate differs from
  the server's, each of its three operations fails with the \<open>x509.UnknownAuthorityError\<close> of the
  TLS handshake; if the certificates agree by chance and only the password for basic
  authentication differs, each fails with the server's \<open>Forbidden\<close>. In both cases the server,
  its randomness and the EFI variables are as before. The server is in any state it
  reaches while it serves.
\<close>

theorem wrong_password_refused:
  assumes laws: "tls_laws (lib_crypto L)"
    and both: "NewServer L scfg = Inr s" "NewClient L ccfg = Inr c"
    and otps: "NewOneTimePassword (lib_crypto L) (Secret scfg) = Inr otp" "NewOneTimePassword (lib_crypto L) (cl_Secret ccfg) = Inr otp'"
      "keyGen (lib_crypto L) (lib_ssh L) otp (RemoteIP scfg) = Inr (key, der)"
      "keyGen (lib_crypto L) (lib_ssh L) otp' (cl_RemoteIP ccfg) = Inr (key', der')"
    and addr: "cl_RemoteIP ccfg = RemoteIP scfg" "cl_RemotePort ccfg = RemotePort scfg" "ParseIP txt = Some (RemoteIP scfg)"
      "To4 (RemoteIP scfg) \<noteq> None" "1 \<le> RemotePort scfg" "RemotePort scfg \<le> 65535"
    and serving: "(run_step L)\<^sup>*\<^sup>* (Serving, \<lparr>nvram = v, rand = srd, srv = s\<rparr>) (Serving, wd)"
    and peer: "plain_ip a" "plain_host port" "CHR '':'' \<notin> set port" "\<exists>n \<in> set (LocalCIDR scfg). IPNet_Contains n a"
    and data: "32 \<le> length rd" "Marshal_AddData (lib_json L) \<lparr>Entropy = take 32 rd, Timestamp = now\<rparr> = Inr b"
    and keys: "cl_PK c \<noteq> []" "cl_KEK c \<noteq> []" "cl_DB c \<noteq> []"
      "Marshal_SecureBoot (lib_json L) \<lparr>PK = cl_PK c, KEK = cl_KEK c, Db = cl_DB c, Dbx = cl_DBX c,
         RebootIntoUEFIMenu = cl_RebootIntoUEFIMenu c\<rparr> = Inr b'"
  defines "H \<equiv> connected L (JoinHostPort (IP_String a) port)"
  shows "(der' \<noteq> der \<longrightarrow> (\<exists>m.
        AddData L H c now rd wd = (Inl (Wrapf ''post data'' (Wrapf ''do request'' (UnknownAuthority m))), drop 32 rd, wd)
        \<and> AddSecureBootKeys L H c wd = (Some (Wrapf ''post secure boot keys'' (Wrapf ''do request'' (UnknownAuthority m))), wd)
        \<and> Commit L H c wd = (Inl (Wrapf ''send commit'' (Wrapf ''do request'' (UnknownAuthority m))), wd)))
    \<and> (der' = der \<and> cl_basicAuthPassword c \<noteq> basicAuthPassword s \<longrightarrow>
        AddData L H c now rd wd = (Inl (Wrapf ''post data'' (Errorf ''Forbidden'')), drop 32 rd, wd)
        \<and> AddSecureBootKeys L H c wd = (Some (Wrapf ''post secure boot keys'' (Errorf ''Forbidden'')), wd)
        \<and> Commit L H c wd = (Inl (Wrapf ''send commit'' (Errorf ''Forbidden'')), wd))"
proof -
  have i: "Addr (srv wd) = Addr s" "Certificates (srv wd) = Certificates s" "LocalCIDR (srv wd) = LocalCIDR s"
    "basicAuthPassword (srv wd) = basicAuthPassword s" using run_identity [OF serving] by simp_all
  note dial = client_dials [OF both addr i(1)] and tls = client_verifies [OF laws both otps i(2)]
  note u = client_urls [OF both(2)]
  have d: "dial_error L c (serverURL c @ e) (srv wd) = tls_Verify (lib_crypto L) (RootCAs c) (ServerName c) (Certificates (srv wd))" for e
    using dial(2) by (simp add: dial_error_def)
  have "\<exists>m. \<forall>e meth b. send H c meth (serverURL c @ e) b wd = (Inl (Wrapf ''do request'' (UnknownAuthority m)), wd)" if "der' \<noteq> der"
  proof -
    from tls that obtain m where "\<And>e. dial_error L c (serverURL c @ e) (srv wd) = Some (UnknownAuthority m)" unfolding d by blast
    from send_dial_error [OF dial(1) this] show ?thesis unfolding H_def by blast
  qed
  moreover have "send H c meth (serverURL c @ e) b wd = (Inl (Errorf ''Forbidden''), wd)"
    if "der' = der" "cl_basicAuthPassword c \<noteq> basicAuthPassword s" "route L (url_path (serverURL c @ e)) = Some h" "hMethod h = meth" for e h meth b
    unfolding H_def
  proof (rule send_refused [OF dial(1) _ that(3,4)])
    show "dial_error L c (serverURL c @ e) (srv wd) = None" using d tls that(1) by simp
    have "LocalCIDR s = LocalCIDR scfg" using NewServer_inv [OF both(1)] by (auto simp: server_inv_def ServerConfig.defs)
    with i(3) have l: "LocalCIDR (srv wd) = LocalCIDR scfg" by simp
    show "verifyNetwork (srv wd) new_response (incoming (JoinHostPort (IP_String a) port) rq) = None" for rq
      by (rule incoming_network [OF peer(1-3)]) (simp only: l peer(4))
    show "cl_basicAuthPassword c \<noteq> basicAuthPassword (srv wd)" using that(2) i(4) by simp
  qed
  note forbidden = this [OF _ _ routes(1) [of L, folded u(1)]] this [OF _ _ routes(2) [of L, folded u(2)]]
    this [OF _ _ route_commit [of L, folded u(3)]]
  ultimately show ?thesis using operations_fail [OF _ _ _ data keys, of H] by (metis handler.select_convs(2))
qed

subsection \<open>Both theorems at work\<close>

definition demo_client :: "string \<Rightarrow> ClientConfig" where
  "demo_client secret = \<lparr>cl_Secret = secret, cl_RemoteIP = v4InV6Prefix @ [10, 0, 2, 10], cl_RemotePort = 2009, cl_PK = [1],
     cl_KEK = [2], cl_DB = [3], cl_DBX = [], cl_RebootIntoUEFIMenu = True\<rparr>"

lemma demo_NewClient: "\<exists>c. NewClient demo_lib cfg = Inr c"
  by (simp add: NewClient_def NewOneTimePassword_def X509Certificate_def keyGen_def ed25519_GenerateKey_def ReadFull_def
      BasicAuthPassword_def read_entropy_hkdf [OF demo_crypto_laws] length_Reader [OF demo_crypto_laws] Let_def)

lemma demo_peer: "plain_ip [10, 0, 2, 77]" "plain_host ''40000''" "CHR '':'' \<notin> set ''40000''"
    "IPNet_Contains \<lparr>IP = [10, 0, 2, 0], Mask = [255, 255, 255, 0]\<rparr> [10, 0, 2, 77]"
  by (simp_all add: plain_ip_def plain_host_def) code_simp

text \<open>The address of the examples, as a text and as \<open>net.ParseIP\<close> gives it.\<close>

lemma demo_address: "ParseIP ''10.0.2.10'' = Some (v4InV6Prefix @ [10, 0, 2, 10])" "To4 (v4InV6Prefix @ [10, 0, 2, 10]) \<noteq> None"
  by code_simp+

lemma demo_config:
  "cl_Secret (demo_client secret) = secret" "Secret (ServerConfig.truncate (srv demo_world)) = ''otp''"
  "cl_RemoteIP (demo_client secret) = RemoteIP (ServerConfig.truncate (srv demo_world))"
  "cl_RemotePort (demo_client secret) = RemotePort (ServerConfig.truncate (srv demo_world))"
  "RemoteIP (ServerConfig.truncate (srv demo_world)) = v4InV6Prefix @ [10, 0, 2, 10]"
  "1 \<le> RemotePort (ServerConfig.truncate (srv demo_world))" "RemotePort (ServerConfig.truncate (srv demo_world)) \<le> 65535"
  by (simp_all add: demo_client_def demo_world_def ServerConfig.defs)

lemma demo_peer_allowed: "\<exists>n \<in> set (LocalCIDR (ServerConfig.truncate (srv demo_world))). IPNet_Contains n [10, 0, 2, 77]"
  using demo_peer(4) by (simp add: demo_world_def ServerConfig.defs)

lemmas demo_dial = demo_config(3,4) demo_address [folded demo_config(5)] demo_config(6,7)

theorem session_agrees_witness:
  "\<exists>s c wd1 wd2 cr. NewServer demo_lib (ServerConfig.truncate (srv demo_world)) = Inr s \<and> NewClient demo_lib (demo_client ''otp'') = Inr c
    \<and> AddData demo_lib (connected demo_lib ''10.0.2.77:40000'') c 1700000000 (replicate 40 1)
          \<lparr>nvram = Map.empty, rand = replicate 32 7, srv = s\<rparr>
        = (Inr \<lparr>Entropy = replicate 32 1, Timestamp = 1700000000\<rparr>, replicate 8 1, wd1)
    \<and> Commit demo_lib (connected demo_lib ''10.0.2.77:40000'') c wd1 = (Inr cr, wd2)"
proof -
  let ?cfg = "ServerConfig.truncate (srv demo_world)"
  obtain s where s: "NewServer demo_lib ?cfg = Inr s" using demo_NewServer ..
  obtain c where c: "NewClient demo_lib (demo_client ''otp'') = Inr c" using demo_NewClient ..
  let ?uds = "take 32 (Reader (lib_crypto demo_lib) (take 32 (replicate 32 7) @ take 32 (replicate 40 1)) ''uds'' 1)"
  obtain cr where cr: "NewCommitResponse demo_lib ?uds (HostName ?cfg) = Inr cr" using demo_NewCommitResponse by blast
  obtain b where b: "Marshal_AddData (lib_json demo_lib) \<lparr>Entropy = take 32 (replicate 40 1), Timestamp = 1700000000\<rparr> = Inr b"
    by (simp add: demo_json_def)
  obtain b' where b': "Marshal_Commit (lib_json demo_lib) cr = Inr b'" by (simp add: demo_json_def)
  have laws: "hkdf_laws (lib_crypto demo_lib)" "message_laws (lib_json demo_lib)" "tls_laws (lib_crypto demo_lib)"
    by (simp_all add: demo_crypto_laws demo_json_laws demo_tls_laws)
  have k: "cl_Secret (demo_client ''otp'') = Secret ?cfg" by (simp only: demo_config)
  have n: "32 \<le> length (replicate 40 (1 :: byte))" "(0 :: int) \<le> 1700000000" "32 \<le> length (replicate 32 (7 :: byte))" by simp_all
  have p: "JoinHostPort (IP_String [10, 0, 2, 77]) ''40000'' = ''10.0.2.77:40000''" by code_simp
  from session_agrees [OF laws s c k demo_dial demo_peer(1-3) demo_peer_allowed n(1,2) b n(3) refl cr b', unfolded p, of Map.empty]
  show ?thesis using s c by auto
qed

text \<open>Two passwords that differ in the last letter give different certificates.\<close>

lemma demo_certificates:
  "\<exists>otp otp' key key' der der'. NewOneTimePassword demo_crypto ''otp'' = Inr otp \<and> NewOneTimePassword demo_crypto ''otq'' = Inr otp'
     \<and> keyGen demo_crypto rfc_ssh otp ip = Inr (key, der) \<and> keyGen demo_crypto rfc_ssh otp' ip' = Inr (key', der') \<and> der' \<noteq> der"
proof -
  let ?otp = "\<lambda>s. take 32 (Reader demo_crypto (str_bytes s) ''otp'' 1)"
  have o: "NewOneTimePassword demo_crypto s = Inr (?otp s)" for s
    by (simp add: NewOneTimePassword_def read_entropy_hkdf [OF demo_crypto_laws])
  have k: "\<exists>key pub. keyGen demo_crypto rfc_ssh otp ip
      = Inr (key, take 64 (Reader demo_crypto otp ''otp:keygen'' 2) @ pub @ str_bytes DummyServerName)" for otp ip
    by (simp add: keyGen_def ed25519_GenerateKey_def ReadFull_def length_Reader [OF demo_crypto_laws] Let_def certificate_template_def)
  have r: "Reader demo_crypto x l 1 = take 8160 (str_bytes (''stprov:'' @ l) @ str_bytes ''1'' @ x @ replicate 8160 0)"
    "Reader demo_crypto x l 2 = take 8160 (str_bytes (''stprov:'' @ l) @ str_bytes ''2'' @ x @ replicate 8160 0)" for x l
  proof -
    have "show_nat 1 = ''1''" "show_nat 2 = ''2''" by code_simp+
    then show "Reader demo_crypto x l 1 = take 8160 (str_bytes (''stprov:'' @ l) @ str_bytes ''1'' @ x @ replicate 8160 0)"
      "Reader demo_crypto x l 2 = take 8160 (str_bytes (''stprov:'' @ l) @ str_bytes ''2'' @ x @ replicate 8160 0)"
      by (simp_all only: Reader_def demo_crypto_def Let_def crypto.select_convs append_assoc)
  qed
  have n: "(take 64 (Reader demo_crypto (?otp s) ''otp:keygen'' 2) @ y) ! 31 = str_bytes s ! 2" if "length s = 3" for s y
    using that by (simp add: r nth_append del: One_nat_def)
  have ne: "take 64 (Reader demo_crypto (?otp ''otp'') ''otp:keygen'' 2) @ y \<noteq> take 64 (Reader demo_crypto (?otp ''otq'') ''otp:keygen'' 2) @ z" for y z
  proof
    assume "take 64 (Reader demo_crypto (?otp ''otp'') ''otp:keygen'' 2) @ y = take 64 (Reader demo_crypto (?otp ''otq'') ''otp:keygen'' 2) @ z"
    note e = arg_cong [OF this, of "\<lambda>l. l ! 31"]
    have l: "length ''otp'' = 3" "length ''otq'' = 3" by simp_all
    from e have "str_bytes ''otp'' ! 2 = str_bytes ''otq'' ! 2" unfolding n [OF l(1)] n [OF l(2)] .
    then show False by simp
  qed
  obtain key pub key' pub' where "keyGen demo_crypto rfc_ssh (?otp ''otp'') ip
      = Inr (key, take 64 (Reader demo_crypto (?otp ''otp'') ''otp:keygen'' 2) @ pub @ str_bytes DummyServerName)"
    "keyGen demo_crypto rfc_ssh (?otp ''otq'') ip'
      = Inr (key', take 64 (Reader demo_crypto (?otp ''otq'') ''otp:keygen'' 2) @ pub' @ str_bytes DummyServerName)" using k by meson
  with o ne show ?thesis by (intro exI conjI) (assumption | rule o ne [symmetric])+
qed

theorem wrong_password_refused_witness:
  "\<exists>s c m. NewServer demo_lib (ServerConfig.truncate (srv demo_world)) = Inr s \<and> NewClient demo_lib (demo_client ''otq'') = Inr c
     \<and> Commit demo_lib (connected demo_lib ''10.0.2.77:40000'') c \<lparr>nvram = Map.empty, rand = [], srv = s\<rparr>
        = (Inl (Wrapf ''send commit'' (Wrapf ''do request'' (UnknownAuthority m))), \<lparr>nvram = Map.empty, rand = [], srv = s\<rparr>)"
proof -
  let ?cfg = "ServerConfig.truncate (srv demo_world)" and ?cl = "demo_client ''otq''"
  obtain s where s: "NewServer demo_lib ?cfg = Inr s" using demo_NewServer ..
  obtain c where c: "NewClient demo_lib ?cl = Inr c" using demo_NewClient ..
  have k: "cl_PK c \<noteq> []" "cl_KEK c \<noteq> []" "cl_DB c \<noteq> []"
    using c by (auto simp: NewClient_def ClientConfig.defs demo_client_def split: sum.splits)
  obtain b where b: "Marshal_AddData (lib_json demo_lib) \<lparr>Entropy = take 32 (replicate 40 1), Timestamp = 1700000000\<rparr> = Inr b"
    by (simp add: demo_json_def)
  obtain b' where b': "Marshal_SecureBoot (lib_json demo_lib) \<lparr>PK = cl_PK c, KEK = cl_KEK c, Db = cl_DB c, Dbx = cl_DBX c,
         RebootIntoUEFIMenu = cl_RebootIntoUEFIMenu c\<rparr> = Inr b'" by (simp add: demo_json_def)
  obtain otp otp' key key' der der' where o: "NewOneTimePassword (lib_crypto demo_lib) (Secret ?cfg) = Inr otp"
    "NewOneTimePassword (lib_crypto demo_lib) (cl_Secret ?cl) = Inr otp'"
    "keyGen (lib_crypto demo_lib) (lib_ssh demo_lib) otp (RemoteIP ?cfg) = Inr (key, der)"
    "keyGen (lib_crypto demo_lib) (lib_ssh demo_lib) otp' (cl_RemoteIP ?cl) = Inr (key', der')" and ne: "der' \<noteq> der"
    using demo_certificates [of "RemoteIP ?cfg" "cl_RemoteIP ?cl"] unfolding demo_config(1,2) demo_lib_fields by blast
  have n: "32 \<le> length (replicate 40 (1 :: byte))" by simp
  have p: "JoinHostPort (IP_String [10, 0, 2, 77]) ''40000'' = ''10.0.2.77:40000''" by code_simp
  have l: "tls_laws (lib_crypto demo_lib)" by (simp add: demo_tls_laws)
  from wrong_password_refused [OF l s c o demo_dial rtranclp.rtrancl_refl demo_peer(1-3) demo_peer_allowed n b k b', unfolded p] ne s c
  show ?thesis by blast
qed

end
