(* ===== verification/LocalCmd.thy ===== *)
theory LocalCmd
  imports ApiSession Flags
begin

section \<open>stprov local: subcmd/local\<close>

text \<open>
  The command on the operator's side. The files it reads are a function from names,
  with \<open>NotExist\<close> the error of a missing file; \<open>nil\<close> and an empty slice of bytes differ, so that
  optional contents are \<open>bytes option\<close>. What the command prints on standard output is part
  of its result; the entropy it logs is left out.
\<close>

definition readOptionalFile :: "(string \<Rightarrow> goerror + bytes) \<Rightarrow> string \<Rightarrow> goerror + bytes option" where
  "readOptionalFile FS filename =
     (case FS filename of
        Inr b \<Rightarrow> Inr (Some b)
      | Inl e \<Rightarrow> if os_IsNotExist e then Inr None else Inl e)"

text \<open>A nil slice has no bytes.\<close>

definition slice_bytes :: "bytes option \<Rightarrow> bytes" where
  "slice_bytes x = (case x of None \<Rightarrow> [] | Some b \<Rightarrow> b)"

text \<open>The checks before anything is sent: the server's address and the four files.\<close>

definition local_checks :: "string list \<Rightarrow> int \<Rightarrow> string \<Rightarrow> string \<Rightarrow> goerror + ip" where
  "local_checks args optPort optIP optOTP =
     (if args \<noteq> [] then Inl (Errorf (''trailing arguments: '' @ show_list args))
      else if optIP = [] then Inl (Errorf ''ip address is a required option'')
      else if optOTP = [] then Inl (Errorf ''one-time password is a required option'')
      else (case ParseIP optIP of
          None \<Rightarrow> Inl (Errorf (''malformed ip address: '' @ optIP))
        | Some p \<Rightarrow>
            if optPort < 1 \<or> optPort > 65535
            then Inl (Errorf (''invalid port: '' @ show_int optPort @ '' not in [0, 65535]''))
            else Inr p))"

record key_files =
  kf_PK :: "bytes option"
  kf_KEK :: "bytes option"
  kf_DB :: "bytes option"
  kf_DBX :: "bytes option"

definition haveSBOpts :: "key_files \<Rightarrow> bool" where
  "haveSBOpts k \<longleftrightarrow> kf_PK k \<noteq> None \<or> kf_KEK k \<noteq> None \<or> kf_DB k \<noteq> None \<or> kf_DBX k \<noteq> None"

definition okSBOpts :: "key_files \<Rightarrow> bool" where
  "okSBOpts k \<longleftrightarrow> kf_PK k \<noteq> None \<and> kf_KEK k \<noteq> None \<and> kf_DB k \<noteq> None"

definition read_keys :: "(string \<Rightarrow> goerror + bytes) \<Rightarrow> string \<Rightarrow> string \<Rightarrow> string \<Rightarrow> string \<Rightarrow> goerror + key_files" where
  "read_keys FS pkf kekf dbf dbxf =
     (case readOptionalFile FS pkf of
        Inl e \<Rightarrow> Inl (Wrapf ''invalid Secure Boot PK'' e)
      | Inr pk \<Rightarrow>
     (case readOptionalFile FS kekf of
        Inl e \<Rightarrow> Inl (Wrapf ''invalid Secure Boot KEK'' e)
      | Inr kek \<Rightarrow>
     (case readOptionalFile FS dbf of
        Inl e \<Rightarrow> Inl (Wrapf ''invalid Secure Boot db'' e)
      | Inr db \<Rightarrow>
     (case readOptionalFile FS dbxf of
        Inl e \<Rightarrow> Inl (Wrapf ''invalid Secure Boot dbx'' e)
      | Inr dbx \<Rightarrow>
          (let k = \<lparr>kf_PK = pk, kf_KEK = kek, kf_DB = db, kf_DBX = dbx\<rparr> in
           if haveSBOpts k \<and> \<not> okSBOpts k
           then Inl (Errorf ''invalid Secure Boot options: PK, KEK, and db are required'')
           else Inr k)))))"

definition result_lines :: "CommitResponse \<Rightarrow> string \<Rightarrow> string" where
  "result_lines cr optIP =
     ''publickey='' @ cr_PublicKey cr @ [CHR 0x0A] @ ''fingerprint='' @ cr_Fingerprint cr @ [CHR 0x0A]
     @ ''hostname='' @ cr_HostName cr @ [CHR 0x0A] @ ''ip='' @ optIP @ [CHR 0x0A]"

definition local_run_Main :: "('s, 'c, 'k) lib \<Rightarrow> ('c, 'w) httplib \<Rightarrow> (string \<Rightarrow> goerror + bytes) \<Rightarrow> string list \<Rightarrow> int \<Rightarrow> string \<Rightarrow> string
    \<Rightarrow> string \<Rightarrow> string \<Rightarrow> string \<Rightarrow> string \<Rightarrow> bool \<Rightarrow> int \<Rightarrow> bytes \<Rightarrow> 'w \<Rightarrow> (goerror + string) \<times> bytes \<times> 'w" where
  "local_run_Main L H FS args optPort optIP optOTP pkf kekf dbf dbxf optNoUEFIMenuReboot now rd w =
     (case local_checks args optPort optIP optOTP of
        Inl e \<Rightarrow> (Inl e, rd, w)
      | Inr p \<Rightarrow>
     (case read_keys FS pkf kekf dbf dbxf of
        Inl e \<Rightarrow> (Inl e, rd, w)
      | Inr k \<Rightarrow>
     (case NewClient L \<lparr>cl_Secret = optOTP, cl_RemoteIP = p, cl_RemotePort = optPort, cl_PK = slice_bytes (kf_PK k),
              cl_KEK = slice_bytes (kf_KEK k), cl_DB = slice_bytes (kf_DB k), cl_DBX = slice_bytes (kf_DBX k),
              cl_RebootIntoUEFIMenu = (\<not> optNoUEFIMenuReboot)\<rparr> of
        Inl e \<Rightarrow> (Inl (Wrapf ''new client'' e), rd, w)
      | Inr cli \<Rightarrow>
     (case AddData L H cli now rd w of
        (Inl e, rd', w1) \<Rightarrow> (Inl (Wrapf ''add data'' e), rd', w1)
      | (Inr data, rd', w1) \<Rightarrow>
     (case (if haveSBOpts k then AddSecureBootKeys L H cli w1 else (None, w1)) of
        (Some e, w2) \<Rightarrow> (Inl (Wrapf ''add Secure Boot keys'' e), rd', w2)
      | (None, w2) \<Rightarrow>
     (case Commit L H cli w2 of
        (Inl e, w3) \<Rightarrow> (Inl (Wrapf ''commit'' e), rd', w3)
      | (Inr cr, w3) \<Rightarrow> (Inr (result_lines cr optIP), rd', w3)))))))"

subsection \<open>Options and dispatch\<close>

definition int_of :: "optval \<Rightarrow> int" where "int_of v = (case v of IntV i \<Rightarrow> i | _ \<Rightarrow> 0)"
definition string_of :: "optval \<Rightarrow> string" where "string_of v = (case v of StringV s \<Rightarrow> s | _ \<Rightarrow> [])"
definition bool_of :: "optval \<Rightarrow> bool" where "bool_of v = (case v of BoolV b \<Rightarrow> b | _ \<Rightarrow> False)"

text \<open>The package's variables with the zero values of their types.\<close>

definition local_zero :: vars where
  "local_zero x =
     (if x = ''optPort'' then IntV 0 else if x = ''optNoUefiMenuReboot'' then BoolV False else StringV [])"

definition local_run_options :: "flagset \<Rightarrow> flagset option" where
  "local_run_options fs = do {
     fs \<leftarrow> AddInt ''optPort'' ''p'' ''port'' 2009 fs;
     fs \<leftarrow> AddString ''optIP'' ''i'' ''ip'' [] fs;
     fs \<leftarrow> AddString ''optOTP'' ''o'' ''otp'' [] fs;
     fs \<leftarrow> AddBool ''optNoUefiMenuReboot'' ''n'' ''no-uefi-menu-reboot'' False fs;
     fs \<leftarrow> fs_XVar (StringV []) ''optPKFile'' ''pk'' fs;
     fs \<leftarrow> fs_XVar (StringV []) ''optKEKFile'' ''kek'' fs;
     fs \<leftarrow> fs_XVar (StringV []) ''optDBFile'' ''db'' fs;
     fs_XVar (StringV []) ''optDBXFile'' ''dbx'' fs
   }"

definition local_setOptions :: "flagset \<Rightarrow> flagset option" where
  "local_setOptions fs = (if fs_name fs = ''run'' then local_run_options fs else Some fs)"

text \<open>
  How a command ends: it exits inside option parsing, with what it printed on standard error,
  panics, shows its usage text and returns, or returns a result to its caller. The
  two commands wrap an error with the name of the subcommand.
\<close>

datatype 'a ending = Exits nat string | Panics | Shows string | Returns 'a

definition fmtErr :: "goerror \<Rightarrow> string \<Rightarrow> goerror" where
  "fmtErr err name = Wrapf ((if name = [] then [] else '' '') @ name) err"

definition invalid_command :: "string \<Rightarrow> goerror" where
  "invalid_command name = Errorf (''invalid command '' @ quote name @ '', try \"help\"'')"

definition local_Main :: "('s, 'c, 'k) lib \<Rightarrow> ('c, 'w) httplib \<Rightarrow> (string \<Rightarrow> goerror + bytes) \<Rightarrow> string list \<Rightarrow> int \<Rightarrow> bytes \<Rightarrow> 'w
    \<Rightarrow> ((goerror + string) \<times> bytes \<times> 'w) ending" where
  "local_Main L H FS args now rd w =
     (case New args local_usage local_setOptions local_zero of
        Exit n t \<Rightarrow> Exits n t
      | Panic \<Rightarrow> Panics
      | Parsed opt \<Rightarrow>
          (let name = fs_name opt; v = vars opt in
           if name = ''help'' \<or> name = [] then Shows local_usage
           else (case (if name = ''run''
                 then local_run_Main L H FS (fs_args opt) (int_of (v ''optPort'')) (string_of (v ''optIP'')) (string_of (v ''optOTP''))
                        (string_of (v ''optPKFile'')) (string_of (v ''optKEKFile'')) (string_of (v ''optDBFile''))
                        (string_of (v ''optDBXFile'')) (bool_of (v ''optNoUefiMenuReboot'')) now rd w
                 else (Inl (invalid_command name), rd, w)) of
               (Inl e, rd', w') \<Rightarrow> Returns (Inl (fmtErr e name), rd', w')
             | (Inr out, rd', w') \<Rightarrow> Returns (Inr out, rd', w'))))"

end
