(* ===== verification/LocalFacts.thy ===== *)
theory LocalFacts
  imports LocalCmd
begin

section \<open>stprov local run against stprov remote's server\<close>

text \<open>
  What the three operations of a client did to the server when they succeeded. A client is
  admitted when it has the server's password and its address is in an allowed network.
\<close>

definition admitted :: "'c client \<Rightarrow> string \<Rightarrow> ('s, 'k) world \<Rightarrow> bool" where
  "admitted c peer wd \<longleftrightarrow> cl_basicAuthPassword c = basicAuthPassword (srv wd)
     \<and> (\<forall>rq. verifyNetwork (srv wd) new_response (incoming peer rq) = None)"

lemma admitted_srv:
  "admitted c peer wd \<Longrightarrow> LocalCIDR (srv wd') = LocalCIDR (srv wd) \<Longrightarrow> basicAuthPassword (srv wd') = basicAuthPassword (srv wd) \<Longrightarrow>
    admitted c peer wd'"
  using verifyNetwork_cong [of "srv wd'" "srv wd"] by (simp add: admitted_def)

lemma send_succeeded:
  assumes "admitted c peer wd" "route L (url_path url) = Some h" "hMethod h = m"
    "send (connected L peer) c m url b wd = (Inr body, wd')"
  shows "\<exists>w' code. HandlerFunc h (incoming peer \<lparr>rq_Method = m, rq_URL = url,
      rq_BasicAuth = Some (BasicAuthUser, cl_basicAuthPassword c), rq_Body = b\<rparr>) new_response wd = (wd', w', code, None)
    \<and> written w' = body \<and> \<not> aborted w'"
  using assms(4)
proof (cases rule: send_served)
  case (served w)
  from assms(1) have a: "cl_basicAuthPassword c = basicAuthPassword (srv wd)"
    "\<And>rq. verifyNetwork (srv wd) new_response (incoming peer rq) = None" by (simp_all add: admitted_def)
  from assms(4) send_admitted [OF served(1,2) assms(2,3) a(2,1), of b] show ?thesis
    by (auto split: prod.splits option.splits if_splits)
qed simp

lemma AddData_succeeded:
  assumes "message_laws (lib_json L)" "NewClient L cfg = Inr c" "admitted c peer wd"
    "AddData L (connected L peer) c now rd wd = (Inr data, rd', wd1)"
  shows "wd1 = wd\<lparr>srv := (srv wd)\<lparr>srv_Timestamp := Timestamp data, srv_Entropy := Entropy data\<rparr>\<rparr>
    \<and> NewAddDataRequest now rd = (Inr data, rd')"
proof -
  from assms(4) have n: "NewAddDataRequest now rd = (Inr data, rd')"
    by (auto simp: AddData_def split: prod.splits sum.splits)
  with assms(4) obtain b body where b: "Marshal_AddData (lib_json L) data = Inr b"
    "send (connected L peer) c MethodPost (serverURL c @ EndpointAddData) b wd = (Inr body, wd1)"
    by (auto simp: AddData_def doPost_def split: prod.splits sum.splits)
  from send_succeeded [OF assms(3) routes(1) [of L, folded client_urls(1) [OF assms(2)]] _ b(2)]
  obtain w' code where "handleAddData L (incoming peer \<lparr>rq_Method = MethodPost, rq_URL = serverURL c @ EndpointAddData,
      rq_BasicAuth = Some (BasicAuthUser, cl_basicAuthPassword c), rq_Body = b\<rparr>) new_response wd = (wd1, w', code, None)"
    by auto
  with assms(1) b(1) n show ?thesis
    by (auto simp: handleAddData_def unpackPost_def incoming_def message_laws_def split: if_splits)
qed

lemma AddSecureBootKeys_succeeded:
  assumes "message_laws (lib_json L)" "NewClient L cfg = Inr c" "admitted c peer wd"
    "AddSecureBootKeys L (connected L peer) c wd = (None, wd1)"
  shows "cl_PK c \<noteq> [] \<and> cl_KEK c \<noteq> [] \<and> cl_DB c \<noteq> [] \<and> IsSetupMode (lib_efi L) (nvram wd) \<noteq> Inr False
    \<and> (\<exists>s. Provision (lib_efi L) (cl_PK c) (cl_KEK c) (cl_DB c) (cl_DBX c) (nvram wd) = (s, None)
         \<and> wd1 = wd\<lparr>nvram := (if cl_RebootIntoUEFIMenu c then fst (RequestRebootIntoUEFIMenu (lib_efi L) s) else s)\<rparr>)"
proof -
  let ?m = "\<lparr>PK = cl_PK c, KEK = cl_KEK c, Db = cl_DB c, Dbx = cl_DBX c, RebootIntoUEFIMenu = cl_RebootIntoUEFIMenu c\<rparr>"
  from assms(4) have k: "SecureBoot_Check ?m = None"
    by (auto simp: AddSecureBootKeys_def NewAddSecureBootRequest_def Let_def split: option.splits)
  with assms(4) obtain b body where b: "Marshal_SecureBoot (lib_json L) ?m = Inr b"
    "send (connected L peer) c MethodPost (serverURL c @ EndpointAddSecureBoot) b wd = (Inr body, wd1)"
    by (auto simp: AddSecureBootKeys_def NewAddSecureBootRequest_def doPost_def Let_def simp del: SecureBoot_Check_None
        split: prod.splits sum.splits)
  from send_succeeded [OF assms(3) routes(2) [of L, folded client_urls(2) [OF assms(2)]] _ b(2)]
  obtain w' code where "handleAddSecureBoot L (incoming peer \<lparr>rq_Method = MethodPost, rq_URL = serverURL c @ EndpointAddSecureBoot,
      rq_BasicAuth = Some (BasicAuthUser, cl_basicAuthPassword c), rq_Body = b\<rparr>) new_response wd = (wd1, w', code, None)"
    by auto
  with assms(1) b(1) k show ?thesis
    by (auto simp: handleAddSecureBoot_def addSecureBoot_body_def unpackPost_def incoming_def message_laws_def
        split: if_splits prod.splits option.splits)
qed

lemma Commit_succeeded:
  assumes "message_laws (lib_json L)" "NewClient L cfg = Inr c" "admitted c peer wd"
    "Commit L (connected L peer) c wd = (Inr cr, wd1)"
  shows "nvram wd1 = nvram wd \<and> (\<exists>uds. UDS (srv wd1) = Some uds \<and> NewCommitResponse L uds (HostName (srv wd)) = Inr cr
    \<and> NewUniqueDeviceSecret (lib_crypto L) (srv_Entropy (srv wd)) (rand wd) = (Inr uds, rand wd1))
    \<and> 0 < commit (srv wd1)"
proof -
  from assms(4) obtain body where b: "send (connected L peer) c MethodGet (serverURL c @ EndpointCommit) [] wd = (Inr body, wd1)"
    "Unmarshal_Commit (lib_json L) body = Inr cr"
    by (auto simp: Commit_def doGet_def split: prod.splits sum.splits)
  from send_succeeded [OF assms(3) route_commit [of L, folded client_urls(3) [OF assms(2)]] _ b(1)]
  obtain w' code where h: "handleCommit L (incoming peer \<lparr>rq_Method = MethodGet, rq_URL = serverURL c @ EndpointCommit,
      rq_BasicAuth = Some (BasicAuthUser, cl_basicAuthPassword c), rq_Body = []\<rparr>) new_response wd = (wd1, w', code, None)"
    and w: "written w' = body" "\<not> aborted w'" by auto
  from h show ?thesis
  proof (cases rule: handleCommit_cases)
    case (stored uds rd cr')
    then show ?thesis using b(2) w assms(1) by (auto simp: message_laws_def w_Write_def new_response_def split: if_splits)
  qed simp
qed

text \<open>A run that succeeds, as the sequence of its steps.\<close>

lemma local_run_cases:
  assumes "local_run_Main L H FS args port ip otp pkf kekf dbf dbxf noMenu now rd w = (Inr out, rd', w3)"
  obtains p k cli data w1 w2 cr where "read_keys FS pkf kekf dbf dbxf = Inr k"
    "NewClient L \<lparr>cl_Secret = otp, cl_RemoteIP = p, cl_RemotePort = port, cl_PK = slice_bytes (kf_PK k),
       cl_KEK = slice_bytes (kf_KEK k), cl_DB = slice_bytes (kf_DB k), cl_DBX = slice_bytes (kf_DBX k),
       cl_RebootIntoUEFIMenu = (\<not> noMenu)\<rparr> = Inr cli"
    "AddData L H cli now rd w = (Inr data, rd', w1)"
    "(if haveSBOpts k then AddSecureBootKeys L H cli w1 else (None, w1)) = (None, w2)"
    "Commit L H cli w2 = (Inr cr, w3)" "out = result_lines cr ip"
  using assms by (auto simp: local_run_Main_def split: sum.splits prod.splits option.splits)

lemma read_keys_files:
  assumes "read_keys FS pkf kekf dbf dbxf = Inr k"
  shows "readOptionalFile FS pkf = Inr (kf_PK k) \<and> readOptionalFile FS kekf = Inr (kf_KEK k)
    \<and> readOptionalFile FS dbf = Inr (kf_DB k) \<and> readOptionalFile FS dbxf = Inr (kf_DBX k)
    \<and> (haveSBOpts k \<longrightarrow> okSBOpts k)"
  using assms by (auto simp: read_keys_def Let_def split: sum.splits if_splits)

lemma readOptionalFile_content: "readOptionalFile FS f = Inr (Some b) \<longleftrightarrow> FS f = Inr b"
  by (auto simp: readOptionalFile_def split: sum.splits)

lemma optional_files:
  assumes "read_keys FS pkf kekf dbf dbxf = Inr k"
  shows "haveSBOpts k \<Longrightarrow> FS pkf = Inr (slice_bytes (kf_PK k)) \<and> FS kekf = Inr (slice_bytes (kf_KEK k))
      \<and> FS dbf = Inr (slice_bytes (kf_DB k)) \<and> readOptionalFile FS dbxf = Inr (kf_DBX k)"
    and "\<not> haveSBOpts k \<Longrightarrow> map (readOptionalFile FS) [pkf, kekf, dbf, dbxf] = [Inr None, Inr None, Inr None, Inr None]"
  using read_keys_files [OF assms]
  by (auto simp: haveSBOpts_def okSBOpts_def slice_bytes_def readOptionalFile_content)

lemma local_run_effect:
  assumes "message_laws (lib_json L)" "NewServer L scfg = Inr s" "Secret scfg = otp"
    and peer: "plain_ip a" "plain_host pt" "CHR '':'' \<notin> set pt" "\<exists>n \<in> set (LocalCIDR scfg). IPNet_Contains n a"
    and run: "local_run_Main L (connected L (JoinHostPort (IP_String a) pt)) FS args port ip otp pkf kekf dbf dbxf noMenu now rd
      \<lparr>nvram = v, rand = srd, srv = s\<rparr> = (Inr out, rd', wd')"
  shows "0 < commit (srv wd') \<and> (\<exists>uds cr ent. UDS (srv wd') = Some uds \<and> NewCommitResponse L uds (HostName scfg) = Inr cr \<and> out = result_lines cr ip
      \<and> NewEntropy rd = (Inr ent, rd') \<and> NewUniqueDeviceSecret (lib_crypto L) ent srd = (Inr uds, rand wd'))
    \<and> (map (readOptionalFile FS) [pkf, kekf, dbf, dbxf] = [Inr None, Inr None, Inr None, Inr None] \<and> nvram wd' = v
       \<or> (\<exists>pk kek db dbx st. FS pkf = Inr pk \<and> FS kekf = Inr kek \<and> FS dbf = Inr db \<and> readOptionalFile FS dbxf = Inr dbx
            \<and> pk \<noteq> [] \<and> kek \<noteq> [] \<and> db \<noteq> [] \<and> IsSetupMode (lib_efi L) v \<noteq> Inr False
            \<and> Provision (lib_efi L) pk kek db (slice_bytes dbx) v = (st, None)
            \<and> nvram wd' = (if noMenu then st else fst (RequestRebootIntoUEFIMenu (lib_efi L) st))))"
  using run
proof (cases rule: local_run_cases)
  case (1 p k cli data w1 w2 cr)
  let ?peer = "JoinHostPort (IP_String a) pt" and ?w0 = "\<lparr>nvram = v, rand = srd, srv = s\<rparr>"
  have s: "LocalCIDR s = LocalCIDR scfg" "HostName s = HostName scfg"
    using NewServer_inv [OF assms(2)] by (auto simp: server_inv_def ServerConfig.defs)
  have "admitted cli ?peer ?w0" unfolding admitted_def
    using same_password [OF assms(2) 1(2)] assms(3) incoming_network [OF peer(1-3), of s] peer(4) s(1) by simp
  note a0 = this and d = AddData_succeeded [OF assms(1) 1(2) this 1(3)]
  have a1: "admitted cli ?peer w1" by (rule admitted_srv [OF a0]) (use d in simp_all)
  have k: "haveSBOpts k \<Longrightarrow> AddSecureBootKeys L (connected L ?peer) cli w1 = (None, w2)" "\<not> haveSBOpts k \<Longrightarrow> w2 = w1"
    using 1(4) by auto
  note sb = AddSecureBootKeys_succeeded [OF assms(1) 1(2) a1 k(1)]
  have w2: "srv w2 = srv w1" "rand w2 = rand w1" using sb k(2) by (cases "haveSBOpts k"; force)+
  have a2: "admitted cli ?peer w2" by (rule admitted_srv [OF a1]) (use w2 in simp_all)
  note c = Commit_succeeded [OF assms(1) 1(2) a2 1(5)]
  have cl: "cl_PK cli = slice_bytes (kf_PK k)" "cl_KEK cli = slice_bytes (kf_KEK k)" "cl_DB cli = slice_bytes (kf_DB k)"
    "cl_DBX cli = slice_bytes (kf_DBX k)" "cl_RebootIntoUEFIMenu cli = (\<not> noMenu)"
    using 1(2) by (auto simp: NewClient_def ClientConfig.defs split: sum.splits)
  have "NewEntropy rd = (Inr (Entropy data), rd')"
    using d by (auto simp: NewAddDataRequest_def split: prod.splits sum.splits)
  then have first: "\<exists>uds cr ent. UDS (srv wd') = Some uds \<and> NewCommitResponse L uds (HostName scfg) = Inr cr \<and> out = result_lines cr ip
      \<and> NewEntropy rd = (Inr ent, rd') \<and> NewUniqueDeviceSecret (lib_crypto L) ent srd = (Inr uds, rand wd')"
    using c d w2 s 1(6) by auto
  show ?thesis
  proof (cases "haveSBOpts k")
    case False
    then show ?thesis using first optional_files(2) [OF 1(1) False] k(2) c d by simp
  next
    case True
    with sb optional_files(1) [OF 1(1) True] c d cl first show ?thesis by auto
  qed
qed

text \<open>
  C6. A successful \<open>stprov local run\<close> against a server with the same one-time password
  prints the description of the secret that the server now holds, derived from the entropy
  of both sides. Either none of the four Secure Boot files exists and no EFI variable was
  written, or PK, KEK and db were read, are not empty and were provisioned by the server,
  which was not out of setup mode.
\<close>

theorem local_run_with_server:
  assumes "message_laws (lib_json L)" "NewServer L scfg = Inr s" "Secret scfg = otp"
    and peer: "plain_ip a" "plain_host pt" "CHR '':'' \<notin> set pt" "\<exists>n \<in> set (LocalCIDR scfg). IPNet_Contains n a"
    and run: "local_run_Main L (connected L (JoinHostPort (IP_String a) pt)) FS args port ip otp pkf kekf dbf dbxf noMenu now rd
      \<lparr>nvram = v, rand = srd, srv = s\<rparr> = (Inr out, rd', wd')"
  shows "(\<exists>uds cr ent. UDS (srv wd') = Some uds \<and> NewCommitResponse L uds (HostName scfg) = Inr cr \<and> out = result_lines cr ip
      \<and> NewEntropy rd = (Inr ent, rd') \<and> NewUniqueDeviceSecret (lib_crypto L) ent srd = (Inr uds, rand wd'))
    \<and> (map (readOptionalFile FS) [pkf, kekf, dbf, dbxf] = [Inr None, Inr None, Inr None, Inr None] \<and> nvram wd' = v
       \<or> (\<exists>pk kek db dbx st. FS pkf = Inr pk \<and> FS kekf = Inr kek \<and> FS dbf = Inr db \<and> readOptionalFile FS dbxf = Inr dbx
            \<and> pk \<noteq> [] \<and> kek \<noteq> [] \<and> db \<noteq> [] \<and> IsSetupMode (lib_efi L) v \<noteq> Inr False
            \<and> Provision (lib_efi L) pk kek db (slice_bytes dbx) v = (st, None)
            \<and> nvram wd' = (if noMenu then st else fst (RequestRebootIntoUEFIMenu (lib_efi L) st))))"
  using local_run_effect [OF assms(1-3) peer run] by (rule conjunct2)

lemma demo_local_run:
  assumes "NewServer demo_lib scfg = Inr s" "Secret scfg = ''otp''"
    "RemoteIP scfg = v4InV6Prefix @ [10, 0, 2, 10]" "RemotePort scfg = 2009"
    "\<lparr>IP = [10, 0, 2, 0], Mask = [255, 255, 255, 0]\<rparr> \<in> set (LocalCIDR scfg)"
  shows "\<exists>out rd' wd'. local_run_Main demo_lib (connected demo_lib ''10.0.2.77:40000'') (\<lambda>f. Inl (NotExist f)) [] 2009 ''10.0.2.10'' ''otp''
        [] [] [] [] False 1700000000 (replicate 40 1) \<lparr>nvram = v, rand = replicate 32 7, srv = s\<rparr> = (Inr out, rd', wd')"
proof -
  let ?ccfg = "\<lparr>cl_Secret = ''otp'', cl_RemoteIP = v4InV6Prefix @ [10, 0, 2, 10], cl_RemotePort = 2009, cl_PK = [], cl_KEK = [],
     cl_DB = [], cl_DBX = [], cl_RebootIntoUEFIMenu = True\<rparr>"
  let ?FS = "\<lambda>f :: string. Inl (NotExist f) :: goerror + bytes"
  obtain c where c: "NewClient demo_lib ?ccfg = Inr c" using demo_NewClient ..
  let ?uds = "take 32 (Reader (lib_crypto demo_lib) (take 32 (replicate 32 7) @ take 32 (replicate 40 1)) ''uds'' 1)"
  obtain cr where cr: "NewCommitResponse demo_lib ?uds (HostName scfg) = Inr cr" using demo_NewCommitResponse by blast
  obtain b where b: "Marshal_AddData (lib_json demo_lib) \<lparr>Entropy = take 32 (replicate 40 1), Timestamp = 1700000000\<rparr> = Inr b"
    by (simp add: demo_json_def)
  obtain b' where b': "Marshal_Commit (lib_json demo_lib) cr = Inr b'" by (simp add: demo_json_def)
  have laws: "hkdf_laws (lib_crypto demo_lib)" "message_laws (lib_json demo_lib)" "tls_laws (lib_crypto demo_lib)"
    by (simp_all add: demo_crypto_laws demo_json_laws demo_tls_laws)
  have k: "cl_Secret ?ccfg = Secret scfg" "\<exists>n \<in> set (LocalCIDR scfg). IPNet_Contains n [10, 0, 2, 77]"
    using demo_peer(4) assms(2,5) by auto
  have a: "cl_RemoteIP ?ccfg = RemoteIP scfg" "cl_RemotePort ?ccfg = RemotePort scfg" "1 \<le> RemotePort scfg" "RemotePort scfg \<le> 65535"
    by (simp_all add: assms(3,4))
  have n: "32 \<le> length (replicate 40 (1 :: byte))" "(0 :: int) \<le> 1700000000" "32 \<le> length (replicate 32 (7 :: byte))" by simp_all
  have p: "JoinHostPort (IP_String [10, 0, 2, 77]) ''40000'' = ''10.0.2.77:40000''" by code_simp
  have ch: "local_checks [] 2009 ''10.0.2.10'' ''otp'' = Inr (v4InV6Prefix @ [10, 0, 2, 10])" by code_simp
  have ks: "read_keys ?FS [] [] [] [] = Inr \<lparr>kf_PK = None, kf_KEK = None, kf_DB = None, kf_DBX = None\<rparr>" by code_simp
  from session_works [OF laws assms(1) c k(1) a(1,2) demo_address [folded assms(3)] a(3,4) demo_peer(1-3) k(2) n(1,2) b n(3) refl cr b', unfolded p, of v]
  show ?thesis using c by (auto simp: local_run_Main_def ch ks slice_bytes_def haveSBOpts_def)
qed

theorem local_run_with_server_witness:
  "\<exists>s out rd' wd' uds. NewServer demo_lib (ServerConfig.truncate (srv demo_world)) = Inr s
    \<and> local_run_Main demo_lib (connected demo_lib ''10.0.2.77:40000'') (\<lambda>f. Inl (NotExist f)) [] 2009 ''10.0.2.10'' ''otp''
        [] [] [] [] False 1700000000 (replicate 40 1) \<lparr>nvram = Map.empty, rand = replicate 32 7, srv = s\<rparr> = (Inr out, rd', wd')
    \<and> UDS (srv wd') = Some uds \<and> nvram wd' = Map.empty"
proof -
  let ?cfg = "ServerConfig.truncate (srv demo_world)"
  obtain s where s: "NewServer demo_lib ?cfg = Inr s" using demo_NewServer ..
  have laws: "message_laws (lib_json demo_lib)" by (simp add: demo_json_laws)
  have k: "Secret ?cfg = ''otp''" "RemoteIP ?cfg = v4InV6Prefix @ [10, 0, 2, 10]" "RemotePort ?cfg = 2009" "\<lparr>IP = [10, 0, 2, 0], Mask = [255, 255, 255, 0]\<rparr> \<in> set (LocalCIDR ?cfg)"
    by (simp_all add: demo_world_def ServerConfig.defs)
  then have m: "\<exists>n \<in> set (LocalCIDR ?cfg). IPNet_Contains n [10, 0, 2, 77]" using demo_peer(4) by blast
  have p: "JoinHostPort (IP_String [10, 0, 2, 77]) ''40000'' = ''10.0.2.77:40000''" by code_simp
  from demo_local_run [OF s k] obtain out rd' wd' where r: "local_run_Main demo_lib (connected demo_lib ''10.0.2.77:40000'')
      (\<lambda>f. Inl (NotExist f)) [] 2009 ''10.0.2.10'' ''otp'' [] [] [] [] False 1700000000 (replicate 40 1)
      \<lparr>nvram = Map.empty, rand = replicate 32 7, srv = s\<rparr> = (Inr out, rd', wd')" by blast
  from local_run_with_server [OF laws s k(1) demo_peer(1-3) m r [folded p]] r s show ?thesis by auto
qed

end
