(* ===== verification/EndToEnd.thy ===== *)
theory EndToEnd
  imports LocalFacts RunPhases
begin

section \<open>stprov local run against stprov remote run\<close>

text \<open>
  The two commands together. A session of \<open>stprov local run\<close> is a sequence of requests, so it
  is a fragment of the life of the server that \<open>stprov remote run\<close> started.
\<close>

lemma send_runs:
  assumes "send (connected L peer) c m url b wd = (res, wd')"
  shows "(run_step L)\<^sup>*\<^sup>* (Serving, wd) (Serving, wd')"
  using assms
proof (cases rule: send_served)
  case (served w)
  from served(3) show ?thesis by (intro r_into_rtranclp run_step.request)
qed simp

lemma doPost_runs:
  "doPost (connected L peer) c url i wd = (res, wd') \<Longrightarrow> (run_step L)\<^sup>*\<^sup>* (Serving, wd) (Serving, wd')"
  by (auto simp: doPost_def dest: send_runs split: sum.splits)

lemma client_runs:
  "AddData L (connected L peer) c now rd wd = (res, rd', wd') \<Longrightarrow> (run_step L)\<^sup>*\<^sup>* (Serving, wd) (Serving, wd')"
  "AddSecureBootKeys L (connected L peer) c wd = (err, wd') \<Longrightarrow> (run_step L)\<^sup>*\<^sup>* (Serving, wd) (Serving, wd')"
  "Commit L (connected L peer) c wd = (cres, wd') \<Longrightarrow> (run_step L)\<^sup>*\<^sup>* (Serving, wd) (Serving, wd')"
  by (auto simp: AddData_def AddSecureBootKeys_def Commit_def doGet_def dest: doPost_runs send_runs
      split: prod.splits sum.splits option.splits)

lemma local_run_runs:
  assumes "local_run_Main L (connected L peer) FS args port ip otp pkf kekf dbf dbxf noMenu now rd wd = (Inr out, rd', wd')"
  shows "(run_step L)\<^sup>*\<^sup>* (Serving, wd) (Serving, wd')"
  using assms
proof (cases rule: local_run_cases)
  case (1 p k cli data w1 w2 cr)
  have "(run_step L)\<^sup>*\<^sup>* (Serving, w1) (Serving, w2)"
    using 1(4) by (auto dest: client_runs(2) split: if_splits)
  with client_runs(1) [OF 1(3)] client_runs(3) [OF 1(5)] show ?thesis by (meson rtranclp_trans)
qed

lemma signalled_Run:
  assumes "(run_step L)\<^sup>*\<^sup>* (Serving, wd) (Serving, wd')" "0 < commit (srv wd')"
  shows "Run L wd None (close_commit wd')"
proof -
  note assms(1)
  also have "run_step L (Serving, wd') (Closing, wd')" using assms(2) by (rule run_step.await)
  also have "run_step L (Closing, wd') (Closed None, close_commit wd')" by (rule run_step.close)
  also have "run_step L (Closed None, close_commit wd') (Returned None, close_commit wd')" by (rule run_step.return)
  finally show ?thesis unfolding Run_def .
qed

lemma NewCommitResponse_key:
  "NewCommitResponse L uds hostname = Inr cr \<Longrightarrow>
    \<exists>hk. SSH (lib_crypto L) (lib_ssh L) uds = Inr hk \<and> PublicKey (lib_ssh L) hk = Inr (cr_PublicKey cr)
      \<and> Fingerprint (lib_ssh L) hk = Inr (cr_Fingerprint cr) \<and> cr_HostName cr = hostname"
  by (auto simp: NewCommitResponse_def split: sum.splits)

text \<open>
  C2. The two commands agree. When \<open>stprov remote run\<close> has started its server and
  \<open>stprov local run\<close>, with the same one-time password and from an allowed address, succeeds
  against it, then \<open>stprov remote run\<close>, once Enter was pressed, can go on to write, in the variable for the host key,
  the PEM text of a key whose public key and fingerprint, with the host name that was
  stored, are the lines the operator got. If the key cannot be written, \<open>remote run\<close>
  fails with the error of that write.
\<close>

theorem local_and_remote_agree:
  assumes laws: "efi_laws (lib_efi L)" "message_laws (lib_json L)"
    and remote: "run_options rargs port ip allow otp = Inr (addr, nets)"
      "HostName_ReadEFI (lib_efi L) uuid hostVar v = Inr hostname"
      "NewServer L \<lparr>Secret = otp, RemoteIP = addr, RemotePort = port, LocalCIDR = nets, HostName = hostname,
         Deadline = 15000000000, Timeout = 60000000000\<rparr> = Inr s"
    and peer: "plain_ip a" "plain_host pt" "CHR '':'' \<notin> set pt" "\<exists>n \<in> set nets. IPNet_Contains n a"
    and local_run: "local_run_Main L (connected L (JoinHostPort (IP_String a) pt)) FS args lport lip otp pkf kekf dbf dbxf noMenu now rd
      \<lparr>nvram = v, rand = srd, srv = s\<rparr> = (Inr out, rd', wd')"
    and confirmed: "readLine stdin = Inr line"
  shows "\<exists>uds hk cr ending v'. SSH (lib_crypto L) (lib_ssh L) uds = Inr hk \<and> length uds = 32
    \<and> PublicKey (lib_ssh L) hk = Inr (cr_PublicKey cr) \<and> Fingerprint (lib_ssh L) hk = Inr (cr_Fingerprint cr)
    \<and> cr_HostName cr = hostname \<and> out = result_lines cr lip
    \<and> run_Main L rargs port ip allow otp uuid keyVar hostVar stdin (v, srd) ending (v', rand wd')
    \<and> (ending = Success \<and> (\<exists>attrs pem. writePEM (lib_ssh L) hk = Inr pem
          \<and> ReadVariable (lib_efi L) v' \<lparr>desc_Name = keyVar, GUID = uuid\<rparr> = Inr (attrs, pem))
       \<or> (\<exists>e. ending = Failure (Wrapf ''persist host key'' e)
          \<and> WriteEFI (lib_efi L) (lib_ssh L) hk uuid keyVar (nvram wd') = (v', Some e)))"
proof -
  let ?cfg = "\<lparr>Secret = otp, RemoteIP = addr, RemotePort = port, LocalCIDR = nets, HostName = hostname,
         Deadline = 15000000000, Timeout = 60000000000\<rparr>"
  let ?wd = "\<lparr>nvram = v, rand = srd, srv = s\<rparr>"
  have c: "Secret ?cfg = otp" "\<exists>n \<in> set (LocalCIDR ?cfg). IPNet_Contains n a" using peer(4) by simp_all
  from local_run_effect [OF laws(2) remote(3) c(1) peer(1-3) c(2) local_run]
  obtain uds cr ent where e: "0 < commit (srv wd')" "UDS (srv wd') = Some uds" "NewCommitResponse L uds hostname = Inr cr"
    "out = result_lines cr lip" "NewUniqueDeviceSecret (lib_crypto L) ent srd = (Inr uds, rand wd')" by auto
  from NewCommitResponse_key [OF e(3)] obtain hk where hk: "SSH (lib_crypto L) (lib_ssh L) uds = Inr hk"
    "PublicKey (lib_ssh L) hk = Inr (cr_PublicKey cr)" "Fingerprint (lib_ssh L) hk = Inr (cr_Fingerprint cr)"
    "cr_HostName cr = hostname" by blast
  have "Run L ?wd None (close_commit wd')" using local_run_runs [OF local_run] e(1) by (rule signalled_Run)
  then have l: "listen L otp nets addr port hostname stdin (v, srd) (Inr (Some uds)) (nvram wd', rand wd')"
    unfolding listen_def Let_def remote(3) sum.case
    by (intro exI [of _ None] exI [of _ "close_commit wd'"]) (simp add: e(2) close_commit_def confirmed)
  obtain v' err where w: "WriteEFI (lib_efi L) (lib_ssh L) hk uuid keyVar (nvram wd') = (v', err)" by fastforce
  let ?ending = "case err of None \<Rightarrow> Success | Some x \<Rightarrow> Failure (Wrapf ''persist host key'' x)"
  have r: "run_Main L rargs port ip allow otp uuid keyVar hostVar stdin (v, srd) ?ending (v', rand wd')"
    unfolding run_Main_def remote sum.case prod.case fst_conv
    by (intro exI [of _ "Inr (Some uds)"] exI [of _ "(nvram wd', rand wd')"])
      (simp add: l remote(2) writeHostKey_def hk(1) w split: option.splits)
  have "length uds = 32" using e(5) by (rule NewUniqueDeviceSecret_length)
  then show ?thesis
  proof (cases err)
    case None
    from laws(1) w [unfolded None] obtain attrs pem where
      "ReadVariable (lib_efi L) v' \<lparr>desc_Name = keyVar, GUID = uuid\<rparr> = Inr (attrs, pem)" "writePEM (lib_ssh L) hk = Inr pem"
      by (rule WriteEFI_read_back)
    then show ?thesis using r hk e(4) \<open>length uds = 32\<close> None
      by (intro exI [of _ uds] exI [of _ hk] exI [of _ cr] exI [of _ Success] exI [of _ v']) auto
  next
    case (Some x)
    then show ?thesis using r hk e(4) \<open>length uds = 32\<close> w
      by (intro exI [of _ uds] exI [of _ hk] exI [of _ cr] exI [of _ ?ending] exI [of _ v']) auto
  qed
qed

theorem local_and_remote_agree_witness:
  "\<exists>uds hk v' rd'. SSH demo_crypto rfc_ssh uds = Inr hk
    \<and> run_Main demo_lib [] 2009 ''10.0.2.10'' [''10.0.2.0/24''] ''otp'' [1] ''STHostKey'' ''STHostName'' enter
        (demo_nvram, replicate 32 7) Success (v', rd')"
proof -
  let ?net = "\<lparr>IP = [10, 0, 2, 0], Mask = [255, 255, 255, 0]\<rparr>"
  have o: "run_options [] 2009 ''10.0.2.10'' [''10.0.2.0/24''] ''otp'' = Inr (v4InV6Prefix @ [10, 0, 2, 10], [?net])" by code_simp
  have h: "HostName_ReadEFI (lib_efi demo_lib) [1] ''STHostName'' demo_nvram = Inr ''host.local''"
    by (simp add: HostName_ReadEFI_def readEFI_def map_efi_def demo_nvram_def del: map_map)
  let ?cfg = "\<lparr>Secret = ''otp'', RemoteIP = v4InV6Prefix @ [10, 0, 2, 10], RemotePort = 2009, LocalCIDR = [?net],
      HostName = ''host.local'', Deadline = 15000000000, Timeout = 60000000000\<rparr>"
  obtain s where s: "NewServer demo_lib ?cfg = Inr s" using demo_NewServer ..
  have m: "\<exists>n \<in> set [?net]. IPNet_Contains n [10, 0, 2, 77]" using demo_peer(4) by simp
  have p: "JoinHostPort (IP_String [10, 0, 2, 77]) ''40000'' = ''10.0.2.77:40000''" by code_simp
  obtain out rd' wd' where r: "local_run_Main demo_lib (connected demo_lib ''10.0.2.77:40000'')
      (\<lambda>f. Inl (NotExist f)) [] 2009 ''10.0.2.10'' ''otp'' [] [] [] [] False 1700000000 (replicate 40 1)
      \<lparr>nvram = demo_nvram, rand = replicate 32 7, srv = s\<rparr> = (Inr out, rd', wd')"
    using demo_local_run [OF s, of demo_nvram] by auto
  have laws: "efi_laws (lib_efi demo_lib)" "message_laws (lib_json demo_lib)" by (simp_all add: map_efi_laws demo_json_laws)
  have "WriteEFI (map_efi (\<lambda>g. Inr (str_bytes g))) rfc_ssh hk [1] ''STHostKey'' st \<noteq> (v', Some e)" for hk st v' e
    by (simp add: WriteEFI_def writePEM_def pem_EncodeToMemory_def map_efi_def Let_def)
  with local_and_remote_agree [OF laws o h s demo_peer(1-3) m r [folded p] readLine_enter, of "''STHostKey''"]
  show ?thesis unfolding demo_lib_fields by blast
qed

end
