(* ===== verification/LateCommit.thy ===== *)
theory LateCommit
  imports ApiSession
begin

section \<open>A commit that is handled while the server stops\<close>

text \<open>
  \<open>Run\<close> closes the channel for commit signals when the listener has ended, and only then waits
  for the requests that were accepted before, for as long as \<open>Timeout\<close>. Such a commit stores its secret before it sends
  on the closed channel, and panics there.
\<close>

fun phase_closed :: "phase \<Rightarrow> bool" where
  "phase_closed (Closed e) = True"
| "phase_closed (Returned e) = True"
| "phase_closed ph = False"

lemma run_step_closed:
  "run_step L c c' \<Longrightarrow> (phase_closed (fst c) \<longrightarrow> commit_closed (srv (snd c))) \<Longrightarrow>
    phase_closed (fst c') \<longrightarrow> commit_closed (srv (snd c'))"
  by (induction rule: run_step.induct) (auto simp: close_commit_def dest: serve_closed)

lemma Closed_reachable:
  assumes "(run_step L)\<^sup>*\<^sup>* (Serving, wd0) (ph, wd)" "phase_closed ph"
  shows "commit_closed (srv wd)"
proof -
  have "phase_closed (fst c) \<longrightarrow> commit_closed (srv (snd c))" if "(run_step L)\<^sup>*\<^sup>* (Serving, wd0) c" for c
    using that by (induction rule: rtranclp_induct) (auto dest: run_step_closed)
  from this [OF assms(1)] assms(2) show ?thesis by simp
qed

lemma serve_commit_closed:
  assumes "serve L ''/stprov/v0.0.1/commit'' r wd = (wd1, w1)" "UDS (srv wd1) \<noteq> UDS (srv wd)" "commit_closed (srv wd)"
  shows "aborted w1"
proof -
  obtain wd' w' code e where h: "handleCommit L r new_response wd = (wd', w', code, e)" by (metis prod_cases4)
  with assms(1,2) have s: "wd' = wd1" "e = None \<Longrightarrow> w' = w1"
    by (auto simp: serve_def route_commit ServeHTTP_def split: option.splits)
  from h show ?thesis
  proof (cases rule: handleCommit_cases)
    case failed
    with s assms(2) show ?thesis by auto
  next
    case stored
    with s assms(3) show ?thesis by auto
  qed
qed

definition commit_request :: "'c client \<Rightarrow> string \<Rightarrow> request" where
  "commit_request c peer = \<lparr>Method = MethodGet, RemoteAddr = peer, BasicAuth = Some (BasicAuthUser, cl_basicAuthPassword c),
     Body = Inr [], write_error = None\<rparr>"

lemma commit_incoming:
  "incoming peer \<lparr>rq_Method = MethodGet, rq_URL = url, rq_BasicAuth = Some (BasicAuthUser, cl_basicAuthPassword c),
      rq_Body = []\<rparr> = commit_request c peer"
  by (simp add: incoming_def commit_request_def)

text \<open>A commit that changes something was served, and one that is let through is served.\<close>

lemma Commit_served:
  assumes "NewClient L cfg = Inr c" "Commit L (connected L peer) c wd = (res, wd1)" "wd1 \<noteq> wd"
  shows "\<exists>w1. serve L ''/stprov/v0.0.1/commit'' (commit_request c peer) wd = (wd1, w1)
    \<and> (aborted w1 \<longrightarrow> res = Inl (Wrapf ''send commit'' (Wrapf ''do request'' (External ''EOF''))))"
proof -
  obtain x wd2 where s: "send (connected L peer) c MethodGet (serverURL c @ EndpointCommit) [] wd = (x, wd2)" by fastforce
  with assms(2) have e: "wd2 = wd1" "\<And>y. x = Inl y \<Longrightarrow> res = Inl (Wrapf ''send commit'' y)"
    by (auto simp: Commit_def doGet_def split: sum.splits)
  from s show ?thesis
  proof (cases rule: send_served)
    case (served w)
    then show ?thesis using e unfolding commit_incoming client_urls(3) [OF assms(1)] by blast
  qed (use e assms(3) in simp)
qed

lemma Commit_serves:
  assumes "NewClient L cfg = Inr c" "serve L ''/stprov/v0.0.1/commit'' (commit_request c peer) wd = (wd1, w1)"
    and "url_error (serverURL c @ EndpointCommit) = None" "dial_error L c (serverURL c @ EndpointCommit) (srv wd) = None"
  shows "\<exists>res. Commit L (connected L peer) c wd = (res, wd1)"
  using assms(2-4)
  by (auto simp: Commit_def doGet_def send_def connected_def client_urls(3) [OF assms(1)] commit_incoming split: sum.splits)

text \<open>
  C14. A client whose commit replaces the secret after the channel was closed, or after \<open>Run\<close>
  returned, gets an error of the connection and no description. \<open>Run\<close> returns without an
  error all the same, and the secret it leaves is the one nobody was told about.
\<close>

theorem late_commit_lost:
  assumes "NewClient L cfg = Inr c" "(run_step L)\<^sup>*\<^sup>* (Serving, wd0) (ph, wd)" "ph \<in> {Closed None, Returned None}"
    and "Commit L (connected L peer) c wd = (res, wd1)" "UDS (srv wd1) \<noteq> UDS (srv wd)"
  shows "res = Inl (Wrapf ''send commit'' (Wrapf ''do request'' (External ''EOF''))) \<and> Run L wd0 None wd1"
proof -
  obtain w1 where s: "serve L ''/stprov/v0.0.1/commit'' (commit_request c peer) wd = (wd1, w1)"
    "aborted w1 \<Longrightarrow> res = Inl (Wrapf ''send commit'' (Wrapf ''do request'' (External ''EOF'')))"
    using Commit_served [OF assms(1,4)] assms(5) by auto
  have "phase_closed ph" using assms(3) by auto
  with s(1) assms(5) Closed_reachable [OF assms(2)] have "aborted w1" by (auto dest: serve_commit_closed)
  moreover have "(run_step L)\<^sup>*\<^sup>* (ph, wd) (Returned None, wd1)"
  proof (cases "ph = Closed None")
    case True
    have "run_step L (Closed None, wd) (Closed None, wd1)" using s(1) by (rule run_step.late)
    then show ?thesis using True run_step.return [of L None wd1] by (meson converse_rtranclp_into_rtranclp rtranclp.rtrancl_refl)
  next
    case False
    with assms(3) run_step.outlived [OF s(1), of None] show ?thesis by auto
  qed
  ultimately show ?thesis using assms(2) s(2) unfolding Run_def by auto
qed

theorem late_commit_lost_witness:
  "\<exists>s wd1. NewServer demo_lib (ServerConfig.truncate (srv demo_world)) = Inr s
    \<and> Run demo_lib \<lparr>nvram = Map.empty, rand = replicate 32 1 @ replicate 32 2, srv = s\<rparr> None wd1
    \<and> NewUniqueDeviceSecret demo_crypto (replicate 32 0) (replicate 32 2) = (Inr (the (UDS (srv wd1))), [])"
proof -
  let ?cfg = "ServerConfig.truncate (srv demo_world)"
  obtain s where s: "NewServer demo_lib ?cfg = Inr s" using demo_NewServer ..
  obtain c where c: "NewClient demo_lib (demo_client ''otp'') = Inr c" using demo_NewClient ..
  have s0: "LocalCIDR s = [\<lparr>IP = [10, 0, 2, 0], Mask = [255, 255, 255, 0]\<rparr>]" "commit s = 0" "\<not> commit_closed s"
    using NewServer_inv [OF s] by (auto simp: server_inv_def ServerConfig.defs demo_world_def)
  have ent: "srv_Entropy s = replicate 32 0"
    using s by (auto simp: NewServer_def ServerConfig.defs split: sum.splits)
  have pw: "cl_basicAuthPassword c = basicAuthPassword s"
    by (rule same_password [OF s c]) (simp only: demo_config)
  have tls: "tls_laws (lib_crypto demo_lib)" by (simp add: demo_tls_laws)
  have eq: "cl_Secret (demo_client ''otp'') = Secret ?cfg" by (simp only: demo_config)
  let ?peer = "JoinHostPort (IP_String [10, 0, 2, 77]) ''40000''" and ?r = "commit_request c (JoinHostPort (IP_String [10, 0, 2, 77]) ''40000'')"
  let ?wd0 = "\<lparr>nvram = Map.empty, rand = replicate 32 1 @ replicate 32 2, srv = s\<rparr>"
  have u: "NewUniqueDeviceSecret demo_crypto (replicate 32 0) (replicate 32 1 @ replicate 32 2)
      = (Inr (take 32 (Reader demo_crypto (replicate 32 1 @ replicate 32 0) ''uds'' 1)), replicate 32 2)"
    "NewUniqueDeviceSecret demo_crypto (replicate 32 0) (replicate 32 2)
      = (Inr (take 32 (Reader demo_crypto (replicate 32 2 @ replicate 32 0) ''uds'' 1)), [])"
    by (simp_all add: NewUniqueDeviceSecret_eq [OF demo_crypto_laws])
  have ne: "take 32 (Reader demo_crypto (replicate 32 1 @ replicate 32 0) ''uds'' 1)
      \<noteq> take 32 (Reader demo_crypto (replicate 32 2 @ replicate 32 0) ''uds'' 1)" (is "?uds1 \<noteq> ?uds2")
  proof
    assume "?uds1 = ?uds2"
    then have "?uds1 ! 11 = ?uds2 ! 11" by simp
    moreover have "take 32 (Reader demo_crypto x ''uds'' 1) ! 11 = (x @ replicate 8160 0) ! 0" for x
      by (simp add: Reader_def demo_crypto_def Let_def nth_append)
    ultimately show False by (simp add: nth_append)
  qed
  have "\<exists>wd1 w1. serve demo_lib ''/stprov/v0.0.1/commit'' ?r ?wd0 = (wd1, w1) \<and> rand wd1 = replicate 32 2
      \<and> srv wd1 = s\<lparr>UDS := Some ?uds1, commit := 1\<rparr>"
    using demo_commit_from [of ?wd0 ?r] s0 ent pw u(1) by (auto simp: commit_request_def)
  then obtain wd1 w1 where 1: "serve demo_lib ''/stprov/v0.0.1/commit'' ?r ?wd0 = (wd1, w1)" "rand wd1 = replicate 32 2"
    "srv wd1 = s\<lparr>UDS := Some ?uds1, commit := 1\<rparr>" by blast
  have "run_step demo_lib (Serving, ?wd0) (Serving, wd1)" using 1(1) by (rule run_step.request)
  moreover have "run_step demo_lib (Serving, wd1) (Closing, wd1)" by (rule run_step.await) (simp add: 1(3))
  moreover have "run_step demo_lib (Closing, wd1) (Closed None, close_commit wd1)" by (rule run_step.close)
  ultimately have run: "(run_step demo_lib)\<^sup>*\<^sup>* (Serving, ?wd0) (Closed None, close_commit wd1)"
    by (meson rtranclp.rtrancl_into_rtrancl rtranclp.rtrancl_refl)
  have "\<exists>wd2 w2. serve demo_lib ''/stprov/v0.0.1/commit'' ?r (close_commit wd1) = (wd2, w2) \<and> UDS (srv wd2) = Some ?uds2"
    using demo_commit_from [of "close_commit wd1" ?r] 1(2,3) s0 ent pw u(2) by (auto simp: commit_request_def close_commit_def)
  then obtain wd2 w2 where 2: "serve demo_lib ''/stprov/v0.0.1/commit'' ?r (close_commit wd1) = (wd2, w2)"
    "UDS (srv wd2) = Some ?uds2" by blast
  have id: "Addr (srv (close_commit wd1)) = Addr s" "Certificates (srv (close_commit wd1)) = Certificates s"
    by (simp_all add: close_commit_def 1(3))
  note dial = client_dials [OF s c demo_dial id(1)] same_secret_verifies [OF tls s c eq id(2)]
  have "dial_error demo_lib c (serverURL c @ EndpointCommit) (srv (close_commit wd1)) = None"
    using dial(2,3) by (simp add: dial_error_def)
  from Commit_serves [OF c 2(1) dial(1) this] obtain res where "Commit demo_lib (connected demo_lib ?peer) c (close_commit wd1) = (res, wd2)" by blast
  moreover have "UDS (srv wd2) \<noteq> UDS (srv (close_commit wd1))" using 2(2) ne by (simp add: 1(3))
  ultimately have "Run demo_lib ?wd0 None wd2" using late_commit_lost [OF c run _ _] by blast
  then show ?thesis using s 2(2) u(2) by (intro exI [of _ s] exI [of _ wd2]) simp
qed

end
