(* ===== verification/HandlerParts.thy ===== *)
theory HandlerParts
  imports RunPhases
begin

section \<open>The handlers in parts\<close>

text \<open>
  \<open>net/http\<close> runs each request in a goroutine of its own, and the handlers take no lock. The
  parts of a handler between two accesses to what they share, the server's fields and the
  EFI variables, are functions of their own here, and each handler is the composition of its parts.
  Taken as one part are: reading the 32 bytes of entropy, an EFI write, and the request to
  boot into the firmware's menu.
\<close>

subsection \<open>add-data: check, store the timestamp, store the entropy\<close>

definition data_check :: "('s, 'c, 'k) lib \<Rightarrow> request \<Rightarrow> nat \<times> goerror + AddDataRequest" where
  "data_check L r =
     (case unpackPost (Unmarshal_AddData (lib_json L)) r of
        Inl e \<Rightarrow> Inl (StatusBadRequest, e)
      | Inr data \<Rightarrow>
          if length (Entropy data) \<noteq> EntropyBytes
          then Inl (StatusBadRequest, Errorf (''invalid number of entropy bytes: '' @ show_nat (length (Entropy data))))
          else if Timestamp data < 0
          then Inl (StatusBadRequest, Errorf (''invalid unix timestamp '' @ show_int (Timestamp data)))
          else Inr data)"

definition data_time :: "int \<Rightarrow> ('s, 'k) world \<Rightarrow> ('s, 'k) world" where
  "data_time t wd = wd\<lparr>srv := (srv wd)\<lparr>srv_Timestamp := t\<rparr>\<rparr>"

definition data_entropy :: "bytes \<Rightarrow> ('s, 'k) world \<Rightarrow> ('s, 'k) world" where
  "data_entropy ent wd = wd\<lparr>srv := (srv wd)\<lparr>srv_Entropy := ent\<rparr>\<rparr>"

lemma handleAddData_parts:
  "handleAddData L r w wd =
     (case data_check L r of
        Inl (code, e) \<Rightarrow> (wd, w, code, Some e)
      | Inr data \<Rightarrow> (data_entropy (Entropy data) (data_time (Timestamp data) wd), w, StatusOK, None))"
  by (simp add: handleAddData_def data_check_def data_time_def data_entropy_def split: sum.split)

lemma data_check_Inr: "data_check L r = Inr data \<Longrightarrow> length (Entropy data) = 32 \<and> 0 \<le> Timestamp data"
  by (auto simp: data_check_def EntropyBytes_def split: sum.splits if_splits)

subsection \<open>add-secure-boot: check, write the keys one by one, request the reboot\<close>

definition boot_check :: "('s, 'c, 'k) lib \<Rightarrow> request \<Rightarrow> 's \<Rightarrow> nat \<times> goerror + (string \<times> string \<times> bytes) list \<times> bool" where
  "boot_check L r s =
     (if IsSetupMode (lib_efi L) s = Inr False then Inl (StatusForbidden, Errorf ''not in setup mode'')
      else (case unpackPost (Unmarshal_SecureBoot (lib_json L)) r of
          Inl e \<Rightarrow> Inl (StatusBadRequest, e)
        | Inr data \<Rightarrow>
            (case SecureBoot_Check data of
               Some e \<Rightarrow> Inl (StatusBadRequest, e)
             | None \<Rightarrow> Inr (sb_keys (PK data) (KEK data) (Db data) (Dbx data), RebootIntoUEFIMenu data))))"

definition boot_end :: "('s, 'c, 'k) lib \<Rightarrow> bool \<Rightarrow> 's \<Rightarrow> 's" where
  "boot_end L reboot s = (if reboot then fst (RequestRebootIntoUEFIMenu (lib_efi L) s) else s)"

lemma handleAddSecureBoot_parts:
  "handleAddSecureBoot L r w wd =
     (case boot_check L r (nvram wd) of
        Inl (code, e) \<Rightarrow> (wd, w, code, Some e)
      | Inr (ks, reboot) \<Rightarrow>
          (case write_keys (lib_efi L) ks (nvram wd) of
             (s, None) \<Rightarrow> (wd\<lparr>nvram := boot_end L reboot s\<rparr>, w, StatusOK, None)
           | (s, Some e) \<Rightarrow> (wd\<lparr>nvram := boot_end L reboot s\<rparr>, w, StatusBadRequest, Some e)))"
  by (auto simp: handleAddSecureBoot_def addSecureBoot_body_def boot_check_def boot_end_def Provision_write_keys
      simp del: SecureBoot_Check_None split: sum.split prod.split option.split)

subsection \<open>commit: compute and answer, store and signal\<close>

text \<open>A failure comes with the body that could not be written, if it got that far.\<close>

definition commit_compute :: "('s, 'c, 'k) lib \<Rightarrow> request \<Rightarrow> ('s, 'k) world
    \<Rightarrow> bytes \<times> (goerror \<times> bytes option + bytes \<times> bytes)" where
  "commit_compute L r wd =
     (case NewUniqueDeviceSecret (lib_crypto L) (srv_Entropy (srv wd)) (rand wd) of
        (Inl e, rd) \<Rightarrow> (rd, Inl (Wrapf ''new unique device secret'' e, None))
      | (Inr uds, rd) \<Rightarrow>
     (case NewCommitResponse L uds (HostName (srv wd)) of
        Inl e \<Rightarrow> (rd, Inl (Wrapf ''new commit response'' e, None))
      | Inr cr \<Rightarrow>
     (case Marshal_Commit (lib_json L) cr of
        Inl e \<Rightarrow> (rd, Inl (Wrapf ''marshal commit response'' e, None))
      | Inr b \<Rightarrow>
     (case write_error r of
        Some e \<Rightarrow> (rd, Inl (Wrapf ''write commit response'' e, Some b))
      | None \<Rightarrow> (rd, Inr (uds, b))))))"

definition commit_store :: "bytes \<Rightarrow> bytes \<Rightarrow> response \<Rightarrow> ('s, 'k) world \<Rightarrow> ('s, 'k) world \<times> response" where
  "commit_store uds b w wd =
     (if commit_closed (srv wd) \<or> 2 \<le> commit (srv wd)
      then (wd\<lparr>srv := (srv wd)\<lparr>UDS := Some uds\<rparr>\<rparr>, (w_Write b w)\<lparr>aborted := True\<rparr>)
      else (wd\<lparr>srv := (srv wd)\<lparr>UDS := Some uds, commit := Suc (commit (srv wd))\<rparr>\<rparr>, w_Write b w))"

lemma handleCommit_parts:
  "handleCommit L r w wd =
     (case commit_compute L r wd of
        (rd, Inl (e, None)) \<Rightarrow> (wd\<lparr>rand := rd\<rparr>, w, StatusInternalServerError, Some e)
      | (rd, Inl (e, Some b)) \<Rightarrow> (wd\<lparr>rand := rd\<rparr>, (w_Write b w)\<lparr>aborted := True\<rparr>, StatusInternalServerError, Some e)
      | (rd, Inr (uds, b)) \<Rightarrow> (case commit_store uds b w (wd\<lparr>rand := rd\<rparr>) of (wd', w') \<Rightarrow> (wd', w', StatusOK, None)))"
  by (simp add: handleCommit_def commit_compute_def commit_store_def split: sum.split prod.split option.split)

lemma commit_compute_Inr:
  assumes "message_laws (lib_json L)" "commit_compute L r wd = (rd, Inr (uds, b))"
  shows "length uds = 32 \<and> (\<exists>cr. Unmarshal_Commit (lib_json L) b = Inr cr \<and> NewCommitResponse L uds (HostName (srv wd)) = Inr cr)"
  using assms by (auto simp: commit_compute_def message_laws_def dest: NewUniqueDeviceSecret_length
      split: sum.splits prod.splits option.splits)

lemma commit_compute_length: "commit_compute L r wd = (rd, Inr (uds, b)) \<Longrightarrow> length uds = 32"
  by (auto simp: commit_compute_def dest: NewUniqueDeviceSecret_length split: sum.splits prod.splits option.splits)

subsection \<open>Requests that reach a handler\<close>

definition admitted :: "string \<Rightarrow> 'k server \<Rightarrow> request \<Rightarrow> bool" where
  "admitted m s r \<longleftrightarrow> Method r = m \<and> verifyNetwork s new_response r = None
     \<and> BasicAuth r = Some (BasicAuthUser, basicAuthPassword s)"

lemma serve_cases:
  assumes "serve L path r wd = (wd', w)"
  obtains (refused) "wd' = wd"
  | (data) w' code e where "admitted MethodPost (srv wd) r" "handleAddData L r new_response wd = (wd', w', code, e)"
  | (boot) w' code e where "admitted MethodPost (srv wd) r" "handleAddSecureBoot L r new_response wd = (wd', w', code, e)"
  | (commit) w' code e where "admitted MethodGet (srv wd) r" "handleCommit L r new_response wd = (wd', w', code, e)"
proof (cases "route L path")
  case None
  with assms show thesis by (intro refused) (simp add: serve_def)
next
  case (Some h)
  show thesis
  proof (cases "wd' = wd")
    case True
    then show thesis by (rule refused)
  next
    case False
    with assms Some have a: "admitted (hMethod h) (srv wd) r" and "\<exists>w' code e. HandlerFunc h r new_response wd = (wd', w', code, e)"
      by (auto simp: serve_def ServeHTTP_def admitted_def verifyMethod_def authenticateUser_def split: option.splits prod.splits if_splits)
    then obtain w' code e where h: "HandlerFunc h r new_response wd = (wd', w', code, e)" by blast
    from Some show thesis by (cases rule: route_cases) (use a h data boot commit in auto)
  qed
qed

end
