(* ===== verification/Interleaving.thy ===== *)
theory Interleaving
  imports HandlerParts RemoteFacts "HOL-Library.Multiset"
begin

section \<open>Handlers that interleave\<close>

text \<open>
  \<open>ApiRun\<close> takes a request for one step. Here the parts of handlers (\<open>HandlerParts\<close>) are the
  steps, and any number of requests may be between two of their parts. What they have left to
  do is a multiset. The whole requests of \<open>ApiRun\<close> are special runs of these steps, so that what
  holds for all runs here holds there.
\<close>

datatype part =
  Store_entropy bytes
| Write_keys "(string \<times> string \<times> bytes) list" bool
| Store_secret bytes bytes

type_synonym ('s, 'k) config = "phase \<times> ('s, 'k) world \<times> part multiset"

text \<open>
  A part may run in every phase, since its request may have been accepted before. A server
  moves between phases as in \<open>ApiRun\<close>. A key that cannot be written ends the writing.
\<close>

inductive conc_step :: "('s, 'c, 'k) lib \<Rightarrow> ('s, 'k) config \<Rightarrow> ('s, 'k) config \<Rightarrow> bool" for L where
  phase: "quiet_step L (ph, wd) (ph', wd') \<Longrightarrow> conc_step L (ph, wd, js) (ph', wd', js)"
| data: "admitted MethodPost (srv wd) r \<Longrightarrow> data_check L r = Inr data \<Longrightarrow>
    conc_step L (ph, wd, js) (ph, data_time (Timestamp data) wd, add_mset (Store_entropy (Entropy data)) js)"
| entropy: "conc_step L (ph, wd, add_mset (Store_entropy ent) js) (ph, data_entropy ent wd, js)"
| boot: "admitted MethodPost (srv wd) r \<Longrightarrow> boot_check L r (nvram wd) = Inr (ks, reboot) \<Longrightarrow>
    conc_step L (ph, wd, js) (ph, wd, add_mset (Write_keys ks reboot) js)"
| key: "efiAuthenticatedWrite (lib_efi L) name guid auth (nvram wd) = (s, e) \<Longrightarrow>
    conc_step L (ph, wd, add_mset (Write_keys ((name, guid, auth) # ks) reboot) js)
      (ph, wd\<lparr>nvram := s\<rparr>, add_mset (Write_keys (if e = None then ks else []) reboot) js)"
| reboot: "conc_step L (ph, wd, add_mset (Write_keys [] reboot) js)
      (ph, wd\<lparr>nvram := boot_end L reboot (nvram wd)\<rparr>, js)"
| failed: "admitted MethodGet (srv wd) r \<Longrightarrow> commit_compute L r wd = (rd, Inl e) \<Longrightarrow>
    conc_step L (ph, wd, js) (ph, wd\<lparr>rand := rd\<rparr>, js)"
| compute: "admitted MethodGet (srv wd) r \<Longrightarrow> commit_compute L r wd = (rd, Inr (uds, b)) \<Longrightarrow>
    conc_step L (ph, wd, js) (ph, wd\<lparr>rand := rd\<rparr>, add_mset (Store_secret uds b) js)"
| store: "commit_store uds b new_response wd = (wd', w) \<Longrightarrow>
    conc_step L (ph, wd, add_mset (Store_secret uds b) js) (ph, wd', js)"

subsection \<open>Whole requests\<close>

lemma write_keys_runs:
  "write_keys (lib_efi L) ks (nvram wd) = (s, e) \<Longrightarrow>
   (conc_step L)\<^sup>*\<^sup>* (ph, wd, add_mset (Write_keys ks reboot) js) (ph, wd\<lparr>nvram := s\<rparr>, add_mset (Write_keys [] reboot) js)"
proof (induction ks arbitrary: wd)
  case (Cons k ks)
  obtain name guid auth where k: "k = (name, guid, auth)" by (cases k)
  obtain s1 e1 where w: "efiAuthenticatedWrite (lib_efi L) name guid auth (nvram wd) = (s1, e1)" by fastforce
  note step = conc_step.key [OF w, of ph ks reboot js]
  show ?case
  proof (cases e1)
    case None
    with Cons.prems k w have "write_keys (lib_efi L) ks (nvram (wd\<lparr>nvram := s1\<rparr>)) = (s, e)" by simp
    from Cons.IH [OF this] step None k show ?thesis by (auto intro: converse_rtranclp_into_rtranclp)
  next
    case (Some x)
    with Cons.prems k w have "s = s1" by simp
    with step Some k show ?thesis by auto
  qed
qed auto

lemma handleAddData_runs:
  assumes "admitted MethodPost (srv wd) r" "handleAddData L r new_response wd = (wd', w', code, e)"
  shows "(conc_step L)\<^sup>*\<^sup>* (ph, wd, js) (ph, wd', js)"
proof (cases "data_check L r")
  case (Inr d)
  from conc_step.data [OF assms(1) Inr, of ph js] conc_step.entropy
  have "(conc_step L)\<^sup>*\<^sup>* (ph, wd, js) (ph, data_entropy (Entropy d) (data_time (Timestamp d) wd), js)"
    by (meson rtranclp.rtrancl_into_rtrancl rtranclp.rtrancl_refl)
  with assms(2) Inr show ?thesis by (simp add: handleAddData_parts)
qed (use assms(2) in \<open>simp add: handleAddData_parts split: prod.splits\<close>)

lemma handleAddSecureBoot_runs:
  assumes "admitted MethodPost (srv wd) r" "handleAddSecureBoot L r new_response wd = (wd', w', code, e)"
  shows "(conc_step L)\<^sup>*\<^sup>* (ph, wd, js) (ph, wd', js)"
proof (cases "boot_check L r (nvram wd)")
  case (Inl x)
  with assms(2) show ?thesis by (simp add: handleAddSecureBoot_parts split: prod.splits)
next
  case (Inr x)
  obtain ks reboot where x: "x = (ks, reboot)" by (cases x)
  obtain s err where k: "write_keys (lib_efi L) ks (nvram wd) = (s, err)" by fastforce
  have "conc_step L (ph, wd, js) (ph, wd, add_mset (Write_keys ks reboot) js)"
    using assms(1) Inr x by (intro conc_step.boot) simp_all
  moreover note write_keys_runs [OF k, of ph reboot js]
  moreover have "conc_step L (ph, wd\<lparr>nvram := s\<rparr>, add_mset (Write_keys [] reboot) js) (ph, wd\<lparr>nvram := boot_end L reboot s\<rparr>, js)"
    using conc_step.reboot [of L ph "wd\<lparr>nvram := s\<rparr>" reboot js] by simp
  ultimately have "(conc_step L)\<^sup>*\<^sup>* (ph, wd, js) (ph, wd\<lparr>nvram := boot_end L reboot s\<rparr>, js)"
    by (meson converse_rtranclp_into_rtranclp rtranclp.rtrancl_into_rtrancl)
  with assms(2) Inr x k show ?thesis by (simp add: handleAddSecureBoot_parts split: option.splits)
qed

lemma handleCommit_runs:
  assumes "admitted MethodGet (srv wd) r" "handleCommit L r new_response wd = (wd', w', code, e)"
  shows "(conc_step L)\<^sup>*\<^sup>* (ph, wd, js) (ph, wd', js)"
proof -
  obtain rd x where c: "commit_compute L r wd = (rd, x)" by fastforce
  show ?thesis
  proof (cases x)
    case (Inl e)
    with assms c have "conc_step L (ph, wd, js) (ph, wd', js)" by (auto simp: handleCommit_parts intro: conc_step.failed split: prod.splits option.splits)
    then show ?thesis by blast
  next
    case (Inr y)
    obtain uds b where y: "y = (uds, b)" by (cases y)
    from assms(2) c Inr y obtain w2 where "commit_store uds b new_response (wd\<lparr>rand := rd\<rparr>) = (wd', w2)"
      by (auto simp: handleCommit_parts split: prod.splits)
    from conc_step.compute [OF assms(1) c [unfolded Inr y], of ph js] conc_step.store [OF this, of L ph js]
    show ?thesis by (meson rtranclp.rtrancl_into_rtrancl rtranclp.rtrancl_refl)
  qed
qed

lemma serve_runs: "serve L path r wd = (wd', w) \<Longrightarrow> (conc_step L)\<^sup>*\<^sup>* (ph, wd, js) (ph, wd', js)"
  by (erule serve_cases) (auto intro: handleAddData_runs handleAddSecureBoot_runs handleCommit_runs)

text \<open>Every run of whole requests is one of these runs, whatever is left of other requests.\<close>

lemma run_step_runs: "run_step L (ph, wd) (ph', wd') \<Longrightarrow> (conc_step L)\<^sup>*\<^sup>* (ph, wd, js) (ph', wd', js)"
  by (erule run_step_cases) (auto intro: serve_runs conc_step.phase)

lemma whole_runs:
  assumes "(run_step L)\<^sup>*\<^sup>* c c'"
  shows "(conc_step L)\<^sup>*\<^sup>* (fst c, snd c, js) (fst c', snd c', js)"
  using assms
proof (induction rule: rtranclp_induct)
  case (step c c')
  then have "(conc_step L)\<^sup>*\<^sup>* (fst c, snd c, js) (fst c', snd c', js)" by (intro run_step_runs) simp
  with step.IH show ?case by simp
qed simp

subsection \<open>Where a secret comes from\<close>

text \<open>
  An admitted commit of the run computed it, from the entropy the server held at that time,
  with an answer that decodes to its description.
\<close>

definition computed :: "('s, 'c, 'k) lib \<Rightarrow> ('s, 'k) world \<Rightarrow> bytes \<Rightarrow> bool" where
  "computed L wd0 uds \<longleftrightarrow> length uds = 32 \<and>
     (\<exists>ph wd1 js r rd b cr. (conc_step L)\<^sup>*\<^sup>* (Serving, wd0, {#}) (ph, wd1, js) \<and> admitted MethodGet (srv wd1) r
        \<and> commit_compute L r wd1 = (rd, Inr (uds, b)) \<and> Unmarshal_Commit (lib_json L) b = Inr cr
        \<and> NewCommitResponse L uds (HostName (srv wd0)) = Inr cr)"

lemma server_inv_HostName: "server_inv cfg pw s \<Longrightarrow> HostName s = HostName cfg"
  by (auto simp: server_inv_def ServerConfig.defs)

lemma computedI:
  assumes "message_laws (lib_json L)" "(conc_step L)\<^sup>*\<^sup>* (Serving, wd0, {#}) (ph, wd, js)"
    and "HostName (srv wd) = HostName (srv wd0)"
    and "admitted MethodGet (srv wd) r" "commit_compute L r wd = (rd, Inr (uds, b))"
  shows "computed L wd0 uds"
  using commit_compute_Inr [OF assms(1,5)] assms(2-5) unfolding computed_def by metis

text \<open>The invariant: that of \<open>ApiRun\<close>, and what is left of a request is well formed.\<close>

fun part_ok :: "('s, 'c, 'k) lib \<Rightarrow> ('s, 'k) world \<Rightarrow> part \<Rightarrow> bool" where
  "part_ok L wd0 (Store_entropy ent) = (length ent = 32)"
| "part_ok L wd0 (Write_keys ks reboot) = True"
| "part_ok L wd0 (Store_secret uds b) = computed L wd0 uds"

definition conc_inv :: "('s, 'c, 'k) lib \<Rightarrow> ServerConfig \<Rightarrow> ('s, 'k) world \<Rightarrow> ('s, 'k) config \<Rightarrow> bool" where
  "conc_inv L cfg wd0 c \<longleftrightarrow> run_inv cfg (basicAuthPassword (srv wd0)) (fst c, fst (snd c))
     \<and> (\<forall>uds. UDS (srv (fst (snd c))) = Some uds \<longrightarrow> computed L wd0 uds)
     \<and> (\<forall>j \<in># snd (snd c). part_ok L wd0 j)"

text \<open>How the parts change the server, for the invariant.\<close>

lemma parts_server_inv:
  "server_inv cfg pw (srv wd) \<Longrightarrow> 0 \<le> t \<Longrightarrow> server_inv cfg pw (srv (data_time t wd))"
  "server_inv cfg pw (srv wd) \<Longrightarrow> length ent = 32 \<Longrightarrow> server_inv cfg pw (srv (data_entropy ent wd))"
  by (auto simp: data_time_def data_entropy_def server_inv_def ServerConfig.defs)

lemma parts_secret [simp]:
  "UDS (srv (data_time t wd)) = UDS (srv wd)" "UDS (srv (data_entropy ent wd)) = UDS (srv wd)"
  by (simp_all add: data_time_def data_entropy_def)

lemma commit_store_server:
  assumes "commit_store uds b w wd = (wd', w')"
  shows "UDS (srv wd') = Some uds" "HostName (srv wd') = HostName (srv wd)" "nvram wd' = nvram wd"
    "server_inv cfg pw (srv wd) \<Longrightarrow> length uds = 32 \<Longrightarrow> server_inv cfg pw (srv wd')"
  using assms by (auto simp: commit_store_def server_inv_def ServerConfig.defs split: if_splits)

lemma conc_step_inv:
  assumes "message_laws (lib_json L)" "HostName (srv wd0) = HostName cfg"
    and "(conc_step L)\<^sup>*\<^sup>* (Serving, wd0, {#}) c" "conc_step L c c'" "conc_inv L cfg wd0 c"
  shows "conc_inv L cfg wd0 c'"
  using assms(4)
proof cases
  case (phase ph wd ph' wd' js)
  have "run_step L (ph, wd) (ph', wd')" using phase(3) by (rule quiet_run_step)
  moreover note quiet_step_server [OF phase(3)]
  ultimately show ?thesis
    using assms(5) phase run_step_inv by (fastforce simp: conc_inv_def)
next
  case (compute wd r rd uds b ph js)
  have "HostName (srv wd) = HostName (srv wd0)"
    using assms(2,5) compute(1) server_inv_HostName by (fastforce simp: conc_inv_def run_inv_def)
  with computedI [OF assms(1) assms(3) [unfolded compute(1)] _ compute(3,4)] assms(5) compute
  show ?thesis by (auto simp: conc_inv_def run_inv_def)
next
  case (store uds b wd wd' w ph js)
  have c: "computed L wd0 uds" using assms(5) store by (simp add: conc_inv_def)
  then have "length uds = 32" by (simp add: computed_def)
  with assms(5) store commit_store_server [OF store(3)] c show ?thesis by (auto simp: conc_inv_def run_inv_def)
qed (use assms(5) in \<open>auto simp: conc_inv_def run_inv_def parts_server_inv dest!: data_check_Inr\<close>)

lemma conc_reachable:
  assumes "message_laws (lib_json L)" "HostName (srv wd0) = HostName cfg" "conc_inv L cfg wd0 (Serving, wd0, {#})"
    and "(conc_step L)\<^sup>*\<^sup>* (Serving, wd0, {#}) c"
  shows "conc_inv L cfg wd0 c"
  using assms(4) by (induction rule: rtranclp_induct) (auto intro: assms(3) conc_step_inv [OF assms(1,2)])

text \<open>
  C16. Interleaving the parts of any number of requests keeps what a run of whole requests
  guarantees: the server's configuration, password, entropy and timestamp stay well formed,
  and when \<open>Run\<close> has returned without an error there is a secret, which an admitted commit
  of this run computed and described in its answer.
\<close>

theorem interleaved_runs_safe:
  assumes "message_laws (lib_json L)" "NewServer L cfg = Inr s"
    and "(conc_step L)\<^sup>*\<^sup>* (Serving, \<lparr>nvram = v, rand = rd, srv = s\<rparr>, {#}) (ph, wd', js)"
  shows "ServerConfig.truncate (srv wd') = cfg \<and> basicAuthPassword (srv wd') = basicAuthPassword s
    \<and> length (srv_Entropy (srv wd')) = 32 \<and> 0 \<le> srv_Timestamp (srv wd')
    \<and> (ph = Returned None \<longrightarrow> (\<exists>uds. UDS (srv wd') = Some uds \<and> computed L \<lparr>nvram = v, rand = rd, srv = s\<rparr> uds))"
proof -
  note i = NewServer_inv [OF assms(2)]
  then have h: "HostName (srv \<lparr>nvram = v, rand = rd, srv = s\<rparr>) = HostName cfg" by (auto dest: server_inv_HostName)
  have "conc_inv L cfg \<lparr>nvram = v, rand = rd, srv = s\<rparr> (Serving, \<lparr>nvram = v, rand = rd, srv = s\<rparr>, {#})"
    using i by (simp add: conc_inv_def run_inv_def)
  from conc_reachable [OF assms(1) h this assms(3)] show ?thesis
    by (auto simp: conc_inv_def run_inv_def server_inv_def)
qed

subsection \<open>Where a key comes from\<close>

text \<open>
  The source of what a request has left to write: an admitted add-secure-boot request that
  was checked while setup mode was not known to be off, and whose message has PK, KEK and db.
  What is left is an end of its keys.
\<close>

definition key_source :: "('s, 'c, 'k) lib \<Rightarrow> ('s, 'k) world \<Rightarrow> (string \<times> string \<times> bytes) list \<Rightarrow> bool \<Rightarrow> bool" where
  "key_source L wd0 ks reboot \<longleftrightarrow> (\<exists>ph wd1 js r m. (conc_step L)\<^sup>*\<^sup>* (Serving, wd0, {#}) (ph, wd1, js)
     \<and> admitted MethodPost (srv wd1) r \<and> IsSetupMode (lib_efi L) (nvram wd1) \<noteq> Inr False
     \<and> unpackPost (Unmarshal_SecureBoot (lib_json L)) r = Inr m \<and> PK m \<noteq> [] \<and> KEK m \<noteq> [] \<and> Db m \<noteq> []
     \<and> suffix ks (sb_keys (PK m) (KEK m) (Db m) (Dbx m)) \<and> reboot = RebootIntoUEFIMenu m)"

lemma key_source_suffix: "key_source L wd0 ks reboot \<Longrightarrow> suffix ls ks \<Longrightarrow> key_source L wd0 ls reboot"
  unfolding key_source_def by (meson suffix_order.trans)

lemma boot_check_Inr:
  "boot_check L r s = Inr (ks, reboot) \<Longrightarrow> IsSetupMode (lib_efi L) s \<noteq> Inr False \<and>
     (\<exists>m. unpackPost (Unmarshal_SecureBoot (lib_json L)) r = Inr m \<and> PK m \<noteq> [] \<and> KEK m \<noteq> [] \<and> Db m \<noteq> []
        \<and> ks = sb_keys (PK m) (KEK m) (Db m) (Dbx m) \<and> reboot = RebootIntoUEFIMenu m)"
  by (auto simp: boot_check_def split: if_splits sum.splits option.splits simp flip: SecureBoot_Check_None)

lemma keys_have_source:
  assumes "(conc_step L)\<^sup>*\<^sup>* (Serving, wd0, {#}) (ph, wd, js)" "Write_keys ks reboot \<in># js"
  shows "key_source L wd0 ks reboot"
  using assms
proof (induction "(ph, wd, js)" arbitrary: ph wd js ks reboot rule: rtranclp_induct)
  case (step c)
  obtain ph1 wd1 js1 where c: "c = (ph1, wd1, js1)" by (cases c)
  note IH = step(3) [OF c]
  from step(2) [unfolded c] show ?case
  proof cases
    case (boot r ks' reboot')
    show ?thesis
    proof (cases "Write_keys ks reboot \<in># js1")
      case False
      with step(4) boot have "ks' = ks" "reboot' = reboot" by auto
      with boot_check_Inr [OF boot(5)] boot(4) step(1) [unfolded c] show ?thesis
        unfolding key_source_def by (metis suffix_order.refl)
    qed (rule IH)
  next
    case (key name guid auth s e ks' reboot' js')
    show ?thesis
    proof (cases "Write_keys ks reboot \<in># js'")
      case False
      with step(4) key have k: "ks = (if e = None then ks' else [])" "reboot = reboot'" by auto
      from key have "Write_keys ((name, guid, auth) # ks') reboot' \<in># js1" by simp
      from key_source_suffix [OF IH [OF this], of ks] k show ?thesis by (auto simp: suffix_ConsI)
    qed (use key IH in auto)
  qed (use step(4) IH in auto)
qed simp

text \<open>
  C17. Whatever interleaves, an EFI variable changes only by the write of a key from a message,
  with PK, KEK and db, of an admitted add-secure-boot request that was not told that setup
  mode is off, or by a request to boot into the firmware's menu that such a message
  asked for. Nothing more holds: the check is not repeated before each write, so that the
  keys of two requests may mix as far as the firmware accepts them.
\<close>

theorem interleaved_key_writes:
  assumes "(conc_step L)\<^sup>*\<^sup>* (Serving, wd0, {#}) (ph, wd, js)" "conc_step L (ph, wd, js) (ph', wd', js')"
    and "nvram wd' \<noteq> nvram wd"
  shows "\<exists>ph1 wd1 js1 r m. (conc_step L)\<^sup>*\<^sup>* (Serving, wd0, {#}) (ph1, wd1, js1)
     \<and> admitted MethodPost (srv wd1) r \<and> IsSetupMode (lib_efi L) (nvram wd1) \<noteq> Inr False
     \<and> unpackPost (Unmarshal_SecureBoot (lib_json L)) r = Inr m \<and> PK m \<noteq> [] \<and> KEK m \<noteq> [] \<and> Db m \<noteq> []
     \<and> ((\<exists>name guid auth. (name, guid, auth) \<in> set (sb_keys (PK m) (KEK m) (Db m) (Dbx m))
            \<and> nvram wd' = fst (efiAuthenticatedWrite (lib_efi L) name guid auth (nvram wd)))
        \<or> RebootIntoUEFIMenu m \<and> nvram wd' = fst (RequestRebootIntoUEFIMenu (lib_efi L) (nvram wd)))"
  using assms(2)
proof cases
  case (key name guid auth s e ks reboot js1)
  from key(1) have "Write_keys ((name, guid, auth) # ks) reboot \<in># js" by simp
  with assms(1) have "key_source L wd0 ((name, guid, auth) # ks) reboot" by (rule keys_have_source)
  then show ?thesis using key unfolding key_source_def by (fastforce dest: set_mono_suffix)
next
  case (reboot rb)
  from reboot(1) have "Write_keys [] rb \<in># js" by simp
  with assms(1) have "key_source L wd0 [] rb" by (rule keys_have_source)
  moreover have "rb" using reboot assms(3) by (auto simp: boot_end_def split: if_splits)
  ultimately show ?thesis using reboot unfolding key_source_def by (fastforce simp: boot_end_def)
next
  case phase
  with assms(3) quiet_step_server show ?thesis by fastforce
next
  case (store uds b w)
  with assms(3) commit_store_server(3) show ?thesis by fastforce
qed (use assms(3) in \<open>auto simp: data_time_def data_entropy_def\<close>)

text \<open>A platform in setup mode whose firmware accepts every write, and a message for it.\<close>

definition demo_setup :: "(varmap, bytes option \<times> bytes option) world" where
  "demo_setup = demo_world\<lparr>nvram := Map.empty(\<lparr>desc_Name = ''SetupMode'', GUID = str_bytes efiGlobalVariableGUID\<rparr> \<mapsto> (6, [1]))\<rparr>"

lemma demo_boot:
  "\<exists>r. admitted MethodPost (srv demo_setup) r \<and>
     conc_step demo_lib (ph, demo_setup, js) (ph, demo_setup, add_mset (Write_keys (sb_keys [a] [b] [c] []) False) js)"
proof -
  let ?m = "\<lparr>PK = [a], KEK = [b], Db = [c], Dbx = [], RebootIntoUEFIMenu = False\<rparr>"
  obtain d where "Marshal_SecureBoot demo_json ?m = Inr d" by (simp add: demo_json_def)
  then have u: "Unmarshal_SecureBoot demo_json d = Inr ?m" using demo_json_laws by (simp add: message_laws_def)
  let ?r = "demo_request ''POST'' d"
  have "IsSetupMode (lib_efi demo_lib) (nvram demo_setup) = Inr True"
    by (simp add: IsSetupMode_def efiRead_def demo_setup_def) (simp add: map_efi_def)
  then have "boot_check demo_lib ?r (nvram demo_setup) = Inr (sb_keys [a] [b] [c] [], False)"
    using u by (simp add: boot_check_def unpackPost_def demo_request_def SecureBoot_Check_def)
  moreover have "admitted MethodPost (srv demo_setup) ?r"
    by (simp add: admitted_def demo_setup_def demo_network MethodPost_def) (simp add: demo_request_def demo_world_def BasicAuthUser_def)
  ultimately show ?thesis using conc_step.boot by blast
qed

definition demo_put :: "string \<Rightarrow> string \<Rightarrow> bytes \<Rightarrow> (varmap, 'k) world \<Rightarrow> (varmap, 'k) world" where
  "demo_put name guid auth wd = wd\<lparr>nvram := (nvram wd)(\<lparr>desc_Name = name, GUID = str_bytes guid\<rparr> \<mapsto> (39, auth))\<rparr>"

lemma nvram_demo_put [simp]:
  "nvram (demo_put name guid auth wd) = (nvram wd)(\<lparr>desc_Name = name, GUID = str_bytes guid\<rparr> \<mapsto> (39, auth))"
  by (simp add: demo_put_def)

lemma demo_key:
  assumes "auth \<noteq> []"
  shows "conc_step demo_lib (ph, wd, add_mset (Write_keys ((name, guid, auth) # ks) reboot) js)
     (ph, demo_put name guid auth wd, add_mset (Write_keys ks reboot) js)"
proof -
  have "efiAuthenticatedWrite (lib_efi demo_lib) name guid auth (nvram wd) =
      ((nvram wd)(\<lparr>desc_Name = name, GUID = str_bytes guid\<rparr> \<mapsto> (39, auth)), None)"
    using assms by (simp add: efiAuthenticatedWrite_def) (simp add: map_efi_def)
  from conc_step.key [OF this] show ?thesis by (simp add: demo_put_def)
qed

theorem interleaved_key_writes_witness:
  "\<exists>wd0 wd js wd' js'. (conc_step demo_lib)\<^sup>*\<^sup>* (Serving, wd0, {#}) (Serving, wd, js)
     \<and> conc_step demo_lib (Serving, wd, js) (Serving, wd', js') \<and> nvram wd' \<noteq> nvram wd
     \<and> (\<exists>ph1 wd1 js1 r m. (conc_step demo_lib)\<^sup>*\<^sup>* (Serving, wd0, {#}) (ph1, wd1, js1)
          \<and> admitted MethodPost (srv wd1) r \<and> IsSetupMode (lib_efi demo_lib) (nvram wd1) \<noteq> Inr False
          \<and> unpackPost (Unmarshal_SecureBoot demo_json) r = Inr m \<and> PK m \<noteq> [])"
proof -
  let ?js = "{#Write_keys (sb_keys [1] [2] [3] []) False#}"
  let ?pk = "\<lparr>desc_Name = ''PK'', GUID = str_bytes efiGlobalVariableGUID\<rparr>"
  let ?wd = "demo_put ''PK'' efiGlobalVariableGUID [1] demo_setup"
  have 1: "(conc_step demo_lib)\<^sup>*\<^sup>* (Serving, demo_setup, {#}) (Serving, demo_setup, ?js)" using demo_boot by blast
  obtain js where 2: "conc_step demo_lib (Serving, demo_setup, ?js) (Serving, ?wd, js)"
    using demo_key [of "[1]" Serving demo_setup "''PK''"] unfolding sb_keys_def append_Cons by blast
  have 3: "nvram ?wd \<noteq> nvram demo_setup" by (auto simp: demo_setup_def dest: fun_cong [of _ _ ?pk])
  from interleaved_key_writes [OF 1 2 3] 1 2 3 show ?thesis unfolding demo_lib_fields by blast
qed

text \<open>
  Two requests that were both checked before either wrote a key: both go through, and the
  platform is left with PK of the second and KEK and db of the first.
\<close>

theorem mixed_keys:
  "\<exists>wd. (conc_step demo_lib)\<^sup>*\<^sup>* (Serving, demo_setup, {#}) (Serving, wd, {#})
     \<and> nvram wd \<lparr>desc_Name = ''PK'', GUID = str_bytes efiGlobalVariableGUID\<rparr> = Some (39, [4])
     \<and> nvram wd \<lparr>desc_Name = ''KEK'', GUID = str_bytes efiGlobalVariableGUID\<rparr> = Some (39, [2])
     \<and> nvram wd \<lparr>desc_Name = ''db'', GUID = str_bytes efiImageSecurityDatabaseGUID\<rparr> = Some (39, [3])"
proof -
  let ?G = efiGlobalVariableGUID and ?D = efiImageSecurityDatabaseGUID
  let ?c = "\<lambda>wd ks ls. (Serving, wd, {#Write_keys ks False, Write_keys ls False#})"
  have one: "(conc_step demo_lib)\<^sup>*\<^sup>* (?c wd ((n, g, [x]) # ks) ls) (?c (demo_put n g [x] wd) ks ls)" for wd n g x ks ls
    by (rule r_into_rtranclp, rule demo_key) simp
  have two: "(conc_step demo_lib)\<^sup>*\<^sup>* (?c wd ks ((n, g, [x]) # ls)) (?c (demo_put n g [x] wd) ks ls)" for wd n g x ks ls
    using one [of wd n g x ls ks] by (simp add: add_mset_commute)
  have stop: "(conc_step demo_lib)\<^sup>*\<^sup>* (Serving, wd, add_mset (Write_keys [] False) js) (Serving, wd, js)" for wd js
    using conc_step.reboot [of demo_lib Serving wd False js] by (simp add: boot_end_def r_into_rtranclp)
  let ?w1 = "demo_put ''PK'' ?G [1] demo_setup"
  let ?w2 = "demo_put ''PK'' ?G [4] ?w1"
  let ?w3 = "demo_put ''KEK'' ?G [5] ?w2"
  let ?w4 = "demo_put ''db'' ?D [6] ?w3"
  let ?w5 = "demo_put ''KEK'' ?G [2] ?w4"
  let ?w6 = "demo_put ''db'' ?D [3] ?w5"
  have k: "sb_keys [x] [y] [z] [] = [(''PK'', ?G, [x]), (''KEK'', ?G, [y]), (''db'', ?D, [z])]" for x y z
    by (simp add: sb_keys_def)
  let ?ks = "[(''KEK'', ?G, [2]), (''db'', ?D, [3])]"
  have boot: "(conc_step demo_lib)\<^sup>*\<^sup>* (Serving, demo_setup, js) (Serving, demo_setup, add_mset (Write_keys (sb_keys [a] [b] [c] []) False) js)"
    for a b c js using demo_boot [of Serving js a b c] by blast
  let ?ls = "[(''KEK'', ?G, [5]), (''db'', ?D, [6])]"
  have 0: "(conc_step demo_lib)\<^sup>*\<^sup>* (Serving, demo_setup, {#}) (?c demo_setup ((''PK'', ?G, [1]) # ?ks) ((''PK'', ?G, [4]) # ?ls))"
    using rtranclp_trans [OF boot [of "{#}" 4 5 6] boot [of "{#Write_keys (sb_keys [4] [5] [6] []) False#}" 1 2 3]] unfolding k .
  note ends = rtranclp_trans [OF one [of _ "''db''" ?D 3 "[]" "[]"] rtranclp_trans [OF stop stop]]
  note a = rtranclp_trans [OF one [of ?w4 "''KEK''" ?G 2 "[(''db'', ?D, [3])]" "[]"] ends]
  note b = rtranclp_trans [OF two [of ?w2 ?ks "''KEK''" ?G 5 "[(''db'', ?D, [6])]"] rtranclp_trans [OF two [of ?w3 ?ks "''db''" ?D 6 "[]"] a]]
  note c = rtranclp_trans [OF one [of demo_setup "''PK''" ?G 1 ?ks "(''PK'', ?G, [4]) # ?ls"]
      rtranclp_trans [OF two [of ?w1 ?ks "''PK''" ?G 4 ?ls] b]]
  from rtranclp_trans [OF 0 c] show ?thesis by (intro exI [of _ ?w6] conjI) simp_all
qed

subsection \<open>A secret that does not mix the entropy on display\<close>

text \<open>
  A commit computes its secret, an add-data message replaces the server's entropy, and then
  the commit stores its secret. The server's entropy, which \<open>listen\<close> logs for the operator to
  confirm, is not the one in the secret.
\<close>

lemma demo_admits:
  assumes "\<lparr>IP = [10, 0, 2, 0], Mask = [255, 255, 255, 0]\<rparr> \<in> set (LocalCIDR s)"
    "RemoteAddr r = JoinHostPort (IP_String [10, 0, 2, 77]) ''40000''"
  shows "verifyNetwork s w r = None"
proof -
  have "plain_ip [10, 0, 2, 77]" "plain_host ''40000''" "CHR '':'' \<notin> set ''40000''" by (simp_all add: plain_ip_def plain_host_def)
  moreover have "IPNet_Contains \<lparr>IP = [10, 0, 2, 0], Mask = [255, 255, 255, 0]\<rparr> [10, 0, 2, 77]" by code_simp
  ultimately have "verifyNetwork s w (r\<lparr>RemoteAddr := JoinHostPort (IP_String [10, 0, 2, 77]) ''40000''\<rparr>) = None"
    using verifyNetwork_iff assms(1) by blast
  then show ?thesis using assms(2) by (metis request.surjective request.update_convs(2))
qed

lemma finish_run:
  assumes "0 < commit (srv wd)"
  shows "(conc_step L)\<^sup>*\<^sup>* (Serving, wd, js) (Returned None, close_commit wd, js)"
proof -
  have "conc_step L (Serving, wd, js) (Closing, wd, js)"
    by (rule conc_step.phase) (simp add: quiet_step_simps assms)
  moreover have "conc_step L (Closing, wd, js) (Closed None, close_commit wd, js)"
    "conc_step L (Closed None, close_commit wd, js) (Returned None, close_commit wd, js)"
    by (simp_all add: conc_step.phase quiet_step_simps)
  ultimately show ?thesis by (meson converse_rtranclp_into_rtranclp rtranclp.rtrancl_refl)
qed

theorem stale_secret:
  "\<exists>s wd'. NewServer demo_lib (ServerConfig.truncate (srv demo_world)) = Inr s
    \<and> (conc_step demo_lib)\<^sup>*\<^sup>* (Serving, \<lparr>nvram = Map.empty, rand = replicate 32 1, srv = s\<rparr>, {#}) (Returned None, wd', {#})
    \<and> srv_Entropy (srv wd') = replicate 32 5
    \<and> UDS (srv wd') = Some (take 32 (Reader demo_crypto (replicate 32 1 @ replicate 32 0) ''uds'' 1))"
proof -
  let ?cfg = "ServerConfig.truncate (srv demo_world)"
  obtain s where s: "NewServer demo_lib ?cfg = Inr s" using demo_NewServer ..
  have s0: "LocalCIDR s = [\<lparr>IP = [10, 0, 2, 0], Mask = [255, 255, 255, 0]\<rparr>]" "commit s = 0" "\<not> commit_closed s"
    using NewServer_inv [OF s] by (auto simp: server_inv_def ServerConfig.defs demo_world_def)
  have ent: "srv_Entropy s = replicate 32 0"
    using s by (auto simp: NewServer_def ServerConfig.defs split: sum.splits)
  let ?wd0 = "\<lparr>nvram = Map.empty :: varmap, rand = replicate 32 1, srv = s\<rparr>"
  let ?peer = "JoinHostPort (IP_String [10, 0, 2, 77]) ''40000''"
  let ?auth = "Some (BasicAuthUser, basicAuthPassword s)"
  let ?uds = "take 32 (Reader demo_crypto (replicate 32 1 @ replicate 32 0) ''uds'' 1)"
  let ?commit = "\<lparr>Method = MethodGet, RemoteAddr = ?peer, BasicAuth = ?auth, Body = Inr [], write_error = None\<rparr>"
  obtain cr where cr: "NewCommitResponse demo_lib ?uds (HostName s) = Inr cr" using demo_NewCommitResponse by blast
  obtain b where b: "Marshal_Commit demo_json cr = Inr b" by (simp add: demo_json_def)
  obtain d where d: "Marshal_AddData demo_json \<lparr>Entropy = replicate 32 5, Timestamp = 0\<rparr> = Inr d" by (simp add: demo_json_def)
  let ?data = "\<lparr>Method = MethodPost, RemoteAddr = ?peer, BasicAuth = ?auth, Body = Inr d, write_error = None\<rparr>"
  let ?wd1 = "?wd0\<lparr>rand := []\<rparr>"
  let ?wd2 = "?wd1\<lparr>srv := s\<lparr>srv_Timestamp := 0, srv_Entropy := replicate 32 5\<rparr>\<rparr>"
  let ?wd3 = "?wd2\<lparr>srv := (srv ?wd2)\<lparr>UDS := Some ?uds, commit := 1\<rparr>\<rparr>"
  have "NewUniqueDeviceSecret demo_crypto (replicate 32 0) (replicate 32 1) = (Inr ?uds, [])"
    by (simp add: NewUniqueDeviceSecret_eq [OF demo_crypto_laws])
  then have "commit_compute demo_lib ?commit ?wd0 = ([], Inr (?uds, b))"
    using cr b by (simp add: commit_compute_def ent)
  moreover have "admitted MethodGet (srv ?wd0) ?commit" using s0(1) by (simp add: admitted_def demo_admits)
  ultimately have 1: "conc_step demo_lib (Serving, ?wd0, {#}) (Serving, ?wd1, {#Store_secret ?uds b#})"
    using conc_step.compute [of ?wd0 ?commit demo_lib "[]" ?uds b Serving "{#}"] by simp
  have "Unmarshal_AddData demo_json d = Inr \<lparr>Entropy = replicate 32 5, Timestamp = 0\<rparr>"
    using d demo_json_laws by (simp add: message_laws_def)
  then have "handleAddData demo_lib ?data new_response ?wd1 = (?wd2, new_response, StatusOK, None)"
    by (simp add: handleAddData_def unpackPost_def EntropyBytes_def)
  moreover have "admitted MethodPost (srv ?wd1) ?data" using s0(1) by (simp add: admitted_def demo_admits)
  ultimately have 2: "(conc_step demo_lib)\<^sup>*\<^sup>* (Serving, ?wd1, {#Store_secret ?uds b#}) (Serving, ?wd2, {#Store_secret ?uds b#})"
    by (intro handleAddData_runs)
  have "commit_store ?uds b new_response ?wd2 = (?wd3, w_Write b new_response)"
    using s0(2,3) by (simp add: commit_store_def)
  from conc_step.store [OF this, of demo_lib Serving "{#}"]
  have 3: "conc_step demo_lib (Serving, ?wd2, {#Store_secret ?uds b#}) (Serving, ?wd3, {#})" by simp
  have 4: "(conc_step demo_lib)\<^sup>*\<^sup>* (Serving, ?wd3, {#}) (Returned None, close_commit ?wd3, {#})" by (rule finish_run) simp
  from 1 2 3 4 have "(conc_step demo_lib)\<^sup>*\<^sup>* (Serving, ?wd0, {#}) (Returned None, close_commit ?wd3, {#})"
    by (meson converse_rtranclp_into_rtranclp rtranclp_trans)
  moreover have "srv_Entropy (srv (close_commit ?wd3)) = replicate 32 5" by (simp add: close_commit_def)
  moreover have "UDS (srv (close_commit ?wd3)) = Some ?uds" by simp
  ultimately show ?thesis using s by blast
qed

theorem interleaved_runs_safe_witness:
  "\<exists>s wd' uds. NewServer demo_lib (ServerConfig.truncate (srv demo_world)) = Inr s
    \<and> (conc_step demo_lib)\<^sup>*\<^sup>* (Serving, \<lparr>nvram = Map.empty, rand = replicate 32 1, srv = s\<rparr>, {#}) (Returned None, wd', {#})
    \<and> UDS (srv wd') = Some uds
    \<and> computed demo_lib \<lparr>nvram = Map.empty, rand = replicate 32 1, srv = s\<rparr> uds"
proof -
  obtain s wd' where s: "NewServer demo_lib (ServerConfig.truncate (srv demo_world)) = Inr s"
    and r: "(conc_step demo_lib)\<^sup>*\<^sup>* (Serving, \<lparr>nvram = Map.empty, rand = replicate 32 1, srv = s\<rparr>, {#}) (Returned None, wd', {#})"
    using stale_secret by blast
  have m: "message_laws (lib_json demo_lib)" by (simp add: demo_json_laws)
  from interleaved_runs_safe [OF m s r] s r show ?thesis by blast
qed

end
