(* ===== verification/Protocol.thy ===== *)
theory Protocol
  imports Interleaving
begin

section \<open>The protocol that the server implements\<close>

text \<open>
  An abstract server has a phase, 32 bytes of entropy, a time, perhaps a secret, the number of
  commits that were signalled, and the firmware's variables. It knows nothing of requests,
  guards or encodings. The runs of whole requests and the runs of interleaved parts both
  simulate it, by one contract; its invariant is proved once, on the few rules below.
\<close>

record 's protocol =
  pr_phase :: phase
  pr_entropy :: bytes
  pr_time :: int
  pr_secret :: "bytes option"
  pr_signals :: nat
  pr_closed :: bool
  pr_vars :: 's

inductive proto_step :: "'s protocol \<Rightarrow> 's protocol \<Rightarrow> bool" where
  new_time: "0 \<le> t \<Longrightarrow> proto_step p (p\<lparr>pr_time := t\<rparr>)"
| new_entropy: "length ent = 32 \<Longrightarrow> proto_step p (p\<lparr>pr_entropy := ent\<rparr>)"
| new_vars: "proto_step p (p\<lparr>pr_vars := s\<rparr>)"
| committed: "length uds = 32 \<Longrightarrow> \<not> pr_closed p \<Longrightarrow> pr_signals p < 2 \<Longrightarrow>
    proto_step p (p\<lparr>pr_secret := Some uds, pr_signals := Suc (pr_signals p)\<rparr>)"
| unsignalled: "length uds = 32 \<Longrightarrow> pr_closed p \<or> pr_signals p = 2 \<Longrightarrow> proto_step p (p\<lparr>pr_secret := Some uds\<rparr>)"
| stop: "pr_phase p = Serving \<Longrightarrow> 0 < pr_signals p \<Longrightarrow> proto_step p (p\<lparr>pr_phase := Closing\<rparr>)"
| closed: "pr_phase p = Closing \<Longrightarrow> proto_step p (p\<lparr>pr_phase := Closed None, pr_closed := True\<rparr>)"
| crashed: "pr_phase p = Serving \<Longrightarrow>
    proto_step p (p\<lparr>pr_phase := Closed (Some (Wrapf ''server died'' e)), pr_closed := True\<rparr>)"
| finished: "pr_phase p = Closed e \<Longrightarrow> proto_step p (p\<lparr>pr_phase := Returned e\<rparr>)"

definition proto_start :: "'s \<Rightarrow> 's protocol" where
  "proto_start v = \<lparr>pr_phase = Serving, pr_entropy = replicate 32 0, pr_time = 0, pr_secret = None,
     pr_signals = 0, pr_closed = False, pr_vars = v\<rparr>"

subsection \<open>What the protocol guarantees\<close>

definition proto_inv :: "'s protocol \<Rightarrow> bool" where
  "proto_inv p \<longleftrightarrow> length (pr_entropy p) = 32 \<and> 0 \<le> pr_time p \<and> pr_signals p \<le> 2
     \<and> (pr_closed p \<longleftrightarrow> 2 \<le> phase_rank (pr_phase p))
     \<and> (\<forall>uds. pr_secret p = Some uds \<longrightarrow> length uds = 32) \<and> (0 < pr_signals p \<longrightarrow> pr_secret p \<noteq> None)
     \<and> (pr_phase p \<in> {Closing, Closed None, Returned None} \<longrightarrow> 0 < pr_signals p)"

lemma proto_start_inv [simp]: "proto_inv (proto_start v)"
  by (simp add: proto_inv_def proto_start_def)

lemma proto_step_inv: "proto_step p q \<Longrightarrow> proto_inv p \<Longrightarrow> proto_inv q"
  by (induction rule: proto_step.induct) (auto simp: proto_inv_def)

lemma proto_reachable: "proto_step\<^sup>*\<^sup>* p q \<Longrightarrow> proto_inv p \<Longrightarrow> proto_inv q"
  by (induction rule: rtranclp_induct) (auto dest: proto_step_inv)

text \<open>Phases only advance, a closed channel stays closed, and a secret stays, though it may be replaced.\<close>

definition proto_le :: "'s protocol \<Rightarrow> 's protocol \<Rightarrow> bool" where
  "proto_le p q \<longleftrightarrow> pr_phase p \<le> pr_phase q \<and> pr_signals p \<le> pr_signals q \<and> (pr_closed p \<longrightarrow> pr_closed q)
     \<and> (pr_secret p \<noteq> None \<longrightarrow> pr_secret q \<noteq> None)"

lemma proto_step_le: "proto_step p q \<Longrightarrow> proto_le p q"
  by (induction rule: proto_step.induct) (auto simp: proto_le_def less_eq_phase_def)

lemma proto_le_trans: "proto_le p q \<Longrightarrow> proto_le q r \<Longrightarrow> proto_le p r"
  unfolding proto_le_def by (metis order_trans)

lemma proto_steps_le: "proto_step\<^sup>*\<^sup>* p q \<Longrightarrow> proto_le p q"
proof (induction rule: rtranclp_induct)
  case base
  show ?case by (simp add: proto_le_def)
qed (blast dest: proto_step_le proto_le_trans)

subsection \<open>Systems that simulate it\<close>

locale simulation =
  fixes step :: "'c \<Rightarrow> 'c \<Rightarrow> bool"
    and ok :: "'c \<Rightarrow> bool"
    and abs :: "'c \<Rightarrow> 's protocol"
  assumes ok_step: "step c c' \<Longrightarrow> ok c \<Longrightarrow> ok c'"
    and simulated: "step c c' \<Longrightarrow> ok c \<Longrightarrow> proto_step\<^sup>*\<^sup>* (abs c) (abs c')"
begin

lemma run_simulated: "step\<^sup>*\<^sup>* c c' \<Longrightarrow> ok c \<Longrightarrow> ok c' \<and> proto_step\<^sup>*\<^sup>* (abs c) (abs c')"
proof (induction rule: rtranclp_induct)
  case (step d e)
  then have "ok d" "proto_step\<^sup>*\<^sup>* (abs c) (abs d)" by simp_all
  with step(2) show ?case using ok_step simulated by (metis rtranclp_trans)
qed simp

lemma run_inv: "step\<^sup>*\<^sup>* c c' \<Longrightarrow> ok c \<Longrightarrow> proto_inv (abs c) \<Longrightarrow> proto_inv (abs c')"
  using run_simulated proto_reachable by blast

lemma run_le: "step\<^sup>*\<^sup>* c c' \<Longrightarrow> ok c \<Longrightarrow> proto_le (abs c) (abs c')"
  using run_simulated proto_steps_le by blast

end

definition proto_of :: "phase \<Rightarrow> ('s, 'k) world \<Rightarrow> 's protocol" where
  "proto_of ph wd = \<lparr>pr_phase = ph, pr_entropy = srv_Entropy (srv wd), pr_time = srv_Timestamp (srv wd),
     pr_secret = UDS (srv wd), pr_signals = commit (srv wd), pr_closed = commit_closed (srv wd), pr_vars = nvram wd\<rparr>"

text \<open>What a part has left to store fits the protocol, and no more than two signals were sent.\<close>

fun part_fits :: "part \<Rightarrow> bool" where
  "part_fits (Store_entropy ent) = (length ent = 32)"
| "part_fits (Write_keys ks reboot) = True"
| "part_fits (Store_secret uds b) = (length uds = 32)"

definition conc_ok :: "('s, 'k) config \<Rightarrow> bool" where
  "conc_ok c \<longleftrightarrow> (\<forall>j \<in># snd (snd c). part_fits j) \<and> commit (srv (fst (snd c))) \<le> 2"

lemma proto_of_phase: "proto_of ph' wd = (proto_of ph wd)\<lparr>pr_phase := ph'\<rparr>"
  "proto_of ph' (close_commit wd) = (proto_of ph wd)\<lparr>pr_phase := ph', pr_closed := True\<rparr>" "pr_phase (proto_of ph wd) = ph"
  by (simp_all add: proto_of_def close_commit_def)

lemma quiet_step_protocol:
  assumes "quiet_step L (ph, wd) (ph', wd')"
  shows "proto_step (proto_of ph wd) (proto_of ph' wd')"
proof (cases ph)
  case Serving
  have "proto_step (proto_of Serving wd) (proto_of Closing wd)" if "0 < commit (srv wd)"
    unfolding proto_of_phase(1) [of Closing wd Serving] using that by (intro proto_step.stop) (simp_all add: proto_of_def)
  moreover have "proto_step (proto_of Serving wd) (proto_of (Closed (Some (Wrapf ''server died'' e))) (close_commit wd))" for e
    unfolding proto_of_phase(2) [of _ wd Serving] by (rule proto_step.crashed) (simp add: proto_of_phase)
  ultimately show ?thesis using assms Serving by (auto simp: quiet_step_simps)
next
  case Closing
  have "proto_step (proto_of Closing wd) (proto_of (Closed None) (close_commit wd))"
    unfolding proto_of_phase(2) [of _ wd Closing] by (rule proto_step.closed) (simp add: proto_of_phase)
  then show ?thesis using assms Closing by (simp add: quiet_step_simps)
next
  case (Closed e)
  have "proto_step (proto_of (Closed e) wd) (proto_of (Returned e) wd)"
    unfolding proto_of_phase(1) [of "Returned e" wd "Closed e"] by (rule proto_step.finished) (simp add: proto_of_phase)
  then show ?thesis using assms Closed by (simp add: quiet_step_simps)
qed (use assms in \<open>simp add: quiet_step_simps\<close>)

lemma commit_store_protocol:
  assumes "commit_store uds b w wd = (wd', w')" "length uds = 32" "commit (srv wd) \<le> 2"
  shows "proto_step (proto_of ph wd) (proto_of ph wd')" "commit (srv wd') \<le> 2"
proof -
  show "commit (srv wd') \<le> 2" using assms by (auto simp: commit_store_def split: if_splits)
  show "proto_step (proto_of ph wd) (proto_of ph wd')"
  proof (cases "commit_closed (srv wd) \<or> 2 \<le> commit (srv wd)")
    case True
    with assms proto_step.unsignalled [of uds "proto_of ph wd"] show ?thesis
      by (auto simp: commit_store_def proto_of_def)
  next
    case False
    with assms proto_step.committed [of uds "proto_of ph wd"] show ?thesis
      by (auto simp: commit_store_def proto_of_def)
  qed
qed

lemma conc_step_simulated:
  assumes "conc_step L c c'" "conc_ok c"
  shows "conc_ok c' \<and> (proto_of (fst c') (fst (snd c')) = proto_of (fst c) (fst (snd c))
     \<or> proto_step (proto_of (fst c) (fst (snd c))) (proto_of (fst c') (fst (snd c'))))"
  using assms(1)
proof cases
  case (phase ph wd ph' wd' js)
  with quiet_step_protocol [OF phase(3)] quiet_step_server [OF phase(3)] assms(2) show ?thesis
    by (auto simp: conc_ok_def close_commit_def)
next
  case (data wd r d ph js)
  note d = data_check_Inr [OF data(4)]
  then have "proto_step (proto_of ph wd) ((proto_of ph wd)\<lparr>pr_time := Timestamp d\<rparr>)" by (intro proto_step.new_time) simp
  then show ?thesis using data assms(2) d by (simp add: conc_ok_def data_time_def proto_of_def)
next
  case (entropy ph wd ent js)
  then have "proto_step (proto_of ph wd) ((proto_of ph wd)\<lparr>pr_entropy := ent\<rparr>)"
    using assms(2) by (intro proto_step.new_entropy) (simp add: conc_ok_def)
  then show ?thesis using entropy assms(2) by (simp add: conc_ok_def data_entropy_def proto_of_def)
next
  case (key name guid auth wd s e ph ks reboot js)
  have "proto_step (proto_of ph wd) ((proto_of ph wd)\<lparr>pr_vars := s\<rparr>)" by (rule proto_step.new_vars)
  then show ?thesis using key assms(2) by (simp add: conc_ok_def proto_of_def)
next
  case (reboot ph wd rb js)
  have "proto_step (proto_of ph wd) ((proto_of ph wd)\<lparr>pr_vars := boot_end L rb (nvram wd)\<rparr>)" by (rule proto_step.new_vars)
  then show ?thesis using reboot assms(2) by (simp add: conc_ok_def proto_of_def)
next
  case (store uds b wd wd' w ph js)
  with assms(2) have "length uds = 32" "commit (srv wd) \<le> 2" by (simp_all add: conc_ok_def)
  from commit_store_protocol [OF store(3) this] store assms(2) show ?thesis by (simp add: conc_ok_def)
qed (use assms(2) commit_compute_length in \<open>auto simp: conc_ok_def proto_of_def\<close>)

interpretation interleaved: simulation "conc_step L" conc_ok "\<lambda>c. proto_of (fst c) (fst (snd c))"
  for L :: "('s, 'c, 'k) lib"
  by unfold_locales (auto dest!: conc_step_simulated)

text \<open>A whole request is a run of parts, which leaves nothing behind.\<close>

interpretation whole: simulation "run_step L" "\<lambda>c. commit (srv (snd c)) \<le> 2" "\<lambda>c. proto_of (fst c) (snd c)"
  for L :: "('s, 'c, 'k) lib"
proof
  fix c c' :: "phase \<times> ('s, 'k) world"
  assume r: "run_step L c c'" and "commit (srv (snd c)) \<le> 2"
  then have "conc_ok (fst c, snd c, {#})" by (simp add: conc_ok_def)
  with interleaved.run_simulated [OF run_step_runs, of L "fst c" "snd c" "fst c'" "snd c'" "{#}"] r
  show "commit (srv (snd c')) \<le> 2" "proto_step\<^sup>*\<^sup>* (proto_of (fst c) (snd c)) (proto_of (fst c') (snd c'))"
    by (simp_all add: conc_ok_def)
qed

lemma NewServer_protocol:
  assumes "NewServer L cfg = Inr s"
  shows "proto_of Serving \<lparr>nvram = v, rand = rd, srv = s\<rparr> = proto_start v" "commit s = 0"
  using assms by (auto simp: NewServer_def proto_of_def proto_start_def ServerConfig.defs split: sum.splits)

text \<open>
  C15. However the parts of requests interleave, a new server runs the protocol: each state it
  can reach is reached by steps of the protocol from the start. So it keeps 32 bytes of
  entropy and a time that is not negative, at most two commits are ever signalled, the
  channel is closed exactly when the server has stopped, a signal comes with a secret of 32
  bytes, and the server ends without an error only after a signal.
\<close>

theorem server_runs_protocol:
  assumes "NewServer L cfg = Inr s" "(conc_step L)\<^sup>*\<^sup>* (Serving, \<lparr>nvram = v, rand = rd, srv = s\<rparr>, {#}) (ph, wd, js)"
  shows "proto_step\<^sup>*\<^sup>* (proto_start v) (proto_of ph wd) \<and> proto_inv (proto_of ph wd)"
proof -
  have "conc_ok (Serving, \<lparr>nvram = v, rand = rd, srv = s\<rparr>, {#})"
    using NewServer_protocol(2) [OF assms(1)] by (simp add: conc_ok_def)
  from interleaved.run_simulated [OF assms(2) this] have "proto_step\<^sup>*\<^sup>* (proto_start v) (proto_of ph wd)"
    by (simp add: NewServer_protocol(1) [OF assms(1)])
  with proto_reachable [OF this] show ?thesis by simp
qed

text \<open>The run in which an add-data message slips between the halves of a commit.\<close>

theorem server_runs_protocol_witness:
  "\<exists>s wd. (conc_step demo_lib)\<^sup>*\<^sup>* (Serving, \<lparr>nvram = Map.empty, rand = replicate 32 1, srv = s\<rparr>, {#}) (Returned None, wd, {#})
     \<and> proto_step\<^sup>*\<^sup>* (proto_start Map.empty) (proto_of (Returned None) wd) \<and> proto_inv (proto_of (Returned None) wd)"
proof -
  obtain s wd where s: "NewServer demo_lib (ServerConfig.truncate (srv demo_world)) = Inr s"
    and r: "(conc_step demo_lib)\<^sup>*\<^sup>* (Serving, \<lparr>nvram = Map.empty, rand = replicate 32 1, srv = s\<rparr>, {#}) (Returned None, wd, {#})"
    using stale_secret by blast
  from server_runs_protocol [OF s r] r show ?thesis by blast
qed

text \<open>
  What only moves forward: from any state of a run on, the phase advances, the number of
  signals does not decrease, the channel stays closed and the server is not left without a secret.
\<close>

lemma whole_run_forward:
  "(run_step L)\<^sup>*\<^sup>* (ph, wd) (ph', wd') \<Longrightarrow> commit (srv wd) \<le> 2 \<Longrightarrow> proto_le (proto_of ph wd) (proto_of ph' wd')"
  using whole.run_le [of L "(ph, wd)" "(ph', wd')"] by simp

end
