(* ===== verification/LateRequests.thy ===== *)
theory LateRequests
  imports Interleaving
begin

section \<open>What requests leave alone\<close>

text \<open>
  The host name, the host configuration and the host key are EFI variables under a GUID of
  the boot loader. Requests write under the two GUIDs of the firmware only. So no request
  changes what the program itself has stored, not even one that is still being handled while
  or after the host key is written.
\<close>

text \<open>
  Writing a variable changes no variable of another GUID, whether the write succeeds or not.
  (Under the same GUID it may: writing PK ends setup mode.)
\<close>

definition vendor_local :: "'s efi \<Rightarrow> bool" where
  "vendor_local E \<longleftrightarrow> (\<forall>d d' a b s. GUID d' \<noteq> GUID d \<longrightarrow> ReadVariable E (fst (WriteVariable E d a b s)) d' = ReadVariable E s d')"

lemma map_efi_vendor_local: "vendor_local (map_efi parse)"
  by (auto simp: vendor_local_def map_efi_def)

definition own_variable :: "'s efi \<Rightarrow> descriptor \<Rightarrow> bool" where
  "own_variable E d \<longleftrightarrow> (\<forall>guid \<in> {efiGlobalVariableGUID, efiImageSecurityDatabaseGUID}. uuid_Parse E guid \<noteq> Inr (GUID d))"

definition same_variable :: "'s efi \<Rightarrow> descriptor \<Rightarrow> 's \<Rightarrow> 's \<Rightarrow> bool" where
  "same_variable E d s s' \<longleftrightarrow> ReadVariable E s' d = ReadVariable E s d"

lemma same_variable_refl [simp]: "same_variable E d s s"
  and same_variable_trans: "same_variable E d s s1 \<Longrightarrow> same_variable E d s1 s2 \<Longrightarrow> same_variable E d s s2"
  by (simp_all add: same_variable_def)

lemma efi_writes_local:
  assumes "vendor_local E" "uuid_Parse E guid \<noteq> Inr (GUID d)"
  shows "same_variable E d s (fst (efiAuthenticatedWrite E name guid auth s))" "same_variable E d s (fst (efiWrite E name guid b s))"
  using assms by (auto simp: same_variable_def vendor_local_def efiAuthenticatedWrite_def efiWrite_def Let_def
      split: option.splits sum.splits)

lemma RequestReboot_local:
  assumes "vendor_local E" "own_variable E d"
  shows "same_variable E d s (fst (RequestRebootIntoUEFIMenu E s))"
proof -
  have "uuid_Parse E efiGlobalVariableGUID \<noteq> Inr (GUID d)" using assms(2) by (simp add: own_variable_def)
  then have w: "efiWrite E name efiGlobalVariableGUID b s = (s', e) \<Longrightarrow> same_variable E d s s'" for name b s' e
    using efi_writes_local(2) [OF assms(1)] by (metis fst_conv)
  show ?thesis by (auto simp: RequestRebootIntoUEFIMenu_def Let_def dest: w split: prod.split option.split)
qed

text \<open>The keys that a request has left to write go under the GUIDs of the firmware.\<close>

fun firmware_part :: "part \<Rightarrow> bool" where
  "firmware_part (Write_keys ks reboot) = (\<forall>(name, guid, auth) \<in> set ks. guid \<in> {efiGlobalVariableGUID, efiImageSecurityDatabaseGUID})"
| "firmware_part _ = True"

lemma sb_keys_firmware: "(name, guid, auth) \<in> set (sb_keys pk kek db dbx) \<Longrightarrow> guid \<in> {efiGlobalVariableGUID, efiImageSecurityDatabaseGUID}"
  by (auto simp: sb_keys_def split: if_splits)

definition untouched :: "'s efi \<Rightarrow> descriptor \<Rightarrow> 's \<Rightarrow> ('s, 'k) config \<Rightarrow> bool" where
  "untouched E d s c \<longleftrightarrow> same_variable E d s (nvram (fst (snd c))) \<and> (\<forall>j \<in># snd (snd c). firmware_part j)"

lemma conc_step_untouched:
  assumes "vendor_local (lib_efi L)" "own_variable (lib_efi L) d" "conc_step L c c'" "untouched (lib_efi L) d s c"
  shows "untouched (lib_efi L) d s c'"
  using assms(3)
proof cases
  case (phase ph wd ph' wd' js)
  with assms(4) quiet_step_server [OF phase(3)] show ?thesis by (auto simp: untouched_def)
next
  case (boot wd r ks reboot ph js)
  then have "firmware_part (Write_keys ks reboot)" using boot_check_Inr [OF boot(4)] sb_keys_firmware by fastforce
  with assms(4) boot show ?thesis by (simp add: untouched_def)
next
  case (key name guid auth wd s1 e ph ks reboot js)
  then have "uuid_Parse (lib_efi L) guid \<noteq> Inr (GUID d)" using assms(2,4) by (auto simp: untouched_def own_variable_def)
  from efi_writes_local(1) [OF assms(1) this, of "nvram wd" name auth] key assms(4) show ?thesis
    by (auto simp: untouched_def intro: same_variable_trans)
next
  case (reboot ph wd rb js)
  with RequestReboot_local [OF assms(1,2), of "nvram wd"] assms(4) show ?thesis
    by (auto simp: untouched_def boot_end_def intro: same_variable_trans)
next
  case (store uds b wd wd' w ph js)
  with assms(4) commit_store_server(3) [OF store(3)] show ?thesis by (simp add: untouched_def)
qed (use assms(4) in \<open>auto simp: untouched_def data_time_def data_entropy_def\<close>)

lemma conc_run_untouched:
  assumes "vendor_local (lib_efi L)" "own_variable (lib_efi L) d" "(conc_step L)\<^sup>*\<^sup>* c c'" "untouched (lib_efi L) d s c"
  shows "untouched (lib_efi L) d s c'"
  using assms(3) by (induction rule: rtranclp_induct) (auto intro: assms(4) conc_step_untouched [OF assms(1,2)])

text \<open>
  C18. No request touches the program's own variables: from the start of a server to any state
  of an interleaved run they read as before, and when at that point the program writes its
  variables (\<open>remote run\<close> its host key), no request that is still being handled, or comes
  later, changes what was written.
\<close>

theorem requests_keep_own_variables:
  assumes "vendor_local (lib_efi L)" "own_variable (lib_efi L) d"
    and "(conc_step L)\<^sup>*\<^sup>* (Serving, wd0, {#}) (ph, wd, js)" "(conc_step L)\<^sup>*\<^sup>* (ph, wd\<lparr>nvram := s\<rparr>, js) (ph', wd', js')"
  shows "ReadVariable (lib_efi L) (nvram wd) d = ReadVariable (lib_efi L) (nvram wd0) d
    \<and> ReadVariable (lib_efi L) (nvram wd') d = ReadVariable (lib_efi L) s d"
proof -
  have "untouched (lib_efi L) d (nvram wd0) (ph, wd, js)"
    by (rule conc_run_untouched [OF assms(1,2,3)]) (simp add: untouched_def)
  moreover from this have "untouched (lib_efi L) d s (ph, wd\<lparr>nvram := s\<rparr>, js)" by (simp add: untouched_def)
  then have "untouched (lib_efi L) d s (ph', wd', js')" by (rule conc_run_untouched [OF assms(1,2,4)])
  ultimately show ?thesis by (simp add: untouched_def same_variable_def)
qed

text \<open>A key of a message is written after the host key.\<close>

theorem requests_keep_own_variables_witness:
  "\<exists>js wd'. (conc_step demo_lib)\<^sup>*\<^sup>* (Serving, demo_setup, {#}) (Serving, demo_setup, js)
     \<and> conc_step demo_lib (Serving, demo_setup\<lparr>nvram := demo_nvram\<rparr>, js) (Serving, wd', {#Write_keys (tl (sb_keys [1] [2] [3] [])) False#})
     \<and> nvram wd' \<lparr>desc_Name = ''PK'', GUID = str_bytes efiGlobalVariableGUID\<rparr> = Some (39, [1])
     \<and> ReadVariable (lib_efi demo_lib) (nvram wd') \<lparr>desc_Name = ''STHostName'', GUID = [1]\<rparr> = Inr (7, str_bytes ''host.local'')"
proof -
  let ?js = "{#Write_keys (sb_keys [1] [2] [3] []) False#}"
  let ?wd = "demo_setup\<lparr>nvram := demo_nvram\<rparr>"
  let ?wd' = "demo_put ''PK'' efiGlobalVariableGUID [1] ?wd"
  let ?d = "\<lparr>desc_Name = ''STHostName'', GUID = [1]\<rparr>"
  have own: "own_variable (lib_efi demo_lib) ?d"
    by (simp add: own_variable_def map_efi_def efiGlobalVariableGUID_def efiImageSecurityDatabaseGUID_def)
  have loc: "vendor_local (lib_efi demo_lib)" by (simp add: map_efi_vendor_local)
  have 1: "(conc_step demo_lib)\<^sup>*\<^sup>* (Serving, demo_setup, {#}) (Serving, demo_setup, ?js)" using demo_boot by blast
  have k: "sb_keys [1] [2] [3] [] = (''PK'', efiGlobalVariableGUID, [1]) # tl (sb_keys [1] [2] [3] [])"
    by (simp add: sb_keys_def)
  have 2: "conc_step demo_lib (Serving, ?wd, ?js) (Serving, ?wd', {#Write_keys (tl (sb_keys [1] [2] [3] [])) False#})"
    by (subst k) (rule demo_key, simp)
  then have 3: "(conc_step demo_lib)\<^sup>*\<^sup>* (Serving, ?wd, ?js) (Serving, ?wd', {#Write_keys (tl (sb_keys [1] [2] [3] [])) False#})" by blast
  have "ReadVariable (lib_efi demo_lib) demo_nvram ?d = Inr (7, str_bytes ''host.local'')"
    by (simp add: demo_nvram_def) (simp add: map_efi_def)
  with requests_keep_own_variables [OF loc own 1 3] 1 2 show ?thesis by fastforce
qed

subsection \<open>The operator's confirmation\<close>

text \<open>
  What \<open>remote run\<close> did to the variables: nothing, or what the server's run did, or that and,
  after a line was read from the operator, the attempt to write the host key.
\<close>

lemma listen_runs:
  assumes "listen L otp nets addr port hostname stdin (v, rd) res st'"
  shows "st' = (v, rd) \<or> (\<exists>s e wd. Run L \<lparr>nvram = v, rand = rd, srv = s\<rparr> e wd \<and> st' = (nvram wd, rand wd))"
proof (cases "NewServer L \<lparr>Secret = otp, RemoteIP = addr, RemotePort = port, LocalCIDR = nets, HostName = hostname,
       Deadline = 15000000000, Timeout = 60000000000\<rparr>")
  case (Inl e)
  with assms show ?thesis by (simp add: listen_def)
next
  case (Inr s)
  with assms obtain e wd where "Run L \<lparr>nvram = v, rand = rd, srv = s\<rparr> e wd" "st' = (nvram wd, rand wd)"
    unfolding listen_def Let_def Inr sum.case fst_conv snd_conv by (elim exE conjE)
  then show ?thesis by blast
qed

lemma run_Main_writes:
  assumes "run_Main L args port ip allow otp uuid keyName hostName stdin (v, rd) out (v', rd')"
  obtains (unchanged) "v' = v"
  | (ran) s e wd where "Run L \<lparr>nvram = v, rand = rd, srv = s\<rparr> e wd" "v' = nvram wd"
  | (wrote) s e wd line uds where "Run L \<lparr>nvram = v, rand = rd, srv = s\<rparr> e wd" "readLine stdin = Inr line"
      "v' = fst (writeHostKey L uds uuid keyName (nvram wd))"
proof (cases "run_options args port ip allow otp")
  case (Inl e)
  with assms unchanged show thesis by (simp add: run_Main_def)
next
  case o: (Inr x)
  obtain addr nets where x: "x = (addr, nets)" by (cases x)
  show thesis
  proof (cases "HostName_ReadEFI (lib_efi L) uuid hostName v")
    case (Inl e)
    with assms o x unchanged show thesis by (simp add: run_Main_def)
  next
    case h: (Inr hostname)
    from assms o x h obtain res st1 where l: "listen L otp nets addr port hostname stdin (v, rd) res st1"
      and m: "case res of Inl e \<Rightarrow> out = Failure (Wrapf ''listen'' e) \<and> (v', rd') = st1
       | Inr None \<Rightarrow> out = NilDereference \<and> (v', rd') = st1
       | Inr (Some uds) \<Rightarrow> (case writeHostKey L uds uuid keyName (fst st1) of
            (s, Some e) \<Rightarrow> out = Failure (Wrapf ''persist host key'' e) \<and> (v', rd') = (s, snd st1)
          | (s, None) \<Rightarrow> out = Success \<and> (v', rd') = (s, snd st1))"
      by (simp add: run_Main_def) blast
    show thesis
    proof (cases res)
      case (Inl e)
      with m have "(v', rd') = st1" by simp
      with listen_runs [OF l] unchanged ran show thesis by auto
    next
      case (Inr uds)
      from l [unfolded Inr] obtain s wd line where r: "Run L \<lparr>nvram = v, rand = rd, srv = s\<rparr> None wd" "st1 = (nvram wd, rand wd)"
        "readLine stdin = Inr line" by (elim listen_InrE) simp
      show thesis
      proof (cases uds)
        case None
        with m Inr r ran show thesis by simp
      next
        case (Some u)
        with m Inr r(2) have "v' = fst (writeHostKey L u uuid keyName (nvram wd))" by (auto split: prod.splits option.splits)
        with r wrote show thesis by blast
      qed
    qed
  qed
qed

lemma Run_same_variable:
  assumes "vendor_local (lib_efi L)" "own_variable (lib_efi L) d" "Run L wd e wd'"
  shows "same_variable (lib_efi L) d (nvram wd) (nvram wd')"
proof -
  have "(conc_step L)\<^sup>*\<^sup>* (Serving, wd, {#}) (Returned e, wd', {#})"
    using whole_runs [OF assms(3) [unfolded Run_def], of "{#}"] by simp
  from conc_run_untouched [OF assms(1,2) this, of "nvram wd"] show ?thesis by (simp add: untouched_def)
qed

lemma fst_WriteEFI:
  "fst (WriteEFI E S hk uuid name s) = s
   \<or> (\<exists>attrs b. fst (WriteEFI E S hk uuid name s) = fst (WriteVariable E \<lparr>desc_Name = name, GUID = uuid\<rparr> attrs b s))"
proof (cases "writePEM S hk")
  case (Inr b)
  let ?attrs = "(AttributeBootserviceAccess E OR AttributeRuntimeAccess E) OR AttributeNonVolatile E"
  obtain s' e where w: "WriteVariable E \<lparr>desc_Name = name, GUID = uuid\<rparr> ?attrs b s = (s', e)" by fastforce
  show ?thesis
  proof (cases "efivarfs_New E s")
    case None
    then have "fst (WriteEFI E S hk uuid name s) = fst (WriteVariable E \<lparr>desc_Name = name, GUID = uuid\<rparr> ?attrs b s)"
      by (cases e) (simp_all add: WriteEFI_def Inr w Let_def)
    then show ?thesis by blast
  qed (simp add: WriteEFI_def Inr Let_def)
qed (simp add: WriteEFI_def)

lemma writeHostKey_local:
  assumes "vendor_local (lib_efi L)" "GUID d \<noteq> uuid"
  shows "same_variable (lib_efi L) d s (fst (writeHostKey L uds uuid name s))"
proof (cases "SSH (lib_crypto L) (lib_ssh L) uds")
  case (Inr hk)
  with fst_WriteEFI [of "lib_efi L" "lib_ssh L" hk uuid name s] assms show ?thesis
    by (auto simp: writeHostKey_def same_variable_def vendor_local_def)
qed (simp add: writeHostKey_def)

text \<open>
  C31. Without the operator's confirmation \<open>stprov remote run\<close> fails, and then, whatever
  requests it handled, every variable outside the two GUIDs of the firmware reads as before: host
  name, host configuration and an older host key are kept. With the confirmation the
  variables outside these GUIDs and the one of the host key are kept, whatever the outcome.
\<close>

theorem unconfirmed_run_keeps_variables:
  assumes "vendor_local (lib_efi L)"
    and "run_Main L args port ip allow otp uuid keyName hostName stdin (v, rd) out (v', rd')"
  shows "(\<forall>x d. readLine stdin = Inl x \<longrightarrow> (\<exists>e. out = Failure e)
        \<and> (own_variable (lib_efi L) d \<longrightarrow> ReadVariable (lib_efi L) v' d = ReadVariable (lib_efi L) v d))
    \<and> (\<forall>d. own_variable (lib_efi L) d \<and> GUID d \<noteq> uuid \<longrightarrow> ReadVariable (lib_efi L) v' d = ReadVariable (lib_efi L) v d)"
proof -
  have f: "\<forall>x. readLine stdin = Inl x \<longrightarrow> (\<exists>e. out = Failure e)" using unconfirmed_run_fails [OF _ assms(2)] by blast
  show ?thesis
    using assms(2)
  proof (cases rule: run_Main_writes)
    case unchanged
    with f show ?thesis by simp
  next
    case (ran s e wd)
    then have "own_variable (lib_efi L) d \<Longrightarrow> ReadVariable (lib_efi L) v' d = ReadVariable (lib_efi L) v d" for d
      using Run_same_variable [OF assms(1) _ ran(1), of d] by (simp add: same_variable_def)
    with f show ?thesis by simp
  next
    case (wrote s e wd line uds)
    have "ReadVariable (lib_efi L) v' d = ReadVariable (lib_efi L) v d" if "own_variable (lib_efi L) d" "GUID d \<noteq> uuid" for d
      using Run_same_variable [OF assms(1) that(1) wrote(1)] writeHostKey_local [OF assms(1) that(2), of "nvram wd" uds keyName] wrote(3)
      by (simp add: same_variable_def)
    with wrote(2) show ?thesis by simp
  qed
qed

theorem unconfirmed_run_keeps_variables_witness:
  "\<exists>e v' rd'. run_Main demo_lib [] 2009 ''10.0.2.10'' [''10.0.2.0/24''] ''otp'' [1] ''STHostKey'' ''STHostName''
       ([], External ''EOF'') (demo_nvram, replicate 64 7) (Failure e) (v', rd')
     \<and> ReadVariable (lib_efi demo_lib) v' \<lparr>desc_Name = ''STHostName'', GUID = [1]\<rparr> = Inr (7, str_bytes ''host.local'')"
proof -
  let ?d = "\<lparr>desc_Name = ''STHostName'', GUID = [1]\<rparr>"
  obtain out v' rd' where r: "run_Main demo_lib [] 2009 ''10.0.2.10'' [''10.0.2.0/24''] ''otp'' [1] ''STHostKey'' ''STHostName''
     ([], External ''EOF'') (demo_nvram, replicate 64 7) out (v', rd')" using demo_unconfirmed by blast
  have own: "own_variable (lib_efi demo_lib) ?d"
    by (simp add: own_variable_def map_efi_def efiGlobalVariableGUID_def efiImageSecurityDatabaseGUID_def)
  have loc: "vendor_local (lib_efi demo_lib)" by (simp add: map_efi_vendor_local)
  have e: "readLine ([], External ''EOF'') = Inl (External ''EOF'')" by (simp add: readLine_def)
  have "ReadVariable (lib_efi demo_lib) demo_nvram ?d = Inr (7, str_bytes ''host.local'')"
    by (simp add: demo_nvram_def) (simp add: map_efi_def)
  with unconfirmed_run_keeps_variables [OF loc r] own e r show ?thesis by metis
qed

end
