(* ===== verification/AddrChars.thy ===== *)
theory AddrChars
  imports MaxHostFacts
begin

section \<open>The characters of an address\<close>

text \<open>
  A text that \<open>net.ParseIP\<close> accepts holds hexadecimal digits, periods and colons only, and
  so no slash: an address with a prefix length is no address.
\<close>

definition addr_chars :: "char set" where
  "addr_chars = {c. is_hexdigit c \<or> c = CHR ''.'' \<or> c = CHR '':''}"

lemma v4_fields_chars: "v4_fields s dl v fs = Some gs \<Longrightarrow> set s \<subseteq> addr_chars"
  by (induction s dl v fs rule: v4_fields.induct) (auto simp: addr_chars_def is_hexdigit_def split: if_splits)

lemma hex_then_rest: "set s \<subseteq> addr_chars \<union> set (dropWhile is_hexdigit s)"
proof -
  have "set s = set (takeWhile is_hexdigit s) \<union> set (dropWhile is_hexdigit s)"
    by (metis set_append takeWhile_dropWhile_id)
  then show ?thesis by (auto simp: addr_chars_def dest: set_takeWhileD)
qed

lemma v6_loop_chars: "v6_loop k s ip ell = Some ([], ip', ell') \<Longrightarrow> set s \<subseteq> addr_chars"
proof (induction k arbitrary: s ip ell)
  case (Suc k)
  have col: "CHR '':'' \<in> addr_chars" by (simp add: addr_chars_def)
  from Suc.prems refl refl show ?case
  proof (cases rule: v6_loop_SucE)
    case (v4 fs)
    then show ?thesis by (auto dest: v4_fields_chars)
  next
    case (gap t)
    then show ?thesis using Suc.IH [OF gap(3)] hex_then_rest [of s] col by auto
  next
    case (colon t)
    then show ?thesis using Suc.IH [OF colon(2)] hex_then_rest [of s] col by auto
  qed (use hex_then_rest [of s] col in \<open>auto simp: addr_chars_def\<close>)
qed auto

lemma ParseAddr_chars:
  assumes "netip_ParseAddr s = Some a" "addr_zone a = []"
  shows "set s \<subseteq> addr_chars"
proof -
  have "parse_v4 s = Some a \<or> parse_v6 s = Some a"
    using assms(1) by (auto simp: netip_ParseAddr_def split: list.splits if_splits)
  then show ?thesis
  proof
    assume "parse_v4 s = Some a"
    then show ?thesis by (auto simp: parse_v4_def dest: v4_fields_chars)
  next
    assume p: "parse_v6 s = Some a"
    let ?t = "takeWhile (\<lambda>c. c \<noteq> CHR ''%'') s" and ?z = "dropWhile (\<lambda>c. c \<noteq> CHR ''%'') s"
    from p assms(2) have z: "?z = []" by (auto simp: parse_v6_def Let_def split: if_splits)
    then have t: "?t = s" by (metis append_Nil2 takeWhile_dropWhile_id)
    show ?thesis
    proof (cases "s = ''::''")
      case True
      then show ?thesis by (simp add: addr_chars_def)
    next
      case False
      with p t z obtain ip' ell' where l: "(if take 2 s = ''::'' then v6_loop 8 (drop 2 s) [] (Some 0) else v6_loop 8 s [] None)
          = Some ([], ip', ell')"
        by (auto simp: parse_v6_def Let_def v6_finish_def bind_eq_Some_conv split: if_splits)
      show ?thesis
      proof (cases "take 2 s = ''::''")
        case True
        then have "set (drop 2 s) \<subseteq> addr_chars" using l by (auto dest: v6_loop_chars)
        moreover have "set s = set (take 2 s) \<union> set (drop 2 s)" by (metis append_take_drop_id set_append)
        ultimately show ?thesis using True by (simp add: addr_chars_def)
      next
        case False
        then show ?thesis using l by (simp add: v6_loop_chars)
      qed
    qed
  qed
qed

lemma ParseIP_no_slash: "ParseIP s = Some p \<Longrightarrow> CHR ''/'' \<notin> set s"
  using ParseAddr_chars [of s]
  by (fastforce simp: ParseIP_def addr_chars_def is_hexdigit_def is_digit_def split: option.splits if_splits)

end
