(* ===== verification/MacAddr.thy ===== *)
theory MacAddr
  imports NetDev
begin

section \<open>net.ParseMAC\<close>

text \<open>
  The parser of hardware addresses: six, eight or twenty bytes, as pairs of hexadecimal
  digits separated by colons or hyphens, or as groups of four separated by periods. What
  \<open>HardwareAddr.String\<close> prints is read back.
\<close>

definition xtoi2 :: "char \<Rightarrow> char \<Rightarrow> byte option" where
  "xtoi2 a b = (if is_hexdigit a \<and> is_hexdigit b then Some (of_nat (hex_val [a, b])) else None)"

fun mac_pairs :: "char \<Rightarrow> string \<Rightarrow> bytes option" where
  "mac_pairs e [a, b] = map_option (\<lambda>x. [x]) (xtoi2 a b)"
| "mac_pairs e (a # b # c # s) =
     (if c \<noteq> e then None
      else Option.bind (xtoi2 a b) (\<lambda>x. map_option (Cons x) (mac_pairs e s)))"
| "mac_pairs e s = None"

fun mac_quads :: "string \<Rightarrow> bytes option" where
  "mac_quads [a, b, c, d] = Option.bind (xtoi2 a b) (\<lambda>x. map_option (\<lambda>y. [x, y]) (xtoi2 c d))"
| "mac_quads (a # b # c # d # p # s) =
     (if p \<noteq> CHR ''.'' then None
      else Option.bind (xtoi2 a b) (\<lambda>x. Option.bind (xtoi2 c d) (\<lambda>y. map_option (\<lambda>r. x # y # r) (mac_quads s))))"
| "mac_quads s = None"

definition ParseMAC :: "string \<Rightarrow> goerror + bytes" where
  "ParseMAC s =
     (let err = Inl (External (''address '' @ s @ '': invalid MAC address''));
          from = (\<lambda>r. case r of None \<Rightarrow> err | Some hw \<Rightarrow> Inr hw) in
      if length s < 14 then err
      else if s ! 2 = CHR '':'' \<or> s ! 2 = CHR ''-'' then
        (if (length s + 1) mod 3 \<noteq> 0 \<or> (length s + 1) div 3 \<notin> {6, 8, 20} then err
         else from (mac_pairs (s ! 2) s))
      else if s ! 4 = CHR ''.'' then
        (if (length s + 1) mod 5 \<noteq> 0 \<or> 2 * (length s + 1) div 5 \<notin> {6, 8, 20} then err
         else from (mac_quads s))
      else err)"

subsection \<open>What is printed is read back\<close>

lemma digit_char_hex: "n < 16 \<Longrightarrow> is_hexdigit (digit_char n) \<and> hex_digit_val (digit_char n) = n"
  by (auto simp: is_hexdigit_def is_digit_def digit_char_def hex_digit_val_def Let_def)

lemma xtoi2_hex: "xtoi2 (digit_char (unat b div 16)) (digit_char (unat b mod 16)) = Some b"
  for b :: byte
proof -
  have n: "unat b div 16 < 16" "unat b mod 16 < 16" using unsigned_less [of b] by (auto simp: less_mult_imp_div_less)
  have "hex_val [digit_char (unat b div 16), digit_char (unat b mod 16)] = unat b div 16 * 16 + unat b mod 16"
    by (simp add: hex_val_def digit_char_hex [OF n(1)] digit_char_hex [OF n(2)])
  then show ?thesis by (simp add: xtoi2_def digit_char_hex [OF n(1)] digit_char_hex [OF n(2)])
qed

lemma mac_pairs_String:
  "m \<noteq> [] \<Longrightarrow> mac_pairs CHR '':'' (hwaddr_String m) = Some m \<and> length (hwaddr_String m) + 1 = 3 * length m"
proof (induction m)
  case (Cons b m)
  show ?case
  proof (cases m)
    case Nil
    then show ?thesis by (simp add: hwaddr_String_def hex_byte_def xtoi2_hex)
  next
    case (Cons c m')
    then have "hwaddr_String (b # m) = digit_char (unat b div 16) # digit_char (unat b mod 16) # CHR '':'' # hwaddr_String m"
      by (simp add: hwaddr_String_def hex_byte_def)
    moreover obtain x xs where "hwaddr_String m = x # xs" using Cons by (cases "hwaddr_String m") auto
    ultimately show ?thesis using Cons.IH Cons by (simp add: xtoi2_hex)
  qed
qed simp

lemma ParseMAC_String:
  "ParseMAC (hwaddr_String m) = Inr x \<longleftrightarrow> length m \<in> {6, 8, 20} \<and> x = m"
proof (cases "length m < 5")
  case True
  have "length (hwaddr_String m) < 14" using mac_pairs_String [of m] True by (cases "m = []") (auto simp: hwaddr_String_def)
  then show ?thesis using True by (auto simp: ParseMAC_def)
next
  case False
  then obtain b c m' where m: "m = b # c # m'" by (cases m; cases "tl m") auto
  then have "hwaddr_String m ! 2 = CHR '':''" by (simp add: hwaddr_String_def hex_byte_def)
  moreover have "mac_pairs CHR '':'' (hwaddr_String m) = Some m" "length (hwaddr_String m) + 1 = 3 * length m"
    using mac_pairs_String [of m] m by simp_all
  moreover have "\<not> length (hwaddr_String m) < 14" using calculation(3) False by linarith
  ultimately show ?thesis by (auto simp: ParseMAC_def Let_def)
qed

end
