(* ===== verification/RemoteConfig.thy ===== *)
theory RemoteConfig
  imports MacAddr LocalCmd StConfig
begin

section \<open>Network configuration: subcmd/remote/dhcp and subcmd/remote/static\<close>

text \<open>
  Both commands choose an interface, reset all interfaces and set up the network. What they
  take from the stboot packages, and the parsing of durations and URLs, is a record of
  parameters (\<open>hostenv\<close>). The kernel is the world \<open>'w\<close> of \<open>internal/network\<close>; an error is
  returned with the world it left behind.
\<close>

record ('w, 'a, 'p, 'h) hostenv =
  StringToBondingMode :: "string \<Rightarrow> nat"
  BondingUnknown :: nat
  SetupNetworkInterface :: "'a host_config \<Rightarrow> 'w \<Rightarrow> 'w \<times> goerror option"
  ReadOptionalCertsFile :: "string \<Rightarrow> 'w \<Rightarrow> goerror + 'p"
  NewHTTPClient :: "'p \<Rightarrow> bool \<Rightarrow> 'h"
  http_NewRequest :: "string \<Rightarrow> string \<Rightarrow> goerror option"
  client_Do :: "'h \<Rightarrow> string \<Rightarrow> string \<Rightarrow> 'w \<Rightarrow> 'w \<times> (goerror + nat \<times> string)"
  ParseDuration :: "string \<Rightarrow> goerror + int"

subsection \<open>Choosing an interface\<close>

definition default_mac :: "('w, 'a) netlink \<Rightarrow> int \<Rightarrow> string \<Rightarrow> 'w \<Rightarrow> 'w \<times> (goerror + string)" where
  "default_mac N interfaceWait optInterface w =
     (if optInterface \<noteq> [] then (w, Inr optInterface)
      else (case DefaultInterfaces N interfaceWait w of
          (w', Inl e) \<Rightarrow> (w', Inl (Errorf ''no suitable network interface available''))
        | (w', Inr defaultMACs) \<Rightarrow> (w', Inr (hwaddr_String (defaultMACs ! 0)))))"

definition dhcp_Config :: "('w, 'a) netlink \<Rightarrow> ('w, 'a, 'p, 'h) hostenv \<Rightarrow> string list \<Rightarrow> ip list \<Rightarrow> string \<Rightarrow> int
    \<Rightarrow> 'w \<Rightarrow> 'w \<times> (goerror + 'a host_config)" where
  "dhcp_Config N X args dnsServers optInterface interfaceWait w =
     (if args \<noteq> [] then (w, Inl (Errorf (''trailing arguments: '' @ show_list args)))
      else (case default_mac N interfaceWait optInterface w of
          (w1, Inl e) \<Rightarrow> (w1, Inl e)
        | (w1, Inr iface) \<Rightarrow>
     (case ParseMAC iface of
        Inl e \<Rightarrow> (w1, Inl (Errorf (''malformed mac address: '' @ iface)))
      | Inr mac \<Rightarrow>
     (case ResetInterfaces N w1 of
        (w2, Some e) \<Rightarrow> (w2, Inl (Wrapf ''failed to reset network interfaces'' e))
      | (w2, None) \<Rightarrow>
          (let ifname = GetInterfaceName N mac w2;
               cfg = \<lparr>IPAddrMode = IPDynamic, HostIP = None, DefaultGateway = None, DNSServer = dnsServers,
                      NetworkInterfaces = [\<lparr>InterfaceName = ifname, MACAddress = Some mac\<rparr>], BondingMode = 0,
                      BondName = None, OSPkgPointer = None, Description = None\<rparr> in
           case SetupNetworkInterface X cfg w2 of
             (w3, Some e) \<Rightarrow> (w3, Inl (Wrapf ''setup network'' e))
           | (w3, None) \<Rightarrow> (w3, Inr cfg))))))"

text \<open>
  Static configuration. The first definition is the part that settles the interface and the
  interfaces to bond: given ones, tested ones, or the default.
\<close>

definition bonded_first :: "('w, 'a) netlink \<Rightarrow> string list \<Rightarrow> string \<Rightarrow> 'w \<Rightarrow> goerror + string" where
  "bonded_first N optBondingInterfaces optInterface w =
     (if optBondingInterfaces = [] then Inr optInterface
      else (case LinkByName N w (optBondingInterfaces ! 0) of
          Inl e \<Rightarrow> Inl (Wrapf (optBondingInterfaces ! 0 @ '': invalid first bonded interface'') e)
        | Inr link \<Rightarrow> Inr (hwaddr_String (HardwareAddr link))))"

definition autodetect :: "('w, 'a) netlink \<Rightarrow> string \<Rightarrow> string \<Rightarrow> int \<Rightarrow> bool \<Rightarrow> bool \<Rightarrow> string \<times> string list \<Rightarrow> 'w
    \<Rightarrow> 'w \<times> string \<times> string list" where
  "autodetect N optGateway optHostIP interfaceWait optAutodetect optBondingAuto sel w =
     (if fst sel = [] \<and> (optAutodetect \<or> optBondingAuto) then
        (case TestInterfaces N optGateway optHostIP interfaceWait w of
           (w', Inl e) \<Rightarrow> (w', sel)
         | (w', Inr []) \<Rightarrow> (w', sel)
         | (w', Inr (d # ds)) \<Rightarrow>
             (w', hwaddr_String (HardwareAddr d),
              if optBondingAuto then snd sel @ map Name (d # ds) else snd sel))
      else (w, sel))"

definition bond_config :: "('w, 'a) netlink \<Rightarrow> ('w, 'a, 'p, 'h) hostenv \<Rightarrow> string list \<Rightarrow> string \<Rightarrow> 'a host_config \<Rightarrow> 'w
    \<Rightarrow> goerror + 'a host_config" where
  "bond_config N X bondedInterfaces optBondingMode cfg w =
     (if bondedInterfaces = [] then Inr cfg
      else (let bondmode = StringToBondingMode X optBondingMode in
        if bondmode = BondingUnknown X then Inl (Errorf (''bonding mode unknown: '' @ optBondingMode))
        else Inr (cfg\<lparr>BondingMode := bondmode,
               NetworkInterfaces := map (\<lambda>iface. \<lparr>InterfaceName = iface, MACAddress = GetHardwareAddr N iface w\<rparr>) bondedInterfaces,
               BondName := Some ''bond0''\<rparr>)))"

definition static_setup :: "('w, 'a) netlink \<Rightarrow> ('w, 'a, 'p, 'h) hostenv \<Rightarrow> ip list \<Rightarrow> string \<Rightarrow> string \<Rightarrow> string list \<Rightarrow> string
    \<Rightarrow> string \<Rightarrow> 'w \<Rightarrow> 'w \<times> (goerror + 'a host_config)" where
  "static_setup N X dnsServers optHostIP optGateway bondedInterfaces optBondingMode iface w =
     (case ParseMAC iface of
        Inl e \<Rightarrow> (w, Inl (Errorf (''malformed mac address: '' @ iface)))
      | Inr mac \<Rightarrow>
     (case netlink_ParseAddr N optHostIP of
        Inl e \<Rightarrow> (w, Inl (Wrapf ''malformed host address'' e))
      | Inr hostIP \<Rightarrow>
     (case ParseIP optGateway of
        None \<Rightarrow> (w, Inl (Errorf (''malformed gateway: '' @ optGateway)))
      | Some gateway \<Rightarrow>
     (case ResetInterfaces N w of
        (w1, Some e) \<Rightarrow> (w1, Inl (Wrapf ''failed to reset network interfaces'' e))
      | (w1, None) \<Rightarrow>
          (let ifname = GetInterfaceName N mac w1 in
           case bond_config N X bondedInterfaces optBondingMode
                  \<lparr>IPAddrMode = IPStatic, HostIP = Some hostIP, DefaultGateway = Some gateway, DNSServer = dnsServers,
                   NetworkInterfaces = [\<lparr>InterfaceName = ifname, MACAddress = Some mac\<rparr>], BondingMode = 0,
                   BondName = None, OSPkgPointer = None, Description = None\<rparr> w1 of
             Inl e \<Rightarrow> (w1, Inl e)
           | Inr cfg \<Rightarrow>
               (case SetupNetworkInterface X cfg w1 of
                  (w2, Some e) \<Rightarrow> (w2, Inl (Wrapf ''setup network'' e))
                | (w2, None) \<Rightarrow> (w2, Inr cfg)))))))"

definition static_Config :: "('w, 'a) netlink \<Rightarrow> ('w, 'a, 'p, 'h) hostenv \<Rightarrow> string list \<Rightarrow> ip list \<Rightarrow> string \<Rightarrow> string \<Rightarrow> string
    \<Rightarrow> int \<Rightarrow> bool \<Rightarrow> bool \<Rightarrow> string list \<Rightarrow> string \<Rightarrow> bool \<Rightarrow> bool \<Rightarrow> 'w \<Rightarrow> 'w \<times> (goerror + 'a host_config)" where
  "static_Config N X args dnsServers optInterface optHostIP optGateway interfaceWait optAutodetect optBondingAuto
       optBondingInterfaces optBondingMode optForce optTryLastIPForGateway w =
     (if args \<noteq> [] then (w, Inl (Errorf (''trailing arguments: '' @ show_list args)))
      else (case ValidateHostAndGateway optHostIP optGateway optForce optTryLastIPForGateway of
          Inl e \<Rightarrow> (w, Inl e)
        | Inr gw \<Rightarrow>
     (case bonded_first N optBondingInterfaces optInterface w of
        Inl e \<Rightarrow> (w, Inl e)
      | Inr iface0 \<Rightarrow>
     (case autodetect N gw optHostIP interfaceWait optAutodetect optBondingAuto (iface0, optBondingInterfaces) w of
        (w1, iface1, bondedInterfaces) \<Rightarrow>
     (case default_mac N interfaceWait iface1 w1 of
        (w2, Inl e) \<Rightarrow> (w2, Inl e)
      | (w2, Inr iface) \<Rightarrow> static_setup N X dnsServers optHostIP gw bondedInterfaces optBondingMode iface w2)))))"

end
