(* ===== verification/RemoteCmd.thy ===== *)
theory RemoteCmd
  imports RemoteConfig
begin

section \<open>stprov remote: subcmd/remote/remote.go\<close>

text \<open>
  The command on the platform's side: its options, the checks that are common to the
  subcommands, and the commit of a host configuration, which tries the OS package URLs and
  writes two EFI variables. The state is the firmware's variables and the kernel's world.
\<close>

definition efiKeyName :: string where "efiKeyName = ''STHostKey''"
definition efiHostName :: string where "efiHostName = ''STHostName''"
definition trustPolicyRootFile :: string where "trustPolicyRootFile = ''/etc/trust_policy/tls_roots.pem''"

subsection \<open>Options\<close>

text \<open>The package's variables with the zero values of their types.\<close>

definition remote_zero :: vars where
  "remote_zero x =
     (if x = ''optPort'' then IntV 0
      else if x \<in> {''optAutodetect'', ''optBondingAuto'', ''optTryLastGateway'', ''optForce''} then BoolV False
      else if x \<in> {''optBondingInterfaces'', ''optDNS'', ''optURL'', ''optAllowedCIDRs''}
      then SliceV \<lparr>Values = [], is_set = False\<rparr>
      else StringV [])"

definition common_options :: "flagset \<Rightarrow> flagset option" where
  "common_options fs = do {
     fs \<leftarrow> AddStringS ''optDNS'' ''d'' ''dns'' DefDNS fs;
     fs \<leftarrow> AddString ''optMAC'' ''m'' ''mac'' [] fs;
     fs \<leftarrow> AddString ''optInterface'' ''I'' ''interface'' [] fs;
     fs \<leftarrow> AddString ''optHostName'' ''h'' ''host'' [] fs;
     fs \<leftarrow> AddString ''optFullHostName'' ''H'' ''full-host'' [] fs;
     fs \<leftarrow> AddString ''optUser'' ''u'' ''user'' DefUser fs;
     fs \<leftarrow> AddString ''optPassword'' ''p'' ''pass'' DefPassword fs;
     fs \<leftarrow> AddStringS ''optURL'' ''r'' ''url'' DefTemplateURL fs;
     fs \<leftarrow> AddString ''optInterfaceWait'' ''w'' ''wait'' ''4s'' fs;
     AddBool ''optForce'' ''f'' ''force'' False fs
   }"

definition static_options :: "flagset \<Rightarrow> flagset option" where
  "static_options fs = do {
     fs \<leftarrow> common_options fs;
     fs \<leftarrow> AddBool ''optAutodetect'' ''A'' ''autodetect'' False fs;
     fs \<leftarrow> AddString ''optHostIP'' ''i'' ''ip'' [] fs;
     fs \<leftarrow> AddString ''optGateway'' ''g'' ''gateway'' [] fs;
     fs \<leftarrow> AddBool ''optTryLastGateway'' ''x'' ''try-last-gateway'' False fs;
     fs \<leftarrow> AddStringS ''optBondingInterfaces'' ''b'' ''bonding'' [] fs;
     fs \<leftarrow> AddBool ''optBondingAuto'' ''B'' ''bonding-auto'' False fs;
     AddString ''optBondingMode'' ''M'' ''bonding-mode'' DefBondingMode fs
   }"

definition remote_run_options :: "flagset \<Rightarrow> flagset option" where
  "remote_run_options fs = do {
     fs \<leftarrow> AddInt ''optPort'' ''p'' ''port'' 2009 fs;
     fs \<leftarrow> AddString ''optHostIP'' ''i'' ''ip'' ''0.0.0.0'' fs;
     fs \<leftarrow> AddStringS ''optAllowedCIDRs'' ''a'' ''allow'' DefAllowedNetworks fs;
     AddString ''optOTP'' ''o'' ''otp'' [] fs
   }"

definition remote_setOptions :: "flagset \<Rightarrow> flagset option" where
  "remote_setOptions fs =
     (if fs_name fs = ''static'' then static_options fs
      else if fs_name fs = ''dhcp'' then common_options fs
      else if fs_name fs = ''run'' then remote_run_options fs
      else Some fs)"

fun countTrue :: "bool list \<Rightarrow> nat" where
  "countTrue [] = 0"
| "countTrue (v # b) = (if v then Suc (countTrue b) else countTrue b)"

fun parseIPs :: "string list \<Rightarrow> goerror + ip list" where
  "parseIPs [] = Inr []"
| "parseIPs (s # ips) =
     (case ParseIP s of
        None \<Rightarrow> Inl (Errorf (''failed to parse '' @ quote s @ '' as an IP address''))
      | Some p \<Rightarrow> (case parseIPs ips of Inl e \<Rightarrow> Inl e | Inr ret \<Rightarrow> Inr (p # ret)))"

text \<open>The timestamp is the text that \<open>time.RFC3339\<close> gives.\<close>

definition formatDescription :: "string \<Rightarrow> string \<Rightarrow> string" where
  "formatDescription version timestamp = ''stprov version '' @ version @ ''; timestamp '' @ timestamp"

subsection \<open>Committing a host configuration\<close>

definition network_NewClient :: "('w, 'a, 'p, 'h) hostenv \<Rightarrow> string \<Rightarrow> 'w \<Rightarrow> goerror + 'h" where
  "network_NewClient X rootFile w =
     (case ReadOptionalCertsFile X rootFile w of
        Inl e \<Rightarrow> Inl e
      | Inr certs \<Rightarrow> Inr (NewHTTPClient X certs False))"

definition checkURL :: "('w, 'a, 'p, 'h) hostenv \<Rightarrow> 'h \<Rightarrow> string \<Rightarrow> 'w \<Rightarrow> 'w \<times> goerror option" where
  "checkURL X client url w =
     (case http_NewRequest X MethodHead url of
        Some e \<Rightarrow> (w, Some e)
      | None \<Rightarrow>
          (case client_Do X client MethodHead url w of
             (w', Inl e) \<Rightarrow> (w', Some (Wrapf (''HEAD request on '' @ quote url @ '' failed'') e))
           | (w', Inr (code, text)) \<Rightarrow>
               if code \<noteq> StatusOK
               then (w', Some (Errorf (''HEAD request on '' @ quote url @ '' failed, returned status: '' @ quote text)))
               else (w', None)))"

fun commit_urls :: "('w, 'a, 'p, 'h) hostenv \<Rightarrow> 'h \<Rightarrow> string \<Rightarrow> string \<Rightarrow> bool \<Rightarrow> string list \<Rightarrow> 'w
    \<Rightarrow> 'w \<times> (goerror + string list)" where
  "commit_urls X client optUser optPassword optForce [] w = (w, Inr [])"
| "commit_urls X client optUser optPassword optForce (url # optURL) w =
     (case ConstructURL url optUser optPassword of
        Inl e \<Rightarrow> (w, Inl e)
      | Inr u \<Rightarrow>
          (case checkURL X client u w of
             (w', err) \<Rightarrow>
               if err \<noteq> None \<and> \<not> optForce then (w', Inl (Wrapf ''HEAD request failed'' (the err)))
               else (case commit_urls X client optUser optPassword optForce optURL w' of
                   (w'', Inl e) \<Rightarrow> (w'', Inl e)
                 | (w'', Inr urls) \<Rightarrow> (w'', Inr (u # urls)))))"

definition commitConfig :: "'s efi \<Rightarrow> 'a hostlib \<Rightarrow> ('w, 'a, 'p, 'h) hostenv \<Rightarrow> string \<Rightarrow> 'a host_config \<Rightarrow> string list
    \<Rightarrow> string \<Rightarrow> string \<Rightarrow> bool \<Rightarrow> 's \<times> 'w \<Rightarrow> ('s \<times> 'w) \<times> goerror option" where
  "commitConfig E H X optHostName config optURL optUser optPassword optForce st =
     (if optHostName = [] then (st, Some (Errorf ''host name is a required option''))
      else (case network_NewClient X trustPolicyRootFile (snd st) of
          Inl e \<Rightarrow> (st, Some (Wrapf ''configure tls client'' e))
        | Inr client \<Rightarrow>
     (case commit_urls X client optUser optPassword optForce optURL (snd st) of
        (w, Inl e) \<Rightarrow> ((fst st, w), Some e)
      | (w, Inr urls) \<Rightarrow>
     (case HostConfigEFIVariableName E H of
        Inl e \<Rightarrow> ((fst st, w), Some (Wrapf ''parse efi UUID'' e))
      | Inr (_, efiGuid) \<Rightarrow>
     (case HostName_WriteEFI E efiGuid efiHostName optHostName (fst st) of
        (s1, Some e) \<Rightarrow> ((s1, w), Some (Wrapf ''persist host name'' e))
      | (s1, None) \<Rightarrow>
     (case WriteHostConfigEFI E H (config\<lparr>OSPkgPointer := Some (strings_Join urls '','')\<rparr>) s1 of
        (s2, Some e) \<Rightarrow> ((s2, w), Some (Wrapf ''persist host config'' e))
      | (s2, None) \<Rightarrow> ((s2, w), None)))))))"

subsection \<open>Main\<close>

definition slice_values :: "optval \<Rightarrow> string list" where
  "slice_values v = Values (slice_of v)"

definition option_conflict :: "vars \<Rightarrow> goerror option" where
  "option_conflict v =
     (if string_of (v ''optHostName'') \<noteq> [] \<and> string_of (v ''optFullHostName'') \<noteq> []
      then Some (Errorf ''-h and -H options are mutually exclusive'')
      else if countTrue [bool_of (v ''optAutodetect''), string_of (v ''optMAC'') \<noteq> [], string_of (v ''optInterface'') \<noteq> [],
          bool_of (v ''optBondingAuto''), length (slice_values (v ''optBondingInterfaces'')) > 0] > 1
      then Some (Errorf ''-A, -m, -I, -B, and -b options are mutually exclusive'')
      else None)"

definition full_host_name :: "vars \<Rightarrow> string" where
  "full_host_name v =
     (if string_of (v ''optFullHostName'') \<noteq> [] then string_of (v ''optFullHostName'')
      else if string_of (v ''optHostName'') \<noteq> [] then string_of (v ''optHostName'') @ ''.'' @ DefHostname
      else DefHostname)"

record prepared =
  pr_Wait :: int
  pr_MAC :: string
  pr_DNS :: "ip list"
  pr_UUID :: bytes

text \<open>Everything before the subcommands differ, in order; errors are still to be named.\<close>

definition prepare :: "'s efi \<Rightarrow> ('w, 'a) netlink \<Rightarrow> 'a hostlib \<Rightarrow> ('w, 'a, 'p, 'h) hostenv \<Rightarrow> string \<Rightarrow> vars \<Rightarrow> 'w
    \<Rightarrow> goerror + prepared" where
  "prepare E N H X name v w =
     (case option_conflict v of Some e \<Rightarrow> Inl e
      | None \<Rightarrow>
     (case (if name = ''static'' \<or> name = ''dhcp'' then ParseDuration X (string_of (v ''optInterfaceWait'')) else Inr 0) of
        Inl e \<Rightarrow> Inl e
      | Inr interfaceWait \<Rightarrow>
     (case (if string_of (v ''optInterface'') \<noteq> [] then map_option hwaddr_String (GetHardwareAddr N (string_of (v ''optInterface'')) w)
            else Some (string_of (v ''optMAC''))) of
        None \<Rightarrow> Inl (Errorf (''invalid interface name '' @ string_of (v ''optInterface'')))
      | Some mac \<Rightarrow>
     (case parseIPs (slice_values (v ''optDNS'')) of
        Inl e \<Rightarrow> Inl (Wrapf ''dns'' e)
      | Inr dnsServers \<Rightarrow>
     (case HostConfigEFIVariableName E H of
        Inl e \<Rightarrow> Inl e
      | Inr (efiConfigName, efiUUID) \<Rightarrow>
          Inr \<lparr>pr_Wait = interfaceWait, pr_MAC = mac, pr_DNS = dnsServers, pr_UUID = efiUUID\<rparr>)))))"

definition configure :: "'s efi \<Rightarrow> ('w, 'a) netlink \<Rightarrow> 'a hostlib \<Rightarrow> ('w, 'a, 'p, 'h) hostenv \<Rightarrow> string \<Rightarrow> string \<Rightarrow> vars
    \<Rightarrow> string list \<Rightarrow> prepared \<Rightarrow> 's \<times> 'w \<Rightarrow> ('s \<times> 'w) \<times> goerror option" where
  "configure E N H X description name v args p st =
     (case (if name = ''static''
            then static_Config N X args (pr_DNS p) (pr_MAC p) (DecodeSafeCIDR (string_of (v ''optHostIP'')))
                   (DecodeSafeCIDR (string_of (v ''optGateway''))) (pr_Wait p) (bool_of (v ''optAutodetect''))
                   (bool_of (v ''optBondingAuto'')) (slice_values (v ''optBondingInterfaces'')) (string_of (v ''optBondingMode''))
                   (bool_of (v ''optForce'')) (bool_of (v ''optTryLastGateway'')) (snd st)
            else dhcp_Config N X args (pr_DNS p) (pr_MAC p) (pr_Wait p) (snd st)) of
        (w, Inl e) \<Rightarrow> ((fst st, w), Some e)
      | (w, Inr config) \<Rightarrow>
          commitConfig E H X (full_host_name v) (config\<lparr>Description := Some description\<rparr>) (slice_values (v ''optURL''))
            (string_of (v ''optUser'')) (string_of (v ''optPassword'')) (bool_of (v ''optForce'')) (fst st, w))"

text \<open>
  The subcommand \<open>run\<close> is a relation, and so is \<open>Main\<close>, between the state before (variables,
  randomness, kernel), the ending and the state after. An unknown subcommand's error is
  returned without its name.
\<close>

definition remote_Main :: "('s, 'c, 'k) lib \<Rightarrow> ('w, 'a) netlink \<Rightarrow> 'a hostlib \<Rightarrow> ('w, 'a, 'p, 'h) hostenv \<Rightarrow> string \<Rightarrow> string
    \<Rightarrow> string \<times> goerror \<Rightarrow> string list \<Rightarrow> 's \<times> bytes \<times> 'w \<Rightarrow> goerror option ending \<Rightarrow> 's \<times> bytes \<times> 'w \<Rightarrow> bool" where
  "remote_Main L N H X version now stdin args st res st' \<longleftrightarrow>
     (case st of (s, rd, w) \<Rightarrow>
      case New args remote_usage remote_setOptions remote_zero of
        Exit n t \<Rightarrow> res = Exits n t \<and> st' = st
      | Panic \<Rightarrow> res = Panics \<and> st' = st
      | Parsed opt \<Rightarrow>
          (let name = fs_name opt; v = vars opt in
           case prepare (lib_efi L) N H X name v w of
             Inl e \<Rightarrow> res = Returns (Some (fmtErr e name)) \<and> st' = st
           | Inr p \<Rightarrow>
               if name = ''help'' \<or> name = [] then res = Shows remote_usage \<and> st' = st
               else if name = ''static'' \<or> name = ''dhcp'' then
                 (case configure (lib_efi L) N H X (formatDescription version now) name v (fs_args opt) p (s, w) of
                    ((s', w'), err) \<Rightarrow> res = Returns (map_option (\<lambda>e. fmtErr e name) err) \<and> st' = (s', rd, w'))
               else if name = ''run'' then
                 (\<exists>out s' rd'. run_Main L (fs_args opt) (int_of (v ''optPort'')) (DecodeSafeCIDR (string_of (v ''optHostIP'')))
                      (map DecodeSafeCIDR (slice_values (v ''optAllowedCIDRs''))) (string_of (v ''optOTP'')) (pr_UUID p)
                      efiKeyName efiHostName stdin (s, rd) out (s', rd')
                    \<and> st' = (s', rd', w)
                    \<and> res = (case out of Success \<Rightarrow> Returns None | Failure e \<Rightarrow> Returns (Some (fmtErr e name))
                               | NilDereference \<Rightarrow> Panics))
               else res = Returns (Some (invalid_command name)) \<and> st' = st))"

end
