(* ===== verification/ConfigFacts.thy ===== *)
theory ConfigFacts
  imports AddrChars RemoteCmd
begin

section \<open>What the network configurations hold\<close>

subsection \<open>Static configuration\<close>

lemma ParseCIDR_addr:
  "CHR ''/'' \<notin> set s \<Longrightarrow> ParseCIDR (s @ CHR ''/'' # t) = Inr (p, net) \<Longrightarrow> ParseIP s = Some p"
  by (auto simp: ParseCIDR_def ParseIP_def SplitN2_found Let_def split: option.splits if_splits)

lemma gateway_addr:
  assumes "ParseIP g = Some p" "ParseCIDR (appendPrefixLength g) = Inr (gip, gnet)"
  shows "gip = p"
proof -
  note n = ParseIP_no_slash [OF assms(1)]
  then have "\<not> suffix ''/32'' g" "\<not> suffix ''/128'' g" by (auto simp: suffix_def)
  then have "appendPrefixLength g = g @ CHR ''/'' # (if CHR '':'' \<in> set g then ''128'' else ''32'')"
    by (simp add: appendPrefixLength_def strings_HasSuffix_def)
  then obtain t where "appendPrefixLength g = g @ CHR ''/'' # t" by blast
  with ParseCIDR_addr [OF n] assms show ?thesis by simp
qed

text \<open>The gateway that passes the checks, once it is also an address without a prefix.\<close>

lemma validated_gateway_addr:
  assumes "ValidateHostAndGateway h gw force lastip = Inr g" "ParseIP g = Some p"
  shows "\<exists>hip net. ParseCIDR h = Inr (hip, net)
    \<and> (gw \<noteq> [] \<longrightarrow> g = gw)
    \<and> (\<not> force \<longrightarrow> \<not> IP_Equal hip p \<and> (gw \<noteq> [] \<longrightarrow> IPNet_Contains net p))
    \<and> (gw = [] \<and> \<not> lastip \<and> (length (IP net) = 4 \<or> To4 (IP net) = None) \<and> prefix_length net < 8 * length (IP net)
         \<longrightarrow> IPNet_Contains net p)"
proof -
  from assms(1) obtain hip net gip gnet where v: "ParseCIDR h = Inr (hip, net)" "gateway_candidate gw force lastip net = Inr g"
    "ParseCIDR (appendPrefixLength g) = Inr (gip, gnet)" "\<not> (IP_Equal hip gip \<and> \<not> force)"
    by (auto simp: ValidateHostAndGateway_def split: sum.splits prod.splits if_splits)
  note e = gateway_addr [OF assms(2) v(3)]
  have "g = gw" if "gw \<noteq> []"
    using v(2) that by (auto simp: gateway_candidate_def split: sum.splits prod.splits if_splits)
  moreover have "IPNet_Contains net p" if "\<not> force" "gw \<noteq> []"
    using v(2,3) that e by (auto simp: gateway_candidate_def split: sum.splits prod.splits if_splits)
  moreover have "IPNet_Contains net p"
    if d: "gw = []" "\<not> lastip" "length (IP net) = 4 \<or> To4 (IP net) = None" "prefix_length net < 8 * length (IP net)"
  proof -
    from v(1) d(3,4) obtain g' gip' gnet' where "ParseCIDR (appendPrefixLength (IP_String g')) = Inr (gip', gnet')"
      "IPNet_Contains net gip'" "ValidateHostAndGateway h [] force False = (if IP_Equal hip gip' \<and> \<not> force
         then Inl (Errorf (IP_String hip @ '': host address must be distinct from gateway address''))
         else Inr (IP_String g'))" by (rule default_gateway_inside) blast
    with assms(1) v(3) d e show ?thesis by (auto split: if_splits)
  qed
  ultimately show ?thesis using v(1,4) e by auto
qed

lemma bond_config_Inr:
  assumes "bond_config N X ifs bmode cfg0 w = Inr cfg"
  shows "HostIP cfg = HostIP cfg0 \<and> DefaultGateway cfg = DefaultGateway cfg0 \<and> IPAddrMode cfg = IPAddrMode cfg0
    \<and> DNSServer cfg = DNSServer cfg0
    \<and> (if ifs = [] then cfg = cfg0
       else BondName cfg = Some ''bond0'' \<and> BondingMode cfg = StringToBondingMode X bmode \<and> BondingMode cfg \<noteq> BondingUnknown X
         \<and> NetworkInterfaces cfg = map (\<lambda>i. \<lparr>InterfaceName = i, MACAddress = GetHardwareAddr N i w\<rparr>) ifs)"
  using assms by (auto simp: bond_config_def Let_def split: if_splits)

lemma static_setup_Inr:
  assumes "static_setup N X dns h g ifs bmode iface w = (w', Inr cfg)"
  obtains mac hostIP gateway w1 where "ParseMAC iface = Inr mac" "netlink_ParseAddr N h = Inr hostIP" "ParseIP g = Some gateway"
    "ResetInterfaces N w = (w1, None)" "SetupNetworkInterface X cfg w1 = (w', None)"
    "bond_config N X ifs bmode
       \<lparr>IPAddrMode = IPStatic, HostIP = Some hostIP, DefaultGateway = Some gateway, DNSServer = dns,
        NetworkInterfaces = [\<lparr>InterfaceName = GetInterfaceName N mac w1, MACAddress = Some mac\<rparr>], BondingMode = 0,
        BondName = None, OSPkgPointer = None, Description = None\<rparr> w1 = Inr cfg"
  using assms by (auto simp: static_setup_def Let_def split: sum.splits option.splits prod.splits)

text \<open>
  C10. A static configuration that is set up has the parsed host address, the given DNS
  servers and a default gateway that is an address without a prefix; without the force flag
  the gateway differs from the host address. It lies in the host's network when it was given
  with \<open>-g\<close> and not forced, and also when it is the default (neither \<open>-g\<close> nor \<open>-x\<close>) of a network
  that is not IPv4-mapped and has a prefix shorter than the address; the default of a \<open>/32\<close> or \<open>/128\<close>
  and the one of \<open>-x\<close> are not checked. The configuration names one interface by its hardware address, or bonds interfaces in a known
  mode, each with the hardware address the kernel gives for its name.
\<close>

theorem static_Config_sound:
  assumes "static_Config N X args dns iface h gw wait auto bauto bifs bmode force lastip w = (w', Inr cfg)"
  shows "\<exists>hip net hostIP p w1. ParseCIDR h = Inr (hip, net) \<and> netlink_ParseAddr N h = Inr hostIP
    \<and> HostIP cfg = Some hostIP \<and> DefaultGateway cfg = Some p \<and> IPAddrMode cfg = IPStatic \<and> DNSServer cfg = dns
    \<and> (gw \<noteq> [] \<longrightarrow> ParseIP gw = Some p)
    \<and> (\<not> force \<longrightarrow> \<not> IP_Equal hip p \<and> (gw \<noteq> [] \<longrightarrow> IPNet_Contains net p))
    \<and> (gw = [] \<and> \<not> lastip \<and> (length (IP net) = 4 \<or> To4 (IP net) = None) \<and> prefix_length net < 8 * length (IP net)
         \<longrightarrow> IPNet_Contains net p)
    \<and> SetupNetworkInterface X cfg w1 = (w', None)
    \<and> (BondName cfg = None \<longrightarrow>
         (\<exists>mac. NetworkInterfaces cfg = [\<lparr>InterfaceName = GetInterfaceName N mac w1, MACAddress = Some mac\<rparr>]))
    \<and> (BondName cfg \<noteq> None \<longrightarrow> BondingMode cfg \<noteq> BondingUnknown X
         \<and> (\<forall>i \<in> set (NetworkInterfaces cfg). MACAddress i = GetHardwareAddr N (InterfaceName i) w1))"
proof -
  from assms obtain g ifs iface1 w2 where v: "ValidateHostAndGateway h gw force lastip = Inr g"
    and s: "static_setup N X dns h g ifs bmode iface1 w2 = (w', Inr cfg)"
    by (auto simp: static_Config_def split: sum.splits prod.splits if_splits)
  from s obtain mac hostIP p w1 where c: "netlink_ParseAddr N h = Inr hostIP" "ParseIP g = Some p"
    "SetupNetworkInterface X cfg w1 = (w', None)"
    "bond_config N X ifs bmode \<lparr>IPAddrMode = IPStatic, HostIP = Some hostIP, DefaultGateway = Some p, DNSServer = dns,
        NetworkInterfaces = [\<lparr>InterfaceName = GetInterfaceName N mac w1, MACAddress = Some mac\<rparr>], BondingMode = 0,
        BondName = None, OSPkgPointer = None, Description = None\<rparr> w1 = Inr cfg"
    by (rule static_setup_Inr)
  from validated_gateway_addr [OF v c(2)] obtain hip net where g: "ParseCIDR h = Inr (hip, net)"
    "gw \<noteq> [] \<longrightarrow> g = gw" "\<not> force \<longrightarrow> \<not> IP_Equal hip p \<and> (gw \<noteq> [] \<longrightarrow> IPNet_Contains net p)"
    "gw = [] \<and> \<not> lastip \<and> (length (IP net) = 4 \<or> To4 (IP net) = None) \<and> prefix_length net < 8 * length (IP net)
       \<longrightarrow> IPNet_Contains net p" by (elim exE conjE) (rule that)
  note b = bond_config_Inr [OF c(4)]
  show ?thesis
    by (rule exI [of _ hip], rule exI [of _ net], rule exI [of _ hostIP], rule exI [of _ p], rule exI [of _ w1])
      (use b c g in \<open>cases "ifs = []"; auto\<close>)
qed

subsection \<open>DHCP on the default interface\<close>

text \<open>
  C35. Without an interface option, the DHCP configuration names the hardware address of a
  link that was up and running, not a bond, when the links were listed; its interface name
  is that of a link with this address after the reset, or empty if there is none.
\<close>

theorem dhcp_default_interface:
  assumes "dhcp_Config N X args dns [] wait w = (w', Inr cfg)"
  shows "\<exists>w1 w2 n link name. LinkByName N w1 n = Inr link \<and> candidate link
    \<and> NetworkInterfaces cfg = [\<lparr>InterfaceName = name, MACAddress = Some (HardwareAddr link)\<rparr>]
    \<and> ResetInterfaces N w1 = (w2, None) \<and> SetupNetworkInterface X cfg w2 = (w', None)
    \<and> (name \<noteq> [] \<longrightarrow> (\<exists>n2 link2. LinkByName N w2 n2 = Inr link2 \<and> Name link2 = name
          \<and> hwaddr_String (HardwareAddr link2) = hwaddr_String (HardwareAddr link)))
    \<and> IPAddrMode cfg = IPDynamic \<and> DNSServer cfg = dns"
proof -
  from assms obtain w1 macs mac w2 where d: "DefaultInterfaces N wait w = (w1, Inr macs)"
    "ParseMAC (hwaddr_String (macs ! 0)) = Inr mac" "ResetInterfaces N w1 = (w2, None)" "SetupNetworkInterface X cfg w2 = (w', None)"
    "NetworkInterfaces cfg = [\<lparr>InterfaceName = GetInterfaceName N mac w2, MACAddress = Some mac\<rparr>]"
    "IPAddrMode cfg = IPDynamic" "DNSServer cfg = dns"
    by (auto simp: dhcp_Config_def default_mac_def Let_def split: sum.splits prod.splits option.splits if_splits)
  have "mac = macs ! 0" using d(2) by (simp only: ParseMAC_String)
  moreover have "macs ! 0 \<in> set macs" using DefaultInterfaces_candidates(1) [OF d(1)] by simp
  ultimately obtain n link where l: "LinkByName N w1 n = Inr link" "candidate link" "HardwareAddr link = mac"
    using DefaultInterfaces_candidates(2) [OF d(1)] by blast
  show ?thesis
    by (rule exI [of _ w1], rule exI [of _ w2], rule exI [of _ n], rule exI [of _ link],
        rule exI [of _ "GetInterfaceName N mac w2"]) (use d(3-) l GetInterfaceName_sound [of N mac w2] in auto)
qed

subsection \<open>A machine with one interface\<close>

definition demo_link :: link where
  "demo_link = \<lparr>Name = ''eth0'', HardwareAddr = [2, 0, 0, 0, 0, 1], Index = 2, Flags = FlagUp, RawFlags = flagRunning\<rparr>"

definition demo_net :: "(unit, string) netlink" where
  "demo_net =
     \<lparr>net_Interfaces = (\<lambda>w. Inr [(''lo'', FlagLoopback), (''eth0'', FlagUp)]), LinkByName = (\<lambda>w n. Inr demo_link),
      LinkSetUp = (\<lambda>l w. (w, None)), LinkSetDown = (\<lambda>l w. (w, None)), AddrList = (\<lambda>w l. Inr []),
      AddrAdd = (\<lambda>l a w. (w, None)), AddrDel = (\<lambda>l a w. (w, None)), RouteAdd = (\<lambda>r w. (w, None)),
      netlink_ParseAddr = Inr, LinkSubscribe = (\<lambda>w. None), next_event = (\<lambda>n w. (w, Some (''eth0'', OperUp))),
      ping_New = (\<lambda>s w. None), ping_Run = (\<lambda>s n w. (w, Inr 3)), read_file = (\<lambda>w f. Inl (NotExist f))\<rparr>"

definition demo_host :: "(unit, string, unit, unit) hostenv" where
  "demo_host =
     \<lparr>StringToBondingMode = (\<lambda>s. if s = DefBondingMode then 1 else 8), BondingUnknown = 8,
      SetupNetworkInterface = (\<lambda>c w. (w, None)), ReadOptionalCertsFile = (\<lambda>f w. Inr ()), NewHTTPClient = (\<lambda>p b. ()),
      http_NewRequest = (\<lambda>m u. None), client_Do = (\<lambda>c m u w. (w, Inr (200, ''200 OK''))),
      ParseDuration = (\<lambda>s. Inr 4000000000)\<rparr>"

lemma demo_reset [simp]: "ResetInterfaces demo_net w = (w, None)"
  by (simp add: ResetInterfaces_def ForEachInterface_def demo_net_def FlagLoopback_def FlagUp_def reset_visit_def)

lemma demo_name: "GetInterfaceName demo_net [2, 0, 0, 0, 0, 1] w = ''eth0''"
  by (simp add: GetInterfaceName_def ForEachInterface_def demo_net_def FlagLoopback_def FlagUp_def name_visit_def demo_link_def)

lemma demo_default: "DefaultInterfaces demo_net wait w = (w, Inr [[2, 0, 0, 0, 0, 1]])"
proof -
  have c: "Flags demo_link AND FlagUp \<noteq> 0 \<and> RawFlags demo_link AND flagRunning \<noteq> 0"
    by (simp add: demo_link_def FlagUp_def flagRunning_def)
  show ?thesis
    by (simp add: DefaultInterfaces_def ForEachInterface_def FlagLoopback_def FlagUp_def setup_visit_def demo_net_def
        collect_visit_def strings_HasPrefix_def hwaddr_String_def c [unfolded FlagUp_def] Let_def) (simp add: demo_link_def)
qed

lemma demo_mac: "ParseMAC (hwaddr_String [2, 0, 0, 0, 0, 1]) = Inr [2, 0, 0, 0, 0, 1]"
  by (simp add: ParseMAC_String)

theorem dhcp_default_interface_witness:
  "\<exists>cfg name. dhcp_Config demo_net demo_host [] [] [] 4000000000 () = ((), Inr cfg)
     \<and> NetworkInterfaces cfg = [\<lparr>InterfaceName = name, MACAddress = Some (HardwareAddr demo_link)\<rparr>]"
proof -
  obtain cfg where d: "dhcp_Config demo_net demo_host [] [] [] 4000000000 () = ((), Inr cfg)"
    by (simp add: dhcp_Config_def default_mac_def demo_default demo_mac Let_def) (simp add: demo_host_def)
  have "LinkByName demo_net w1 n = Inr demo_link" for w1 n by (simp add: demo_net_def)
  with dhcp_default_interface [OF d] d show ?thesis by auto
qed

theorem static_Config_sound_witness:
  "\<exists>cfg p. static_Config demo_net demo_host [] [] [] ''10.0.2.10/26'' ''10.0.2.2'' 4000000000 False False [] DefBondingMode False False ()
      = ((), Inr cfg) \<and> DefaultGateway cfg = Some p \<and> ParseIP ''10.0.2.2'' = Some p"
proof -
  have v: "ValidateHostAndGateway ''10.0.2.10/26'' ''10.0.2.2'' False False = Inr ''10.0.2.2''" by code_simp
  have p: "ParseIP ''10.0.2.2'' = Some (v4InV6Prefix @ [10, 0, 2, 2])" by code_simp
  have h: "netlink_ParseAddr demo_net x = Inr x" for x by (simp add: demo_net_def)
  obtain cfg where d: "static_Config demo_net demo_host [] [] [] ''10.0.2.10/26'' ''10.0.2.2'' 4000000000 False False [] DefBondingMode
      False False () = ((), Inr cfg)"
    by (simp add: static_Config_def v bonded_first_def autodetect_def default_mac_def demo_default static_setup_def demo_mac h p
        bond_config_def Let_def) (simp add: demo_host_def)
  from static_Config_sound [OF d] d show ?thesis by auto
qed

theorem TestInterfaces_reach_gateway_witness:
  "\<exists>devices :: linkWithSpeed list. TestInterfaces demo_net ''10.0.2.2'' ''10.0.2.10/26'' 4000000000 () = ((), Inr [demo_link])
     \<and> [demo_link] = map fst devices
     \<and> (\<forall>d \<in> set devices. \<exists>s. tested_ok demo_net (ParseIP ''10.0.2.2'') ''10.0.2.10/26'' 4000000000 ((), []) s d)"
proof -
  have v: "(test_visit demo_net g a wt link s) = (((), snd s @ [(link, -1)]), None)"
    if "link = demo_link" for g a wt link and s :: "unit \<times> linkWithSpeed list"
    unfolding test_visit_def confLink_def testGateway_def hasAddrs_def
    by (simp add: that Let_def) (simp add: demo_net_def demo_link_def strings_HasPrefix_def GetDeviceSpeed_def)
  have f: "net_Interfaces demo_net w = Inr [(''lo'', FlagLoopback), (''eth0'', FlagUp)]" "LinkByName demo_net w n = Inr demo_link"
    "netlink_ParseAddr demo_net a = Inr a" for w n a by (simp_all add: demo_net_def)
  have t: "TestInterfaces demo_net ''10.0.2.2'' ''10.0.2.10/26'' 4000000000 () = ((), Inr [demo_link])"
    by (simp add: TestInterfaces_def ForEachInterface_def f FlagLoopback_def FlagUp_def v linksByDescendingSpeed_def)
  from TestInterfaces_reach_gateway [OF this] obtain devices tested :: "linkWithSpeed list" and addrIP where d:
    "[demo_link] = map fst devices" "netlink_ParseAddr demo_net ''10.0.2.10/26'' = Inr addrIP"
    "\<forall>d \<in> set devices. tested_ok demo_net (ParseIP ''10.0.2.2'') addrIP 4000000000 ((), []) ((), tested) d" by (elim exE conjE)
  then have "addrIP = ''10.0.2.10/26''" by (simp add: f)
  with t d show ?thesis by (intro exI [of _ devices]) blast
qed

end
