(* ===== verification/CommitFacts.thy ===== *)
theory CommitFacts
  imports ConfigFacts
begin

section \<open>What commitConfig leaves in EFI-NVRAM\<close>

text \<open>The results of the HEAD requests for a list of URLs, made one after the other.\<close>

fun head_checks :: "('w, 'a, 'p, 'h) hostenv \<Rightarrow> 'h \<Rightarrow> string list \<Rightarrow> 'w \<Rightarrow> goerror option list" where
  "head_checks X client [] w = []"
| "head_checks X client (u # us) w = (case checkURL X client u w of (w', e) \<Rightarrow> e # head_checks X client us w')"

lemma commit_urls_Inr:
  "commit_urls X client user pw force urls w = (w', Inr us) \<Longrightarrow>
     map (\<lambda>u. ConstructURL u user pw) urls = map Inr us \<and> (force \<or> list_all (\<lambda>e. e = None) (head_checks X client us w))"
proof (induction urls arbitrary: w us)
  case (Cons url urls)
  from Cons.prems obtain u w1 e us' where u: "ConstructURL url user pw = Inr u" "checkURL X client u w = (w1, e)"
    "e = None \<or> force" "commit_urls X client user pw force urls w1 = (w', Inr us')" "us = u # us'"
    by (auto split: sum.splits prod.splits if_splits)
  with Cons.IH [OF u(4)] show ?case by auto
qed simp

lemma commitConfig_cases:
  assumes "commitConfig E H X hn config urls user pw force (s, w) = ((s', w'), err)"
  obtains (early) "s' = s" "err \<noteq> None"
  | (written) client us n g s1 e1 where "hn \<noteq> []" "network_NewClient X trustPolicyRootFile w = Inr client"
      "commit_urls X client user pw force urls w = (w', Inr us)" "HostConfigEFIVariableName E H = Inr (n, g)"
      "HostName_WriteEFI E g efiHostName hn s = (s1, e1)"
      "case e1 of Some x \<Rightarrow> s' = s1 \<and> err = Some (Wrapf ''persist host name'' x)
        | None \<Rightarrow> (\<exists>e2. WriteHostConfigEFI E H (config\<lparr>OSPkgPointer := Some (strings_Join us '','')\<rparr>) s1 = (s', e2)
             \<and> err = map_option (Wrapf ''persist host config'') e2)"
proof (cases "hn = []")
  case True
  with assms early show thesis by (auto simp: commitConfig_def)
next
  case hn: False
  show thesis
  proof (cases "network_NewClient X trustPolicyRootFile w")
    case (Inl e)
    with assms hn early show thesis by (auto simp: commitConfig_def)
  next
    case c: (Inr client)
    obtain w1 r where u: "commit_urls X client user pw force urls w = (w1, r)" by (cases "commit_urls X client user pw force urls w")
    show thesis
    proof (cases r)
      case (Inl e)
      with assms hn c u early show thesis by (auto simp: commitConfig_def)
    next
      case us: (Inr us)
      show thesis
      proof (cases "HostConfigEFIVariableName E H")
        case (Inl e)
        with assms hn c u us early show thesis by (auto simp: commitConfig_def)
      next
        case n: (Inr ng)
        obtain s1 e1 where h: "HostName_WriteEFI E (snd ng) efiHostName hn s = (s1, e1)" by (cases "HostName_WriteEFI E (snd ng) efiHostName hn s")
        have "w' = w1" using assms hn c u us n h by (auto simp: commitConfig_def split: prod.splits option.splits)
        then show thesis
          by (intro written [of client us "fst ng" "snd ng" s1 e1])
            (use assms hn c u us n h in \<open>auto simp: commitConfig_def split: prod.splits option.splits\<close>)
      qed
    qed
  qed
qed

lemma commitConfig_persists:
  assumes "commitConfig E H X hn config urls user pw force (s, w) = ((s', w'), err)"
    and "efi_laws E" "json_laws H" "HostConfigEFIVariableName E H = Inr (n, g)" "n \<noteq> ''STHostName''"
  shows "(s' \<noteq> s \<or> err = None \<longrightarrow> hn \<noteq> [] \<and> (\<exists>client us. network_NewClient X trustPolicyRootFile w = Inr client
        \<and> map (\<lambda>u. ConstructURL u user pw) urls = map Inr us
        \<and> (force \<or> list_all (\<lambda>e. e = None) (head_checks X client us w))))
    \<and> (err = None \<longrightarrow> HostName_ReadEFI E g ''STHostName'' s' = Inr hn
        \<and> (\<exists>us. map (\<lambda>u. ConstructURL u user pw) urls = map Inr us
             \<and> HostConfigEFI E H s' = Inr (config\<lparr>OSPkgPointer := Some (strings_Join us '','')\<rparr>)))"
  using assms(1)
proof (cases rule: commitConfig_cases)
  case early
  then show ?thesis by auto
next
  case (written client us n' g' s1 e1)
  note u = commit_urls_Inr [OF written(3)]
  have ng: "n' = n" "g' = g" using written(4) assms(4) by simp_all
  have "HostName_ReadEFI E g ''STHostName'' s' = Inr hn
      \<and> HostConfigEFI E H s' = Inr (config\<lparr>OSPkgPointer := Some (strings_Join us '','')\<rparr>)" if "err = None"
  proof -
    from that written(6) have e: "e1 = None"
      "WriteHostConfigEFI E H (config\<lparr>OSPkgPointer := Some (strings_Join us '','')\<rparr>) s1 = (s', None)"
      by (auto split: option.splits)
    have h: "HostName_WriteEFI E g ''STHostName'' hn s = (s1, None)" using written(5) e(1) ng by (simp add: efiHostName_def)
    have "\<lparr>desc_Name = ''STHostName'', GUID = g\<rparr> \<noteq> config_var E H" using assms(4,5) by (simp add: config_var_def)
    note f = config.write_frame [OF assms(2) e(2) this] config.write_New [OF assms(2) e(2)]
    show ?thesis using hostname.read_after_other [OF assms(2) written(1) h f] config.read_back [OF assms(2,3) e(2)] by simp
  qed
  with u written(1,2) show ?thesis by blast
qed

text \<open>
  C9. The EFI variables change only after every URL was constructed and, without the force
  flag, answered a HEAD request with 200. After a success the host name is read back from
  its variable, and the host configuration, with the URLs joined by commas as its OS package
  pointer, from the other.
\<close>

theorem commitConfig_effect:
  assumes "commitConfig E H X hn config urls user pw force (s, w) = ((s', w'), err)"
    and "efi_laws E" "json_laws H" "HostConfigEFIVariableName E H = Inr (n, g)" "n \<noteq> ''STHostName''"
  shows "(s' \<noteq> s \<or> err = None \<longrightarrow> hn \<noteq> [] \<and> (\<exists>client us. network_NewClient X trustPolicyRootFile w = Inr client
        \<and> map (\<lambda>u. ConstructURL u user pw) urls = map Inr us
        \<and> (force \<or> list_all (\<lambda>e. e = None) (head_checks X client us w))))
    \<and> (err = None \<longrightarrow> HostName_ReadEFI E g ''STHostName'' s' = Inr hn
        \<and> (\<exists>us. map (\<lambda>u. ConstructURL u user pw) urls = map Inr us
             \<and> HostConfigEFI E H s' = Inr (config\<lparr>OSPkgPointer := Some (strings_Join us '','')\<rparr>)))"
  using assms by (rule commitConfig_persists)

text \<open>One URL, that answers, and a configuration that can be stored.\<close>

definition demo_config :: "string host_config" where
  "demo_config = \<lparr>IPAddrMode = IPDynamic, HostIP = None, DefaultGateway = None, DNSServer = [], NetworkInterfaces = [],
     BondingMode = 0, BondName = None, OSPkgPointer = Some ''https://a.org/x'', Description = Some ''stprov''\<rparr>"

theorem commitConfig_effect_witness:
  "\<exists>s'. commitConfig (map_efi (\<lambda>g. Inr (str_bytes g))) (one_config_lib demo_config) demo_host ''mullis''
        (demo_config\<lparr>OSPkgPointer := None\<rparr>) [''https://a.org/x''] ''u'' ''p'' False (Map.empty, ()) = ((s', ()), None)
     \<and> HostName_ReadEFI (map_efi (\<lambda>g. Inr (str_bytes g))) (str_bytes ''f401f2c1'') ''STHostName'' s' = Inr ''mullis''
     \<and> HostConfigEFI (map_efi (\<lambda>g. Inr (str_bytes g))) (one_config_lib demo_config) s' = Inr demo_config"
proof -
  let ?E = "map_efi (\<lambda>g. Inr (str_bytes g))" and ?H = "one_config_lib demo_config"
  have n: "HostConfigEFIVariableName ?E ?H = Inr (''STHostConfig'', str_bytes ''f401f2c1'')"
    by (simp add: HostConfigEFIVariableName_def map_efi_def one_config_lib_def strings_SplitN2_def)
  have u: "ConstructURL ''https://a.org/x'' ''u'' ''p'' = Inr ''https://a.org/x''" by code_simp
  have w: "writeEFI ?E b g nm s = (s(\<lparr>desc_Name = nm, GUID = g\<rparr> \<mapsto> (7, b)), None)" if "b \<noteq> []" for b g nm and s :: varmap
    using that by (simp add: writeEFI_def map_efi_def Let_def)
  have c: "checkURL demo_host () x () = ((), None)" for x by (simp add: checkURL_def demo_host_def StatusOK_def)
  have j: "json_Marshal_config ?H demo_config = Inr [123]" by (simp add: one_config_lib_def)
  have k: "network_NewClient demo_host trustPolicyRootFile () = Inr ()" by (simp add: network_NewClient_def demo_host_def)
  have d: "demo_config\<lparr>OSPkgPointer := Some ''https://a.org/x''\<rparr> = demo_config" by (simp add: demo_config_def)
  have "\<exists>s'. commitConfig ?E ?H demo_host ''mullis'' (demo_config\<lparr>OSPkgPointer := None\<rparr>) [''https://a.org/x''] ''u'' ''p'' False
      (Map.empty, ()) = ((s', ()), None)"
    by (simp add: commitConfig_def k c u n HostName_WriteEFI_def WriteHostConfigEFI_def w d j)
  then obtain s' where s': "commitConfig ?E ?H demo_host ''mullis'' (demo_config\<lparr>OSPkgPointer := None\<rparr>) [''https://a.org/x''] ''u'' ''p''
      False (Map.empty, ()) = ((s', ()), None)" ..
  have "''STHostConfig'' \<noteq> ''STHostName''" by simp
  from commitConfig_effect [OF s' map_efi_laws one_config_lib_laws n this] s' u d show ?thesis by auto
qed

end
