(* ===== verification/OptionFacts.thy ===== *)
theory OptionFacts
  imports RemoteCmd
begin

section \<open>The options of the two commands are well defined and well typed\<close>

text \<open>A variable keeps its Go type when the new value has the constructor of the old one.\<close>

fun same_type :: "optval \<Rightarrow> optval \<Rightarrow> bool" where
  "same_type (BoolV a) (BoolV b) = True"
| "same_type (IntV a) (IntV b) = True"
| "same_type (StringV a) (StringV b) = True"
| "same_type (SliceV a) (SliceV b) = True"
| "same_type v w = False"

definition typed :: "vars \<Rightarrow> vars \<Rightarrow> bool" where
  "typed z vs \<longleftrightarrow> (\<forall>x. same_type (z x) (vs x))"

lemma same_type_refl: "same_type v v" by (cases v) auto

lemma same_type_trans: "same_type u v \<Longrightarrow> same_type v w \<Longrightarrow> same_type u w"
  by (cases u; cases v; cases w) auto

lemma typed_refl: "typed z z" by (simp add: typed_def same_type_refl)

lemma typed_upd: "typed z vs \<Longrightarrow> same_type (z x) v \<Longrightarrow> typed z (vs(x := v))"
  by (simp add: typed_def)

subsection \<open>Parsing keeps the types\<close>

lemma Value_Set_type: "Value_Set s v = Inr w \<Longrightarrow> same_type v w"
  by (cases v) (auto simp: Value_Set_def split: option.splits sum.splits)

lemma set_flag_typed: "set_flag n x s fs = Seen fs' \<Longrightarrow> typed z (vars fs) \<Longrightarrow> typed z (vars fs')"
  by (auto simp: set_flag_def typed_def dest!: Value_Set_type split: sum.splits) (metis same_type_trans)

lemma parse_named_typed: "parse_named n v fs = Seen fs' \<Longrightarrow> typed z (vars fs) \<Longrightarrow> typed z (vars fs')"
  by (auto simp: parse_named_def Let_def dest: set_flag_typed split: option.splits if_splits list.splits)

lemma parseOne_typed: "parseOne fs = Seen fs' \<Longrightarrow> typed z (vars fs) \<Longrightarrow> typed z (vars fs')"
  by (auto simp: parseOne_def Let_def dest: parse_named_typed split: list.splits if_splits prod.splits)

lemma parseOne_vars: "parseOne fs = Finished fs' \<Longrightarrow> vars fs' = vars fs"
  by (auto simp: parseOne_def parse_named_def set_flag_def Let_def split: list.splits if_splits prod.splits option.splits sum.splits)

definition well_typed :: "vars \<Rightarrow> outcome \<Rightarrow> bool" where
  "well_typed z r = (case r of Parsed fs \<Rightarrow> typed z (vars fs) | Exit n t \<Rightarrow> n \<in> {0, 2} | Panic \<Rightarrow> False)"

lemma Parse_typed: "typed z (vars fs) \<Longrightarrow> well_typed z (Parse usage fs)"
proof (induction usage fs rule: Parse.induct)
  case (1 usage fs)
  show ?case
  proof (cases "parseOne fs")
    case (Seen fs')
    then show ?thesis using 1 parseOne_typed by (simp add: Parse.simps [of usage fs])
  next
    case (Finished fs')
    then show ?thesis using 1(2) parseOne_vars by (simp add: Parse.simps [of usage fs] well_typed_def)
  qed (simp_all add: Parse.simps [of usage fs] well_typed_def)
qed

subsection \<open>Registering keeps the types\<close>

text \<open>
  The contract of a step that registers options: it fails only if one of its names is taken,
  adds its names, and keeps the variables' types.
\<close>

locale registers =
  fixes step :: "flagset \<Rightarrow> flagset option" and names :: "string list" and z :: vars
  assumes step_ok: "distinct names \<Longrightarrow> set names \<inter> fst ` set (formal fs) = {} \<Longrightarrow>
      \<exists>fs'. step fs = Some fs' \<and> fst ` set (formal fs') = set names \<union> fst ` set (formal fs)
        \<and> (typed z (vars fs) \<longrightarrow> typed z (vars fs'))"
begin

lemma New_well_typed:
  assumes "distinct names"
  shows "well_typed z (New args usage step z)"
proof -
  let ?args = "if args = [] then [''''] else args"
  from step_ok [OF assms, of "\<lparr>fs_name = hd ?args, formal = [], vars = z, fs_args = []\<rparr>"]
  obtain fs' where "step \<lparr>fs_name = hd ?args, formal = [], vars = z, fs_args = []\<rparr> = Some fs'" "typed z (vars fs')"
    by (auto simp: typed_refl)
  then show ?thesis by (simp add: New_def Let_def Parse_typed)
qed

end

lemma registers_bind:
  assumes "registers f A z" "registers g B z"
  shows "registers (\<lambda>fs. Option.bind (f fs) g) (A @ B) z"
proof
  fix fs :: flagset
  assume d: "distinct (A @ B)" "set (A @ B) \<inter> fst ` set (formal fs) = {}"
  then have "distinct A" "set A \<inter> fst ` set (formal fs) = {}" by auto
  from registers.step_ok [OF assms(1) this] obtain fs1 where 1: "f fs = Some fs1"
    "fst ` set (formal fs1) = set A \<union> fst ` set (formal fs)" "typed z (vars fs) \<longrightarrow> typed z (vars fs1)" by blast
  have "distinct B" "set B \<inter> fst ` set (formal fs1) = {}" using d 1(2) by auto
  from registers.step_ok [OF assms(2) this] 1 show "\<exists>fs'. Option.bind (f fs) g = Some fs'
      \<and> fst ` set (formal fs') = set (A @ B) \<union> fst ` set (formal fs) \<and> (typed z (vars fs) \<longrightarrow> typed z (vars fs'))"
    by auto
qed

lemma registers_XVar: "same_type (z x) v \<Longrightarrow> registers (fs_XVar v x a) [a] z"
  by unfold_locales (auto simp: fs_XVar_def fs_Var_def set_var_def map_of_eq_None_iff typed_upd)

lemma registers_AddStringS:
  "same_type (z x) (SliceV i) \<Longrightarrow> registers (AddStringS x a b v) [a, b] z"
  by unfold_locales (cases "z x"; auto simp: AddStringS_def fs_Var_def set_var_def map_of_eq_None_iff Let_def intro!: typed_upd)

lemma registers_Add:
  "same_type (z x) (StringV t) \<Longrightarrow> registers (AddString x a b t) [a, b] z"
  "same_type (z x) (BoolV c) \<Longrightarrow> registers (AddBool x a b c) [a, b] z"
  "same_type (z x) (IntV i) \<Longrightarrow> registers (AddInt x a b i) [a, b] z"
  using registers_bind [OF registers_XVar registers_XVar, of z x _ x _ a b]
  by (simp_all add: AddString_def [abs_def] AddBool_def [abs_def] AddInt_def [abs_def])

lemmas registers_steps = registers_bind registers_XVar registers_AddStringS registers_Add

lemma registers_none: "registers Some [] z"
  by unfold_locales auto

interpretation local_run: registers local_run_options
    "[''p'', ''port''] @ [''i'', ''ip''] @ [''o'', ''otp''] @ [''n'', ''no-uefi-menu-reboot''] @ [''pk''] @ [''kek''] @ [''db''] @ [''dbx'']"
    local_zero
  unfolding local_run_options_def [abs_def] by (intro registers_steps) (simp_all add: local_zero_def)

interpretation common: registers common_options
    "[''d'', ''dns''] @ [''m'', ''mac''] @ [''I'', ''interface''] @ [''h'', ''host''] @ [''H'', ''full-host''] @ [''u'', ''user'']
     @ [''p'', ''pass''] @ [''r'', ''url''] @ [''w'', ''wait''] @ [''f'', ''force'']" remote_zero
  unfolding common_options_def [abs_def] by (intro registers_steps) (simp_all add: remote_zero_def)

abbreviation common_names :: "string list" where
  "common_names \<equiv> [''d'', ''dns''] @ [''m'', ''mac''] @ [''I'', ''interface''] @ [''h'', ''host''] @ [''H'', ''full-host'']
     @ [''u'', ''user''] @ [''p'', ''pass''] @ [''r'', ''url''] @ [''w'', ''wait''] @ [''f'', ''force'']"

interpretation static: registers static_options
    "common_names @ [''A'', ''autodetect''] @ [''i'', ''ip''] @ [''g'', ''gateway''] @ [''x'', ''try-last-gateway'']
     @ [''b'', ''bonding''] @ [''B'', ''bonding-auto''] @ [''M'', ''bonding-mode'']" remote_zero
  unfolding static_options_def [abs_def]
  by (rule registers_bind [OF common.registers_axioms]; (intro registers_steps)?; simp add: remote_zero_def)

interpretation remote_run: registers remote_run_options
    "[''p'', ''port''] @ [''i'', ''ip''] @ [''a'', ''allow''] @ [''o'', ''otp'']" remote_zero
  unfolding remote_run_options_def [abs_def] by (intro registers_steps) (simp_all add: remote_zero_def)

interpretation no_options: registers Some "[]" z for z
  by (rule registers_none)

text \<open>The option set of a subcommand is chosen by the first argument.\<close>

lemma New_cong:
  assumes "\<And>fs. fs_name fs = (if args = [] then [] else hd args) \<Longrightarrow> f fs = g fs"
  shows "New args usage f z = New args usage g z"
  using assms [of "\<lparr>fs_name = (if args = [] then [] else hd args), formal = [], vars = z, fs_args = []\<rparr>"]
  by (auto simp: New_def Let_def)

lemma parsed_well_typed:
  "well_typed local_zero (New args local_usage local_setOptions local_zero) \<and> well_typed remote_zero (New args remote_usage remote_setOptions remote_zero)"
proof
  let ?n = "if args = [] then [] else hd args"
  show "well_typed local_zero (New args local_usage local_setOptions local_zero)"
  proof (cases "?n = ''run''")
    case True
    then have "New args local_usage local_setOptions local_zero = New args local_usage local_run_options local_zero"
      by (intro New_cong) (simp only: local_setOptions_def simp_thms if_True)
    then show ?thesis using local_run.New_well_typed by simp
  next
    case False
    then have "New args local_usage local_setOptions local_zero = New args local_usage Some local_zero"
      by (intro New_cong) (simp only: local_setOptions_def if_False)
    then show ?thesis using no_options.New_well_typed by simp
  qed
  consider "?n = ''static''" | "?n = ''dhcp''" | "?n = ''run''" | "?n \<notin> {''static'', ''dhcp'', ''run''}" by blast
  then show "well_typed remote_zero (New args remote_usage remote_setOptions remote_zero)"
  proof cases
    case 1
    then have "New args remote_usage remote_setOptions remote_zero = New args remote_usage static_options remote_zero"
      by (intro New_cong) (simp only: remote_setOptions_def simp_thms if_True)
    then show ?thesis using static.New_well_typed by simp
  next
    case 2
    then have "New args remote_usage remote_setOptions remote_zero = New args remote_usage common_options remote_zero"
      by (intro New_cong) (simp add: remote_setOptions_def)
    then show ?thesis using common.New_well_typed by simp
  next
    case 3
    then have "New args remote_usage remote_setOptions remote_zero = New args remote_usage remote_run_options remote_zero"
      by (intro New_cong) (simp add: remote_setOptions_def)
    then show ?thesis using remote_run.New_well_typed by simp
  next
    case 4
    then have "New args remote_usage remote_setOptions remote_zero = New args remote_usage Some remote_zero"
      by (intro New_cong) (simp add: remote_setOptions_def)
    then show ?thesis using no_options.New_well_typed by simp
  qed
qed

text \<open>
  C28. Parsing the command line of either command ends: with every variable of the package
  holding a value of its declared type, or with the exit code 0 (help was asked for) or 2
  (a bad option). It never panics: no subcommand registers an option twice.
\<close>

theorem options_well_typed:
  "well_typed local_zero (New args local_usage local_setOptions local_zero) \<and> well_typed remote_zero (New args remote_usage remote_setOptions remote_zero)"
  by (rule parsed_well_typed)

end
