(* ===== verification/Stprov.thy ===== *)
theory Stprov
  imports CommitFacts OptionFacts
begin

section \<open>The program: cmd/stprov\<close>

text \<open>
  \<open>main\<close> dispatches to the two commands, and turns their error into a message on standard
  error and the exit status 1. The state is the firmware's variables, the randomness and the
  world of network and kernel. The commands' libraries are parameters.
\<close>

record ('s, 'c, 'k, 'w, 'a, 'p, 'h) machine =
  m_lib :: "('s, 'c, 'k) lib"
  m_http :: "('c, 'w) httplib"
  m_files :: "string \<Rightarrow> goerror + bytes"
  m_net :: "('w, 'a) netlink"
  m_config :: "'a hostlib"
  m_host :: "('w, 'a, 'p, 'h) hostenv"
  m_version :: string
  m_now :: int
  m_timestamp :: string
  m_stdin :: "string \<times> goerror"

text \<open>How the process ends: exit status with what it printed on standard output and, besides the
  log, on standard error, or a crash.\<close>

datatype process = Exited nat string string | Crashed

definition newline :: string where "newline = [CHR 0x0A]"

definition otp_hint :: string where
  "otp_hint = ''The one-time password may be incorrect.'' @ newline"

definition report :: "string \<Rightarrow> goerror \<Rightarrow> string" where
  "report name err =
     (if name = [] then ''stprov'' else ''stprov '') @ name @ error_text err @ newline
     @ (if name = ''local'' \<and> errors_As_UnknownAuthority err then otp_hint else [])"

definition stprov_main :: "('s, 'c, 'k, 'w, 'a, 'p, 'h) machine \<Rightarrow> string list \<Rightarrow> 's \<times> bytes \<times> 'w \<Rightarrow> process
    \<Rightarrow> 's \<times> bytes \<times> 'w \<Rightarrow> bool" where
  "stprov_main M os_Args st res st' \<longleftrightarrow>
     (case st of (s, rd, w) \<Rightarrow>
      case New (tl os_Args) stprov_usage Some (\<lambda>x. StringV []) of
        Exit n t \<Rightarrow> res = Exited n [] t \<and> st' = st
      | Panic \<Rightarrow> res = Crashed \<and> st' = st
      | Parsed opt \<Rightarrow>
          (let name = fs_name opt in
           if name = ''help'' \<or> name = [] then res = Exited 0 [] stprov_usage \<and> st' = st
           else if name = ''local'' then
             (case local_Main (m_lib M) (m_http M) (m_files M) (fs_args opt) (m_now M) rd w of
                Exits n t \<Rightarrow> res = Exited n [] t \<and> st' = st
              | Panics \<Rightarrow> res = Crashed \<and> st' = st
              | Shows t \<Rightarrow> res = Exited 0 [] t \<and> st' = st
              | Returns (Inl err, rd', w') \<Rightarrow> res = Exited 1 [] (report name err) \<and> st' = (s, rd', w')
              | Returns (Inr out, rd', w') \<Rightarrow> res = Exited 0 out [] \<and> st' = (s, rd', w'))
           else if name = ''remote'' then
             (\<exists>r. remote_Main (m_lib M) (m_net M) (m_config M) (m_host M) (m_version M) (m_timestamp M) (m_stdin M)
                    (fs_args opt) st r st'
                \<and> res = (case r of Exits n t \<Rightarrow> Exited n [] t | Panics \<Rightarrow> Crashed
                     | Shows t \<Rightarrow> Exited 0 [] t | Returns None \<Rightarrow> Exited 0 [] []
                     | Returns (Some err) \<Rightarrow> Exited 1 [] (report name err)))
           else if name = ''version'' then res = Exited 0 (m_version M @ newline) [] \<and> st' = st
           else res = Exited 1 [] (report name (Errorf ('': invalid command '' @ quote name @ '', try \"help\"'')))
                \<and> st' = st))"

subsection \<open>A wrong one-time password\<close>

lemma parse_local_run:
  "\<exists>fs. New [''run'', ''-i'', ip, ''-o'', otp] local_usage local_setOptions local_zero = Parsed fs \<and> fs_name fs = ''run'' \<and> fs_args fs = []
     \<and> vars fs ''optPort'' = IntV 2009 \<and> vars fs ''optIP'' = StringV ip \<and> vars fs ''optOTP'' = StringV otp
     \<and> vars fs ''optPKFile'' = StringV [] \<and> vars fs ''optKEKFile'' = StringV [] \<and> vars fs ''optDBFile'' = StringV []
     \<and> vars fs ''optDBXFile'' = StringV [] \<and> vars fs ''optNoUefiMenuReboot'' = BoolV False"
  by (simp add: New_def local_setOptions_def local_run_options_def AddInt_def AddString_def AddBool_def fs_XVar_def fs_Var_def
      set_var_def Let_def Parse.simps parseOne_def split_value_def bad_name_def parse_named_def set_flag_def Value_Set_def)

text \<open>
  C36. If the server's certificate is not the one derived from the operator's one-time
  password, so that the connection fails with an unknown authority, \<open>stprov local run\<close> ends
  with status 1 and the hint about the password as the last line, having sent one request.
\<close>

theorem wrong_password_hint:
  assumes ip: "ParseIP ip = Some p" "otp \<noteq> []" and files: "m_files M [] = Inl (NotExist m)"
    and cl: "NewClient (m_lib M) \<lparr>cl_Secret = otp, cl_RemoteIP = p, cl_RemotePort = 2009, cl_PK = [], cl_KEK = [], cl_DB = [],
       cl_DBX = [], cl_RebootIntoUEFIMenu = True\<rparr> = Inr c"
    and data: "32 \<le> length rd" "Marshal_AddData (lib_json (m_lib M)) \<lparr>Entropy = take 32 rd, Timestamp = m_now M\<rparr> = Inr b"
    and req: "url_Parse (m_http M) (serverURL c @ EndpointAddData) = None"
      "Do (m_http M) c \<lparr>rq_Method = ''POST'', rq_URL = serverURL c @ EndpointAddData,
         rq_BasicAuth = Some (BasicAuthUser, cl_basicAuthPassword c), rq_Body = b\<rparr> w = (Inl (Wrapf u (UnknownAuthority x)), w')"
  shows "stprov_main M [''stprov'', ''local'', ''run'', ''-i'', ip, ''-o'', otp] (s, rd, w) res st'
    \<longleftrightarrow> res = Exited 1 [] (''stprov local run: add data: post data: do request: '' @ u @ '': '' @ x @ newline @ otp_hint)
      \<and> st' = (s, drop 32 rd, w')"
proof -
  let ?L = "m_lib M" and ?H = "m_http M" and ?FS = "m_files M"
  let ?e = "Wrapf ''add data'' (Wrapf ''post data'' (Wrapf ''do request'' (Wrapf u (UnknownAuthority x))))"
  have "ip \<noteq> []" using ip(1) by (auto simp: ParseIP_def netip_ParseAddr_def)
  then have ch: "local_checks [] 2009 ip otp = Inr p" using ip by (simp add: local_checks_def)
  have ks: "read_keys ?FS [] [] [] [] = Inr \<lparr>kf_PK = None, kf_KEK = None, kf_DB = None, kf_DBX = None\<rparr>"
    by (simp add: read_keys_def readOptionalFile_def files haveSBOpts_def Let_def)
  have "AddData ?L ?H c (m_now M) rd w
      = (Inl (Wrapf ''post data'' (Wrapf ''do request'' (Wrapf u (UnknownAuthority x)))), drop 32 rd, w')"
    using data req by (simp add: AddData_def NewAddDataRequest_ok doPost_def send_def MethodPost_def)
  then have run: "local_run_Main ?L ?H ?FS [] 2009 ip otp [] [] [] [] False (m_now M) rd w = (Inl ?e, drop 32 rd, w')"
    using cl by (simp add: local_run_Main_def ch ks slice_bytes_def)
  obtain fs where "New [''run'', ''-i'', ip, ''-o'', otp] local_usage local_setOptions local_zero = Parsed fs" "fs_name fs = ''run''"
    "fs_args fs = []" "vars fs ''optPort'' = IntV 2009" "vars fs ''optIP'' = StringV ip" "vars fs ''optOTP'' = StringV otp"
    "vars fs ''optPKFile'' = StringV []" "vars fs ''optKEKFile'' = StringV []" "vars fs ''optDBFile'' = StringV []"
    "vars fs ''optDBXFile'' = StringV []" "vars fs ''optNoUefiMenuReboot'' = BoolV False"
    using parse_local_run by blast
  with run have l: "local_Main ?L ?H ?FS [''run'', ''-i'', ip, ''-o'', otp] (m_now M) rd w
      = Returns (Inl (fmtErr ?e ''run''), drop 32 rd, w')"
    by (simp add: local_Main_def Let_def int_of_def string_of_def bool_of_def)
  have "New [''local'', ''run'', ''-i'', ip, ''-o'', otp] stprov_usage Some (\<lambda>x. StringV [])
      = Parsed \<lparr>fs_name = ''local'', formal = [], vars = \<lambda>x. StringV [], fs_args = [''run'', ''-i'', ip, ''-o'', otp]\<rparr>"
    by (simp add: New_def Parse.simps parseOne_def)
  then show ?thesis by (simp add: stprov_main_def l report_def fmtErr_def)
qed

theorem wrong_password_hint_witness:
  "\<exists>M :: (varmap, bytes, bytes option \<times> bytes option, unit, string, unit, unit) machine.
     \<exists>st'. stprov_main M [''stprov'', ''local'', ''run'', ''-i'', ''10.0.2.10'', ''-o'', ''otp''] (Map.empty, replicate 32 1, ())
       (Exited 1 [] (''stprov local run: add data: post data: do request: '' @ ''Post'' @ '': '' @ ''x509'' @ newline @ otp_hint)) st'"
proof -
  let ?H = "\<lparr>url_Parse = \<lambda>u. None, Do = \<lambda>c rq w. (Inl (Wrapf ''Post'' (UnknownAuthority ''x509'')), w)\<rparr> :: (bytes, unit) httplib"
  let ?M = "\<lparr>m_lib = demo_lib, m_http = ?H, m_files = \<lambda>f. Inl (NotExist f), m_net = demo_net,
      m_config = one_config_lib demo_config, m_host = demo_host, m_version = [], m_now = 0, m_timestamp = [], m_stdin = enter\<rparr>
      :: (varmap, bytes, bytes option \<times> bytes option, unit, string, unit, unit) machine"
  obtain c where c: "NewClient (m_lib ?M) \<lparr>cl_Secret = ''otp'', cl_RemoteIP = v4InV6Prefix @ [10, 0, 2, 10], cl_RemotePort = 2009,
      cl_PK = [], cl_KEK = [], cl_DB = [], cl_DBX = [], cl_RebootIntoUEFIMenu = True\<rparr> = Inr c"
    using demo_NewClient by auto
  obtain b where b: "Marshal_AddData (lib_json (m_lib ?M)) \<lparr>Entropy = take 32 (replicate 32 1), Timestamp = m_now ?M\<rparr> = Inr b"
    by (simp add: demo_json_def)
  have p: "ParseIP ''10.0.2.10'' = Some (v4InV6Prefix @ [10, 0, 2, 10])" by code_simp
  have n: "''otp'' \<noteq> []" "m_files ?M [] = Inl (NotExist [])" "32 \<le> length (replicate 32 (1 :: byte))"
    "url_Parse (m_http ?M) (serverURL c @ EndpointAddData) = None"
    "Do (m_http ?M) c \<lparr>rq_Method = ''POST'', rq_URL = serverURL c @ EndpointAddData,
       rq_BasicAuth = Some (BasicAuthUser, cl_basicAuthPassword c), rq_Body = b\<rparr> () = (Inl (Wrapf ''Post'' (UnknownAuthority ''x509'')), ())"
    by simp_all
  note h = wrong_password_hint [OF p n(1,2) c n(3) b n(4,5)]
  show ?thesis by (rule exI [of _ ?M], rule exI [of _ "(Map.empty, drop 32 (replicate 32 1), ())"], rule iffD2 [OF h]) simp
qed

end
