(* ===== verification/Process.thy ===== *)
theory Process
  imports Stprov
begin

section \<open>How a process of stprov ends\<close>

text \<open>
  The endings of the whole program, for every command line, every answer of the libraries
  and every behaviour of the clients.
\<close>

text \<open>A machine for the examples.\<close>

definition demo_machine :: "(varmap, bytes, bytes option \<times> bytes option, unit, string, unit, unit) machine" where
  "demo_machine =
     \<lparr>m_lib = demo_lib, m_http = \<lparr>url_Parse = \<lambda>u. None, Do = \<lambda>c rq w. (Inl (External ''dial''), w)\<rparr>,
      m_files = \<lambda>f. Inl (NotExist f), m_net = demo_net,
      m_config = (one_config_lib demo_config)\<lparr>HostConfigEFIVarName := ''STHostConfig-'' @ [CHR 0x01]\<rparr>, m_host = demo_host,
      m_version = ''v1'', m_now = 0, m_timestamp = [], m_stdin = enter\<rparr>"

subsection \<open>There is an ending\<close>

lemma Run_ends: "\<exists>e wd'. Run L wd e wd'"
proof -
  have "run_step L (Serving, wd) (Closed (Some (Wrapf ''server died'' e)), close_commit wd)" for e by (rule run_step.died)
  moreover have "run_step L (Closed e, close_commit wd) (Returned e, close_commit wd)" for e by (rule run_step.return)
  ultimately show ?thesis unfolding Run_def by (meson converse_rtranclp_into_rtranclp rtranclp.rtrancl_refl)
qed

lemma listen_ends: "\<exists>res st'. listen L otp nets addr port hostname stdin st res st'"
proof (cases "NewServer L \<lparr>Secret = otp, RemoteIP = addr, RemotePort = port, LocalCIDR = nets, HostName = hostname,
    Deadline = 15000000000, Timeout = 60000000000\<rparr>")
  case (Inl e)
  then show ?thesis by (simp add: listen_def)
next
  case (Inr s)
  obtain e wd' where "Run L \<lparr>nvram = fst st, rand = snd st, srv = s\<rparr> e wd'" using Run_ends by blast
  with Inr show ?thesis unfolding listen_def by auto
qed

lemma run_Main_ends: "\<exists>out st'. run_Main L args port ip allow otp uuid key host stdin st out st'"
proof (cases "run_options args port ip allow otp")
  case (Inl e)
  then show ?thesis by (auto simp: run_Main_def)
next
  case o: (Inr x)
  obtain addr nets where x: "x = (addr, nets)" by (cases x)
  show ?thesis
  proof (cases "HostName_ReadEFI (lib_efi L) uuid host (fst st)")
    case (Inl e)
    then show ?thesis using o x by (auto simp: run_Main_def)
  next
    case (Inr hostname)
    obtain res st1 where l: "listen L otp nets addr port hostname stdin st res st1" using listen_ends by blast
    have "\<exists>out st'. case res of
        Inl e \<Rightarrow> out = Failure (Wrapf ''listen'' e) \<and> st' = st1
      | Inr None \<Rightarrow> out = NilDereference \<and> st' = st1
      | Inr (Some uds) \<Rightarrow>
          (case writeHostKey L uds uuid key (fst st1) of
             (s, Some e) \<Rightarrow> out = Failure (Wrapf ''persist host key'' e) \<and> st' = (s, snd st1)
           | (s, None) \<Rightarrow> out = Success \<and> st' = (s, snd st1))"
    proof (cases res)
      case (Inr x)
      show ?thesis
      proof (cases x)
        case (Some uds)
        obtain s e where "writeHostKey L uds uuid key (fst st1) = (s, e)" by fastforce
        then show ?thesis using Inr Some by (cases e) auto
      qed (use Inr in auto)
    qed auto
    then obtain out st' where "case res of
        Inl e \<Rightarrow> out = Failure (Wrapf ''listen'' e) \<and> st' = st1
      | Inr None \<Rightarrow> out = NilDereference \<and> st' = st1
      | Inr (Some uds) \<Rightarrow>
          (case writeHostKey L uds uuid key (fst st1) of
             (s, Some e) \<Rightarrow> out = Failure (Wrapf ''persist host key'' e) \<and> st' = (s, snd st1)
           | (s, None) \<Rightarrow> out = Success \<and> st' = (s, snd st1))" by blast
    with l have "run_Main L args port ip allow otp uuid key host stdin st out st'"
      unfolding run_Main_def o x Inr sum.case prod.case by blast
    then show ?thesis by blast
  qed
qed

subsection \<open>It is no crash\<close>

lemma listen_secret:
  assumes "listen L otp nets addr port hostname stdin (v, rd) (Inr uds) st'"
  shows "uds \<noteq> None"
proof -
  let ?cfg = "\<lparr>Secret = otp, RemoteIP = addr, RemotePort = port, LocalCIDR = nets, HostName = hostname,
                 Deadline = 15000000000, Timeout = 60000000000\<rparr>"
  from assms obtain s wd' where s: "NewServer L ?cfg = Inr s" "Run L \<lparr>nvram = v, rand = rd, srv = s\<rparr> None wd'" "uds = UDS (srv wd')"
    by (elim listen_InrE) simp
  have "run_inv ?cfg (basicAuthPassword s) (Serving, \<lparr>nvram = v, rand = rd, srv = s\<rparr>)"
    using NewServer_inv [OF s(1)] by (simp add: run_inv_def)
  with s(2) have "run_inv ?cfg (basicAuthPassword s) (Returned None, wd')" unfolding Run_def by (rule run_inv_reachable)
  with s(3) show ?thesis by (simp add: run_inv_def)
qed

lemma run_Main_no_dereference:
  assumes "run_Main L args port ip allow otp uuid key host stdin (v, rd) out (v', rd')"
  shows "out \<noteq> NilDereference"
  using assms
proof (cases rule: run_Main_cases)
  case (failed e)
  then show ?thesis by simp
next
  case (confirmed addr nets hostname uds st1)
  with listen_secret [OF confirmed(3)] show ?thesis by (auto split: option.splits)
qed

lemma New_no_panic:
  "New args local_usage local_setOptions local_zero \<noteq> Panic" "New args remote_usage remote_setOptions remote_zero \<noteq> Panic"
  "New args stprov_usage Some z \<noteq> Panic"
proof -
  have "well_typed z (New args stprov_usage Some z)" by (rule no_options.New_well_typed) simp
  then show "New args stprov_usage Some z \<noteq> Panic" by (auto simp: well_typed_def)
qed (insert parsed_well_typed [of args], auto simp: well_typed_def)

lemma remote_Main_ends: "\<exists>r st'. remote_Main L N H X version now stdin args st r st'"
proof -
  obtain s rd w where st: "st = (s, rd, w)" by (cases st)
  show ?thesis
  proof (cases "New args remote_usage remote_setOptions remote_zero")
    case (Parsed opt)
    show ?thesis
    proof (cases "prepare (lib_efi L) N H X (fs_name opt) (vars opt) w")
      case (Inl e)
      then show ?thesis using st Parsed by (simp add: remote_Main_def)
    next
      case (Inr p)
      let ?v = "vars opt"
      obtain out s' rd' where r: "run_Main L (fs_args opt) (int_of (?v ''optPort'')) (DecodeSafeCIDR (string_of (?v ''optHostIP'')))
          (map DecodeSafeCIDR (slice_values (?v ''optAllowedCIDRs''))) (string_of (?v ''optOTP'')) (pr_UUID p)
          efiKeyName efiHostName stdin (s, rd) out (s', rd')" using run_Main_ends by (metis surj_pair)
      show ?thesis
      proof -
        obtain s' w' err where "configure (lib_efi L) N H X (formatDescription version now) (fs_name opt) ?v (fs_args opt) p (s, w)
            = ((s', w'), err)" by (metis surj_pair)
        then show ?thesis using st Parsed Inr r
          by (cases "fs_name opt = ''help'' \<or> fs_name opt = []"; cases "fs_name opt = ''static'' \<or> fs_name opt = ''dhcp''";
              cases "fs_name opt = ''run''") (auto simp: remote_Main_def Let_def)
      qed
    qed
  qed (simp_all add: st remote_Main_def)
qed

lemma stprov_main_ends: "\<exists>res st'. stprov_main M os_Args st res st'"
proof -
  obtain s rd w where st: "st = (s, rd, w)" by (cases st)
  show ?thesis
  proof (cases "New (tl os_Args) stprov_usage Some (\<lambda>x. StringV [])")
    case (Parsed opt)
    obtain r st' where "remote_Main (m_lib M) (m_net M) (m_config M) (m_host M) (m_version M) (m_timestamp M) (m_stdin M)
        (fs_args opt) st r st'" using remote_Main_ends by blast
    moreover have "\<exists>res st'. case local_Main (m_lib M) (m_http M) (m_files M) (fs_args opt) (m_now M) rd w of
                Exits n t \<Rightarrow> res = Exited n [] t \<and> st' = st
              | Panics \<Rightarrow> res = Crashed \<and> st' = st
              | Shows t \<Rightarrow> res = Exited 0 [] t \<and> st' = st
              | Returns (Inl err, rd', w') \<Rightarrow> res = Exited 1 [] (report ''local'' err) \<and> st' = (s, rd', w')
              | Returns (Inr out, rd', w') \<Rightarrow> res = Exited 0 out [] \<and> st' = (s, rd', w')"
    proof (cases "local_Main (m_lib M) (m_http M) (m_files M) (fs_args opt) (m_now M) rd w")
      case (Returns x)
      obtain r rd' w' where "x = (r, rd', w')" by (cases x)
      with Returns show ?thesis by (cases r) auto
    qed auto
    ultimately show ?thesis using st Parsed
      by (cases "fs_name opt = ''help'' \<or> fs_name opt = []"; cases "fs_name opt = ''local''"; cases "fs_name opt = ''remote''";
          cases "fs_name opt = ''version''") (auto simp: stprov_main_def Let_def simp del: split_paired_Ex)
  qed (simp_all add: st stprov_main_def)
qed

subsection \<open>Status and texts\<close>

lemma Parse_exit:
  "Parse usage fs = Exit n t \<Longrightarrow> n = 0 \<and> t = usage \<or> n = 2 \<and> (\<exists>m. t = m @ newline @ usage)"
proof (induction usage fs rule: Parse.induct)
  case (1 usage fs)
  then show ?case by (cases "parseOne fs") (auto simp: Parse.simps [of usage fs] newline_def)
qed

lemma New_exit:
  "New args usage f z = Exit n t \<Longrightarrow> n = 0 \<and> t = usage \<or> n = 2 \<and> (\<exists>m. t = m @ newline @ usage)"
  by (auto simp: New_def Let_def dest: Parse_exit split: option.splits)

text \<open>An ending of a command that printed its usage, or complained about its options.\<close>

definition early_end :: "string \<Rightarrow> nat \<Rightarrow> string \<Rightarrow> bool" where
  "early_end usage n t \<longleftrightarrow> n = 0 \<and> t = usage \<or> n = 2 \<and> (\<exists>m. t = m @ newline @ usage)"

lemma local_Main_ending:
  "case local_Main L H FS args now rd w of
     Exits n t \<Rightarrow> early_end local_usage n t | Panics \<Rightarrow> False | Shows t \<Rightarrow> t = local_usage | Returns r \<Rightarrow> True"
proof (cases "New args local_usage local_setOptions local_zero")
  case (Exit n t)
  then show ?thesis using New_exit [OF Exit] by (simp add: local_Main_def early_end_def)
qed (use New_no_panic in \<open>auto simp: local_Main_def Let_def split: prod.splits sum.splits\<close>)

lemma remote_Main_ending:
  assumes "remote_Main L N H X version now stdin args st r st'"
  shows "case r of Exits n t \<Rightarrow> early_end remote_usage n t \<and> st' = st | Panics \<Rightarrow> False
    | Shows t \<Rightarrow> t = remote_usage \<and> st' = st | Returns e \<Rightarrow> True"
proof (cases "New args remote_usage remote_setOptions remote_zero")
  case (Exit n t)
  then show ?thesis using New_exit [OF Exit] assms by (auto simp: remote_Main_def early_end_def)
next
  case (Parsed opt)
  obtain s rd w where st: "st = (s, rd, w)" by (cases st)
  show ?thesis
  proof (cases "prepare (lib_efi L) N H X (fs_name opt) (vars opt) w")
    case (Inl e)
    with assms Parsed st show ?thesis by (simp add: remote_Main_def)
  next
    case (Inr p)
    obtain s' w' err where c: "configure (lib_efi L) N H X (formatDescription version now) (fs_name opt) (vars opt) (fs_args opt) p (s, w)
        = ((s', w'), err)" by (metis surj_pair)
    show ?thesis
    proof (cases "fs_name opt = ''run''")
      case True
      with assms Parsed st Inr obtain out where "out \<noteq> NilDereference"
        "r = (case out of Success \<Rightarrow> Returns None | Failure e \<Rightarrow> Returns (Some (fmtErr e ''run'')) | NilDereference \<Rightarrow> Panics)"
        by (auto simp: remote_Main_def Let_def dest: run_Main_no_dereference)
      then show ?thesis by (cases out) simp_all
    next
      case False
      with assms Parsed st Inr c show ?thesis by (auto simp: remote_Main_def Let_def split: if_splits)
    qed
  qed
qed (use New_no_panic in auto)

definition usages :: "string set" where
  "usages = {stprov_usage, local_usage, remote_usage}"

lemma stprov_local_cases:
  assumes "stprov_main M os_Args (s, rd, w) res st'" "New (tl os_Args) stprov_usage Some (\<lambda>x. StringV []) = Parsed opt"
    "fs_name opt = ''local''"
  obtains (early) n t where "early_end local_usage n t" "res = Exited n [] t" "st' = (s, rd, w)"
  | (ok) out rd' w' where "local_Main (m_lib M) (m_http M) (m_files M) (fs_args opt) (m_now M) rd w = Returns (Inr out, rd', w')"
      "res = Exited 0 out []" "st' = (s, rd', w')"
  | (error) name e where "res = Exited 1 [] (report name e)"
proof -
  note l = local_Main_ending [of "m_lib M" "m_http M" "m_files M" "fs_args opt" "m_now M" rd w]
  show thesis
  proof (cases "local_Main (m_lib M) (m_http M) (m_files M) (fs_args opt) (m_now M) rd w")
    case (Returns x)
    obtain r rd' w' where "x = (r, rd', w')" by (cases x)
    with Returns assms ok error show thesis by (cases r) (auto simp: stprov_main_def Let_def)
  next
    case (Exits n t)
    with l assms early show thesis by (auto simp: stprov_main_def Let_def)
  next
    case (Shows t)
    with l assms early show thesis by (auto simp: stprov_main_def Let_def early_end_def)
  qed (use l in simp)
qed

lemma stprov_remote_cases:
  assumes "stprov_main M os_Args st res st'" "New (tl os_Args) stprov_usage Some (\<lambda>x. StringV []) = Parsed opt"
    "fs_name opt = ''remote''"
  obtains (early) n t where "early_end remote_usage n t" "res = Exited n [] t" "st' = st"
  | (ok) "remote_Main (m_lib M) (m_net M) (m_config M) (m_host M) (m_version M) (m_timestamp M) (m_stdin M)
         (fs_args opt) st (Returns None) st'" "res = Exited 0 [] []"
  | (error) name e where "res = Exited 1 [] (report name e)"
proof -
  obtain r where r: "remote_Main (m_lib M) (m_net M) (m_config M) (m_host M) (m_version M) (m_timestamp M) (m_stdin M)
       (fs_args opt) st r st'"
    "res = (case r of Exits n t \<Rightarrow> Exited n [] t | Panics \<Rightarrow> Crashed | Shows t \<Rightarrow> Exited 0 [] t
       | Returns None \<Rightarrow> Exited 0 [] [] | Returns (Some err) \<Rightarrow> Exited 1 [] (report ''remote'' err))"
    using assms by (cases st) (auto simp: stprov_main_def Let_def)
  note e = remote_Main_ending [OF r(1)]
  show thesis
  proof (cases r)
    case (Returns x)
    with r ok error show thesis by (cases x) auto
  next
    case (Exits n t)
    with r e early show thesis by auto
  next
    case (Shows t)
    with r e early show thesis by (auto simp: early_end_def)
  qed (use e in simp)
qed

lemma stprov_main_cases:
  assumes "stprov_main M os_Args (s, rd, w) res st'"
  obtains (early) n t u where "u \<in> usages" "early_end u n t" "res = Exited n [] t" "st' = (s, rd, w)"
  | (local_ok) out rd' w' args where "local_Main (m_lib M) (m_http M) (m_files M) args (m_now M) rd w = Returns (Inr out, rd', w')"
      "res = Exited 0 out []" "st' = (s, rd', w')"
  | (remote_ok) opt where "New (tl os_Args) stprov_usage Some (\<lambda>x. StringV []) = Parsed opt" "fs_name opt = ''remote''"
      "remote_Main (m_lib M) (m_net M) (m_config M) (m_host M) (m_version M) (m_timestamp M) (m_stdin M)
         (fs_args opt) (s, rd, w) (Returns None) st'" "res = Exited 0 [] []"
  | (version) "res = Exited 0 (m_version M @ newline) []" "st' = (s, rd, w)"
  | (error) name e where "res = Exited 1 [] (report name e)"
proof (cases "New (tl os_Args) stprov_usage Some (\<lambda>x. StringV [])")
  case (Exit n t)
  with assms New_exit [OF Exit] show thesis by (intro early) (auto simp: stprov_main_def usages_def early_end_def)
next
  case (Parsed opt)
  have u: "local_usage \<in> usages" "remote_usage \<in> usages" by (simp_all add: usages_def)
  consider "fs_name opt = ''help'' \<or> fs_name opt = []" | "fs_name opt = ''local''" | "fs_name opt = ''remote''"
    | "fs_name opt = ''version''" | "fs_name opt \<notin> {''help'', [], ''local'', ''remote'', ''version''}" by blast
  then show thesis
  proof cases
    case 1
    then show thesis using assms Parsed by (intro early [of stprov_usage]) (auto simp: stprov_main_def early_end_def usages_def)
  next
    case 2
    from assms Parsed this show thesis
      by (cases rule: stprov_local_cases) (use early [OF u(1)] local_ok error in blast)+
  next
    case 3
    from assms Parsed this show thesis
      by (cases rule: stprov_remote_cases) (use early [OF u(2)] remote_ok [OF Parsed 3] error in blast)+
  next
    case 4
    then show thesis using assms Parsed by (intro version) (auto simp: stprov_main_def Let_def)
  next
    case 5
    then show thesis using assms Parsed by (intro error) (auto simp: stprov_main_def Let_def)
  qed
qed (use New_no_panic in auto)

text \<open>
  C19. Every run of the program comes to an end that is no crash: for every command line
  and whatever the libraries and the clients do, there is an ending, and each is an exit
  with status 0, 1 or 2. Status 2 means a bad option: the complaint and a usage text were
  printed and nothing changed. Status 1 comes with a message that starts with \<open>stprov\<close>. With
  status 0 nothing is on standard error except a usage text, and then nothing changed.
\<close>

theorem process_outcome:
  "(\<exists>res st'. stprov_main M os_Args st res st')
    \<and> (stprov_main M os_Args st res st' \<longrightarrow> (\<exists>n out err. res = Exited n out err \<and> n \<le> 2
        \<and> (n = 0 \<longrightarrow> err = [] \<or> err \<in> usages \<and> out = [] \<and> st' = st)
        \<and> (n = 1 \<longrightarrow> out = [] \<and> prefix ''stprov'' err)
        \<and> (n = 2 \<longrightarrow> out = [] \<and> st' = st \<and> (\<exists>m. \<exists>u \<in> usages. err = m @ newline @ u))))"
proof (intro conjI impI)
  show "\<exists>res st'. stprov_main M os_Args st res st'" by (rule stprov_main_ends)
next
  obtain s rd w where st: "st = (s, rd, w)" by (cases st)
  assume "stprov_main M os_Args st res st'"
  then have "stprov_main M os_Args (s, rd, w) res st'" by (simp only: st)
  then show "\<exists>n out err. res = Exited n out err \<and> n \<le> 2
        \<and> (n = 0 \<longrightarrow> err = [] \<or> err \<in> usages \<and> out = [] \<and> st' = st)
        \<and> (n = 1 \<longrightarrow> out = [] \<and> prefix ''stprov'' err)
        \<and> (n = 2 \<longrightarrow> out = [] \<and> st' = st \<and> (\<exists>m. \<exists>u \<in> usages. err = m @ newline @ u))"
  proof (cases rule: stprov_main_cases)
    case (early n t u)
    then show ?thesis by (auto simp: early_end_def st)
  next
    case (error name e)
    then show ?thesis by (simp add: report_def)
  qed auto
qed

theorem process_outcome_witness:
  "\<exists>n out err. stprov_main demo_machine [''stprov'', ''version''] (Map.empty, [], ()) (Exited n out err) (Map.empty, [], ())
     \<and> n \<le> 2"
proof -
  have "New [''version''] stprov_usage Some (\<lambda>x. StringV [])
      = Parsed \<lparr>fs_name = ''version'', formal = [], vars = \<lambda>x. StringV [], fs_args = []\<rparr>"
    by (simp add: New_def Parse.simps parseOne_def)
  then have v: "stprov_main demo_machine [''stprov'', ''version''] (Map.empty, [], ()) (Exited 0 (''v1'' @ newline) []) (Map.empty, [], ())"
    by (simp add: stprov_main_def demo_machine_def)
  with conjunct2 [OF process_outcome, rule_format, OF v] show ?thesis by blast
qed

subsection \<open>What status 0 of stprov remote means\<close>

lemma ConstructURL_web:
  "ConstructURL u user pw = Inr v \<Longrightarrow> prefix ''http://'' v \<or> prefix ''https://'' v"
  by (auto simp: ConstructURL_def verifyWebPrefix_def strings_HasPrefix_def split: if_splits)

lemma ConstructURLs_web:
  "map (\<lambda>u. ConstructURL u user pw) urls = map Inr us \<Longrightarrow> \<forall>v \<in> set us. prefix ''http://'' v \<or> prefix ''https://'' v"
  by (induction urls arbitrary: us) (auto dest: ConstructURL_web)

definition provisioned :: "('s, 'c, 'k) lib \<Rightarrow> 'a hostlib \<Rightarrow> bytes \<Rightarrow> string \<Rightarrow> vars \<Rightarrow> 's \<Rightarrow> bool" where
  "provisioned L H g description v s' \<longleftrightarrow>
     HostName_ReadEFI (lib_efi L) g ''STHostName'' s' = Inr (full_host_name v)
     \<and> (\<exists>cfg us. HostConfigEFI (lib_efi L) H s' = Inr cfg \<and> Description cfg = Some description
          \<and> map (\<lambda>u. ConstructURL u (string_of (v ''optUser'')) (string_of (v ''optPassword''))) (slice_values (v ''optURL'')) = map Inr us
          \<and> (\<forall>u \<in> set us. prefix ''http://'' u \<or> prefix ''https://'' u)
          \<and> OSPkgPointer cfg = Some (strings_Join us '',''))"

lemma configure_provisions:
  assumes "efi_laws (lib_efi L)" "json_laws H" "HostConfigEFIVariableName (lib_efi L) H = Inr (n, g)" "n \<noteq> ''STHostName''"
    and "configure (lib_efi L) N H X d name v args p (s, w) = ((s', w'), None)"
  shows "provisioned L H g d v s'"
proof -
  from assms(5) obtain w1 config where "commitConfig (lib_efi L) H X (full_host_name v) (config\<lparr>Description := Some d\<rparr>)
      (slice_values (v ''optURL'')) (string_of (v ''optUser'')) (string_of (v ''optPassword'')) (bool_of (v ''optForce'')) (s, w1)
      = ((s', w'), None)"
    by (auto simp: configure_def split: prod.splits sum.splits)
  from commitConfig_persists [OF this assms(1-4)] obtain us where
    "HostName_ReadEFI (lib_efi L) g ''STHostName'' s' = Inr (full_host_name v)"
    "map (\<lambda>u. ConstructURL u (string_of (v ''optUser'')) (string_of (v ''optPassword''))) (slice_values (v ''optURL'')) = map Inr us"
    "HostConfigEFI (lib_efi L) H s' = Inr (config\<lparr>Description := Some d, OSPkgPointer := Some (strings_Join us '','')\<rparr>)"
    by auto
  with ConstructURLs_web show ?thesis unfolding provisioned_def
    by (intro conjI exI [of _ "config\<lparr>Description := Some d, OSPkgPointer := Some (strings_Join us '','')\<rparr>"] exI [of _ us]) auto
qed

text \<open>What a successful \<open>run\<close> with the parsed options leaves behind.\<close>

definition keyed :: "('s, 'c, 'k) lib \<Rightarrow> bytes \<Rightarrow> string list \<Rightarrow> vars \<Rightarrow> string \<times> goerror \<Rightarrow> 's \<times> bytes \<Rightarrow> 's \<times> bytes \<Rightarrow> bool" where
  "keyed L g args v stdin st st' \<longleftrightarrow>
     persisted L args (int_of (v ''optPort'')) (DecodeSafeCIDR (string_of (v ''optHostIP'')))
       (map DecodeSafeCIDR (slice_values (v ''optAllowedCIDRs''))) (string_of (v ''optOTP'')) g ''STHostKey'' ''STHostName'' stdin st st'"

lemma remote_Main_parsed:
  assumes "remote_Main L N H X version now stdin args (s, rd, w) (Returns e) (s', rd', w')"
  obtains opt where "New args remote_usage remote_setOptions remote_zero = Parsed opt"
  using assms by (cases "New args remote_usage remote_setOptions remote_zero") (auto simp: remote_Main_def)

lemma remote_Main_success:
  assumes r: "remote_Main L N H X version now stdin args (s, rd, w) (Returns None) (s', rd', w')"
    and o: "New args remote_usage remote_setOptions remote_zero = Parsed opt"
  obtains (configured) p w1 where "fs_name opt \<in> {''static'', ''dhcp''}"
      "configure (lib_efi L) N H X (formatDescription version now) (fs_name opt) (vars opt) (fs_args opt) p (s, w) = ((s', w1), None)"
  | (ran) p where "fs_name opt = ''run''"
      "prepare (lib_efi L) N H X (fs_name opt) (vars opt) w = Inr p"
      "run_Main L (fs_args opt) (int_of (vars opt ''optPort'')) (DecodeSafeCIDR (string_of (vars opt ''optHostIP'')))
         (map DecodeSafeCIDR (slice_values (vars opt ''optAllowedCIDRs''))) (string_of (vars opt ''optOTP'')) (pr_UUID p)
         ''STHostKey'' ''STHostName'' stdin (s, rd) Success (s', rd')"
proof (cases "prepare (lib_efi L) N H X (fs_name opt) (vars opt) w")
  case (Inl e)
  with r o show thesis by (simp add: remote_Main_def)
next
  case (Inr p)
  obtain s1 w1 err where c: "configure (lib_efi L) N H X (formatDescription version now) (fs_name opt) (vars opt) (fs_args opt) p (s, w)
      = ((s1, w1), err)" by (metis surj_pair)
  consider "fs_name opt = ''static'' \<or> fs_name opt = ''dhcp''" | "fs_name opt = ''run''"
    | "fs_name opt \<notin> {''static'', ''dhcp'', ''run''}" by blast
  then show thesis
  proof cases
    case 1
    with r o Inr c have "err = None" "s1 = s'" by (auto simp: remote_Main_def Let_def)
    with 1 c configured show thesis by blast
  next
    case 2
    with r o Inr obtain out where "run_Main L (fs_args opt) (int_of (vars opt ''optPort'')) (DecodeSafeCIDR (string_of (vars opt ''optHostIP'')))
          (map DecodeSafeCIDR (slice_values (vars opt ''optAllowedCIDRs''))) (string_of (vars opt ''optOTP'')) (pr_UUID p)
          ''STHostKey'' ''STHostName'' stdin (s, rd) out (s', rd')"
      "Returns None = (case out of Success \<Rightarrow> Returns None | Failure e \<Rightarrow> Returns (Some (fmtErr e ''run'')) | NilDereference \<Rightarrow> Panics)"
      by (auto simp: remote_Main_def Let_def efiKeyName_def efiHostName_def)
    with ran [OF 2 Inr] show thesis by (cases out) auto
  next
    case 3
    with r o Inr show thesis by (auto simp: remote_Main_def Let_def split: if_splits)
  qed
qed

lemma stprov_remote:
  assumes "New (tl os_Args) stprov_usage Some (\<lambda>x. StringV []) = Parsed cmd" "fs_name cmd = ''remote''"
    and "stprov_main M os_Args (s, rd, w) (Exited 0 out err) (s', rd', w')"
  obtains (usage) "out = []" "err = remote_usage" "(s', rd', w') = (s, rd, w)"
  | (finished) "out = []" "remote_Main (m_lib M) (m_net M) (m_config M) (m_host M) (m_version M) (m_timestamp M) (m_stdin M)
       (fs_args cmd) (s, rd, w) (Returns None) (s', rd', w')"
proof -
  from assms obtain r where r: "remote_Main (m_lib M) (m_net M) (m_config M) (m_host M) (m_version M) (m_timestamp M) (m_stdin M)
       (fs_args cmd) (s, rd, w) r (s', rd', w')"
    "Exited 0 out err = (case r of Exits n t \<Rightarrow> Exited n [] t | Panics \<Rightarrow> Crashed | Shows t \<Rightarrow> Exited 0 [] t
         | Returns None \<Rightarrow> Exited 0 [] [] | Returns (Some err) \<Rightarrow> Exited 1 [] (report ''remote'' err))"
    by (auto simp: stprov_main_def Let_def)
  note e = remote_Main_ending [OF r(1)]
  show thesis
  proof (cases r)
    case (Exits k t)
    with r(2) e usage show thesis by (auto simp: early_end_def)
  next
    case (Shows t)
    with r(2) e usage show thesis by auto
  next
    case (Returns x)
    with r finished show thesis by (cases x) auto
  qed (use e in simp)
qed

text \<open>
  C3. Exit status 0 of \<open>stprov remote\<close> means what the operator expects. Either only the
  usage was asked for; or the subcommand was \<open>static\<close> or \<open>dhcp\<close>, and the host name of the
  options and a host configuration with the description and the substituted web URLs can be
  read back from EFI-NVRAM; or it was \<open>run\<close>, and then all of C1 holds for the parsed options
  (\<open>persisted\<close>): the host key's variable holds the key of a secret that the server made from the
  one-time password, the port, the address and the networks of the command line announced to a
  client with its credentials, with the host name that was stored.
\<close>

theorem remote_success:
  assumes "efi_laws (lib_efi (m_lib M))" "json_laws (m_config M)" "message_laws (lib_json (m_lib M))"
    and "HostConfigEFIVariableName (lib_efi (m_lib M)) (m_config M) = Inr (n, g)" "n \<noteq> ''STHostName''"
    and cmd: "New (tl os_Args) stprov_usage Some (\<lambda>x. StringV []) = Parsed cmd" "fs_name cmd = ''remote''"
    and run: "stprov_main M os_Args (s, rd, w) (Exited 0 out err) (s', rd', w')"
  shows "out = [] \<and> (err = remote_usage \<and> (s', rd', w') = (s, rd, w)
    \<or> (\<exists>opt. New (fs_args cmd) remote_usage remote_setOptions remote_zero = Parsed opt
         \<and> (fs_name opt \<in> {''static'', ''dhcp''}
              \<and> provisioned (m_lib M) (m_config M) g (formatDescription (m_version M) (m_timestamp M)) (vars opt) s'
            \<or> fs_name opt = ''run'' \<and> keyed (m_lib M) g (fs_args opt) (vars opt) (m_stdin M) (s, rd) (s', rd'))))"
  using cmd run
proof (cases rule: stprov_remote)
  case finished
  from finished(2) obtain opt where o: "New (fs_args cmd) remote_usage remote_setOptions remote_zero = Parsed opt"
    by (rule remote_Main_parsed)
  from finished(2) o show ?thesis
  proof (cases rule: remote_Main_success)
    case (configured p w1)
    with configure_provisions [OF assms(1,2,4,5) configured(2)] finished(1) o show ?thesis by blast
  next
    case (ran p)
    then have "pr_UUID p = g" using assms(4) by (auto simp: prepare_def split: option.splits sum.splits)
    with ran(3) run_Main_persisted [OF assms(1,3)]
    have "keyed (m_lib M) g (fs_args opt) (vars opt) (m_stdin M) (s, rd) (s', rd')" by (simp add: keyed_def)
    with ran(1) finished(1) o show ?thesis by blast
  qed
qed simp

subsection \<open>A command line that succeeds\<close>

lemma demo_parse:
  "\<exists>fs. New [''run'', ''-o'', ''otp'', ''-i'', ''10.0.2.10'', ''-a'', ''10.0.2.0/24''] remote_usage remote_setOptions remote_zero = Parsed fs
     \<and> fs_name fs = ''run'' \<and> fs_args fs = [] \<and> option_conflict (vars fs) = None
     \<and> vars fs ''optPort'' = IntV 2009 \<and> vars fs ''optHostIP'' = StringV ''10.0.2.10'' \<and> vars fs ''optOTP'' = StringV ''otp''
     \<and> vars fs ''optInterface'' = StringV [] \<and> slice_values (vars fs ''optDNS'') = []
     \<and> slice_values (vars fs ''optAllowedCIDRs'') = [''10.0.2.0/24'']"
proof -
  have "strings_Split ''10.0.2.0/24'' CHR '','' = [''10.0.2.0/24'']" by code_simp
  then show ?thesis
    by (simp add: New_def remote_setOptions_def remote_run_options_def AddInt_def AddString_def AddStringS_def AddStringS_default_def
        DefAllowedNetworks_def fs_XVar_def fs_Var_def set_var_def Let_def Parse.simps parseOne_def split_value_def bad_name_def
        parse_named_def set_flag_def Value_Set_def slice_values_def slice_of_def SliceFlag_Set_def remote_zero_def
        option_conflict_def string_of_def bool_of_def)
qed

lemma demo_top:
  "New [''remote'', ''run'', ''-o'', ''otp'', ''-i'', ''10.0.2.10'', ''-a'', ''10.0.2.0/24''] stprov_usage Some (\<lambda>x. StringV [])
      = Parsed \<lparr>fs_name = ''remote'', formal = [], vars = \<lambda>x. StringV [],
          fs_args = [''run'', ''-o'', ''otp'', ''-i'', ''10.0.2.10'', ''-a'', ''10.0.2.0/24'']\<rparr>"
  by (simp add: New_def Parse.simps parseOne_def)

lemma demo_variable: "HostConfigEFIVariableName (lib_efi demo_lib) (m_config demo_machine) = Inr (''STHostConfig'', [1])"
proof -
  have "str_bytes [CHR 0x01] = [1]" by code_simp
  then show ?thesis
    by (simp add: HostConfigEFIVariableName_def map_efi_def demo_machine_def one_config_lib_def strings_SplitN2_def del: map_map)
qed

lemma demo_remote_run:
  "\<exists>v' rd'. stprov_main demo_machine [''stprov'', ''remote'', ''run'', ''-o'', ''otp'', ''-i'', ''10.0.2.10'', ''-a'', ''10.0.2.0/24'']
     (demo_nvram, replicate 64 7, ()) (Exited 0 [] []) (v', rd', ())"
proof -
  obtain fs where fs: "New [''run'', ''-o'', ''otp'', ''-i'', ''10.0.2.10'', ''-a'', ''10.0.2.0/24''] remote_usage remote_setOptions remote_zero
      = Parsed fs" "fs_name fs = ''run''" "fs_args fs = []" "option_conflict (vars fs) = None"
    "vars fs ''optPort'' = IntV 2009" "vars fs ''optHostIP'' = StringV ''10.0.2.10''" "vars fs ''optOTP'' = StringV ''otp''"
    "vars fs ''optInterface'' = StringV []" "slice_values (vars fs ''optDNS'') = []"
    "slice_values (vars fs ''optAllowedCIDRs'') = [''10.0.2.0/24'']" using demo_parse by blast
  obtain p where p: "prepare (lib_efi demo_lib) demo_net (m_config demo_machine) demo_host ''run'' (vars fs) () = Inr p" "pr_UUID p = [1]"
    using fs demo_variable by (simp add: prepare_def string_of_def)
  have d: "DecodeSafeCIDR ''10.0.2.10'' = ''10.0.2.10''" "DecodeSafeCIDR ''10.0.2.0/24'' = ''10.0.2.0/24''" by code_simp+
  obtain v' rd' where "run_Main demo_lib [] 2009 ''10.0.2.10'' [''10.0.2.0/24''] ''otp'' [1] ''STHostKey'' ''STHostName'' enter
     (demo_nvram, replicate 64 7) Success (v', rd')" using demo_run by blast
  then have "remote_Main demo_lib demo_net (m_config demo_machine) demo_host ''v1'' [] enter
      [''run'', ''-o'', ''otp'', ''-i'', ''10.0.2.10'', ''-a'', ''10.0.2.0/24''] (demo_nvram, replicate 64 7, ()) (Returns None) (v', rd', ())"
    using fs p d by (auto simp: remote_Main_def int_of_def string_of_def efiKeyName_def efiHostName_def intro!: exI [of _ Success])
  then show ?thesis using demo_top by (auto simp: stprov_main_def demo_machine_def intro!: exI [of _ v'] exI [of _ rd'] exI [of _ "Returns None"])
qed

theorem remote_success_witness:
  "\<exists>v' rd'. stprov_main demo_machine [''stprov'', ''remote'', ''run'', ''-o'', ''otp'', ''-i'', ''10.0.2.10'', ''-a'', ''10.0.2.0/24'']
     (demo_nvram, replicate 64 7, ()) (Exited 0 [] []) (v', rd', ()) 
     \<and> (\<exists>v. string_of (v ''optOTP'') = ''otp'' \<and> keyed demo_lib [1] [] v enter (demo_nvram, replicate 64 7) (v', rd'))"
proof -
  obtain v' rd' where r: "stprov_main demo_machine [''stprov'', ''remote'', ''run'', ''-o'', ''otp'', ''-i'', ''10.0.2.10'', ''-a'', ''10.0.2.0/24'']
     (demo_nvram, replicate 64 7, ()) (Exited 0 [] []) (v', rd', ())" using demo_remote_run by blast
  have laws: "efi_laws (lib_efi (m_lib demo_machine))" "json_laws (m_config demo_machine)" "message_laws (lib_json (m_lib demo_machine))"
    "HostConfigEFIVariableName (lib_efi (m_lib demo_machine)) (m_config demo_machine) = Inr (''STHostConfig'', [1])"
    "''STHostConfig'' \<noteq> ''STHostName''"
    using demo_variable one_config_lib_laws [of demo_config]
    by (simp_all add: demo_machine_def map_efi_laws demo_json_laws json_laws_def)
  have "remote_usage \<noteq> []" using remote_usage_start by auto
  moreover obtain fs where "New [''run'', ''-o'', ''otp'', ''-i'', ''10.0.2.10'', ''-a'', ''10.0.2.0/24''] remote_usage remote_setOptions remote_zero
      = Parsed fs" "fs_name fs = ''run''" "fs_args fs = []" "vars fs ''optOTP'' = StringV ''otp''" using demo_parse by blast
  ultimately have "keyed (m_lib demo_machine) [1] [] (vars fs) (m_stdin demo_machine) (demo_nvram, replicate 64 7) (v', rd')"
    and "string_of (vars fs ''optOTP'') = ''otp''"
    using remote_success [OF laws _ _ r] demo_top by (auto simp: string_of_def)
  then have "\<exists>v. string_of (v ''optOTP'') = ''otp'' \<and> keyed demo_lib [1] [] v enter (demo_nvram, replicate 64 7) (v', rd')"
    by (intro exI [of _ "vars fs"]) (simp add: demo_machine_def)
  with r show ?thesis by blast
qed

end
