(* ===== verification/Spec2Isabelle.thy ===== *)
theory Spec2Isabelle
  imports MaxHostFacts OptionText Hexify StConfig SecureBoot Secrets ServeHttp EndToEnd LateCommit Protocol LateRequests Process
begin

text \<open>
  A model of \<open>stprov\<close>, the provisioning tool of System Transparency, with the theorems that
  make it correct. The program runs on two sides. On the platform, \<open>stprov remote static\<close> or
  \<open>dhcp\<close> sets up the network and writes a host configuration and a host name to EFI-NVRAM;
  then \<open>stprov remote run\<close> starts an HTTPS server. On the operator's side, \<open>stprov local run\<close>
  connects to it with a shared one-time password: it adds entropy, may send Secure Boot keys,
  and commits. From the entropy of both sides the platform derives a unique device secret;
  its SSH host key is written to EFI-NVRAM and its public part is what the operator is told.

  \<^bold>\<open>Theories, in the order of their imports, and the code they model\<close>

  \<^item> \<open>Prelude\<close>, \<open>GoStrings\<close>: bytes, Go errors as values (\<open>fmt.Errorf\<close>, wrapping, \<open>errors.As\<close>),
    numbers as text, \<open>strings\<close> and UTF-8.
  \<^item> \<open>GoNet\<close>, \<open>NetBits\<close>, \<open>NetText\<close>, \<open>NetText6\<close>, \<open>AddrChars\<close>, \<open>MacAddr\<close>, \<open>GoHttp\<close>: what the
    program uses of Go's \<open>net\<close>, \<open>net/netip\<close> and \<open>net/http\<close>: addresses, masks and networks, their
    texts and parsers (with the round trips and the bits of masked addresses), hardware
    addresses, host:port texts, requests, responses and status texts.
  \<^item> \<open>NetDev\<close> (\<open>internal/network/network.go\<close>, \<open>device.go\<close>): the loop over interfaces and its
    callbacks, resets, pings, speeds and the test of interfaces.
  \<^item> \<open>Options\<close>, \<open>Flags\<close> (\<open>internal/options/options.go\<close>): option values, URLs, CIDR texts, default
    interfaces, the check of host and gateway; flag sets, their registration and parsing.
    \<open>Gateway\<close>, \<open>MaxHostFacts\<close> and \<open>OptionText\<close> hold the properties.
  \<^item> \<open>Hexify\<close> (\<open>internal/hexify\<close>): the dump of bytes, against a specification by lines.
  \<^item> \<open>EfiVars\<close>, \<open>StConfig\<close> (\<open>internal/st\<close>), \<open>SecureBoot\<close> (\<open>internal/sb\<close>): EFI variables, the host
    configuration and the host name in them, Secure Boot keys, setup mode, \<open>OsIndications\<close>.
  \<^item> \<open>Pem\<close>, \<open>SSHKey\<close>, \<open>SSHWire\<close> (\<open>internal/ssh\<close>): PEM blocks, the OpenSSH private key format,
    writing and reading it, and the host key's EFI variable.
  \<^item> \<open>Secrets\<close> (\<open>internal/secrets\<close>): the secrets derived with HKDF and the certificates.
  \<^item> \<open>ApiData\<close> (\<open>internal/api/api.go\<close>), \<open>ApiServer\<close> (\<open>server.go\<close>, \<open>handler.go\<close>), \<open>ApiClient\<close>
    (\<open>client.go\<close>): messages, the server's state, guards and handlers, the client. \<open>ApiGuards\<close>,
    \<open>ApiFacts\<close>, \<open>ApiRun\<close>, \<open>ApiSession\<close> and \<open>LateCommit\<close> hold the properties; \<open>ApiRun\<close> has the
    life of a server (\<open>Server.Run\<close>) as the step relation \<open>run_step\<close>, and \<open>RunPhases\<close> the order of
    its phases, the server's own steps (\<open>quiet_step\<close>) and runs with the record of their requests
    (\<open>run_trace\<close>). \<open>ApiClient\<close> also has the network between a client and a server (\<open>connected\<close>):
    URL, listener, certificate, requests. \<open>HandlerParts\<close> takes the handlers apart at their accesses to shared state,
    \<open>Interleaving\<close> runs these parts in any order (\<open>conc_step\<close>), and \<open>Protocol\<close> is the abstract
    protocol that such runs, and those of whole requests, refine. \<open>LateRequests\<close> shows which EFI
    variables no request touches, and which \<open>remote run\<close> keeps without a confirmation.
  \<^item> \<open>RemoteRun\<close> (\<open>subcmd/remote/run\<close>), \<open>RemoteConfig\<close> (\<open>subcmd/remote/static\<close>, \<open>dhcp\<close>), \<open>RemoteCmd\<close>
    (\<open>subcmd/remote/remote.go\<close>, \<open>internal/network/client.go\<close>), \<open>LocalCmd\<close> (\<open>subcmd/local\<close>),
    \<open>Stprov\<close> (\<open>cmd/stprov\<close>), \<open>Usage\<close> (the texts of all three): the commands and the program. \<open>RemoteFacts\<close>, \<open>ConfigFacts\<close>,
    \<open>CommitFacts\<close>, \<open>OptionFacts\<close> and \<open>LocalFacts\<close> hold the properties,
    \<open>EndToEnd\<close> those of the two commands together, \<open>Process\<close> those of the process.
  \<^item> \<open>ServeHttp\<close> (\<open>integration/serve-http\<close>): which file the server of the integration tests gives.
  \<^item> \<open>DemoLib\<close>, and the definitions named \<open>demo_\<close>, are concrete libraries and machines that
    satisfy the hypotheses; the witnesses use them.
\<close>

text \<open>
  \<^bold>\<open>How state and operations correspond to the code\<close>

  Go structs are records and Go errors are values of \<open>goerror\<close>; a function that returns a value
  and an error returns \<open>goerror + 'a\<close>, one that returns only an error \<open>goerror option\<close>, and each
  early return is a branch. Go's panics are outcomes of their own (\<open>Panic\<close>, \<open>NilDereference\<close>),
  and theorems exclude them. State is passed explicitly: the firmware's variables, the
  randomness that is left, the server, and the world of kernel and network. Randomness is a
  list of bytes that reads consume. Package variables that hold options are a function from
  their names to values of the four types that are used.

  Code of other packages is a parameter, gathered in records: \<open>efi\<close> (efivarfs, uuid), \<open>sshlib\<close>
  (golang.org/x/crypto/ssh), \<open>crypto\<close> (HKDF, X.509, TLS key pairs), \<open>jsonlib\<close>, \<open>hostlib\<close> and
  \<open>hostenv\<close> (stboot, with the parsing of durations and URLs), \<open>netlink\<close> (net.Interfaces,
  netlink, ping, sysfs), \<open>httplib\<close> (the client's \<open>Do\<close>). What is relied on is named: \<open>efi_laws\<close>,
  \<open>json_laws\<close>, \<open>message_laws\<close>, \<open>hkdf_laws\<close>, \<open>tls_laws\<close> (which certificates a TLS client accepts),
  \<open>ssh_laws\<close>, \<open>vendor_local\<close> (a write keeps the variables of other GUIDs); each has a concrete model.

  \<^bold>\<open>Interfaces\<close>

  The contracts between components are locales, interpreted on the model's own functions:
  \<open>visitor\<close> and \<open>observer\<close> (a callback of \<open>ForEachInterface\<close>), \<open>persistent\<close> (a value kept in an EFI
  variable: host name and host configuration), \<open>handler_contract\<close> (an HTTP handler: what it
  keeps of the server's invariant, and that a failure has no effect on the server),
  \<open>simulation\<close> (a step relation that refines the server's protocol: runs of whole requests and
  of interleaved parts) and \<open>registers\<close> (a step that registers options).

  \<^bold>\<open>What the groups of lemmas show\<close>

  \<^item> End to end: \<open>local run\<close> and \<open>remote run\<close> end with the operator's lines describing the key in
    EFI-NVRAM; what \<open>remote run\<close> writes is the key of the secret of the server made from its
    one-time password, announced in the answer to an authenticated
    commit of that run, which is lost only when the run was ending already, and nothing of the
    program's own variables changes without a confirmation; a client and
    a server with the same password and IPv4 address connect and agree on the secret, a client
    with another password is refused by TLS or by the server and changes nothing; a
    successful \<open>local run\<close> reports the server's secret and provisioned all keys or none.
  \<^item> Process: every command line has an ending that is no crash, what the exit status says, and
    what EFI-NVRAM holds after exit status 0 of \<open>stprov remote\<close>.
  \<^item> Server: authorisation of every change, the status of every refusal, the effect of each
    handler, the invariant of a run, and that a commit lets \<open>Run\<close> return. With interleaved handlers: the same invariant, the source of every secret and of
    every EFI write, and the refinement of the protocol.
  \<^item> Secrets and keys: which inputs a secret depends on, domain separation, agreement of the
    two certificates, round trip and acceptance of the key format, padding.
  \<^item> Configuration: when gateways lie in their network, default interfaces, how interfaces are tested, what is in
    EFI-NVRAM after a commit and what must have succeeded before.
  \<^item> Options: types are kept and no command line makes the program panic; repeated options,
    the decoding of \<open>m\<close>, URL templates.
  \<^item> Integration tests: the path of a request does not lead out of the served directory.
  \<^item> Errors in the code, as theorems: a commit that is handled after \<open>Run\<close> closed its channel
    (\<open>LateCommit\<close>), a secret without the entropy on display and the keys of two messages mixed
    (\<open>Interleaving\<close>), an IPv4-mapped address as allowed host, IPv6 listen addresses, networks with a leading zero byte, gateways of host routes.
\<close>

text \<open>
  \<^bold>\<open>Bounds and termination\<close>

  No definition uses fuel. Loops are structural recursions, or \<open>function\<close>s with a measure: the
  parser of options consumes an argument per step, the decimal printer divides. Words are
  used where the width matters (bytes, mask bits, 32-bit check values, the 64-bit
  \<open>OsIndications\<close>, interface flags, speeds); lengths and ports are unbounded numbers within
  the checks the code makes.

  \<^bold>\<open>Not modelled\<close>

  \<^item> Logging and what is printed on the terminal while a command runs.
  \<^item> TLS and TCP beyond what \<open>connected\<close> has: an address that is listened on, and a certificate that
    is accepted or not (\<open>tls_Verify\<close>, a parameter). In \<open>ApiRun\<close> a request is one step; \<open>Interleaving\<close> splits it at its accesses to
    shared state, but takes the copy of 32 bytes of entropy and the change of \<open>OsIndications\<close> for
    one access each: torn reads (a data race in Go) are not modelled. A handler that panics at the channel
    is an aborted response. Contexts with deadlines are left out except as the time that
    waiting for a device has left. A request may outlive \<open>Run\<close>; in \<open>run_Main\<close> that ends when the
    secret is read, and \<open>LateRequests\<close> shows that later requests leave the host key alone.
  \<^item> \<open>time.ParseDuration\<close>, \<open>url.Parse\<close> and \<open>encoding/json\<close> are parameters.
  \<^item> \<open>internal/version\<close> (a variable set by the linker), \<open>integration/tools.go\<close> (an import) and
    \<open>http.ServeFile\<close>, which \<open>ServeHttp\<close> takes as a parameter.
\<close>

end
